(* ===== verification/Prelude.thy ===== *)
theory Prelude
  imports Complex_Main
begin

text \<open>
  Generic material shared by every component of the sports betting service:
  \<^item> the theorem collections of the development (\<open>frame\<close>: what an operation leaves
    unchanged; \<open>row_simps\<close>: lookups in updated tables);
  \<^item> the errors the services raise (\<open>api_error\<close>) and the result type of a fallible call;
  \<^item> tables: a table of the database is the list of its rows in insertion order, read with
    \<open>row_find\<close> and \<open>row_filter\<close> and written with \<open>row_update\<close>, \<open>row_insert\<close> and
    \<open>row_delete\<close>, the verbs the services use (findUnique/findFirst, findMany,
    update/updateMany, create, deleteMany);
  \<^item> the interface \<open>keyed_rows\<close> of a table with a unique key, whose lemmas every
    component uses through an interpretation on its own rows.
\<close>

named_theorems frame
named_theorems row_simps

subsection \<open>Errors and results\<close>

text \<open>
  The exceptions the services throw: the Nest HTTP exceptions, \<open>WalletReserveError\<close> of
  \<open>wallet.port.ts\<close> (message and code), and any other \<open>Error\<close>.
\<close>

datatype reserve_code = INSUFFICIENT_FUNDS | UNAVAILABLE | DUPLICATE

datatype api_error =
    BadRequest string
  | Unauthorized string
  | Forbidden string
  | NotFound string
  | Conflict string
  | ServiceUnavailable string
  | WalletReserveError string reserve_code
  | PlainError string

type_synonym 'a result = "api_error + 'a"

fun error_message :: "api_error \<Rightarrow> string" where
  "error_message (BadRequest m) = m"
| "error_message (Unauthorized m) = m"
| "error_message (Forbidden m) = m"
| "error_message (NotFound m) = m"
| "error_message (Conflict m) = m"
| "error_message (ServiceUnavailable m) = m"
| "error_message (WalletReserveError m c) = m"
| "error_message (PlainError m) = m"

fun is_reserve_error :: "api_error \<Rightarrow> bool" where
  "is_reserve_error (WalletReserveError m c) = True"
| "is_reserve_error _ = False"

fun is_not_found :: "api_error \<Rightarrow> bool" where
  "is_not_found (NotFound m) = True"
| "is_not_found _ = False"

subsection \<open>Tables as lists of rows\<close>

definition row_find :: "('r \<Rightarrow> bool) \<Rightarrow> 'r list \<Rightarrow> 'r option" where
  "row_find P rows = List.find P rows"

definition row_filter :: "('r \<Rightarrow> bool) \<Rightarrow> 'r list \<Rightarrow> 'r list" where
  "row_filter P rows = filter P rows"

definition row_update :: "('r \<Rightarrow> bool) \<Rightarrow> ('r \<Rightarrow> 'r) \<Rightarrow> 'r list \<Rightarrow> 'r list" where
  "row_update P f rows = map (\<lambda>r. if P r then f r else r) rows"

definition row_insert :: "'r \<Rightarrow> 'r list \<Rightarrow> 'r list" where
  "row_insert r rows = rows @ [r]"

definition row_delete :: "('r \<Rightarrow> bool) \<Rightarrow> 'r list \<Rightarrow> 'r list" where
  "row_delete P rows = filter (\<lambda>r. \<not> P r) rows"

text \<open>Ordered reads: ascending and descending by a timestamp, stable, then \<open>take\<close>.\<close>

definition order_asc :: "('r \<Rightarrow> int) \<Rightarrow> 'r list \<Rightarrow> 'r list" where
  "order_asc k rows = sort_key k rows"

definition order_desc :: "('r \<Rightarrow> int) \<Rightarrow> 'r list \<Rightarrow> 'r list" where
  "order_desc k rows = sort_key (\<lambda>r. - k r) rows"

lemmas row_defs = row_find_def row_filter_def row_update_def row_insert_def row_delete_def

lemma row_find_simps [simp, row_simps]:
  "row_find P [] = None"
  "row_find P (r # rs) = (if P r then Some r else row_find P rs)"
  by (simp_all add: row_find_def)

lemma row_find_append [row_simps]:
  "row_find P (xs @ ys) = (case row_find P xs of None \<Rightarrow> row_find P ys | Some r \<Rightarrow> Some r)"
  by (induction xs) auto

lemma row_find_SomeD: "row_find P rows = Some r \<Longrightarrow> r \<in> set rows \<and> P r"
  by (induction rows) (auto split: if_splits)

lemma row_find_NoneD: "row_find P rows = None \<Longrightarrow> r \<in> set rows \<Longrightarrow> \<not> P r"
  by (induction rows) (auto split: if_splits)

lemma row_find_None_iff: "row_find P rows = None \<longleftrightarrow> (\<forall>r \<in> set rows. \<not> P r)"
  by (induction rows) auto

lemma row_find_ex: "r \<in> set rows \<Longrightarrow> P r \<Longrightarrow> \<exists>r'. row_find P rows = Some r'"
  by (induction rows) auto

lemma row_find_cong:
  "(\<And>r. r \<in> set rows \<Longrightarrow> P r = Q r) \<Longrightarrow> row_find P rows = row_find Q rows"
  by (induction rows) auto

lemma row_find_update:
  assumes "\<And>r. r \<in> set rows \<Longrightarrow> Q r \<Longrightarrow> P (f r) = P r"
  shows "row_find P (row_update Q f rows) =
    map_option (\<lambda>r. if Q r then f r else r) (row_find P rows)"
  using assms by (induction rows) (auto simp: row_update_def)

lemma row_find_insert [row_simps]:
  "row_find P (row_insert r rows) =
     (case row_find P rows of None \<Rightarrow> if P r then Some r else None | Some x \<Rightarrow> Some x)"
  by (auto simp: row_insert_def row_find_append split: option.split)

lemma set_row_insert [simp, row_simps]: "set (row_insert r rows) = insert r (set rows)"
  by (auto simp: row_insert_def)

lemma set_row_update [row_simps]:
  "set (row_update P f rows) = (\<lambda>r. if P r then f r else r) ` set rows"
  by (simp add: row_update_def)

lemma set_row_filter [simp, row_simps]: "set (row_filter P rows) = {r \<in> set rows. P r}"
  by (auto simp: row_filter_def)

lemma set_row_delete [simp, row_simps]: "set (row_delete P rows) = {r \<in> set rows. \<not> P r}"
  by (auto simp: row_delete_def)

lemma set_order_asc [simp, row_simps]: "set (order_asc k rows) = set rows"
  by (simp add: order_asc_def)

lemma set_order_desc [simp, row_simps]: "set (order_desc k rows) = set rows"
  by (simp add: order_desc_def)

lemma length_order_asc [simp]: "length (order_asc k rows) = length rows"
  by (simp add: order_asc_def)

lemma row_update_id:
  "(\<And>r. r \<in> set rows \<Longrightarrow> P r \<Longrightarrow> f r = r) \<Longrightarrow> row_update P f rows = rows"
  by (induction rows) (auto simp: row_update_def)

lemma map_row_update:
  "(\<And>r. P r \<Longrightarrow> g (f r) = g r) \<Longrightarrow> map g (row_update P f rows) = map g rows"
  by (auto simp: row_update_def)

lemma row_filter_update:
  "(\<And>r. Q r \<Longrightarrow> P (f r) = P r) \<Longrightarrow>
   row_filter P (row_update Q f rows) = row_update Q f (row_filter P rows)"
  by (induction rows) (auto simp: row_filter_def row_update_def)

lemma row_filter_update_other:
  "(\<And>r. Q r \<Longrightarrow> \<not> P r) \<Longrightarrow> (\<And>r. Q r \<Longrightarrow> \<not> P (f r)) \<Longrightarrow>
   row_filter P (row_update Q f rows) = row_filter P rows"
  by (induction rows) (auto simp: row_filter_def row_update_def)

lemma length_row_update [simp]: "length (row_update P f rows) = length rows"
  by (simp add: row_update_def)

subsection \<open>A table with a unique key\<close>

text \<open>
  The contract of a table whose rows carry a unique key: reading by key after an update by
  key, after an insert, and what keeps the keys distinct. The interface is stated over the
  reads and writes; a component interprets it with the key column of its own rows.
\<close>

locale keyed_rows =
  fixes key :: "'r \<Rightarrow> 'k"
    and get :: "'k \<Rightarrow> 'r list \<Rightarrow> 'r option"
    and upd :: "'k \<Rightarrow> ('r \<Rightarrow> 'r) \<Rightarrow> 'r list \<Rightarrow> 'r list"
    and ins :: "'r \<Rightarrow> 'r list \<Rightarrow> 'r list"
  assumes get_key: "get k rows = Some r \<Longrightarrow> key r = k \<and> r \<in> set rows"
    and get_in: "r \<in> set rows \<Longrightarrow> distinct (map key rows) \<Longrightarrow> get (key r) rows = Some r"
    and get_upd_law: "(\<And>r. key (f r) = key r) \<Longrightarrow>
      get k' (upd k f rows) = map_option (\<lambda>r. if k = k' then f r else r) (get k' rows)"
    and keys_upd: "(\<And>r. key (f r) = key r) \<Longrightarrow> map key (upd k f rows) = map key rows"
    and keys_ins: "map key (ins r rows) = map key rows @ [key r]"
    and get_ins_law: "get k (ins r rows) =
      (case get k rows of None \<Rightarrow> if key r = k then Some r else None | Some x \<Rightarrow> Some x)"
begin

lemma get_upd_same:
  "(\<And>r. key (f r) = key r) \<Longrightarrow> get k (upd k f rows) = map_option f (get k rows)"
  by (simp add: get_upd_law)

lemma get_upd_other:
  "(\<And>r. key (f r) = key r) \<Longrightarrow> k \<noteq> k' \<Longrightarrow> get k' (upd k f rows) = get k' rows"
  by (simp add: get_upd_law option.map_ident)

lemma distinct_upd:
  "(\<And>r. key (f r) = key r) \<Longrightarrow> distinct (map key (upd k f rows)) = distinct (map key rows)"
  by (simp add: keys_upd)

lemma distinct_ins:
  "distinct (map key (ins r rows)) \<longleftrightarrow> distinct (map key rows) \<and> key r \<notin> key ` set rows"
  by (auto simp: keys_ins)

lemma get_unique:
  "get k rows = Some r \<Longrightarrow> r' \<in> set rows \<Longrightarrow> key r' = k \<Longrightarrow>
   distinct (map key rows) \<Longrightarrow> r' = r"
  using get_in by fastforce

lemma get_None_iff: "distinct (map key rows) \<Longrightarrow> get k rows = None \<longleftrightarrow> k \<notin> key ` set rows"
  by (cases "get k rows") (auto dest: get_key get_in)

lemma get_ins_fresh: "key r \<notin> key ` set rows \<Longrightarrow> get (key r) (ins r rows) = Some r"
  by (simp add: get_ins_law split: option.split) (metis get_key imageI)

lemma get_ins_other: "key r \<noteq> k \<Longrightarrow> get k (ins r rows) = get k rows"
  by (simp add: get_ins_law split: option.split)

end

text \<open>The reads and writes by key that every component uses.\<close>

definition get_by :: "('r \<Rightarrow> 'k) \<Rightarrow> 'k \<Rightarrow> 'r list \<Rightarrow> 'r option" where
  "get_by key k rows = row_find (\<lambda>r. key r = k) rows"

definition upd_by :: "('r \<Rightarrow> 'k) \<Rightarrow> 'k \<Rightarrow> ('r \<Rightarrow> 'r) \<Rightarrow> 'r list \<Rightarrow> 'r list" where
  "upd_by key k f rows = row_update (\<lambda>r. key r = k) f rows"

lemma keyed_rows_by: "keyed_rows key (get_by key) (upd_by key) row_insert"
proof (unfold_locales, goal_cases)
  case (1 k rows r)
  then show ?case by (auto simp: get_by_def dest: row_find_SomeD)
next
  case (2 r rows)
  then show ?case by (induction rows) (auto simp: get_by_def)
next
  case (3 f k' k rows)
  then have "get_by key k' (upd_by key k f rows) =
      map_option (\<lambda>r. if key r = k then f r else r) (get_by key k' rows)"
    unfolding get_by_def upd_by_def by (intro row_find_update) auto
  also have "\<dots> = map_option (\<lambda>r. if k = k' then f r else r) (get_by key k' rows)"
    by (cases "get_by key k' rows") (auto simp: get_by_def dest: row_find_SomeD)
  finally show ?case .
next
  case (4 f k rows)
  then show ?case by (simp add: upd_by_def map_row_update)
next
  case (5 r rows)
  then show ?case by (simp add: row_insert_def)
next
  case (6 k r rows)
  then show ?case by (simp add: get_by_def row_find_insert)
qed

subsection \<open>Sequencing\<close>

text \<open>
  \<open>await\<close> of a call that may throw, followed by the rest of the handler; and a loop that
  calls a handler for every element, stopping at the first exception. What was written before
  the exception stays written.
\<close>

definition and_then ::
  "'a result \<times> 's \<Rightarrow> ('a \<Rightarrow> 's \<Rightarrow> 'b result \<times> 's) \<Rightarrow> 'b result \<times> 's" where
  "and_then p k = (case p of (Inl e, s) \<Rightarrow> (Inl e, s) | (Inr a, s) \<Rightarrow> k a s)"

fun each :: "('x \<Rightarrow> 's \<Rightarrow> 'a result \<times> 's) \<Rightarrow> 'x list \<Rightarrow> 's \<Rightarrow> 'a list result \<times> 's" where
  "each f [] s = (Inr [], s)"
| "each f (x # xs) s =
     and_then (f x s) (\<lambda>a s1. and_then (each f xs s1) (\<lambda>as s2. (Inr (a # as), s2)))"

lemma and_then_simps [simp]:
  "and_then (Inl e, s) k = (Inl e, s)" "and_then (Inr a, s) k = k a s"
  by (simp_all add: and_then_def)

lemma and_then_keeps:
  "Q (snd p) \<Longrightarrow> (\<And>a s. p = (Inr a, s) \<Longrightarrow> Q s \<Longrightarrow> Q (snd (k a s))) \<Longrightarrow> Q (snd (and_then p k))"
proof (cases p)
  case (Pair r s)
  assume q: "Q (snd p)" and k: "\<And>a s. p = (Inr a, s) \<Longrightarrow> Q s \<Longrightarrow> Q (snd (k a s))"
  show ?thesis
  proof (cases r)
    case (Inl e)
    with q Pair show ?thesis by simp
  next
    case (Inr a)
    with q k [of a s] Pair show ?thesis by simp
  qed
qed

lemma each_keeps:
  "(\<And>x s. x \<in> set xs \<Longrightarrow> Q s \<Longrightarrow> Q (snd (f x s))) \<Longrightarrow> Q s \<Longrightarrow> Q (snd (each f xs s))"
proof (induction xs arbitrary: s)
  case (Cons x xs)
  have "Q (snd (f x s))" using Cons.prems by simp
  then show ?case
    unfolding each.simps
  proof (rule and_then_keeps)
    fix a s1 assume "Q s1"
    with Cons have "Q (snd (each f xs s1))" by simp
    then show "Q (snd (and_then (each f xs s1) (\<lambda>as s2. (Inr (a # as), s2))))"
      by (rule and_then_keeps) simp
  qed
qed simp

text \<open>\<open>upsert\<close> by a unique key: an update of the row with the key, or a new row with a fresh id.\<close>

definition upsert ::
  "('r \<Rightarrow> 'k) \<Rightarrow> 'k \<Rightarrow> (string \<Rightarrow> 'r) \<Rightarrow> ('r \<Rightarrow> 'r) \<Rightarrow> (nat \<Rightarrow> string) \<Rightarrow> nat \<Rightarrow> 'r list \<Rightarrow> 'r list \<times> nat"
  where
  "upsert key k create update gen n rows =
     (case get_by key k rows of
        Some r \<Rightarrow> (upd_by key k update rows, n)
      | None \<Rightarrow> (row_insert (create (gen n)) rows, n + 1))"

text \<open>The id a key maps to, in a table read into a \<open>Map\<close>: a later row overwrites an earlier one.\<close>

definition keyToId :: "(string \<times> string) list \<Rightarrow> string \<Rightarrow> string option" where
  "keyToId rows k = map_of (rev rows) k"

text \<open>After an upsert the key is found; every other key reads as before.\<close>

lemma upsert_get:
  assumes "\<And>i. key (create i) = k" and "\<And>r. key (update r) = key r"
    and "upsert key k create update gen n rows = (rows', n')"
  shows "get_by key k rows' =
      (case get_by key k rows of None \<Rightarrow> Some (create (gen n)) | Some r \<Rightarrow> Some (update r))"
    and "k' \<noteq> k \<Longrightarrow> get_by key k' rows' = get_by key k' rows"
proof -
  note up = keyed_rows.get_upd_law [OF keyed_rows_by, where key = key and f = update, OF assms(2)]
  note ins = keyed_rows.get_ins_law [OF keyed_rows_by, where key = key]
  show "get_by key k rows' =
      (case get_by key k rows of None \<Rightarrow> Some (create (gen n)) | Some r \<Rightarrow> Some (update r))"
    using assms(1,3) by (auto simp: upsert_def up ins split: option.splits)
  show "get_by key k' rows' = get_by key k' rows" if "k' \<noteq> k"
    using assms(1,3) that
    by (auto simp: upsert_def up ins option.map_ident split: option.splits)
qed

end
