(* ===== verification/Text.thy ===== *)
theory Text
  imports Prelude
begin

text \<open>
  The JavaScript string and number functions the services use, on byte strings:
  \<open>toLowerCase\<close>, \<open>toUpperCase\<close>, \<open>trim\<close>, \<open>includes\<close>, \<open>startsWith\<close>, \<open>replaceAll\<close> of one
  character, \<open>join\<close>, the decimal text of a number and \<open>Number(text)\<close>. Case mapping and
  white space are those of the ASCII range; a byte outside it is left as it is.
\<close>

subsection \<open>Characters\<close>

definition char_code :: "char \<Rightarrow> nat" where
  "char_code c = of_char c"

definition is_digit :: "char \<Rightarrow> bool" where
  "is_digit c \<longleftrightarrow> 48 \<le> char_code c \<and> char_code c \<le> 57"

definition is_space :: "char \<Rightarrow> bool" where
  "is_space c \<longleftrightarrow> c = CHR 0x20 \<or> 9 \<le> char_code c \<and> char_code c \<le> 13"

definition lower_char :: "char \<Rightarrow> char" where
  "lower_char c = (if 65 \<le> char_code c \<and> char_code c \<le> 90 then char_of (char_code c + 32) else c)"

definition upper_char :: "char \<Rightarrow> char" where
  "upper_char c = (if 97 \<le> char_code c \<and> char_code c \<le> 122 then char_of (char_code c - 32) else c)"

subsection \<open>Strings\<close>

definition to_lower :: "string \<Rightarrow> string" where
  "to_lower s = map lower_char s"

definition to_upper :: "string \<Rightarrow> string" where
  "to_upper s = map upper_char s"

definition trim :: "string \<Rightarrow> string" where
  "trim s = rev (dropWhile is_space (rev (dropWhile is_space s)))"

fun starts_with :: "string \<Rightarrow> string \<Rightarrow> bool" where
  "starts_with s [] = True"
| "starts_with [] (p # ps) = False"
| "starts_with (c # s) (p # ps) = (c = p \<and> starts_with s ps)"

fun str_includes :: "string \<Rightarrow> string \<Rightarrow> bool" where
  "str_includes [] p = (p = [])"
| "str_includes (c # s) p = (starts_with (c # s) p \<or> str_includes s p)"

definition replace_char :: "char \<Rightarrow> string \<Rightarrow> string \<Rightarrow> string" where
  "replace_char c r s = concat (map (\<lambda>x. if x = c then r else [x]) s)"

fun join_with :: "string \<Rightarrow> string list \<Rightarrow> string" where
  "join_with sep [] = []"
| "join_with sep [x] = x"
| "join_with sep (x # y # xs) = x @ sep @ join_with sep (y # xs)"

text \<open>Truthiness of an optional string: \<open>null\<close> and the empty string are falsy.\<close>

definition truthy :: "string option \<Rightarrow> bool" where
  "truthy s = (case s of None \<Rightarrow> False | Some x \<Rightarrow> x \<noteq> [])"

lemma truthy_simps [simp]:
  "truthy None = False" "truthy (Some x) = (x \<noteq> [])"
  by (simp_all add: truthy_def)

lemma starts_with_iff: "starts_with s p \<longleftrightarrow> (\<exists>t. s = p @ t)"
  by (induction s p rule: starts_with.induct) auto

lemma str_includes_iff: "str_includes s p \<longleftrightarrow> (\<exists>u v. s = u @ p @ v)"
proof (induction s)
  case Nil
  then show ?case by auto
next
  case (Cons c s)
  show ?case
  proof
    assume "str_includes (c # s) p"
    then consider "starts_with (c # s) p" | "str_includes s p" by auto
    then show "\<exists>u v. c # s = u @ p @ v"
    proof cases
      case 1
      then show ?thesis by (metis append_Nil starts_with_iff)
    next
      case 2
      with Cons.IH obtain u v where "s = u @ p @ v" by blast
      then have "c # s = (c # u) @ p @ v" by simp
      then show ?thesis by blast
    qed
  next
    assume "\<exists>u v. c # s = u @ p @ v"
    then obtain u v where e: "c # s = u @ p @ v" by blast
    show "str_includes (c # s) p"
    proof (cases u)
      case Nil
      with e have "starts_with (c # s) p" by (auto simp: starts_with_iff)
      then show ?thesis by simp
    next
      case (Cons a w)
      with e have "s = w @ p @ v" by simp
      with Cons.IH have "str_includes s p" by blast
      then show ?thesis by simp
    qed
  qed
qed

lemma str_includes_self [simp]: "str_includes s s"
  unfolding str_includes_iff by (intro exI [of _ "[]"]) simp

lemma lower_char_idem [simp]: "lower_char (lower_char c) = lower_char c"
  by (auto simp: lower_char_def char_code_def)

lemma to_lower_idem [simp]: "to_lower (to_lower s) = to_lower s"
  by (simp add: to_lower_def)

lemma to_lower_append [simp]: "to_lower (s @ t) = to_lower s @ to_lower t"
  by (simp add: to_lower_def)

subsection \<open>Decimal digits\<close>

definition digit_char :: "nat \<Rightarrow> char" where
  "digit_char d = char_of (48 + d)"

definition digit_value :: "char \<Rightarrow> nat" where
  "digit_value c = char_code c - 48"

fun show_nat :: "nat \<Rightarrow> string" where
  "show_nat n = (if n < 10 then [digit_char n] else show_nat (n div 10) @ [digit_char (n mod 10)])"

declare show_nat.simps [simp del]

definition nat_of_digits :: "string \<Rightarrow> nat" where
  "nat_of_digits s = foldl (\<lambda>n c. 10 * n + digit_value c) 0 s"

lemma digit_char_props:
  assumes "d < 10"
  shows "digit_value (digit_char d) = d" "is_digit (digit_char d)"
proof -
  have "char_code (digit_char d) = 48 + d"
    using assms by (simp add: char_code_def digit_char_def)
  then show "digit_value (digit_char d) = d" "is_digit (digit_char d)"
    using assms by (simp_all add: digit_value_def is_digit_def)
qed

lemma foldl_digits:
  "foldl (\<lambda>n c. 10 * n + digit_value c) a s = a * 10 ^ length s + nat_of_digits s"
proof (induction s arbitrary: a)
  case Nil
  then show ?case by (simp add: nat_of_digits_def)
next
  case (Cons c s)
  have "foldl (\<lambda>n c. 10 * n + digit_value c) a (c # s) =
      (10 * a + digit_value c) * 10 ^ length s + nat_of_digits s"
    using Cons.IH by simp
  moreover have "nat_of_digits (c # s) = digit_value c * 10 ^ length s + nat_of_digits s"
    using Cons.IH [of "digit_value c"] by (simp add: nat_of_digits_def)
  ultimately show ?case by (simp add: algebra_simps)
qed

lemma nat_of_digits_append:
  "nat_of_digits (s @ t) = nat_of_digits s * 10 ^ length t + nat_of_digits t"
  using foldl_digits [of "nat_of_digits s" t] by (simp add: nat_of_digits_def)

lemma nat_of_digits_Nil [simp]: "nat_of_digits [] = 0"
  by (simp add: nat_of_digits_def)

lemma nat_of_digits_single: "nat_of_digits [c] = digit_value c"
  by (simp add: nat_of_digits_def)

lemma nat_of_digits_show [simp]: "nat_of_digits (show_nat n) = n"
proof (induction n rule: show_nat.induct)
  case (1 n)
  show ?case
  proof (cases "n < 10")
    case True
    then show ?thesis
      by (simp add: show_nat.simps [of n] nat_of_digits_single digit_char_props)
  next
    case False
    with "1.IH" show ?thesis
      by (simp add: show_nat.simps [of n] nat_of_digits_append nat_of_digits_single digit_char_props)
  qed
qed

lemma show_nat_digits: "\<forall>c \<in> set (show_nat n). is_digit c"
proof (induction n rule: show_nat.induct)
  case (1 n)
  then show ?case
    by (subst show_nat.simps) (auto simp: digit_char_props)
qed

lemma show_nat_nonempty [simp]: "show_nat n \<noteq> []"
  by (subst show_nat.simps) simp

lemma show_nat_length: "n < 10 ^ k \<Longrightarrow> 0 < k \<Longrightarrow> length (show_nat n) \<le> k"
proof (induction n arbitrary: k rule: show_nat.induct)
  case (1 n)
  show ?case
  proof (cases "n < 10")
    case True
    with "1.prems" show ?thesis by (simp add: show_nat.simps [of n])
  next
    case False
    then obtain j where k: "k = Suc j"
      using "1.prems" by (cases k) auto
    with False "1.prems" have j: "0 < j" by (cases j) auto
    from "1.prems" k have "n div 10 < 10 ^ j" by auto
    with False j "1.IH" [of j] have "length (show_nat (n div 10)) \<le> j" by simp
    with False k show ?thesis by (simp add: show_nat.simps [of n])
  qed
qed

subsection \<open>Number(text)\<close>

text \<open>
  \<open>Number(text)\<close> of a decimal literal: white space is trimmed, the empty text is 0, a sign
  is optional, and anything that is not a decimal literal gives \<open>None\<close> (NaN). Literals with
  an exponent or a radix prefix and \<open>Infinity\<close> are not read: the service passes the output
  of \<open>toFixed\<close>, which has none of them for the magnitudes of the schema.
\<close>

definition parse_unsigned :: "string \<Rightarrow> rat option" where
  "parse_unsigned s =
     (let ip = takeWhile is_digit s; rest = dropWhile is_digit s in
      case rest of
        [] \<Rightarrow> if ip = [] then None else Some (of_nat (nat_of_digits ip))
      | c # fs \<Rightarrow>
          if c = CHR ''.'' \<and> (\<forall>d \<in> set fs. is_digit d) \<and> (ip \<noteq> [] \<or> fs \<noteq> [])
          then Some (of_nat (nat_of_digits (ip @ fs)) / 10 ^ length fs)
          else None)"

definition parse_signed :: "string \<Rightarrow> rat option" where
  "parse_signed s =
     (case s of
        [] \<Rightarrow> None
      | c # t \<Rightarrow>
          if c = CHR ''-'' then map_option uminus (parse_unsigned t)
          else if c = CHR ''+'' then parse_unsigned t
          else parse_unsigned s)"

definition js_number :: "string \<Rightarrow> rat option" where
  "js_number s = (let t = trim s in if t = [] then Some 0 else parse_signed t)"

text \<open>\<open>Number(x)\<close> of a nullable text: \<open>Number(null)\<close> is 0.\<close>

definition js_number_nullable :: "string option \<Rightarrow> rat option" where
  "js_number_nullable x = (case x of None \<Rightarrow> Some 0 | Some s \<Rightarrow> js_number s)"

lemma not_digit_dot [simp]: "\<not> is_digit (CHR ''.'')"
  by (simp add: is_digit_def char_code_def)

lemma takeWhile_all_digits:
  "\<forall>c \<in> set s. is_digit c \<Longrightarrow> takeWhile is_digit s = s \<and> dropWhile is_digit s = []"
  by (auto simp: takeWhile_eq_all_conv dropWhile_eq_Nil_conv)

lemma takeWhile_digits_dot:
  assumes "\<forall>c \<in> set s. is_digit c"
  shows "takeWhile is_digit (s @ CHR ''.'' # t) = s"
    and "dropWhile is_digit (s @ CHR ''.'' # t) = CHR ''.'' # t"
  using assms not_digit_dot by (induction s) auto

lemma parse_unsigned_int:
  "\<forall>c \<in> set s. is_digit c \<Longrightarrow> s \<noteq> [] \<Longrightarrow> parse_unsigned s = Some (of_nat (nat_of_digits s))"
  by (simp add: parse_unsigned_def takeWhile_all_digits)

lemma parse_unsigned_dot:
  assumes "\<forall>c \<in> set s. is_digit c" and "s \<noteq> []" and "\<forall>c \<in> set t. is_digit c"
  shows "parse_unsigned (s @ CHR ''.'' # t) =
     Some (of_nat (nat_of_digits (s @ t)) / 10 ^ length t)"
  using assms by (simp add: parse_unsigned_def takeWhile_digits_dot)

end
