(* ===== verification/Decimals.thy ===== *)
theory Decimals
  imports Text
begin

text \<open>
  Money and odds. \<open>Prisma.Decimal\<close> is the third-party class decimal.js, so its arithmetic
  is a parameter of the model: a record \<open>dec_lib\<close> of the operations the service calls, over
  exact rationals, and \<open>dec_lib_ok\<close>, the documented behaviour the properties rely on. The
  class compares values exactly, which is the order of the rationals here. \<open>exact_lib\<close> is
  a concrete library that satisfies the contract; the witnesses compute with it.

  The definitions below the library are \<open>shared/decimal/bet-math.ts\<close> and
  \<open>shared/decimal/decimal.util.ts\<close>.
\<close>

subsection \<open>The decimal library\<close>

datatype rounding = ROUND_HALF_UP | ROUND_DOWN

record dec_lib =
  dl_parse :: "string \<Rightarrow> rat option"       \<comment> \<open>\<open>new Decimal(text)\<close>; \<open>None\<close>: it throws\<close>
  dl_show :: "rat \<Rightarrow> string"               \<comment> \<open>\<open>toString()\<close>\<close>
  dl_fixed :: "nat \<Rightarrow> rat \<Rightarrow> string"       \<comment> \<open>\<open>toFixed(dp)\<close>\<close>
  dl_round :: "nat \<Rightarrow> rounding \<Rightarrow> rat \<Rightarrow> rat" \<comment> \<open>\<open>new Decimal(x.toFixed(dp, rounding))\<close>\<close>
  dl_mul :: "rat \<Rightarrow> rat \<Rightarrow> rat"
  dl_plus :: "rat \<Rightarrow> rat \<Rightarrow> rat"
  dl_minus :: "rat \<Rightarrow> rat \<Rightarrow> rat"

text \<open>A number with at most \<open>n\<close> fractional decimal digits.\<close>

definition places :: "nat \<Rightarrow> rat \<Rightarrow> bool" where
  "places n x \<longleftrightarrow> x * 10 ^ n = of_int \<lfloor>x * 10 ^ n\<rfloor>"

text \<open>
  A number that 20 significant digits (the library's default precision) hold exactly:
  at most six fractional digits and magnitude below \<open>10 ^ 14\<close>. Every stake, price, line and
  balance of the schema is one.
\<close>

definition exact20 :: "rat \<Rightarrow> bool" where
  "exact20 x \<longleftrightarrow> places 6 x \<and> \<bar>x\<bar> < 10 ^ 14"

definition floor_dp :: "nat \<Rightarrow> rat \<Rightarrow> rat" where
  "floor_dp n x = of_int \<lfloor>x * 10 ^ n\<rfloor> / 10 ^ n"

definition half_up_dp :: "nat \<Rightarrow> rat \<Rightarrow> rat" where
  "half_up_dp n x = of_int \<lfloor>x * 10 ^ n + 1 / 2\<rfloor> / 10 ^ n"

text \<open>
  The documented behaviour: text of a value parses back to the value and is never empty, \<open>0\<close> is zero; \<open>toFixed\<close> rounds as
  asked; a product, sum or difference is the exact one rounded to 20 significant digits, so it
  never crosses a value those digits hold.
\<close>

definition rounds_exactly :: "(rat \<Rightarrow> rat \<Rightarrow> rat) \<Rightarrow> (rat \<Rightarrow> rat \<Rightarrow> rat) \<Rightarrow> bool" where
  "rounds_exactly f g \<longleftrightarrow>
     (\<forall>x y z. exact20 z \<longrightarrow> (z \<le> g x y \<longrightarrow> z \<le> f x y) \<and> (g x y \<le> z \<longrightarrow> f x y \<le> z))"

definition dec_lib_ok :: "dec_lib \<Rightarrow> bool" where
  "dec_lib_ok L \<longleftrightarrow>
     (\<forall>x. exact20 x \<longrightarrow> dl_parse L (dl_show L x) = Some x) \<and>
     (\<forall>x. exact20 x \<longrightarrow> 0 \<le> x \<longrightarrow> dl_parse L (CHR ''-'' # dl_show L x) = Some (- x)) \<and>
     (\<forall>n x. exact20 x \<longrightarrow> places n x \<longrightarrow> 0 < n \<longrightarrow> js_number (dl_fixed L n x) = Some x) \<and>
     (\<forall>n x. exact20 x \<longrightarrow> places n x \<longrightarrow> 0 < n \<longrightarrow> dl_parse L (dl_fixed L n x) = Some x) \<and>
     (\<forall>n x. 0 \<le> x \<longrightarrow> dl_round L n ROUND_DOWN x = floor_dp n x) \<and>
     (\<forall>n x. 0 \<le> x \<longrightarrow> dl_round L n ROUND_HALF_UP x = half_up_dp n x) \<and>
     rounds_exactly (dl_mul L) (*) \<and>
     rounds_exactly (dl_plus L) (+) \<and>
     rounds_exactly (dl_minus L) (-) \<and>
     (\<forall>n x. dl_fixed L n x \<noteq> []) \<and>
     dl_parse L ''0'' = Some 0"

lemma dec_lib_okD:
  assumes "dec_lib_ok L"
  shows "exact20 x \<Longrightarrow> dl_parse L (dl_show L x) = Some x"
    and "exact20 x \<Longrightarrow> 0 \<le> x \<Longrightarrow> dl_parse L (CHR ''-'' # dl_show L x) = Some (- x)"
    and "exact20 x \<Longrightarrow> places n x \<Longrightarrow> 0 < n \<Longrightarrow> js_number (dl_fixed L n x) = Some x"
    and "exact20 x \<Longrightarrow> places n x \<Longrightarrow> 0 < n \<Longrightarrow> dl_parse L (dl_fixed L n x) = Some x"
    and "0 \<le> x \<Longrightarrow> dl_round L n ROUND_DOWN x = floor_dp n x"
    and "0 \<le> x \<Longrightarrow> dl_round L n ROUND_HALF_UP x = half_up_dp n x"
    and "rounds_exactly (dl_mul L) (*)"
    and "rounds_exactly (dl_plus L) (+)"
    and "rounds_exactly (dl_minus L) (-)"
    and "dl_fixed L n x \<noteq> []"
    and "dl_parse L ''0'' = Some 0"
  using assms by (auto simp: dec_lib_ok_def)

lemma rounds_exactly_eq: "rounds_exactly f g \<Longrightarrow> exact20 (g x y) \<Longrightarrow> f x y = g x y"
  unfolding rounds_exactly_def by (meson order.antisym order.refl)

lemma rounds_exactly_ge: "rounds_exactly f g \<Longrightarrow> exact20 z \<Longrightarrow> z \<le> g x y \<Longrightarrow> z \<le> f x y"
  unfolding rounds_exactly_def by blast

lemma rounds_exactly_le: "rounds_exactly f g \<Longrightarrow> exact20 z \<Longrightarrow> g x y \<le> z \<Longrightarrow> f x y \<le> z"
  unfolding rounds_exactly_def by blast

lemma exact20_simps [simp]: "exact20 0" "exact20 1"
  by (simp_all add: exact20_def places_def)

lemma exact20_uminus [simp]: "exact20 (- x) = exact20 x"
proof -
  have "places 6 (- y)" if "places 6 y" for y
    using that unfolding places_def
    by (metis floor_of_int minus_mult_minus minus_minus mult_minus_left of_int_minus)
  from this [of x] this [of "- x"] show ?thesis by (auto simp: exact20_def)
qed

lemma places_iff: "places n x \<longleftrightarrow> (\<exists>m. x * 10 ^ n = of_int m)"
  unfolding places_def by (metis floor_of_int)

lemma places_floor_dp [simp]: "places n (floor_dp n x)"
  by (simp add: places_iff floor_dp_def)

lemma places_half_up_dp [simp]: "places n (half_up_dp n x)"
  by (simp add: places_iff half_up_dp_def)

lemma floor_dp_bounds: "floor_dp n x \<le> x" "x < floor_dp n x + 1 / 10 ^ n"
proof -
  have p: "(0::rat) < 10 ^ n" by simp
  have "of_int \<lfloor>x * 10 ^ n\<rfloor> \<le> x * 10 ^ n" by simp
  then show "floor_dp n x \<le> x"
    using p by (simp add: floor_dp_def divide_le_eq)
  have "x * 10 ^ n < of_int \<lfloor>x * 10 ^ n\<rfloor> + 1" by linarith
  then have "x < (of_int \<lfloor>x * 10 ^ n\<rfloor> + 1) / 10 ^ n"
    using p by (simp add: less_divide_eq)
  then show "x < floor_dp n x + 1 / 10 ^ n"
    by (simp add: floor_dp_def add_divide_distrib)
qed

lemma floor_dp_ge: "places n y \<Longrightarrow> y \<le> x \<Longrightarrow> y \<le> floor_dp n x"
proof -
  assume p: "places n y" and le: "y \<le> x"
  have q: "(0::rat) < 10 ^ n" by simp
  from le have "y * 10 ^ n \<le> x * 10 ^ n" by simp
  then have "\<lfloor>y * 10 ^ n\<rfloor> \<le> \<lfloor>x * 10 ^ n\<rfloor>" by (rule floor_mono)
  then have "(of_int \<lfloor>y * 10 ^ n\<rfloor> :: rat) \<le> of_int \<lfloor>x * 10 ^ n\<rfloor>" by simp
  with p have "y * 10 ^ n \<le> of_int \<lfloor>x * 10 ^ n\<rfloor>" by (simp add: places_def)
  with q show ?thesis by (simp add: floor_dp_def le_divide_eq)
qed

lemma half_up_dp_bounds:
  "half_up_dp n x \<le> x + 1 / (2 * 10 ^ n)" "x < half_up_dp n x + 1 / (2 * 10 ^ n)"
proof -
  have p: "(0::rat) < 10 ^ n" by simp
  have "of_int \<lfloor>x * 10 ^ n + 1 / 2\<rfloor> \<le> x * 10 ^ n + 1 / 2" by simp
  then have "half_up_dp n x \<le> (x * 10 ^ n + 1 / 2) / 10 ^ n"
    using p by (simp add: half_up_dp_def divide_right_mono)
  then show "half_up_dp n x \<le> x + 1 / (2 * 10 ^ n)"
    by (simp add: add_divide_distrib)
  have "x * 10 ^ n < of_int \<lfloor>x * 10 ^ n + 1 / 2\<rfloor> + 1 / 2" by linarith
  then have "x < (of_int \<lfloor>x * 10 ^ n + 1 / 2\<rfloor> + 1 / 2) / 10 ^ n"
    using p by (simp add: less_divide_eq)
  then show "x < half_up_dp n x + 1 / (2 * 10 ^ n)"
    by (simp add: half_up_dp_def add_divide_distrib)
qed

lemma half_up_dp_ge: "places n y \<Longrightarrow> y \<le> x \<Longrightarrow> y \<le> half_up_dp n x"
proof -
  assume p: "places n y" and le: "y \<le> x"
  have "floor_dp n x \<le> half_up_dp n x"
    unfolding floor_dp_def half_up_dp_def by (intro divide_right_mono) (auto intro: floor_mono)
  with floor_dp_ge [OF p le] show ?thesis by simp
qed

subsection \<open>bet-math.ts and decimal.util.ts\<close>

definition combinedOddsFromPrices :: "dec_lib \<Rightarrow> rat list \<Rightarrow> rat" where
  "combinedOddsFromPrices L prices =
     dl_round L 3 ROUND_HALF_UP (foldl (\<lambda>acc price. dl_mul L acc price) 1 prices)"

definition potentialPayout :: "dec_lib \<Rightarrow> rat \<Rightarrow> rat \<Rightarrow> rat" where
  "potentialPayout L stake combinedOdds =
     dl_round L 2 ROUND_DOWN (dl_mul L stake combinedOdds)"

definition stakeLessOrEqualBalance :: "dec_lib \<Rightarrow> rat \<Rightarrow> string \<Rightarrow> bool result" where
  "stakeLessOrEqualBalance L stake balance =
     (case dl_parse L balance of
        None \<Rightarrow> Inl (PlainError ''[DecimalError] Invalid argument'')
      | Some b \<Rightarrow> Inr (stake \<le> b))"

definition decimalToString :: "dec_lib \<Rightarrow> rat \<Rightarrow> string" where
  "decimalToString L value = dl_show L value"

definition nullableDecimalToString :: "dec_lib \<Rightarrow> rat option \<Rightarrow> string option" where
  "nullableDecimalToString L value = map_option (dl_show L) value"

lemma foldl_mul_ge_one:
  assumes "dec_lib_ok L" and "\<forall>p \<in> set prices. 1 \<le> p" and "1 \<le> a"
  shows "1 \<le> foldl (\<lambda>acc price. dl_mul L acc price) a prices"
  using assms(2,3)
proof (induction prices arbitrary: a)
  case Nil
  then show ?case by simp
next
  case (Cons p ps)
  from Cons.prems have "1 \<le> p" and "1 \<le> a" by auto
  then have "1 \<le> a * p"
    by (metis mult.left_neutral mult_mono order.trans zero_le_one)
  then have "1 \<le> dl_mul L a p"
    by (rule rounds_exactly_ge [OF dec_lib_okD(7) [OF assms(1)] exact20_simps(2)])
  with Cons.IH Cons.prems show ?case by simp
qed

lemma combinedOdds_ge_one:
  assumes "dec_lib_ok L" and "\<forall>p \<in> set prices. 1 \<le> p"
  shows "1 \<le> combinedOddsFromPrices L prices"
proof -
  have ge: "1 \<le> foldl (\<lambda>acc price. dl_mul L acc price) 1 prices"
    using assms by (intro foldl_mul_ge_one) auto
  have "places 3 1" by (simp add: places_def)
  from half_up_dp_ge [OF this ge] ge show ?thesis
    by (simp add: combinedOddsFromPrices_def dec_lib_okD(6) [OF assms(1)])
qed

lemma potentialPayout_ge_stake:
  assumes L: "dec_lib_ok L" and stake: "exact20 stake" "places 2 stake" "0 \<le> stake"
    and odds: "1 \<le> odds"
  shows "stake \<le> potentialPayout L stake odds"
proof -
  from stake(3) odds have "stake * 1 \<le> stake * odds" by (intro mult_left_mono) auto
  then have le: "stake \<le> dl_mul L stake odds"
    by (intro rounds_exactly_ge [OF dec_lib_okD(7) [OF L] stake(1)]) simp
  with stake(3) have "0 \<le> dl_mul L stake odds" by simp
  with floor_dp_ge [OF stake(2) le] show ?thesis
    by (simp add: potentialPayout_def dec_lib_okD(5) [OF L])
qed

lemma potentialPayout_floor:
  assumes L: "dec_lib_ok L" and ex: "exact20 (stake * odds)" and nn: "0 \<le> stake" "0 \<le> odds"
  shows "potentialPayout L stake odds = floor_dp 2 (stake * odds)"
proof -
  have "dl_mul L stake odds = stake * odds"
    using rounds_exactly_eq [OF dec_lib_okD(7) [OF L] ex] .
  with nn show ?thesis
    by (simp add: potentialPayout_def dec_lib_okD(5) [OF L])
qed

end
