(* ===== verification/ExactDecimals.thy ===== *)
theory ExactDecimals
  imports Decimals
begin

text \<open>
  A concrete decimal library: exact arithmetic on rationals, six fractional digits of text.
  It satisfies \<open>dec_lib_ok\<close> (\<open>exact_lib_ok\<close>), so the contract of theory \<open>Decimals\<close> can
  hold, and the witnesses of the development evaluate with it.
\<close>

definition pad0 :: "nat \<Rightarrow> string \<Rightarrow> string" where
  "pad0 k s = replicate (k - length s) (CHR ''0'') @ s"

definition strip0 :: "string \<Rightarrow> string" where
  "strip0 s = rev (dropWhile (\<lambda>c. c = CHR ''0'') (rev s))"

definition show_scaled :: "nat \<Rightarrow> nat \<Rightarrow> string" where
  "show_scaled k m =
     (let fr = strip0 (pad0 k (show_nat (m mod 10 ^ k)))
      in show_nat (m div 10 ^ k) @ (if fr = [] then [] else CHR ''.'' # fr))"

definition fixed_scaled :: "nat \<Rightarrow> nat \<Rightarrow> string" where
  "fixed_scaled k m =
     show_nat (m div 10 ^ k) @ (if k = 0 then [] else CHR ''.'' # pad0 k (show_nat (m mod 10 ^ k)))"

definition with_sign :: "rat \<Rightarrow> string \<Rightarrow> string" where
  "with_sign x s = (if x < 0 then CHR ''-'' # s else s)"

definition exact_show :: "rat \<Rightarrow> string" where
  "exact_show x = with_sign x (show_scaled 6 (nat \<lfloor>\<bar>x\<bar> * 10 ^ 6\<rfloor>))"

definition exact_fixed :: "nat \<Rightarrow> rat \<Rightarrow> string" where
  "exact_fixed n x = with_sign x (fixed_scaled n (nat \<lfloor>\<bar>x\<bar> * 10 ^ n + 1 / 2\<rfloor>))"

definition exact_round :: "nat \<Rightarrow> rounding \<Rightarrow> rat \<Rightarrow> rat" where
  "exact_round n mode x =
     (let y = (case mode of ROUND_DOWN \<Rightarrow> floor_dp n \<bar>x\<bar> | ROUND_HALF_UP \<Rightarrow> half_up_dp n \<bar>x\<bar>)
      in if x < 0 then - y else y)"

definition exact_lib :: dec_lib where
  "exact_lib = \<lparr> dl_parse = parse_signed, dl_show = exact_show, dl_fixed = exact_fixed,
     dl_round = exact_round, dl_mul = (*), dl_plus = (+), dl_minus = (-) \<rparr>"

lemma exact_lib_sel [simp]:
  "dl_parse exact_lib = parse_signed" "dl_show exact_lib = exact_show"
  "dl_fixed exact_lib = exact_fixed" "dl_round exact_lib = exact_round"
  "dl_mul exact_lib = (*)" "dl_plus exact_lib = (+)" "dl_minus exact_lib = (-)"
  by (simp_all add: exact_lib_def)

subsection \<open>Texts parse back\<close>

lemma digit0 [simp]: "is_digit (CHR ''0'')" "digit_value (CHR ''0'') = 0"
  by (simp_all add: is_digit_def digit_value_def char_code_def)

lemma nat_of_digits_zeros [simp]: "nat_of_digits (replicate n (CHR ''0'')) = 0"
proof (induction n)
  case (Suc n)
  have "replicate (Suc n) (CHR ''0'') = [CHR ''0''] @ replicate n (CHR ''0'')" by simp
  then show ?case
    by (simp only: nat_of_digits_append Suc) (simp add: nat_of_digits_single)
qed simp

lemma nat_of_digits_pad0 [simp]: "nat_of_digits (pad0 k s) = nat_of_digits s"
  by (simp add: pad0_def nat_of_digits_append)

lemma pad0_digits: "\<forall>c \<in> set s. is_digit c \<Longrightarrow> \<forall>c \<in> set (pad0 k s). is_digit c"
  by (auto simp: pad0_def)

lemma length_pad0: "length s \<le> k \<Longrightarrow> length (pad0 k s) = k"
  by (simp add: pad0_def)

lemma strip0_append: "\<exists>j. s = strip0 s @ replicate j (CHR ''0'')"
proof -
  let ?P = "\<lambda>c. c = CHR ''0''"
  have "rev s = takeWhile ?P (rev s) @ dropWhile ?P (rev s)" by simp
  moreover have "takeWhile ?P (rev s) = replicate (length (takeWhile ?P (rev s))) (CHR ''0'')"
    by (rule replicate_eqI) (auto dest: set_takeWhileD)
  ultimately have "s = rev (dropWhile ?P (rev s)) @
      rev (replicate (length (takeWhile ?P (rev s))) (CHR ''0''))"
    by (metis rev_append rev_rev_ident)
  then show ?thesis unfolding strip0_def by (metis rev_replicate)
qed

lemma strip0_value:
  assumes "\<forall>c \<in> set s. is_digit c"
  shows "(of_nat (nat_of_digits (t @ strip0 s)) / 10 ^ length (strip0 s) :: rat) =
     of_nat (nat_of_digits (t @ s)) / 10 ^ length s"
    and "\<forall>c \<in> set (strip0 s). is_digit c"
proof -
  obtain j where s: "s = strip0 s @ replicate j (CHR ''0'')" using strip0_append by blast
  have "nat_of_digits (t @ s) = nat_of_digits ((t @ strip0 s) @ replicate j (CHR ''0''))"
    by (subst s) simp
  then have v: "nat_of_digits (t @ s) = nat_of_digits (t @ strip0 s) * 10 ^ j"
    by (simp only: nat_of_digits_append length_replicate nat_of_digits_zeros)
  have "length s = length (strip0 s) + j" by (subst s) simp
  with v show "(of_nat (nat_of_digits (t @ strip0 s)) / 10 ^ length (strip0 s) :: rat) =
     of_nat (nat_of_digits (t @ s)) / 10 ^ length s"
    by (simp add: power_add)
  have "set (strip0 s) \<subseteq> set s" by (subst (2) s) auto
  with assms show "\<forall>c \<in> set (strip0 s). is_digit c" by blast
qed

lemma padded_fraction:
  assumes "0 < k"
  shows "length (pad0 k (show_nat (m mod 10 ^ k))) = k"
    and "nat_of_digits (show_nat (m div 10 ^ k) @ pad0 k (show_nat (m mod 10 ^ k))) = m"
proof -
  show len: "length (pad0 k (show_nat (m mod 10 ^ k))) = k"
    using assms by (intro length_pad0 show_nat_length) auto
  show "nat_of_digits (show_nat (m div 10 ^ k) @ pad0 k (show_nat (m mod 10 ^ k))) = m"
    unfolding nat_of_digits_append len nat_of_digits_pad0 nat_of_digits_show
    by (rule div_mult_mod_eq)
qed

lemma parse_unsigned_fixed:
  assumes "0 < k"
  shows "parse_unsigned (fixed_scaled k m) = Some (of_nat m / 10 ^ k)"
  using assms padded_fraction [OF assms, of m]
    parse_unsigned_dot [OF show_nat_digits show_nat_nonempty pad0_digits [OF show_nat_digits]]
  by (simp add: fixed_scaled_def)

lemma parse_unsigned_show:
  assumes "0 < k"
  shows "parse_unsigned (show_scaled k m) = Some (of_nat m / 10 ^ k)"
proof -
  let ?ip = "show_nat (m div 10 ^ k)" and ?pd = "pad0 k (show_nat (m mod 10 ^ k))"
  have dg: "\<forall>c \<in> set ?pd. is_digit c" by (rule pad0_digits [OF show_nat_digits])
  have val: "(of_nat (nat_of_digits (?ip @ strip0 ?pd)) / 10 ^ length (strip0 ?pd) :: rat) =
      of_nat m / 10 ^ k"
    using strip0_value(1) [OF dg, of ?ip] padded_fraction [OF assms, of m] by simp
  show ?thesis
  proof (cases "strip0 ?pd = []")
    case True
    with val show ?thesis
      by (simp add: show_scaled_def parse_unsigned_int show_nat_digits)
  next
    case False
    have "parse_unsigned (show_scaled k m) = parse_unsigned (?ip @ CHR ''.'' # strip0 ?pd)"
      using False by (simp add: show_scaled_def Let_def)
    also have "\<dots> = Some (of_nat (nat_of_digits (?ip @ strip0 ?pd)) / 10 ^ length (strip0 ?pd))"
      by (rule parse_unsigned_dot [OF show_nat_digits show_nat_nonempty strip0_value(2) [OF dg]])
    finally show ?thesis by (simp only: val)
  qed
qed

text \<open>A text that starts with a digit is read unsigned; a leading minus negates it.\<close>

definition plain_text :: "string \<Rightarrow> bool" where
  "plain_text s \<longleftrightarrow> s \<noteq> [] \<and> is_digit (hd s) \<and> (\<forall>c \<in> set s. \<not> is_space c)"

lemma digit_not_sign [simp]: "\<not> is_digit (CHR ''-'')" "\<not> is_digit (CHR ''+'')"
  by (simp_all add: is_digit_def char_code_def)

lemma digit_not_space: "is_digit c \<Longrightarrow> \<not> is_space c"
  by (auto simp: is_digit_def is_space_def char_code_def)

lemma plain_scaled [simp]: "plain_text (show_scaled k m)" "plain_text (fixed_scaled k m)"
proof -
  have hd: "is_digit (hd (show_nat n))" for n
    using show_nat_digits [of n] show_nat_nonempty [of n] by (meson list.set_sel(1))
  have nosp: "\<forall>c \<in> set (show_nat n). \<not> is_space c" for n
    using show_nat_digits digit_not_space by blast
  have pd: "\<forall>c \<in> set (pad0 k (show_nat n)). is_digit c" for n
    by (rule pad0_digits [OF show_nat_digits])
  have dot: "\<not> is_space (CHR ''.'')" by (simp add: is_space_def char_code_def)
  show "plain_text (show_scaled k m)"
    using hd nosp dot strip0_value(2) [OF pd] digit_not_space
    by (auto simp: plain_text_def show_scaled_def Let_def hd_append)
  show "plain_text (fixed_scaled k m)"
    using hd nosp dot pd digit_not_space
    by (auto simp: plain_text_def fixed_scaled_def hd_append)
qed

lemma parse_signed_plain:
  assumes "plain_text s"
  shows "parse_signed s = parse_unsigned s"
    and "parse_signed (CHR ''-'' # s) = map_option uminus (parse_unsigned s)"
proof -
  from assms have "s \<noteq> []" "hd s \<noteq> CHR ''-''" "hd s \<noteq> CHR ''+''"
    by (auto simp: plain_text_def)
  then show "parse_signed s = parse_unsigned s"
    by (cases s) (auto simp: parse_signed_def)
  show "parse_signed (CHR ''-'' # s) = map_option uminus (parse_unsigned s)"
    by (simp add: parse_signed_def)
qed

lemma trim_no_space: "\<forall>c \<in> set s. \<not> is_space c \<Longrightarrow> trim s = s"
proof -
  assume a: "\<forall>c \<in> set s. \<not> is_space c"
  have d: "dropWhile is_space t = t" if "\<forall>c \<in> set t. \<not> is_space c" for t
    using that by (cases t) auto
  from d [OF a] d [of "rev s"] a show ?thesis by (simp add: trim_def)
qed

lemma js_number_plain:
  assumes "plain_text s"
  shows "js_number s = parse_unsigned s"
    and "js_number (CHR ''-'' # s) = map_option uminus (parse_unsigned s)"
proof -
  have m: "\<not> is_space (CHR ''-'')" by (simp add: is_space_def char_code_def)
  from assms m have "trim s = s" "trim (CHR ''-'' # s) = CHR ''-'' # s" "s \<noteq> []"
    by (auto simp: plain_text_def intro!: trim_no_space)
  with parse_signed_plain [OF assms]
  show "js_number s = parse_unsigned s"
    and "js_number (CHR ''-'' # s) = map_option uminus (parse_unsigned s)"
    by (simp_all add: js_number_def)
qed

subsection \<open>The contract holds\<close>

lemma scaled_abs: "places n x \<Longrightarrow> (of_nat (nat \<lfloor>\<bar>x\<bar> * 10 ^ n\<rfloor>) :: rat) / 10 ^ n = \<bar>x\<bar>"
proof -
  assume "places n x"
  then obtain m where m: "x * 10 ^ n = of_int m" by (auto simp: places_iff)
  have "\<bar>x\<bar> * 10 ^ n = \<bar>x * 10 ^ n\<bar>" by (simp add: abs_mult)
  then have a: "\<bar>x\<bar> * 10 ^ n = of_int \<bar>m\<bar>" by (simp add: m)
  then have "(of_nat (nat \<lfloor>\<bar>x\<bar> * 10 ^ n\<rfloor>) :: rat) = of_int \<bar>m\<bar>" by simp
  then show ?thesis using a by (metis nonzero_mult_div_cancel_right power_not_zero zero_neq_numeral)
qed

lemma scaled_half: "places n x \<Longrightarrow> \<lfloor>\<bar>x\<bar> * 10 ^ n + 1 / 2\<rfloor> = \<lfloor>\<bar>x\<bar> * 10 ^ n\<rfloor>"
proof -
  assume "places n x"
  then obtain m where m: "x * 10 ^ n = of_int m" by (auto simp: places_iff)
  have "\<bar>x\<bar> * 10 ^ n = \<bar>x * 10 ^ n\<bar>" by (simp add: abs_mult)
  then have "\<bar>x\<bar> * 10 ^ n = of_int \<bar>m\<bar>" by (simp add: m)
  then show ?thesis by (simp add: floor_eq_iff)
qed

lemma with_sign_value:
  assumes "places n x" and "0 < n"
  shows "parse_signed (with_sign x (show_scaled n (nat \<lfloor>\<bar>x\<bar> * 10 ^ n\<rfloor>))) = Some x"
    and "parse_signed (with_sign x (fixed_scaled n (nat \<lfloor>\<bar>x\<bar> * 10 ^ n + 1 / 2\<rfloor>))) = Some x"
    and "js_number (with_sign x (fixed_scaled n (nat \<lfloor>\<bar>x\<bar> * 10 ^ n + 1 / 2\<rfloor>))) = Some x"
    and "0 \<le> x \<Longrightarrow>
      parse_signed (CHR ''-'' # with_sign x (show_scaled n (nat \<lfloor>\<bar>x\<bar> * 10 ^ n\<rfloor>))) = Some (- x)"
proof -
  define m where "m = nat \<lfloor>\<bar>x\<bar> * 10 ^ n\<rfloor>"
  have v: "(of_nat m :: rat) / 10 ^ n = \<bar>x\<bar>"
    unfolding m_def by (rule scaled_abs [OF assms(1)])
  have h: "nat \<lfloor>\<bar>x\<bar> * 10 ^ n + 1 / 2\<rfloor> = m"
    unfolding m_def scaled_half [OF assms(1)] by (rule refl)
  note parsed = parse_signed_plain js_number_plain parse_unsigned_show [OF assms(2)]
    parse_unsigned_fixed [OF assms(2)]
  have a: "parse_signed (with_sign x (show_scaled n m)) = Some x"
    and b: "parse_signed (with_sign x (fixed_scaled n m)) = Some x"
    and c: "js_number (with_sign x (fixed_scaled n m)) = Some x"
    and d: "0 \<le> x \<Longrightarrow> parse_signed (CHR ''-'' # with_sign x (show_scaled n m)) = Some (- x)"
    by (simp_all add: with_sign_def parsed v)
  show "parse_signed (with_sign x (show_scaled n (nat \<lfloor>\<bar>x\<bar> * 10 ^ n\<rfloor>))) = Some x"
    using a unfolding m_def .
  show "parse_signed (with_sign x (fixed_scaled n (nat \<lfloor>\<bar>x\<bar> * 10 ^ n + 1 / 2\<rfloor>))) = Some x"
    using b unfolding h .
  show "js_number (with_sign x (fixed_scaled n (nat \<lfloor>\<bar>x\<bar> * 10 ^ n + 1 / 2\<rfloor>))) = Some x"
    using c unfolding h .
  show "parse_signed (CHR ''-'' # with_sign x (show_scaled n (nat \<lfloor>\<bar>x\<bar> * 10 ^ n\<rfloor>))) = Some (- x)"
    if "0 \<le> x" using d [OF that] unfolding m_def .
qed

lemma exact_lib_ok [simp]: "dec_lib_ok exact_lib"
proof -
  have pl: "places 6 x" if "exact20 x" for x using that by (simp add: exact20_def)
  have r: "rounds_exactly f f" for f by (simp add: rounds_exactly_def)
  have six: "(0::nat) < 6" by simp
  have "parse_signed (exact_show x) = Some x" if "exact20 x" for x
    unfolding exact_show_def by (rule with_sign_value(1) [OF pl [OF that] six])
  moreover have "parse_signed (CHR ''-'' # exact_show x) = Some (- x)"
    if "exact20 x" "0 \<le> x" for x
    unfolding exact_show_def by (rule with_sign_value(4) [OF pl [OF that(1)] six that(2)])
  moreover have "js_number (exact_fixed n x) = Some x" if "places n x" "0 < n" for n x
    unfolding exact_fixed_def by (rule with_sign_value(3) [OF that])
  moreover have "parse_signed (exact_fixed n x) = Some x" if "places n x" "0 < n" for n x
    unfolding exact_fixed_def by (rule with_sign_value(2) [OF that])
  moreover have "exact_fixed n x \<noteq> []" for n x
    using plain_scaled(2) by (simp add: exact_fixed_def with_sign_def plain_text_def)
  moreover have "parse_signed ''0'' = Some 0" by code_simp
  ultimately show ?thesis
    using r by (simp add: dec_lib_ok_def exact_round_def)
qed

end
