(* ===== verification/Schema.thy ===== *)
theory Schema
  imports ExactDecimals
begin

text \<open>
  The data model: the enums and row types of \<open>prisma/schema.prisma\<close>, the wallet transaction
  of \<open>modules/wallet/wallet.port.ts\<close>, the database as one record of tables, the world a
  service runs in (database, wallet service, clock, id supply) and the configuration values of
  \<open>shared/config/env.validation.ts\<close> the modelled code reads.

  Timestamps are milliseconds (\<open>int\<close>); a \<open>Decimal\<close> column is an exact rational; a nullable
  column is an option. The ISO text of an instant (\<open>Date.toISOString\<close>, read back by
  \<open>new Date\<close>) is the constructor \<open>ISO\<close>. The bookkeeping columns \<open>updatedAt\<close> are left out:
  the modelled code only lists by them.
\<close>

subsection \<open>Enums\<close>

datatype fixture_status = Fx_SCHEDULED | Fx_LIVE | Fx_ENDED | Fx_POSTPONED | Fx_CANCELLED

datatype event_status = Ev_SCHEDULED | Ev_LIVE | Ev_SUSPENDED | Ev_ENDED | Ev_CANCELLED

datatype market_type = MATCH_RESULT | HANDICAP | TOTAL | DOUBLE_CHANCE | BOTH_TEAMS_SCORE

datatype market_status = Mk_OPEN | Mk_SUSPENDED | Mk_SETTLED | Mk_VOID

datatype selection_status = Sl_OPEN | Sl_SUSPENDED | Sl_SETTLED | Sl_VOID

datatype bet_status = Bet_PENDING | Bet_ACCEPTED | Bet_REJECTED | Bet_WON | Bet_LOST | Bet_VOID

datatype leg_outcome = Leg_PENDING | Leg_WON | Leg_LOST | Leg_VOID

datatype outbox_status = Ob_PENDING | Ob_COMPLETED | Ob_FAILED

datatype group_status = Cg_ACTIVE | Cg_DISABLED

datatype staff_status = St_ACTIVE | St_DISABLED

datatype staff_role =
    SUPER_ADMIN | PLATFORM_ADMIN | OPERATOR_ADMIN | TRADER | RISK_MANAGER
  | CUSTOMER_SUPPORT | SETTLEMENT | FINANCE | COMPLIANCE

fun market_type_text :: "market_type \<Rightarrow> string" where
  "market_type_text MATCH_RESULT = ''MATCH_RESULT''"
| "market_type_text HANDICAP = ''HANDICAP''"
| "market_type_text TOTAL = ''TOTAL''"
| "market_type_text DOUBLE_CHANCE = ''DOUBLE_CHANCE''"
| "market_type_text BOTH_TEAMS_SCORE = ''BOTH_TEAMS_SCORE''"

fun event_status_text :: "event_status \<Rightarrow> string" where
  "event_status_text Ev_SCHEDULED = ''SCHEDULED''"
| "event_status_text Ev_LIVE = ''LIVE''"
| "event_status_text Ev_SUSPENDED = ''SUSPENDED''"
| "event_status_text Ev_ENDED = ''ENDED''"
| "event_status_text Ev_CANCELLED = ''CANCELLED''"

fun market_status_text :: "market_status \<Rightarrow> string" where
  "market_status_text Mk_OPEN = ''OPEN''"
| "market_status_text Mk_SUSPENDED = ''SUSPENDED''"
| "market_status_text Mk_SETTLED = ''SETTLED''"
| "market_status_text Mk_VOID = ''VOID''"

subsection \<open>The wallet transaction\<close>

datatype iso_date = ISO int

record wallet_tx =
  tx_userCode :: string
  tx_casinoGroupId :: string
  tx_roundId :: string
  tx_transactionCode :: string
  tx_historyId :: nat
  tx_gameCode :: string
  tx_gameType :: nat
  tx_isFinished :: bool
  tx_isCanceled :: bool
  tx_amount :: string
  tx_detail :: string
  tx_createdAt :: int

text \<open>\<open>StoredWalletTransaction\<close>: the same with the creation date as ISO text.\<close>

record stored_tx =
  st_userCode :: string
  st_casinoGroupId :: string
  st_roundId :: string
  st_transactionCode :: string
  st_historyId :: nat
  st_gameCode :: string
  st_gameType :: nat
  st_isFinished :: bool
  st_isCanceled :: bool
  st_amount :: string
  st_detail :: string
  st_createdAt :: iso_date

subsection \<open>Rows of the catalog\<close>

record sport_row =
  sp_id :: string
  sp_key :: string
  sp_name :: string
  sp_slug :: string
  sp_active :: bool

record league_row =
  lg_id :: string
  lg_sportId :: string
  lg_key :: string
  lg_name :: string
  lg_region :: "string option"
  lg_active :: bool

record team_row =
  tm_id :: string
  tm_sportId :: string
  tm_key :: string
  tm_name :: string
  tm_shortName :: "string option"

record fixture_row =
  fx_id :: string
  fx_leagueId :: string
  fx_homeTeamId :: string
  fx_awayTeamId :: string
  fx_startsAt :: int
  fx_status :: fixture_status
  fx_providerRef :: string

record event_row =
  ev_id :: string
  ev_fixtureId :: string
  ev_providerRef :: string
  ev_status :: event_status
  ev_homeScore :: "int option"
  ev_awayScore :: "int option"
  ev_period :: "string option"
  ev_clock :: "string option"

record market_row =
  mk_id :: string
  mk_eventId :: string
  mk_providerRef :: string
  mk_type :: market_type
  mk_status :: market_status
  mk_line :: "rat option"

record selection_row =
  sl_id :: string
  sl_marketId :: string
  sl_providerRef :: string
  sl_name :: string
  sl_status :: selection_status
  sl_price :: rat

record snapshot_row =
  os_selectionId :: string
  os_price :: rat
  os_capturedAt :: int

subsection \<open>Rows of tenants and staff\<close>

record group_row =
  cg_id :: string
  cg_slug :: string
  cg_name :: string
  cg_defaultCurrency :: string
  cg_timezone :: string
  cg_status :: group_status
  cg_merchantId :: "string option"
  cg_sportsSecret :: "string option"
  cg_walletApiUrl :: "string option"

record group_league_row =
  gl_casinoGroupId :: string
  gl_leagueId :: string
  gl_enabled :: bool
  gl_platformLocked :: bool

record risk_limit_row =
  rl_id :: string
  rl_casinoGroupId :: string
  rl_scope :: string
  rl_scopeRef :: string
  rl_minStake :: "rat option"
  rl_maxStake :: "rat option"
  rl_maxPayout :: "rat option"

text \<open>The \<open>rules\<close> JSON of a policy is kept as the league keys the services write into it.\<close>

record offering_policy_row =
  opol_id :: string
  opol_casinoGroupId :: string
  opol_enabledLeagueKeys :: "string list"

record staff_row =
  su_id :: string
  su_email :: string
  su_passwordHash :: string
  su_casinoGroupId :: "string option"
  su_roles :: "staff_role list"
  su_status :: staff_status

record staff_session_row =
  ss_id :: string
  ss_staffUserId :: string
  ss_refreshTokenHash :: string
  ss_expiresAt :: int
  ss_revokedAt :: "int option"

record staff_access_row =
  sa_staffUserId :: string
  sa_casinoGroupId :: string

text \<open>
  An audit entry. The \<open>before\<close> and \<open>after\<close> JSON columns are kept as the rendered key/value
  pairs the modelled handlers write.
\<close>

record audit_row =
  au_actorType :: string
  au_actorId :: "string option"
  au_casinoGroupId :: "string option"
  au_action :: string
  au_entityType :: string
  au_entityId :: "string option"
  au_before :: "(string \<times> string) list option"
  au_after :: "(string \<times> string) list option"
  au_reason :: "string option"
  au_createdAt :: int

subsection \<open>Rows of bets and the wallet outbox\<close>

record bet_row =
  bet_id :: string
  bet_casinoGroupId :: string
  bet_userId :: string
  bet_username :: string
  bet_idempotencyKey :: string
  bet_stake :: rat
  bet_currency :: string
  bet_status :: bet_status
  bet_combinedOdds :: rat
  bet_potentialPayout :: rat
  bet_walletReservationId :: "string option"
  bet_rejectionReason :: "string option"
  bet_payoutAmount :: "rat option"
  bet_settledAt :: "int option"
  bet_settlementNote :: "string option"
  bet_createdAt :: int

record leg_row =
  leg_id :: string
  leg_betId :: string
  leg_selectionId :: string
  leg_marketId :: string
  leg_eventId :: string
  leg_selectionName :: string
  leg_priceAtPlacement :: rat
  leg_legOrder :: nat
  leg_outcome :: leg_outcome
  leg_marketType :: "market_type option"
  leg_marketLine :: "rat option"
  leg_homeTeamName :: "string option"
  leg_awayTeamName :: "string option"
  leg_eventProviderRef :: "string option"
  leg_sportKey :: "string option"
  leg_sportName :: "string option"
  leg_leagueKey :: "string option"
  leg_leagueName :: "string option"

record outbox_row =
  ob_id :: string
  ob_betId :: string
  ob_casinoGroupId :: string
  ob_type :: string
  ob_transactionCode :: string
  ob_batchId :: "string option"
  ob_payload :: "stored_tx option"   \<comment> \<open>\<open>None\<close>: the empty object a debit row is created with\<close>
  ob_status :: outbox_status
  ob_attempts :: nat
  ob_lastError :: "string option"
  ob_nextRetryAt :: "int option"
  ob_createdAt :: int

subsection \<open>The database and the world\<close>

record db =
  db_sports :: "sport_row list"
  db_leagues :: "league_row list"
  db_teams :: "team_row list"
  db_fixtures :: "fixture_row list"
  db_events :: "event_row list"
  db_markets :: "market_row list"
  db_selections :: "selection_row list"
  db_snapshots :: "snapshot_row list"
  db_groups :: "group_row list"
  db_groupLeagues :: "group_league_row list"
  db_riskLimits :: "risk_limit_row list"
  db_offeringPolicies :: "offering_policy_row list"
  db_staff :: "staff_row list"
  db_staffSessions :: "staff_session_row list"
  db_staffAccess :: "staff_access_row list"
  db_bets :: "bet_row list"
  db_legs :: "leg_row list"
  db_outbox :: "outbox_row list"
  db_audit :: "audit_row list"

definition empty_db :: db where
  "empty_db = \<lparr> db_sports = [], db_leagues = [], db_teams = [], db_fixtures = [],
     db_events = [], db_markets = [], db_selections = [], db_snapshots = [], db_groups = [],
     db_groupLeagues = [], db_riskLimits = [], db_offeringPolicies = [], db_staff = [], db_staffSessions = [],
     db_staffAccess = [], db_bets = [], db_legs = [], db_outbox = [], db_audit = [] \<rparr>"

text \<open>
  The world of one process: the database, the state of the external wallet service (a type
  parameter), the clock, which does not move while one operation runs, and the number of
  identifiers already drawn from the id generator.
\<close>

record 'w world =
  w_db :: db
  w_wallet :: 'w
  w_now :: int
  w_seq :: nat

text \<open>
  Configuration values, and the third-party functions: \<open>env_gen n\<close> is the \<open>n\<close>-th identifier
  of \<open>cuid()\<close> or \<open>randomUUID()\<close>, \<open>env_sha\<close> the SHA-256 digest of a text as bytes, \<open>env_dec\<close>
  the decimal library.
\<close>

record env =
  env_gen :: "nat \<Rightarrow> string"
  env_sha :: "string \<Rightarrow> nat list"
  env_dec :: dec_lib
  env_BET_MIN_STAKE :: string
  env_BET_MAX_STAKE :: string
  env_BET_MAX_PAYOUT :: string
  env_WALLET_STUB_BALANCE :: string
  env_SETTLEMENT_STALE_HOURS :: int
  env_FIXTURE_PROVIDER :: string
  env_INGEST_LIVE_PRESTART_MINUTES :: int

subsection \<open>The wallet port\<close>

text \<open>
  \<open>WalletPort\<close>: the three calls of the external wallet, each returning a result or an error
  and the wallet's next state. A balance is its text and its currency.
\<close>

record 'w wallet_port =
  wp_getBalance :: "string \<Rightarrow> string \<Rightarrow> 'w \<Rightarrow> (string \<times> string) result \<times> 'w"
  wp_postTransaction :: "wallet_tx \<Rightarrow> 'w \<Rightarrow> string result \<times> 'w"
  wp_postTransactionBatch :: "string \<Rightarrow> string \<Rightarrow> wallet_tx list \<Rightarrow> 'w \<Rightarrow> string result \<times> 'w"

subsection \<open>Reads and writes of the tables\<close>

definition find_bet :: "string \<Rightarrow> db \<Rightarrow> bet_row option" where
  "find_bet i d = get_by bet_id i (db_bets d)"

definition legs_of :: "string \<Rightarrow> db \<Rightarrow> leg_row list" where
  "legs_of betId d = row_filter (\<lambda>l. leg_betId l = betId) (db_legs d)"

text \<open>\<open>legs\<close> ordered by \<open>legOrder\<close>, as \<open>orderBy: { legOrder: 'asc' }\<close> and the in-memory sorts.\<close>

definition sort_legs :: "leg_row list \<Rightarrow> leg_row list" where
  "sort_legs legs = sort_key leg_legOrder legs"

definition update_bet :: "string \<Rightarrow> (bet_row \<Rightarrow> bet_row) \<Rightarrow> db \<Rightarrow> db" where
  "update_bet i f d = d\<lparr>db_bets := upd_by bet_id i f (db_bets d)\<rparr>"

definition update_leg :: "string \<Rightarrow> (leg_row \<Rightarrow> leg_row) \<Rightarrow> db \<Rightarrow> db" where
  "update_leg i f d = d\<lparr>db_legs := upd_by leg_id i f (db_legs d)\<rparr>"

definition find_outbox :: "string \<Rightarrow> string \<Rightarrow> db \<Rightarrow> outbox_row option" where
  "find_outbox betId type d =
     get_by (\<lambda>r. (ob_betId r, ob_type r)) (betId, type) (db_outbox d)"

definition update_outbox :: "string \<Rightarrow> (outbox_row \<Rightarrow> outbox_row) \<Rightarrow> db \<Rightarrow> db" where
  "update_outbox i f d = d\<lparr>db_outbox := upd_by ob_id i f (db_outbox d)\<rparr>"

definition find_event :: "string \<Rightarrow> db \<Rightarrow> event_row option" where
  "find_event i d = get_by ev_id i (db_events d)"

definition find_market :: "string \<Rightarrow> db \<Rightarrow> market_row option" where
  "find_market i d = get_by mk_id i (db_markets d)"

definition find_selection :: "string \<Rightarrow> db \<Rightarrow> selection_row option" where
  "find_selection i d = get_by sl_id i (db_selections d)"

definition find_fixture :: "string \<Rightarrow> db \<Rightarrow> fixture_row option" where
  "find_fixture i d = get_by fx_id i (db_fixtures d)"

definition find_team :: "string \<Rightarrow> db \<Rightarrow> team_row option" where
  "find_team i d = get_by tm_id i (db_teams d)"

definition find_league :: "string \<Rightarrow> db \<Rightarrow> league_row option" where
  "find_league i d = get_by lg_id i (db_leagues d)"

definition find_sport :: "string \<Rightarrow> db \<Rightarrow> sport_row option" where
  "find_sport i d = get_by sp_id i (db_sports d)"

text \<open>The table contract on the rows of the database.\<close>

interpretation bets: keyed_rows bet_id "get_by bet_id" "upd_by bet_id" row_insert
  by (rule keyed_rows_by)

interpretation legs: keyed_rows leg_id "get_by leg_id" "upd_by leg_id" row_insert
  by (rule keyed_rows_by)

interpretation outbox: keyed_rows ob_id "get_by ob_id" "upd_by ob_id" row_insert
  by (rule keyed_rows_by)

interpretation outbox_key: keyed_rows "\<lambda>r. (ob_betId r, ob_type r)"
  "get_by (\<lambda>r. (ob_betId r, ob_type r))" "upd_by (\<lambda>r. (ob_betId r, ob_type r))" row_insert
  by (rule keyed_rows_by)

interpretation events: keyed_rows ev_id "get_by ev_id" "upd_by ev_id" row_insert
  by (rule keyed_rows_by)

interpretation markets: keyed_rows mk_id "get_by mk_id" "upd_by mk_id" row_insert
  by (rule keyed_rows_by)

lemma update_frames [simp, frame]:
  "db_outbox (update_bet i f d) = db_outbox d"
  "db_legs (update_bet i f d) = db_legs d"
  "db_events (update_bet i f d) = db_events d"
  "db_markets (update_bet i f d) = db_markets d"
  "db_bets (update_leg i g d) = db_bets d"
  "db_outbox (update_leg i g d) = db_outbox d"
  "db_events (update_leg i g d) = db_events d"
  "db_markets (update_leg i g d) = db_markets d"
  "db_bets (update_outbox i h d) = db_bets d"
  "db_legs (update_outbox i h d) = db_legs d"
  "db_events (update_outbox i h d) = db_events d"
  "db_markets (update_outbox i h d) = db_markets d"
  by (simp_all add: update_bet_def update_leg_def update_outbox_def)

lemma find_bet_update [simp]:
  "(\<And>b. bet_id (f b) = bet_id b) \<Longrightarrow>
   find_bet j (update_bet i f d) = map_option (\<lambda>b. if i = j then f b else b) (find_bet j d)"
  by (simp add: find_bet_def update_bet_def bets.get_upd_law)

lemma find_bet_frames [simp]:
  "find_bet j (update_leg i g d) = find_bet j d"
  "find_bet j (update_outbox i h d) = find_bet j d"
  by (simp_all add: find_bet_def)

lemma find_bet_id: "find_bet i d = Some b \<Longrightarrow> bet_id b = i \<and> b \<in> set (db_bets d)"
  using bets.get_key by (simp add: find_bet_def)

end
