(* ===== verification/LegOutcome.thy ===== *)
theory LegOutcome
  imports Schema
begin

text \<open>
  \<open>modules/settlement/leg-outcome.service.ts\<close>: grading one leg of a bet from the frozen
  placement data and the final score. A line is read with \<open>Number\<close>; scores and the
  two-decimal lines of the schema are far below the precision of a double, so the comparisons
  are those of the exact rationals.
\<close>

datatype leg_result = WON | LOST | VOID

record leg_input =
  li_marketType :: market_type
  li_marketStatus :: market_status
  li_marketLine :: "string option"
  li_selectionName :: string
  li_homeTeamName :: string
  li_awayTeamName :: string
  li_homeScore :: "int option"
  li_awayScore :: "int option"

definition matchResult :: "leg_input \<Rightarrow> int \<Rightarrow> int \<Rightarrow> leg_result" where
  "matchResult i homeScore awayScore =
     (let name = to_lower (trim (li_selectionName i));
          homeWins = homeScore > awayScore;
          awayWins = awayScore > homeScore;
          draw = (homeScore = awayScore) in
      if name = ''draw'' \<or> name = ''x'' then (if draw then WON else LOST)
      else if name = to_lower (trim (li_homeTeamName i)) then (if homeWins then WON else LOST)
      else if name = to_lower (trim (li_awayTeamName i)) then (if awayWins then WON else LOST)
      else LOST)"

definition total_leg :: "leg_input \<Rightarrow> int \<Rightarrow> int \<Rightarrow> leg_result option" where
  "total_leg i homeScore awayScore =
     (case js_number_nullable (li_marketLine i) of
        None \<Rightarrow> None
      | Some line \<Rightarrow>
          let totalScore = of_int (homeScore + awayScore);
              name = to_lower (li_selectionName i) in
          if totalScore = line then Some VOID
          else if str_includes name ''over'' then Some (if totalScore > line then WON else LOST)
          else if str_includes name ''under'' then Some (if totalScore < line then WON else LOST)
          else None)"

definition handicap_leg :: "leg_input \<Rightarrow> int \<Rightarrow> int \<Rightarrow> leg_result option" where
  "handicap_leg i homeScore awayScore =
     (case js_number_nullable (li_marketLine i) of
        None \<Rightarrow> None
      | Some line \<Rightarrow>
          let name = to_lower (li_selectionName i);
              homeName = to_lower (li_homeTeamName i);
              awayName = to_lower (li_awayTeamName i) in
          if str_includes name homeName then
            (let adjustedHome = of_int homeScore + line in
             if adjustedHome = of_int awayScore then Some VOID
             else Some (if adjustedHome > of_int awayScore then WON else LOST))
          else if str_includes name awayName then
            (let adjustedAway = of_int awayScore - line in
             if of_int homeScore = adjustedAway then Some VOID
             else Some (if adjustedAway > of_int homeScore then WON else LOST))
          else None)"

definition bothTeamsScore :: "leg_input \<Rightarrow> int \<Rightarrow> int \<Rightarrow> leg_result" where
  "bothTeamsScore i homeScore awayScore =
     (let bothScored = homeScore > 0 \<and> awayScore > 0;
          yes = str_includes (to_lower (li_selectionName i)) ''yes'';
          no = str_includes (to_lower (li_selectionName i)) ''no'' in
      if yes then (if bothScored then WON else LOST)
      else if no then (if bothScored then LOST else WON)
      else LOST)"

definition evaluate_leg :: "leg_input \<Rightarrow> leg_result option" where
  "evaluate_leg i =
     (if li_marketStatus i = Mk_VOID then Some VOID
      else case (li_homeScore i, li_awayScore i) of
        (Some homeScore, Some awayScore) \<Rightarrow>
          (case li_marketType i of
             MATCH_RESULT \<Rightarrow> Some (matchResult i homeScore awayScore)
           | TOTAL \<Rightarrow> total_leg i homeScore awayScore
           | HANDICAP \<Rightarrow> handicap_leg i homeScore awayScore
           | BOTH_TEAMS_SCORE \<Rightarrow> Some (bothTeamsScore i homeScore awayScore)
           | DOUBLE_CHANCE \<Rightarrow> None)
      | _ \<Rightarrow> None)"

subsection \<open>What a graded leg means\<close>

text \<open>
  The abstract grading rule: a selection is backed with a margin; a positive margin wins, zero
  is a push, a negative margin loses. Both sides of a two-way market carry opposite margins.
\<close>

definition grade_margin :: "rat \<Rightarrow> leg_result" where
  "grade_margin m = (if m = 0 then VOID else if m > 0 then WON else LOST)"

fun opposite :: "leg_result \<Rightarrow> leg_result" where
  "opposite WON = LOST"
| "opposite LOST = WON"
| "opposite VOID = VOID"

lemma grade_margin_uminus: "grade_margin (- m) = opposite (grade_margin m)"
  by (simp add: grade_margin_def)

lemma total_over:
  assumes "js_number_nullable (li_marketLine i) = Some line"
    and "str_includes (to_lower (li_selectionName i)) ''over''"
  shows "total_leg i h a = Some (grade_margin (of_int (h + a) - line))"
  using assms by (simp add: total_leg_def grade_margin_def Let_def)

lemma total_under:
  assumes "js_number_nullable (li_marketLine i) = Some line"
    and "\<not> str_includes (to_lower (li_selectionName i)) ''over''"
    and "str_includes (to_lower (li_selectionName i)) ''under''"
  shows "total_leg i h a = Some (grade_margin (line - of_int (h + a)))"
  using assms by (simp add: total_leg_def grade_margin_def Let_def)

lemma handicap_home:
  assumes "js_number_nullable (li_marketLine i) = Some line"
    and "str_includes (to_lower (li_selectionName i)) (to_lower (li_homeTeamName i))"
  shows "handicap_leg i h a = Some (grade_margin (of_int h + line - of_int a))"
  using assms by (simp add: handicap_leg_def grade_margin_def Let_def)

lemma handicap_away:
  assumes "js_number_nullable (li_marketLine i) = Some line"
    and "\<not> str_includes (to_lower (li_selectionName i)) (to_lower (li_homeTeamName i))"
    and "str_includes (to_lower (li_selectionName i)) (to_lower (li_awayTeamName i))"
  shows "handicap_leg i h a = Some (grade_margin (of_int a - (of_int h + line)))"
  using assms by (auto simp: handicap_leg_def grade_margin_def Let_def)

lemma evaluate_leg_scored:
  assumes "li_marketStatus i \<noteq> Mk_VOID" and "li_homeScore i = Some h" and "li_awayScore i = Some a"
  shows "li_marketType i = MATCH_RESULT \<Longrightarrow> evaluate_leg i = Some (matchResult i h a)"
    and "li_marketType i = TOTAL \<Longrightarrow> evaluate_leg i = total_leg i h a"
    and "li_marketType i = HANDICAP \<Longrightarrow> evaluate_leg i = handicap_leg i h a"
    and "li_marketType i = BOTH_TEAMS_SCORE \<Longrightarrow> evaluate_leg i = Some (bothTeamsScore i h a)"
    and "li_marketType i = DOUBLE_CHANCE \<Longrightarrow> evaluate_leg i = None"
  using assms by (simp_all add: evaluate_leg_def)

lemma evaluate_leg_void: "li_marketStatus i = Mk_VOID \<Longrightarrow> evaluate_leg i = Some VOID"
  by (simp add: evaluate_leg_def)

lemma evaluate_leg_unscored:
  "li_marketStatus i \<noteq> Mk_VOID \<Longrightarrow> li_homeScore i = None \<or> li_awayScore i = None \<Longrightarrow>
   evaluate_leg i = None"
  by (auto simp: evaluate_leg_def split: option.splits)

text \<open>The three names of a match-result market, as the code compares them.\<close>

definition result_names :: "leg_input \<Rightarrow> string list" where
  "result_names i =
     [''draw'', to_lower (trim (li_homeTeamName i)), to_lower (trim (li_awayTeamName i))]"

end
