(* ===== verification/LegSnapshot.thy ===== *)
theory LegSnapshot
  imports LegOutcome
begin

text \<open>
  \<open>modules/bets/bet-leg-snapshot.ts\<close>: the frozen copy of what the player bet on, how it is
  written to the columns of a leg and how it becomes the input of grading.
\<close>

record leg_snapshot =
  sn_marketType :: market_type
  sn_marketLine :: "string option"
  sn_homeTeamName :: string
  sn_awayTeamName :: string
  sn_eventProviderRef :: string
  sn_sportKey :: string
  sn_sportName :: string
  sn_leagueKey :: string
  sn_leagueName :: string

definition hasLegSnapshot :: "leg_row \<Rightarrow> bool" where
  "hasLegSnapshot leg \<longleftrightarrow>
     leg_marketType leg \<noteq> None \<and> leg_homeTeamName leg \<noteq> None \<and> leg_awayTeamName leg \<noteq> None"

text \<open>
  The snapshot columns of a new leg. The line is parsed when it is a non-empty text;
  \<open>new Decimal\<close> throws on a text that is not a number.
\<close>

definition snapshot_line :: "dec_lib \<Rightarrow> string option \<Rightarrow> rat option result" where
  "snapshot_line L line =
     (case line of
        None \<Rightarrow> Inr None
      | Some s \<Rightarrow>
          if s = [] then Inr None
          else (case dl_parse L s of
                  None \<Rightarrow> Inl (PlainError ''[DecimalError] Invalid argument'')
                | Some x \<Rightarrow> Inr (Some x)))"

definition legSnapshotCreateData :: "dec_lib \<Rightarrow> leg_snapshot \<Rightarrow> leg_row \<Rightarrow> leg_row result" where
  "legSnapshotCreateData L s leg =
     (case snapshot_line L (sn_marketLine s) of
        Inl e \<Rightarrow> Inl e
      | Inr line \<Rightarrow> Inr (leg\<lparr>
          leg_marketType := Some (sn_marketType s),
          leg_marketLine := line,
          leg_homeTeamName := Some (sn_homeTeamName s),
          leg_awayTeamName := Some (sn_awayTeamName s),
          leg_eventProviderRef := Some (sn_eventProviderRef s),
          leg_sportKey := Some (sn_sportKey s),
          leg_sportName := Some (sn_sportName s),
          leg_leagueKey := Some (sn_leagueKey s),
          leg_leagueName := Some (sn_leagueName s)\<rparr>))"

definition buildLegSettlementInput ::
  "leg_row \<Rightarrow> leg_snapshot \<Rightarrow> market_status \<Rightarrow> int option \<Rightarrow> int option \<Rightarrow> leg_input" where
  "buildLegSettlementInput leg s marketStatus homeScore awayScore = \<lparr>
     li_marketType = sn_marketType s,
     li_marketStatus = marketStatus,
     li_marketLine = sn_marketLine s,
     li_selectionName = leg_selectionName leg,
     li_homeTeamName = sn_homeTeamName s,
     li_awayTeamName = sn_awayTeamName s,
     li_homeScore = homeScore,
     li_awayScore = awayScore\<rparr>"

text \<open>The nullable line of a market or leg as \<open>toFixed(2)\<close> text.\<close>

definition line_text :: "dec_lib \<Rightarrow> rat option \<Rightarrow> string option" where
  "line_text L line = map_option (dl_fixed L 2) line"

text \<open>What freezing a snapshot does to the snapshot columns and leaves alone.\<close>

lemma legSnapshotCreateData_has:
  "legSnapshotCreateData L s leg = Inr leg' \<Longrightarrow> hasLegSnapshot leg'"
  by (auto simp: legSnapshotCreateData_def hasLegSnapshot_def split: sum.splits)

lemma legSnapshotCreateData_frame [frame]:
  assumes "legSnapshotCreateData L s leg = Inr leg'"
  shows "leg_id leg' = leg_id leg" "leg_betId leg' = leg_betId leg"
    "leg_selectionId leg' = leg_selectionId leg" "leg_marketId leg' = leg_marketId leg"
    "leg_eventId leg' = leg_eventId leg" "leg_selectionName leg' = leg_selectionName leg"
    "leg_priceAtPlacement leg' = leg_priceAtPlacement leg" "leg_legOrder leg' = leg_legOrder leg"
    "leg_outcome leg' = leg_outcome leg"
  using assms by (auto simp: legSnapshotCreateData_def split: sum.splits)

lemma line_text_number:
  assumes "dec_lib_ok L" and "exact20 x" and "places 2 x"
  shows "js_number_nullable (line_text L (Some x)) = Some x"
  using dec_lib_okD(3) [OF assms(1,2,3)] by (simp add: line_text_def js_number_nullable_def)

text \<open>A two-decimal line survives the way through text into the column.\<close>

lemma snapshot_line_text:
  assumes "dec_lib_ok L" and "\<And>x. line = Some x \<Longrightarrow> exact20 x \<and> places 2 x"
  shows "snapshot_line L (line_text L line) = Inr line"
proof (cases line)
  case None
  then show ?thesis by (simp add: snapshot_line_def line_text_def)
next
  case (Some x)
  with assms(2) have x: "exact20 x" "places 2 x" by auto
  have "dl_parse L (dl_fixed L 2 x) = Some x"
    using dec_lib_okD(4) [OF assms(1) x] by simp
  with Some dec_lib_okD(10) [OF assms(1)] show ?thesis
    by (simp add: snapshot_line_def line_text_def)
qed

end
