(* ===== verification/BetValidation.thy ===== *)
theory BetValidation
  imports LegSnapshot "HOL-Library.Monad_Syntax"
begin

text \<open>
  \<open>modules/bets/bet-validation.service.ts\<close> and \<open>modules/bets/dto/place-bet.dto.ts\<close>: what a
  bet request must satisfy and the quote it becomes.

  A selection is read with its market, event, fixture, teams, league and sport. These are
  required relations of the schema, so a stored selection always has them; \<open>load_selection\<close>
  returns \<open>None\<close> for a dangling reference, which the database's foreign keys exclude.
\<close>

record selection_ctx =
  sc_selection :: selection_row
  sc_market :: market_row
  sc_event :: event_row
  sc_homeName :: string
  sc_awayName :: string
  sc_league :: league_row
  sc_sport :: sport_row

record event_ctx =
  ec_event :: event_row
  ec_fixture :: fixture_row
  ec_homeName :: string
  ec_awayName :: string
  ec_league :: league_row
  ec_sport :: sport_row

definition load_event :: "db \<Rightarrow> string \<Rightarrow> event_ctx option" where
  "load_event d eventId =
     do { event \<leftarrow> find_event eventId d;
          fixture \<leftarrow> find_fixture (ev_fixtureId event) d;
          home \<leftarrow> find_team (fx_homeTeamId fixture) d;
          away \<leftarrow> find_team (fx_awayTeamId fixture) d;
          league \<leftarrow> find_league (fx_leagueId fixture) d;
          sport \<leftarrow> find_sport (lg_sportId league) d;
          Some \<lparr>ec_event = event, ec_fixture = fixture, ec_homeName = tm_name home,
                ec_awayName = tm_name away, ec_league = league, ec_sport = sport\<rparr> }"

definition load_selection :: "db \<Rightarrow> selection_row \<Rightarrow> selection_ctx option" where
  "load_selection d selection =
     do { market \<leftarrow> find_market (sl_marketId selection) d;
          e \<leftarrow> load_event d (mk_eventId market);
          Some \<lparr>sc_selection = selection, sc_market = market, sc_event = ec_event e,
                sc_homeName = ec_homeName e, sc_awayName = ec_awayName e,
                sc_league = ec_league e, sc_sport = ec_sport e\<rparr> }"

text \<open>\<open>league.groups: { where: { casinoGroupId, enabled: true } }\<close> is not empty.\<close>

definition league_offered :: "db \<Rightarrow> string \<Rightarrow> string \<Rightarrow> bool" where
  "league_offered d casinoGroupId leagueId \<longleftrightarrow>
     (\<exists>g \<in> set (db_groupLeagues d). gl_casinoGroupId g = casinoGroupId \<and>
        gl_leagueId g = leagueId \<and> gl_enabled g)"

record validated_leg =
  vl_selectionId :: string
  vl_marketId :: string
  vl_eventId :: string
  vl_selectionName :: string
  vl_price :: rat
  vl_snapshot :: leg_snapshot

record bet_quote =
  q_stake :: rat
  q_combinedOdds :: rat
  q_potentialPayout :: rat
  q_legs :: "validated_leg list"

subsection \<open>The request body\<close>

text \<open>\<open>/^\d+(\.\d{1,2})?$/\<close>\<close>

definition stake_text_ok :: "string \<Rightarrow> bool" where
  "stake_text_ok s \<longleftrightarrow>
     (let ip = takeWhile is_digit s; rest = dropWhile is_digit s in
      ip \<noteq> [] \<and>
      (rest = [] \<or>
       (hd rest = CHR ''.'' \<and> 1 \<le> length (tl rest) \<and> length (tl rest) \<le> 2 \<and>
        (\<forall>c \<in> set (tl rest). is_digit c))))"

definition PlaceBetDto_ok :: "string list \<Rightarrow> string \<Rightarrow> bool" where
  "PlaceBetDto_ok selectionIds stake \<longleftrightarrow>
     1 \<le> length selectionIds \<and> length selectionIds \<le> 12 \<and> stake_text_ok stake"

subsection \<open>Validation\<close>

definition parse_decimal :: "dec_lib \<Rightarrow> string \<Rightarrow> rat result" where
  "parse_decimal L s =
     (case dl_parse L s of
        None \<Rightarrow> Inl (PlainError ''[DecimalError] Invalid argument'')
      | Some x \<Rightarrow> Inr x)"

definition validate_leg :: "dec_lib \<Rightarrow> db \<Rightarrow> string \<Rightarrow> selection_ctx \<Rightarrow> validated_leg result" where
  "validate_leg L d casinoGroupId c =
     (let selection = sc_selection c; market = sc_market c; event = sc_event c in
      if \<not> league_offered d casinoGroupId (lg_id (sc_league c)) then
        Inl (NotFound ''Selection not available for this casino group'')
      else if sl_status selection \<noteq> Sl_OPEN then
        Inl (BadRequest (''Selection '' @ sl_name selection @ '' is not open for betting''))
      else if mk_status market \<noteq> Mk_OPEN then
        Inl (BadRequest ''Market is not open for betting'')
      else if ev_status event = Ev_ENDED \<or> ev_status event = Ev_CANCELLED \<or>
              ev_status event = Ev_SUSPENDED then
        Inl (BadRequest ''Event is not open for betting'')
      else Inr \<lparr>
        vl_selectionId = sl_id selection,
        vl_marketId = mk_id market,
        vl_eventId = mk_eventId market,
        vl_selectionName = sl_name selection,
        vl_price = sl_price selection,
        vl_snapshot = \<lparr>
          sn_marketType = mk_type market,
          sn_marketLine = line_text L (mk_line market),
          sn_homeTeamName = sc_homeName c,
          sn_awayTeamName = sc_awayName c,
          sn_eventProviderRef = ev_providerRef event,
          sn_sportKey = sp_key (sc_sport c),
          sn_sportName = sp_name (sc_sport c),
          sn_leagueKey = lg_key (sc_league c),
          sn_leagueName = lg_name (sc_league c)\<rparr>\<rparr>)"

fun validate_legs ::
  "dec_lib \<Rightarrow> db \<Rightarrow> string \<Rightarrow> selection_ctx list \<Rightarrow> validated_leg list result" where
  "validate_legs L d g [] = Inr []"
| "validate_legs L d g (c # cs) =
     (case validate_leg L d g c of
        Inl e \<Rightarrow> Inl e
      | Inr leg \<Rightarrow>
          (case validate_legs L d g cs of Inl e \<Rightarrow> Inl e | Inr legs \<Rightarrow> Inr (leg # legs)))"

definition read_selections :: "db \<Rightarrow> string list \<Rightarrow> selection_ctx list" where
  "read_selections d ids =
     List.map_filter (load_selection d) (row_filter (\<lambda>r. sl_id r \<in> set ids) (db_selections d))"

definition validatePlacement ::
  "env \<Rightarrow> string \<Rightarrow> string list \<Rightarrow> string \<Rightarrow> db \<Rightarrow> bet_quote result" where
  "validatePlacement E casinoGroupId selectionIds stakeRaw d =
     (let L = env_dec E; uniqueIds = remdups selectionIds in
      if length uniqueIds \<noteq> length selectionIds then
        Inl (BadRequest ''Duplicate selection ids are not allowed'')
      else case parse_decimal L stakeRaw of Inl e \<Rightarrow> Inl e | Inr stake \<Rightarrow>
      case parse_decimal L (env_BET_MIN_STAKE E) of Inl e \<Rightarrow> Inl e | Inr minStake \<Rightarrow>
      case parse_decimal L (env_BET_MAX_STAKE E) of Inl e \<Rightarrow> Inl e | Inr maxStake \<Rightarrow>
      if stake < minStake \<or> stake > maxStake then
        Inl (BadRequest (''Stake must be between '' @ dl_fixed L 2 minStake @ '' and '' @
               dl_fixed L 2 maxStake))
      else
      let selections = read_selections d uniqueIds in
      if length selections \<noteq> length uniqueIds then
        Inl (NotFound ''One or more selections were not found'')
      else case validate_legs L d casinoGroupId selections of Inl e \<Rightarrow> Inl e | Inr legs \<Rightarrow>
      let combinedOdds = combinedOddsFromPrices L (map vl_price legs);
          payout = potentialPayout L stake combinedOdds in
      case parse_decimal L (env_BET_MAX_PAYOUT E) of Inl e \<Rightarrow> Inl e | Inr maxPayout \<Rightarrow>
      if payout > maxPayout then
        Inl (BadRequest (''Potential payout exceeds maximum of '' @ dl_fixed L 2 maxPayout))
      else Inr \<lparr>q_stake = stake, q_combinedOdds = combinedOdds, q_potentialPayout = payout,
                q_legs = legs\<rparr>)"

subsection \<open>What a quote guarantees\<close>

text \<open>The conditions the code checks, as a specification of a leg that may be backed.\<close>

definition backable :: "db \<Rightarrow> string \<Rightarrow> selection_ctx \<Rightarrow> bool" where
  "backable d casinoGroupId c \<longleftrightarrow>
     league_offered d casinoGroupId (lg_id (sc_league c)) \<and>
     sl_status (sc_selection c) = Sl_OPEN \<and> mk_status (sc_market c) = Mk_OPEN \<and>
     ev_status (sc_event c) \<in> {Ev_SCHEDULED, Ev_LIVE}"

lemma validate_leg_Inr_iff: "(\<exists>leg. validate_leg L d g c = Inr leg) \<longleftrightarrow> backable d g c"
  by (cases "ev_status (sc_event c)") (auto simp: validate_leg_def backable_def Let_def)

lemma validate_leg_fields:
  assumes "validate_leg L d g c = Inr leg"
  shows "vl_selectionId leg = sl_id (sc_selection c)" "vl_price leg = sl_price (sc_selection c)"
    "vl_marketId leg = mk_id (sc_market c)" "vl_eventId leg = mk_eventId (sc_market c)"
    "sn_marketLine (vl_snapshot leg) = line_text L (mk_line (sc_market c))"
  using assms by (auto simp: validate_leg_def Let_def split: if_splits)

lemma validate_legs_Inr:
  "validate_legs L d g cs = Inr legs \<Longrightarrow> list_all2 (\<lambda>c leg. validate_leg L d g c = Inr leg) cs legs"
  by (induction cs arbitrary: legs) (auto split: sum.splits)

lemma validate_legs_backable:
  "validate_legs L d g cs = Inr legs \<Longrightarrow> \<forall>c \<in> set cs. backable d g c"
  using validate_legs_Inr validate_leg_Inr_iff by (fastforce simp: list_all2_conv_all_nth in_set_conv_nth)

lemma validate_legs_length: "validate_legs L d g cs = Inr legs \<Longrightarrow> length legs = length cs"
  by (drule validate_legs_Inr) (rule list_all2_lengthD [symmetric])

lemma validatePlacement_InrD:
  assumes "validatePlacement E g ids raw d = Inr q"
  obtains minStake maxStake maxPayout where
    "distinct ids"
    "dl_parse (env_dec E) raw = Some (q_stake q)"
    "dl_parse (env_dec E) (env_BET_MIN_STAKE E) = Some minStake"
    "dl_parse (env_dec E) (env_BET_MAX_STAKE E) = Some maxStake"
    "dl_parse (env_dec E) (env_BET_MAX_PAYOUT E) = Some maxPayout"
    "minStake \<le> q_stake q" "q_stake q \<le> maxStake" "q_potentialPayout q \<le> maxPayout"
    "length (read_selections d ids) = length ids"
    "validate_legs (env_dec E) d g (read_selections d ids) = Inr (q_legs q)"
    "q_combinedOdds q = combinedOddsFromPrices (env_dec E) (map vl_price (q_legs q))"
    "q_potentialPayout q = potentialPayout (env_dec E) (q_stake q) (q_combinedOdds q)"
proof -
  have d: "length (remdups ids) = length ids \<longleftrightarrow> distinct ids" by simp
  have r: "read_selections d (remdups ids) = read_selections d ids"
    by (simp add: read_selections_def)
  from assms obtain stake minStake maxStake maxPayout legs where
    f: "distinct ids" "dl_parse (env_dec E) raw = Some stake"
      "dl_parse (env_dec E) (env_BET_MIN_STAKE E) = Some minStake"
      "dl_parse (env_dec E) (env_BET_MAX_STAKE E) = Some maxStake"
      "dl_parse (env_dec E) (env_BET_MAX_PAYOUT E) = Some maxPayout"
      "\<not> stake < minStake" "\<not> maxStake < stake"
      "length (read_selections d ids) = length (remdups ids)"
      "validate_legs (env_dec E) d g (read_selections d ids) = Inr legs"
      "\<not> maxPayout < potentialPayout (env_dec E) stake
          (combinedOddsFromPrices (env_dec E) (map vl_price legs))"
    and q: "q = \<lparr>q_stake = stake,
        q_combinedOdds = combinedOddsFromPrices (env_dec E) (map vl_price legs),
        q_potentialPayout = potentialPayout (env_dec E) stake
          (combinedOddsFromPrices (env_dec E) (map vl_price legs)), q_legs = legs\<rparr>"
    unfolding validatePlacement_def parse_decimal_def Let_def r
    by (auto split: if_splits option.splits sum.splits)
  from f(1) have len: "length (remdups ids) = length ids" by (simp only: d)
  show ?thesis
    by (rule that [of minStake maxStake maxPayout]) (use f q len in simp_all)
qed

end
