(* ===== verification/WalletCode.thy ===== *)
theory WalletCode
  imports Schema
begin

text \<open>
  \<open>modules/wallet/wallet-transaction-code.ts\<close>, \<open>wallet-event-history.ts\<close> and
  \<open>wallet.constants.ts\<close>: the idempotency codes of wallet transactions and the numeric history
  id of an event. SHA-256 is the parameter \<open>env_sha\<close>, which returns the digest bytes.
\<close>

subsection \<open>Digests as hexadecimal text\<close>

definition hex_digit :: "nat \<Rightarrow> char" where
  "hex_digit n = (if n < 10 then char_of (48 + n) else char_of (87 + n))"

definition hex_byte :: "nat \<Rightarrow> string" where
  "hex_byte b = [hex_digit (b div 16), hex_digit (b mod 16)]"

definition hex_digest :: "env \<Rightarrow> string \<Rightarrow> string" where
  "hex_digest E text = concat (map hex_byte (env_sha E text))"

text \<open>\<open>s.slice(a, b)\<close> for \<open>a \<le> b\<close>.\<close>

definition slice :: "nat \<Rightarrow> nat \<Rightarrow> string \<Rightarrow> string" where
  "slice a b s = take (b - a) (drop a s)"

text \<open>The documented shape of a SHA-256 digest: 32 bytes.\<close>

definition sha_ok :: "env \<Rightarrow> bool" where
  "sha_ok E \<longleftrightarrow> (\<forall>t. length (env_sha E t) = 32 \<and> (\<forall>b \<in> set (env_sha E t). b < 256))"

subsection \<open>Transaction codes\<close>

fun outcome_text :: "bet_status \<Rightarrow> string" where
  "outcome_text Bet_PENDING = ''PENDING''"
| "outcome_text Bet_ACCEPTED = ''ACCEPTED''"
| "outcome_text Bet_REJECTED = ''REJECTED''"
| "outcome_text Bet_WON = ''WON''"
| "outcome_text Bet_LOST = ''LOST''"
| "outcome_text Bet_VOID = ''VOID''"

definition uuid_shape :: "char \<Rightarrow> string \<Rightarrow> string" where
  "uuid_shape v digest = join_with ''-''
     [slice 0 8 digest, slice 8 12 digest, CHR ''4'' # slice 12 15 digest,
      v # slice 15 18 digest, slice 18 30 digest]"

definition settlementTransactionCode :: "env \<Rightarrow> string \<Rightarrow> bet_status \<Rightarrow> string" where
  "settlementTransactionCode E betId outcome =
     uuid_shape (CHR ''a'')
       (hex_digest E (''settlement:'' @ outcome_text outcome @ '':'' @ betId))"

definition staffVoidTransactionCode :: "env \<Rightarrow> string \<Rightarrow> string" where
  "staffVoidTransactionCode E betId =
     uuid_shape (CHR ''b'') (hex_digest E (''staff-void:'' @ betId))"

lemma length_hex_digest: "sha_ok E \<Longrightarrow> length (hex_digest E t) = 64"
proof -
  assume "sha_ok E"
  then have "length (env_sha E t) = 32" by (simp add: sha_ok_def)
  moreover have "length (concat (map hex_byte bs)) = 2 * length bs" for bs
    by (induction bs) (simp_all add: hex_byte_def)
  ultimately show ?thesis by (simp add: hex_digest_def)
qed

lemma uuid_shape_layout:
  assumes "length d = 64"
  shows "length (uuid_shape v d) = 36" and "uuid_shape v d ! 19 = v"
    and "uuid_shape v d ! 14 = CHR ''4''"
  using assms by (simp_all add: uuid_shape_def slice_def nth_append)

subsection \<open>History ids\<close>

definition WALLET_VENDOR_CODE :: string where
  "WALLET_VENDOR_CODE = ''sportsbook''"

definition WALLET_GAME_TYPE :: nat where
  "WALLET_GAME_TYPE = 3"

definition WALLET_UNKNOWN_GAME_CODE :: string where
  "WALLET_UNKNOWN_GAME_CODE = ''sportsbook_unknown''"

definition eventWalletHistoryId :: "env \<Rightarrow> string \<Rightarrow> nat" where
  "eventWalletHistoryId E eventId =
     foldl (\<lambda>value b. value * 2 ^ 8 + b) 0 (take 6 (env_sha E (''wallet-history:'' @ eventId)))"

lemma foldl_bytes_bound:
  assumes "\<forall>b \<in> set bs. b < 256" and "v < 256 ^ k"
  shows "foldl (\<lambda>value b. value * 2 ^ 8 + b) v bs < (256::nat) ^ (k + length bs)"
  using assms
proof (induction bs arbitrary: v k)
  case Nil
  then show ?case by simp
next
  case (Cons b bs)
  have "v * 2 ^ 8 + b < 256 ^ Suc k"
  proof -
    from Cons.prems have "v + 1 \<le> 256 ^ k" and "b < 256" by auto
    then have "(v + 1) * 256 \<le> 256 ^ k * 256" by (intro mult_le_mono1)
    with \<open>b < 256\<close> show ?thesis by (simp add: algebra_simps)
  qed
  with Cons.IH [of "v * 2 ^ 8 + b" "Suc k"] Cons.prems show ?case by simp
qed

lemma eventWalletHistoryId_bound: "sha_ok E \<Longrightarrow> eventWalletHistoryId E e < 2 ^ 48"
proof -
  assume "sha_ok E"
  then have b: "\<forall>b \<in> set (env_sha E t). b < 256" and l: "length (env_sha E t) = 32" for t
    by (auto simp: sha_ok_def)
  have "eventWalletHistoryId E e < 256 ^ (0 + length (take 6 (env_sha E (''wallet-history:'' @ e))))"
    unfolding eventWalletHistoryId_def
    using b by (intro foldl_bytes_bound) (auto dest: in_set_takeD)
  also have "\<dots> = 2 ^ 48" using l by simp
  finally show ?thesis .
qed

end
