(* ===== verification/WalletTx.thy ===== *)
theory WalletTx
  imports WalletCode
begin

text \<open>
  \<open>modules/wallet/wallet-transaction.builder.ts\<close> and \<open>wallet-outbox.types.ts\<close>: the wallet
  transactions of a bet (placement debit, settlement, staff void), their human-readable
  detail, the body sent to the merchant, and the stored form kept in the outbox payload.
\<close>

subsection \<open>Outbox types\<close>

definition WALLET_OUTBOX_DEBIT :: string where
  "WALLET_OUTBOX_DEBIT = ''WALLET_RESERVE''"

definition WALLET_OUTBOX_SETTLE :: string where
  "WALLET_OUTBOX_SETTLE = ''WALLET_SETTLE''"

definition WALLET_OUTBOX_STAFF_VOID :: string where
  "WALLET_OUTBOX_STAFF_VOID = ''WALLET_STAFF_VOID''"

lemma outbox_types_distinct [simp]:
  "WALLET_OUTBOX_DEBIT \<noteq> WALLET_OUTBOX_SETTLE" "WALLET_OUTBOX_SETTLE \<noteq> WALLET_OUTBOX_DEBIT"
  "WALLET_OUTBOX_DEBIT \<noteq> WALLET_OUTBOX_STAFF_VOID" "WALLET_OUTBOX_STAFF_VOID \<noteq> WALLET_OUTBOX_DEBIT"
  "WALLET_OUTBOX_SETTLE \<noteq> WALLET_OUTBOX_STAFF_VOID" "WALLET_OUTBOX_STAFF_VOID \<noteq> WALLET_OUTBOX_SETTLE"
  by (simp_all add: WALLET_OUTBOX_DEBIT_def WALLET_OUTBOX_SETTLE_def WALLET_OUTBOX_STAFF_VOID_def)

definition serializeWalletTransaction :: "wallet_tx \<Rightarrow> stored_tx" where
  "serializeWalletTransaction r = \<lparr>
     st_userCode = tx_userCode r, st_casinoGroupId = tx_casinoGroupId r,
     st_roundId = tx_roundId r, st_transactionCode = tx_transactionCode r,
     st_historyId = tx_historyId r, st_gameCode = tx_gameCode r, st_gameType = tx_gameType r,
     st_isFinished = tx_isFinished r, st_isCanceled = tx_isCanceled r,
     st_amount = tx_amount r, st_detail = tx_detail r, st_createdAt = ISO (tx_createdAt r)\<rparr>"

fun parse_iso :: "iso_date \<Rightarrow> int" where
  "parse_iso (ISO t) = t"

definition deserializeWalletTransaction :: "stored_tx \<Rightarrow> wallet_tx" where
  "deserializeWalletTransaction r = \<lparr>
     tx_userCode = st_userCode r, tx_casinoGroupId = st_casinoGroupId r,
     tx_roundId = st_roundId r, tx_transactionCode = st_transactionCode r,
     tx_historyId = st_historyId r, tx_gameCode = st_gameCode r, tx_gameType = st_gameType r,
     tx_isFinished = st_isFinished r, tx_isCanceled = st_isCanceled r,
     tx_amount = st_amount r, tx_detail = st_detail r, tx_createdAt = parse_iso (st_createdAt r)\<rparr>"

lemma deserialize_serialize [simp]:
  "deserializeWalletTransaction (serializeWalletTransaction r) = r"
  by (simp add: serializeWalletTransaction_def deserializeWalletTransaction_def)

lemma serialize_deserialize [simp]:
  "serializeWalletTransaction (deserializeWalletTransaction s) = s"
  by (cases "st_createdAt s") (simp add: serializeWalletTransaction_def deserializeWalletTransaction_def)

subsection \<open>Details\<close>

text \<open>The separator of the details, a middle dot (two UTF-8 bytes) between spaces.\<close>

definition dot_sep :: string where
  "dot_sep = [CHR '' '', CHR 0xC2, CHR 0xB7, CHR '' '']"

definition or_else :: "'a option \<Rightarrow> 'a option \<Rightarrow> 'a \<Rightarrow> 'a" where
  "or_else a b c = (case a of Some x \<Rightarrow> x | None \<Rightarrow> (case b of Some y \<Rightarrow> y | None \<Rightarrow> c))"

text \<open>
  \<open>[...legs].sort(...)[0]!\<close>: the first leg in leg order. A bet has a leg; without one the code
  reads a property of \<open>undefined\<close>, a TypeError.
\<close>

definition primaryLeg :: "leg_row list \<Rightarrow> leg_row result" where
  "primaryLeg legs =
     (case sort_legs legs of
        [] \<Rightarrow> Inl (PlainError ''TypeError: leg is undefined'')
      | leg # _ \<Rightarrow> Inr leg)"

definition gameCode_of_leg :: "leg_row \<Rightarrow> string" where
  "gameCode_of_leg leg =
     (let key = (case leg_leagueKey leg of None \<Rightarrow> [] | Some k \<Rightarrow> trim k)
      in if key = [] then WALLET_UNKNOWN_GAME_CODE else key)"

definition gameCodeFromLegs :: "leg_row list \<Rightarrow> string result" where
  "gameCodeFromLegs legs =
     (case primaryLeg legs of Inl e \<Rightarrow> Inl e | Inr leg \<Rightarrow> Inr (gameCode_of_leg leg))"

definition historyIdFromLegs :: "env \<Rightarrow> leg_row list \<Rightarrow> nat result" where
  "historyIdFromLegs E legs =
     (case primaryLeg legs of
        Inl e \<Rightarrow> Inl e | Inr leg \<Rightarrow> Inr (eventWalletHistoryId E (leg_eventId leg)))"

definition formatMarketType :: "market_type option \<Rightarrow> string" where
  "formatMarketType mt =
     (case mt of None \<Rightarrow> ''market'' | Some t \<Rightarrow> replace_char (CHR ''_'') '' '' (market_type_text t))"

definition legLine :: "dec_lib \<Rightarrow> leg_row \<Rightarrow> string" where
  "legLine L leg =
     (let sport = or_else (leg_sportName leg) (leg_sportKey leg) ''Sport'';
          league = or_else (leg_leagueName leg) (leg_leagueKey leg) ''League'';
          matchup = or_else (leg_homeTeamName leg) None ''?'' @ '' vs '' @
                    or_else (leg_awayTeamName leg) None ''?'';
          market = formatMarketType (leg_marketType leg);
          line = (case leg_marketLine leg of None \<Rightarrow> [] | Some x \<Rightarrow> CHR '' '' # decimalToString L x)
      in sport @ dot_sep @ league @ dot_sep @ matchup @ dot_sep @ market @ line @ dot_sep @
         leg_selectionName leg @ '' @ '' @ decimalToString L (leg_priceAtPlacement leg))"

definition buildPlacementDetail :: "dec_lib \<Rightarrow> bet_row \<Rightarrow> leg_row list \<Rightarrow> string" where
  "buildPlacementDetail L bet legs =
     (let stake = decimalToString L (bet_stake bet);
          tail = dot_sep @ ''stake '' @ stake @ '' '' @ bet_currency bet in
      case sort_legs legs of
        [leg] \<Rightarrow> legLine L leg @ tail
      | ordered \<Rightarrow>
          join_with dot_sep
            (map (\<lambda>(index, leg). ''('' @ show_nat (index + 1) @ '') '' @ legLine L leg)
              (enumerate 0 ordered)) @ tail)"

definition buildSettlementDetail ::
  "dec_lib \<Rightarrow> bet_row \<Rightarrow> leg_row list \<Rightarrow> bet_status \<Rightarrow> rat \<Rightarrow> string result" where
  "buildSettlementDetail L bet legs outcome payoutAmount =
     (case primaryLeg legs of
        Inl e \<Rightarrow> Inl e
      | Inr primary \<Rightarrow>
          let sport = or_else (leg_sportName primary) (leg_sportKey primary) ''Sport'';
              league = or_else (leg_leagueName primary) (leg_leagueKey primary) ''League'';
              matchup = or_else (leg_homeTeamName primary) None ''?'' @ '' vs '' @
                        or_else (leg_awayTeamName primary) None ''?'';
              payout = decimalToString L payoutAmount;
              prefix = sport @ dot_sep @ league @ dot_sep @ matchup @ dot_sep;
              slip = dot_sep @ ''slip '' @ bet_id bet in
          Inr (if outcome = Bet_WON then
                 prefix @ ''Bet WON'' @ dot_sep @ ''payout '' @ payout @ '' '' @ bet_currency bet @ slip
               else if outcome = Bet_VOID then
                 prefix @ ''Bet VOID'' @ dot_sep @ ''stake refund '' @ payout @ '' '' @
                   bet_currency bet @ slip
               else prefix @ ''Bet LOST'' @ slip))"

subsection \<open>Transactions\<close>

definition buildBetDebitTransaction ::
  "env \<Rightarrow> bet_row \<Rightarrow> leg_row list \<Rightarrow> string \<Rightarrow> wallet_tx result" where
  "buildBetDebitTransaction E bet legs transactionCode =
     (let L = env_dec E; stake = decimalToString L (bet_stake bet) in
      case historyIdFromLegs E legs of
        Inl e \<Rightarrow> Inl e
      | Inr historyId \<Rightarrow>
      case gameCodeFromLegs legs of
        Inl e \<Rightarrow> Inl e
      | Inr gameCode \<Rightarrow> Inr \<lparr>
          tx_userCode = bet_username bet,
          tx_casinoGroupId = bet_casinoGroupId bet,
          tx_roundId = bet_id bet,
          tx_transactionCode = transactionCode,
          tx_historyId = historyId,
          tx_gameCode = gameCode,
          tx_gameType = WALLET_GAME_TYPE,
          tx_isFinished = False,
          tx_isCanceled = False,
          tx_amount = CHR ''-'' # stake,
          tx_detail = buildPlacementDetail L bet legs,
          tx_createdAt = bet_createdAt bet\<rparr>)"

definition buildSettlementTransaction ::
  "env \<Rightarrow> bet_row \<Rightarrow> leg_row list \<Rightarrow> bet_status \<Rightarrow> rat \<Rightarrow> string \<Rightarrow> int \<Rightarrow> wallet_tx result" where
  "buildSettlementTransaction E bet legs outcome payoutAmount transactionCode now =
     (let L = env_dec E;
          isVoid = (outcome = Bet_VOID);
          isFinished = (outcome = Bet_WON \<or> outcome = Bet_LOST \<or> isVoid);
          amount = (if outcome = Bet_LOST then ''0'' else decimalToString L payoutAmount) in
      case historyIdFromLegs E legs of
        Inl e \<Rightarrow> Inl e
      | Inr historyId \<Rightarrow>
      case gameCodeFromLegs legs of
        Inl e \<Rightarrow> Inl e
      | Inr gameCode \<Rightarrow>
      case buildSettlementDetail L bet legs outcome payoutAmount of
        Inl e \<Rightarrow> Inl e
      | Inr detail \<Rightarrow> Inr \<lparr>
          tx_userCode = bet_username bet,
          tx_casinoGroupId = bet_casinoGroupId bet,
          tx_roundId = bet_id bet,
          tx_transactionCode = transactionCode,
          tx_historyId = historyId,
          tx_gameCode = gameCode,
          tx_gameType = WALLET_GAME_TYPE,
          tx_isFinished = isFinished,
          tx_isCanceled = isVoid,
          tx_amount = amount,
          tx_detail = detail,
          tx_createdAt = now\<rparr>)"

lemma primaryLeg_Inr: "legs \<noteq> [] \<Longrightarrow> \<exists>leg \<in> set legs. primaryLeg legs = Inr leg"
proof -
  assume "legs \<noteq> []"
  then obtain l ls where s: "sort_legs legs = l # ls"
    by (cases "sort_legs legs") (auto simp: sort_legs_def dest: arg_cong [where f = length])
  have "set (sort_legs legs) = set legs" by (simp add: sort_legs_def)
  with s have "l \<in> set legs" by auto
  with s show ?thesis by (auto simp: primaryLeg_def)
qed

lemma buildBetDebitTransaction_total:
  "legs \<noteq> [] \<Longrightarrow> \<exists>t. buildBetDebitTransaction E bet legs code = Inr t"
  using primaryLeg_Inr [of legs]
  by (auto simp: buildBetDebitTransaction_def historyIdFromLegs_def gameCodeFromLegs_def Let_def)

lemma buildBetDebitTransaction_fields:
  assumes "buildBetDebitTransaction E bet legs code = Inr t"
  shows "tx_userCode t = bet_username bet" "tx_casinoGroupId t = bet_casinoGroupId bet"
    "tx_roundId t = bet_id bet" "tx_transactionCode t = code"
    "tx_amount t = CHR ''-'' # dl_show (env_dec E) (bet_stake bet)"
    "\<not> tx_isFinished t" "\<not> tx_isCanceled t"
  using assms
  by (auto simp: buildBetDebitTransaction_def decimalToString_def Let_def split: sum.splits)

lemma buildSettlementTransaction_total:
  "legs \<noteq> [] \<Longrightarrow> \<exists>t. buildSettlementTransaction E bet legs out p code now = Inr t"
  using primaryLeg_Inr [of legs]
  by (auto simp: buildSettlementTransaction_def historyIdFromLegs_def gameCodeFromLegs_def
      buildSettlementDetail_def Let_def)

lemma buildSettlementTransaction_fields:
  assumes "buildSettlementTransaction E bet legs out p code now = Inr t"
  shows "tx_userCode t = bet_username bet" "tx_casinoGroupId t = bet_casinoGroupId bet"
    "tx_roundId t = bet_id bet" "tx_transactionCode t = code"
    "tx_amount t = (if out = Bet_LOST then ''0'' else dl_show (env_dec E) p)"
    "tx_isFinished t = (out = Bet_WON \<or> out = Bet_LOST \<or> out = Bet_VOID)"
    "tx_isCanceled t = (out = Bet_VOID)"
  using assms
  by (auto simp: buildSettlementTransaction_def decimalToString_def Let_def split: sum.splits)

subsection \<open>The body sent to the merchant\<close>

text \<open>
  \<open>Number.parseFloat\<close>: the longest numeric prefix after white space. The amounts are the texts
  above, at most 15 significant digits, which a double and its shortest text carry exactly.
\<close>

definition parse_float :: "string \<Rightarrow> rat option" where
  "parse_float s =
     (let t = dropWhile is_space s;
          neg = (t \<noteq> [] \<and> hd t = CHR ''-'');
          u = (if t \<noteq> [] \<and> (hd t = CHR ''-'' \<or> hd t = CHR ''+'') then tl t else t);
          ip = takeWhile is_digit u;
          rest = dropWhile is_digit u;
          fp = (if rest \<noteq> [] \<and> hd rest = CHR ''.'' then takeWhile is_digit (tl rest) else []) in
      if ip = [] \<and> fp = [] then None
      else (let v = of_nat (nat_of_digits (ip @ fp)) / 10 ^ length fp
            in Some (if neg then - v else v)))"

record merchant_body =
  mb_userCode :: string
  mb_vendorCode :: string
  mb_gameCode :: string
  mb_historyId :: nat
  mb_roundId :: string
  mb_gameType :: nat
  mb_transactionCode :: string
  mb_isFinished :: bool
  mb_isCanceled :: bool
  mb_amount :: "rat option"
  mb_detail :: string
  mb_createdAt :: iso_date

definition toMerchantTransactionBody :: "wallet_tx \<Rightarrow> merchant_body" where
  "toMerchantTransactionBody r = \<lparr>
     mb_userCode = tx_userCode r,
     mb_vendorCode = WALLET_VENDOR_CODE,
     mb_gameCode = tx_gameCode r,
     mb_historyId = tx_historyId r,
     mb_roundId = tx_roundId r,
     mb_gameType = tx_gameType r,
     mb_transactionCode = tx_transactionCode r,
     mb_isFinished = tx_isFinished r,
     mb_isCanceled = tx_isCanceled r,
     mb_amount = parse_float (tx_amount r),
     mb_detail = tx_detail r,
     mb_createdAt = ISO (tx_createdAt r)\<rparr>"

end
