(* ===== verification/WalletPort.thy ===== *)
theory WalletPort
  imports WalletTx
begin

text \<open>
  The wallet behind \<open>WalletPort\<close>: what the betting service may assume of it (the locale
  \<open>wallet_ledger\<close>), and the in-memory wallet of \<open>modules/wallet/wallet-stub.client.ts\<close>, which
  provides it.
\<close>

subsection \<open>Ledger effect of one transaction\<close>

text \<open>
  A ledger is the balance of every user and the set of transaction codes applied so far. A
  transaction is applied once per code: \<open>credit a b\<close> is the balance \<open>b\<close> after the amount
  text \<open>a\<close>.
\<close>

type_synonym ledger = "(string \<Rightarrow> rat) \<times> string set"

definition apply_tx :: "(string \<Rightarrow> rat \<Rightarrow> rat) \<Rightarrow> ledger \<Rightarrow> wallet_tx \<Rightarrow> ledger" where
  "apply_tx credit g t =
     (if tx_transactionCode t \<in> snd g then g
      else ((fst g)(tx_userCode t := credit (tx_amount t) (fst g (tx_userCode t))),
            insert (tx_transactionCode t) (snd g)))"

lemma apply_tx_seen [simp]: "snd (apply_tx c g t) = insert (tx_transactionCode t) (snd g)"
  by (auto simp: apply_tx_def)

lemma apply_tx_known [simp]: "tx_transactionCode t \<in> snd g \<Longrightarrow> apply_tx c g t = g"
  by (simp add: apply_tx_def)

lemma apply_tx_other_user [simp]:
  "u \<noteq> tx_userCode t \<Longrightarrow> fst (apply_tx c g t) u = fst g u"
  by (simp add: apply_tx_def)

lemma foldl_apply_seen:
  "snd (foldl (apply_tx c) g ts) = snd g \<union> tx_transactionCode ` set ts"
  by (induction ts arbitrary: g) auto

lemma foldl_apply_known:
  "(\<And>t. t \<in> set ts \<Longrightarrow> tx_transactionCode t \<in> snd g) \<Longrightarrow> foldl (apply_tx c) g ts = g"
  by (induction ts) auto

subsection \<open>The contract of the wallet\<close>

text \<open>
  What the service relies on: a posted transaction is applied at most once per code, whether
  the call returns or fails (a lost answer may hide an applied transaction); after a success
  it is applied; after a refusal for lack of funds it is not. A batch applies a prefix of its
  transactions and, after a success, all of them. Reading a balance changes nothing.
\<close>

locale wallet_ledger =
  fixes port :: "'w wallet_port"
    and view :: "'w \<Rightarrow> ledger"
    and credit :: "string \<Rightarrow> rat \<Rightarrow> rat"
  assumes post_effect: "wp_postTransaction port t w = (r, w') \<Longrightarrow>
      view w' = view w \<or> view w' = apply_tx credit (view w) t"
    and post_ok: "wp_postTransaction port t w = (Inr x, w') \<Longrightarrow>
      view w' = apply_tx credit (view w) t"
    and post_refused: "wp_postTransaction port t w = (Inl (WalletReserveError m INSUFFICIENT_FUNDS), w') \<Longrightarrow>
      view w' = view w \<and> tx_transactionCode t \<notin> snd (view w)"
    and batch_effect: "wp_postTransactionBatch port g b ts w = (r, w') \<Longrightarrow>
      \<exists>n. view w' = foldl (apply_tx credit) (view w) (take n ts)"
    and batch_ok: "wp_postTransactionBatch port g b ts w = (Inr x, w') \<Longrightarrow>
      view w' = foldl (apply_tx credit) (view w) ts"
    and balance_effect: "wp_getBalance port u g w = (rb, w') \<Longrightarrow> view w' = view w"
begin

lemma post_seen_mono: "wp_postTransaction port t w = (r, w') \<Longrightarrow> snd (view w) \<subseteq> snd (view w')"
  using post_effect by fastforce

lemma post_seen_bound:
  "wp_postTransaction port t w = (r, w') \<Longrightarrow>
   snd (view w') \<subseteq> insert (tx_transactionCode t) (snd (view w))"
  using post_effect by fastforce

lemma post_ok_seen: "wp_postTransaction port t w = (Inr x, w') \<Longrightarrow> tx_transactionCode t \<in> snd (view w')"
  using post_ok by fastforce

lemma post_known: "wp_postTransaction port t w = (r, w') \<Longrightarrow>
  tx_transactionCode t \<in> snd (view w) \<Longrightarrow> view w' = view w"
  using post_effect by fastforce

text \<open>Posting the same transaction twice has the effect of posting it once.\<close>

lemma post_twice:
  assumes "wp_postTransaction port t w = (Inr x, w1)" and "wp_postTransaction port t w1 = (r, w2)"
  shows "view w2 = view w1"
  using post_known [OF assms(2)] post_ok_seen [OF assms(1)] by blast

lemma batch_seen_mono:
  "wp_postTransactionBatch port g b ts w = (r, w') \<Longrightarrow> snd (view w) \<subseteq> snd (view w')"
  using batch_effect by (fastforce simp: foldl_apply_seen)

lemma batch_ok_seen:
  "wp_postTransactionBatch port g b ts w = (Inr x, w') \<Longrightarrow> t \<in> set ts \<Longrightarrow>
   tx_transactionCode t \<in> snd (view w')"
  using batch_ok by (fastforce simp: foldl_apply_seen)

lemma batch_seen_bound:
  "wp_postTransactionBatch port g b ts w = (r, w') \<Longrightarrow>
   snd (view w') \<subseteq> snd (view w) \<union> tx_transactionCode ` set ts"
  using batch_effect by (fastforce simp: foldl_apply_seen dest: in_set_takeD)

end

subsection \<open>The in-memory wallet\<close>

record stub =
  sb_balances :: "string \<Rightarrow> rat option"
  sb_postedCodes :: "string set"

definition empty_stub :: stub where
  "empty_stub = \<lparr>sb_balances = (\<lambda>_. None), sb_postedCodes = {}\<rparr>"

definition decimal_error :: api_error where
  "decimal_error = PlainError ''[DecimalError] Invalid argument''"

text \<open>\<open>balanceFor\<close>: an unknown user starts with the configured balance.\<close>

definition balanceFor :: "env \<Rightarrow> string \<Rightarrow> stub \<Rightarrow> rat result" where
  "balanceFor E userCode w =
     (case sb_balances w userCode of
        Some b \<Rightarrow> Inr b
      | None \<Rightarrow> (case dl_parse (env_dec E) (env_WALLET_STUB_BALANCE E) of
                   None \<Rightarrow> Inl decimal_error
                 | Some initial \<Rightarrow> Inr initial))"

text \<open>The balance as a number, for the ledger: 0 where \<open>balanceFor\<close> throws.\<close>

definition stub_balance :: "env \<Rightarrow> string \<Rightarrow> stub \<Rightarrow> rat" where
  "stub_balance E userCode w = (case balanceFor E userCode w of Inl e \<Rightarrow> 0 | Inr b \<Rightarrow> b)"

definition insufficient :: api_error where
  "insufficient = WalletReserveError ''Insufficient balance'' INSUFFICIENT_FUNDS"

definition stub_getBalance ::
  "env \<Rightarrow> string \<Rightarrow> string \<Rightarrow> stub \<Rightarrow> (string \<times> string) result \<times> stub" where
  "stub_getBalance E userCode casinoGroupId w =
     (case balanceFor E userCode w of
        Inl e \<Rightarrow> (Inl e, w)
      | Inr balance \<Rightarrow> (Inr (dl_fixed (env_dec E) 2 balance, ''USD''), w))"

definition stub_postTransaction :: "env \<Rightarrow> wallet_tx \<Rightarrow> stub \<Rightarrow> string result \<times> stub" where
  "stub_postTransaction E request w =
     (let L = env_dec E; code = tx_transactionCode request; user = tx_userCode request in
      if code \<in> sb_postedCodes w then (Inr code, w)
      else case dl_parse L (tx_amount request) of
        None \<Rightarrow> (Inl decimal_error, w)
      | Some amount \<Rightarrow>
      case balanceFor E user w of
        Inl e \<Rightarrow> (Inl e, w)
      | Inr balance \<Rightarrow>
          if amount < 0 then
            (let stake = \<bar>amount\<bar> in
             case stakeLessOrEqualBalance L stake (dl_fixed L 2 balance) of
               Inl e \<Rightarrow> (Inl e, w)
             | Inr enough \<Rightarrow>
                 if \<not> enough then (Inl insufficient, w)
                 else (Inr code, w\<lparr>sb_balances := (sb_balances w)(user \<mapsto> dl_minus L balance stake),
                                   sb_postedCodes := insert code (sb_postedCodes w)\<rparr>))
          else if amount > 0 then
            (Inr code, w\<lparr>sb_balances := (sb_balances w)(user \<mapsto> dl_plus L balance amount),
                         sb_postedCodes := insert code (sb_postedCodes w)\<rparr>)
          else (Inr code, w\<lparr>sb_postedCodes := insert code (sb_postedCodes w)\<rparr>))"

fun stub_post_all :: "env \<Rightarrow> wallet_tx list \<Rightarrow> stub \<Rightarrow> unit result \<times> stub" where
  "stub_post_all E [] w = (Inr (), w)"
| "stub_post_all E (t # ts) w =
     (case stub_postTransaction E t w of
        (Inl e, w') \<Rightarrow> (Inl e, w')
      | (Inr x, w') \<Rightarrow> stub_post_all E ts w')"

definition stub_postTransactionBatch ::
  "env \<Rightarrow> string \<Rightarrow> string \<Rightarrow> wallet_tx list \<Rightarrow> stub \<Rightarrow> string result \<times> stub" where
  "stub_postTransactionBatch E casinoGroupId batchId transactions w =
     (case stub_post_all E transactions w of
        (Inl e, w') \<Rightarrow> (Inl e, w')
      | (Inr u, w') \<Rightarrow> (Inr batchId, w'))"

definition stub_port :: "env \<Rightarrow> stub wallet_port" where
  "stub_port E = \<lparr> wp_getBalance = stub_getBalance E,
     wp_postTransaction = stub_postTransaction E,
     wp_postTransactionBatch = stub_postTransactionBatch E \<rparr>"

text \<open>The ledger the in-memory wallet keeps.\<close>

definition stub_view :: "env \<Rightarrow> stub \<Rightarrow> ledger" where
  "stub_view E w = ((\<lambda>u. stub_balance E u w), sb_postedCodes w)"

definition stub_credit :: "env \<Rightarrow> string \<Rightarrow> rat \<Rightarrow> rat" where
  "stub_credit E a b =
     (case dl_parse (env_dec E) a of
        None \<Rightarrow> b
      | Some x \<Rightarrow> if x < 0 then dl_minus (env_dec E) b \<bar>x\<bar>
                 else if x > 0 then dl_plus (env_dec E) b x else b)"

lemma stub_post_cases:
  assumes "stub_postTransaction E t w = (r, w')"
  shows "(r = Inr (tx_transactionCode t) \<and> stub_view E w' = apply_tx (stub_credit E) (stub_view E w) t)
       \<or> (\<exists>e. r = Inl e \<and> w' = w \<and> tx_transactionCode t \<notin> sb_postedCodes w)"
  using assms
  by (auto simp: stub_postTransaction_def stub_view_def apply_tx_def stub_credit_def stub_balance_def
      balanceFor_def Let_def fun_eq_iff split: if_splits option.splits sum.splits)

lemma stub_post_all_cases:
  assumes "stub_post_all E ts w = (r, w')"
  shows "\<exists>n. stub_view E w' = foldl (apply_tx (stub_credit E)) (stub_view E w) (take n ts) \<and>
             (r = Inr () \<longrightarrow> n = length ts)"
  using assms
proof (induction ts arbitrary: w)
  case Nil
  then show ?case by auto
next
  case (Cons t ts)
  obtain r1 w1 where p: "stub_postTransaction E t w = (r1, w1)"
    by (cases "stub_postTransaction E t w")
  from stub_post_cases [OF p] consider
      (ok) "r1 = Inr (tx_transactionCode t)"
           "stub_view E w1 = apply_tx (stub_credit E) (stub_view E w) t"
    | (fail) e where "r1 = Inl e" "w1 = w"
    by blast
  then show ?case
  proof cases
    case ok
    with Cons.prems p have "stub_post_all E ts w1 = (r, w')" by simp
    from Cons.IH [OF this] obtain n where
      "stub_view E w' = foldl (apply_tx (stub_credit E)) (stub_view E w1) (take n ts)"
      "r = Inr () \<longrightarrow> n = length ts" by blast
    with ok show ?thesis by (intro exI [of _ "Suc n"]) simp
  next
    case fail
    with Cons.prems p show ?thesis by (intro exI [of _ 0]) auto
  qed
qed

interpretation stub: wallet_ledger "stub_port E" "stub_view E" "stub_credit E" for E
proof (unfold_locales, goal_cases)
  case (1 t w r w')
  then show ?case using stub_post_cases [of E t w r w'] by (auto simp: stub_port_def)
next
  case (2 t w x w')
  then show ?case using stub_post_cases [of E t w "Inr x" w'] by (auto simp: stub_port_def)
next
  case (3 t w m w')
  then show ?case
    using stub_post_cases [of E t w "Inl (WalletReserveError m INSUFFICIENT_FUNDS)" w']
    by (auto simp: stub_port_def stub_view_def)
next
  case (4 g b ts w r w')
  then obtain r' where "stub_post_all E ts w = (r', w')"
    by (auto simp: stub_port_def stub_postTransactionBatch_def split: prod.splits sum.splits)
  from stub_post_all_cases [OF this] show ?case by blast
next
  case (5 g b ts w x w')
  then have "stub_post_all E ts w = (Inr (), w')"
    by (auto simp: stub_port_def stub_postTransactionBatch_def split: prod.splits sum.splits)
  from stub_post_all_cases [OF this] show ?case by auto
next
  case (6 u g w rb w')
  then show ?case
    by (auto simp: stub_port_def stub_getBalance_def split: sum.splits)
qed

text \<open>A debit is refused exactly when the stake exceeds the two-decimal balance.\<close>

lemma stub_debit_cases:
  assumes L: "dec_lib_ok (env_dec E)"
    and bal: "balanceFor E (tx_userCode t) w = Inr b" "exact20 b" "places 2 b"
    and amt: "dl_parse (env_dec E) (tx_amount t) = Some (- stake)" "0 < stake"
    and new: "tx_transactionCode t \<notin> sb_postedCodes w"
  shows "fst (stub_postTransaction E t w) =
    (if stake \<le> b then Inr (tx_transactionCode t) else Inl insufficient)"
  using amt new bal(1) dec_lib_okD(4) [OF L bal(2,3)]
  by (simp add: stub_postTransaction_def stakeLessOrEqualBalance_def Let_def)

end
