(* ===== verification/WalletOutbox.thy ===== *)
theory WalletOutbox
  imports WalletPort
begin

text \<open>
  \<open>modules/wallet/wallet-outbox.service.ts\<close>: delivery of the wallet calls recorded in the
  outbox. The external wallet is the parameter \<open>P\<close>; the clock of the world is the \<open>Date.now()\<close>
  of the run.
\<close>

definition DEBIT_BATCH_LIMIT :: nat where
  "DEBIT_BATCH_LIMIT = 20"

subsection \<open>Rows that are due, retry and rejection\<close>

text \<open>\<open>status: PENDING\<close> and \<open>OR: [nextRetryAt null, nextRetryAt <= now]\<close>.\<close>

definition outbox_due :: "string \<Rightarrow> int \<Rightarrow> outbox_row \<Rightarrow> bool" where
  "outbox_due type now r \<longleftrightarrow>
     ob_type r = type \<and> ob_status r = Ob_PENDING \<and>
     (case ob_nextRetryAt r of None \<Rightarrow> True | Some t \<Rightarrow> t \<le> now)"

definition retry_delay_seconds :: "nat \<Rightarrow> nat" where
  "retry_delay_seconds nextAttempts = min (60 * nextAttempts) 900"

definition scheduleRetry :: "string \<Rightarrow> nat \<Rightarrow> api_error \<Rightarrow> 'w world \<Rightarrow> 'w world" where
  "scheduleRetry outboxId attempts err s =
     (let nextAttempts = attempts + 1;
          delaySeconds = retry_delay_seconds nextAttempts in
      s\<lparr>w_db := update_outbox outboxId
          (\<lambda>r. r\<lparr>ob_attempts := nextAttempts, ob_lastError := Some (error_message err),
                 ob_nextRetryAt := Some (w_now s + int delaySeconds * 1000)\<rparr>) (w_db s)\<rparr>)"

definition rejectBet :: "string \<Rightarrow> string \<Rightarrow> string \<Rightarrow> 'w world \<Rightarrow> 'w world" where
  "rejectBet betId reason outboxId s =
     s\<lparr>w_db := update_outbox outboxId (\<lambda>r. r\<lparr>ob_status := Ob_FAILED, ob_lastError := Some reason\<rparr>)
        (update_bet betId
          (\<lambda>b. b\<lparr>bet_status := Bet_REJECTED, bet_rejectionReason := Some reason\<rparr>) (w_db s))\<rparr>"

definition acceptBet :: "string \<Rightarrow> string \<Rightarrow> string \<Rightarrow> 'w world \<Rightarrow> 'w world" where
  "acceptBet betId transactionId outboxId s =
     s\<lparr>w_db := update_outbox outboxId (\<lambda>r. r\<lparr>ob_status := Ob_COMPLETED, ob_lastError := None\<rparr>)
        (update_bet betId
          (\<lambda>b. b\<lparr>bet_status := Bet_ACCEPTED, bet_walletReservationId := Some transactionId,
                 bet_rejectionReason := None\<rparr>) (w_db s))\<rparr>"

text \<open>A bet read back after an update; it exists, as it was found before the update.\<close>

definition reread_bet :: "string \<Rightarrow> bet_row \<Rightarrow> 'w world \<Rightarrow> bet_row" where
  "reread_bet betId old s = (case find_bet betId (w_db s) of None \<Rightarrow> old | Some b \<Rightarrow> b)"

text \<open>The outbox code of a debit, drawn from the id generator when the row has none yet.\<close>

definition ensure_code :: "env \<Rightarrow> outbox_row \<Rightarrow> 'w world \<Rightarrow> string \<times> 'w world" where
  "ensure_code E r s =
     (if ob_transactionCode r \<noteq> [] then (ob_transactionCode r, s)
      else (let code = env_gen E (w_seq s) in
        (code, s\<lparr>w_seq := w_seq s + 1,
                 w_db := update_outbox (ob_id r) (\<lambda>x. x\<lparr>ob_transactionCode := code\<rparr>) (w_db s)\<rparr>)))"

definition is_insufficient :: "api_error \<Rightarrow> bool" where
  "is_insufficient e = (case e of WalletReserveError m c \<Rightarrow> c = INSUFFICIENT_FUNDS | _ \<Rightarrow> False)"

definition processSingleDebit ::
  "env \<Rightarrow> 'w wallet_port \<Rightarrow> string \<Rightarrow> 'w world \<Rightarrow> bet_row result \<times> 'w world" where
  "processSingleDebit E P betId s =
     (case find_bet betId (w_db s) of
        None \<Rightarrow> (Inl (PlainError (''Bet '' @ betId @ '' not found'')), s)
      | Some bet \<Rightarrow>
      if bet_status bet = Bet_ACCEPTED \<or> bet_status bet = Bet_REJECTED then (Inr bet, s)
      else case find_outbox betId WALLET_OUTBOX_DEBIT (w_db s) of
        None \<Rightarrow> (Inr bet, s)
      | Some outbox \<Rightarrow>
      if ob_status outbox = Ob_COMPLETED then (Inr bet, s)
      else case ensure_code E outbox s of (transactionCode, s1) \<Rightarrow>
      case buildBetDebitTransaction E bet (legs_of betId (w_db s)) transactionCode of
        Inl e \<Rightarrow> (Inl e, s1)
      | Inr transaction \<Rightarrow>
      case wp_postTransaction P transaction (w_wallet s1) of
        (Inr transactionId, w') \<Rightarrow>
          (let s2 = acceptBet betId transactionId (ob_id outbox) (s1\<lparr>w_wallet := w'\<rparr>)
           in (Inr (reread_bet betId bet s2), s2))
      | (Inl e, w') \<Rightarrow>
          if is_insufficient e then
            (let s2 = rejectBet betId (error_message e) (ob_id outbox) (s1\<lparr>w_wallet := w'\<rparr>)
             in (Inr (reread_bet betId bet s2), s2))
          else (Inl e, scheduleRetry (ob_id outbox) (ob_attempts outbox) e (s1\<lparr>w_wallet := w'\<rparr>)))"

subsection \<open>The debit worker\<close>

fun debit_all ::
  "env \<Rightarrow> 'w wallet_port \<Rightarrow> string list \<Rightarrow> 'w world \<Rightarrow> nat \<times> 'w world" where
  "debit_all E P [] s = (0, s)"
| "debit_all E P (betId # rest) s =
     (case processSingleDebit E P betId s of
        (r, s') \<Rightarrow>
          case debit_all E P rest s' of
            (processed, s'') \<Rightarrow>
              ((case r of Inl e \<Rightarrow> processed | Inr b \<Rightarrow> processed + 1), s''))"

definition processPendingDebits ::
  "env \<Rightarrow> 'w wallet_port \<Rightarrow> nat \<Rightarrow> 'w world \<Rightarrow> nat \<times> 'w world" where
  "processPendingDebits E P limit s =
     (let entries = take limit (order_asc ob_createdAt
            (row_filter (outbox_due WALLET_OUTBOX_DEBIT (w_now s)) (db_outbox (w_db s))))
      in debit_all E P (map ob_betId entries) s)"

subsection \<open>Staff voids\<close>

text \<open>
  The payload of a settlement or void row is a stored transaction. The empty payload exists on
  debit rows only; deserialising it gives an object without fields.
\<close>

definition payload_tx :: "outbox_row \<Rightarrow> wallet_tx" where
  "payload_tx r = (case ob_payload r of
      Some p \<Rightarrow> deserializeWalletTransaction p
    | None \<Rightarrow> \<lparr>tx_userCode = [], tx_casinoGroupId = [], tx_roundId = [], tx_transactionCode = [],
        tx_historyId = 0, tx_gameCode = [], tx_gameType = 0, tx_isFinished = False,
        tx_isCanceled = False, tx_amount = [], tx_detail = [], tx_createdAt = 0\<rparr>)"

definition complete_outbox :: "string \<Rightarrow> 'w world \<Rightarrow> 'w world" where
  "complete_outbox outboxId s =
     s\<lparr>w_db := update_outbox outboxId
        (\<lambda>r. r\<lparr>ob_status := Ob_COMPLETED, ob_lastError := None\<rparr>) (w_db s)\<rparr>"

fun void_all ::
  "'w wallet_port \<Rightarrow> outbox_row list \<Rightarrow> 'w world \<Rightarrow> nat \<times> 'w world" where
  "void_all P [] s = (0, s)"
| "void_all P (entry # rest) s =
     (case wp_postTransaction P (payload_tx entry) (w_wallet s) of
        (Inr x, w') \<Rightarrow>
          (case void_all P rest (complete_outbox (ob_id entry) (s\<lparr>w_wallet := w'\<rparr>)) of
             (processed, s'') \<Rightarrow> (processed + 1, s''))
      | (Inl e, w') \<Rightarrow>
          void_all P rest (scheduleRetry (ob_id entry) (ob_attempts entry) e (s\<lparr>w_wallet := w'\<rparr>)))"

definition processPendingStaffVoids ::
  "'w wallet_port \<Rightarrow> nat \<Rightarrow> 'w world \<Rightarrow> nat \<times> 'w world" where
  "processPendingStaffVoids P limit s =
     (let entries = take limit (order_asc ob_createdAt
            (row_filter (outbox_due WALLET_OUTBOX_STAFF_VOID (w_now s)) (db_outbox (w_db s))))
      in void_all P entries s)"

subsection \<open>Settlement batches\<close>

definition settle_due :: "string \<Rightarrow> int \<Rightarrow> outbox_row \<Rightarrow> bool" where
  "settle_due casinoGroupId now r \<longleftrightarrow>
     ob_casinoGroupId r = casinoGroupId \<and> outbox_due WALLET_OUTBOX_SETTLE now r"

definition update_outbox_in :: "string list \<Rightarrow> (outbox_row \<Rightarrow> outbox_row) \<Rightarrow> db \<Rightarrow> db" where
  "update_outbox_in ids f d =
     d\<lparr>db_outbox := row_update (\<lambda>r. ob_id r \<in> set ids) f (db_outbox d)\<rparr>"

definition retry_all :: "api_error \<Rightarrow> outbox_row list \<Rightarrow> 'w world \<Rightarrow> 'w world" where
  "retry_all e entries s =
     foldl (\<lambda>s entry. scheduleRetry (ob_id entry) (ob_attempts entry) e s) s entries"

definition batch_entries :: "string \<Rightarrow> string option \<Rightarrow> 'w world \<Rightarrow> outbox_row list" where
  "batch_entries casinoGroupId anchorBatch s =
     order_asc ob_createdAt
       (row_filter (\<lambda>r. settle_due casinoGroupId (w_now s) r \<and> ob_batchId r = anchorBatch)
         (db_outbox (w_db s)))"

definition flushSettlementBatchForGroup ::
  "env \<Rightarrow> 'w wallet_port \<Rightarrow> string \<Rightarrow> 'w world \<Rightarrow> bool \<times> 'w world" where
  "flushSettlementBatchForGroup E P casinoGroupId s =
     (case order_asc ob_createdAt
             (row_filter (settle_due casinoGroupId (w_now s)) (db_outbox (w_db s))) of
        [] \<Rightarrow> (False, s)
      | anchor # _ \<Rightarrow>
      case (case ob_batchId anchor of
              Some b \<Rightarrow> (b, s)
            | None \<Rightarrow> (env_gen E (w_seq s), s\<lparr>w_seq := w_seq s + 1\<rparr>)) of
        (batchId, s1) \<Rightarrow>
      let entries = batch_entries casinoGroupId (ob_batchId anchor) s;
          ids = map ob_id entries in
      if entries = [] then (False, s1)
      else
      let s2 = (if ob_batchId anchor = None
                then s1\<lparr>w_db := update_outbox_in ids (\<lambda>r. r\<lparr>ob_batchId := Some batchId\<rparr>) (w_db s1)\<rparr>
                else s1);
          transactions = map payload_tx entries in
      case wp_postTransactionBatch P casinoGroupId batchId transactions (w_wallet s2) of
        (Inr x, w') \<Rightarrow>
          (True, s2\<lparr>w_wallet := w',
                    w_db := update_outbox_in ids
                      (\<lambda>r. r\<lparr>ob_status := Ob_COMPLETED, ob_batchId := Some batchId,
                             ob_lastError := None\<rparr>) (w_db s2)\<rparr>)
      | (Inl e, w') \<Rightarrow> (False, retry_all e entries (s2\<lparr>w_wallet := w'\<rparr>)))"

text \<open>Distinct values in the order of their first occurrence.\<close>

definition distinct_first :: "'a list \<Rightarrow> 'a list" where
  "distinct_first xs = rev (remdups (rev xs))"

lemma set_distinct_first [simp]: "set (distinct_first xs) = set xs"
  by (simp add: distinct_first_def)

lemma distinct_distinct_first [simp]: "distinct (distinct_first xs)"
  by (simp add: distinct_first_def)

fun flush_groups ::
  "env \<Rightarrow> 'w wallet_port \<Rightarrow> string list \<Rightarrow> 'w world \<Rightarrow> nat \<times> 'w world" where
  "flush_groups E P [] s = (0, s)"
| "flush_groups E P (g # gs) s =
     (case flushSettlementBatchForGroup E P g s of
        (sent, s') \<Rightarrow>
          case flush_groups E P gs s' of
            (batches, s'') \<Rightarrow> (if sent then batches + 1 else batches, s''))"

definition flushSettlementBatches ::
  "env \<Rightarrow> 'w wallet_port \<Rightarrow> 'w world \<Rightarrow> nat \<times> 'w world" where
  "flushSettlementBatches E P s =
     (let groups = distinct_first (map ob_casinoGroupId
            (row_filter (outbox_due WALLET_OUTBOX_SETTLE (w_now s)) (db_outbox (w_db s))))
      in flush_groups E P groups s)"

text \<open>
  The staff flush repeats while a batch is delivered and stops after 100 batches: the fuel is
  the code's own bound.
\<close>

fun flush_loop ::
  "nat \<Rightarrow> env \<Rightarrow> 'w wallet_port \<Rightarrow> string \<Rightarrow> 'w world \<Rightarrow> nat \<times> 'w world" where
  "flush_loop 0 E P g s = (0, s)"
| "flush_loop (Suc k) E P g s =
     (case flushSettlementBatchForGroup E P g s of
        (False, s') \<Rightarrow> (0, s')
      | (True, s') \<Rightarrow> (case flush_loop k E P g s' of (n, s'') \<Rightarrow> (n + 1, s'')))"

definition flushSettlementBatchesForCasinoGroup ::
  "env \<Rightarrow> 'w wallet_port \<Rightarrow> string \<Rightarrow> 'w world \<Rightarrow> nat \<times> 'w world" where
  "flushSettlementBatchesForCasinoGroup E P casinoGroupId s = flush_loop 100 E P casinoGroupId s"

definition processPending :: "env \<Rightarrow> 'w wallet_port \<Rightarrow> 'w world \<Rightarrow> nat \<times> 'w world" where
  "processPending E P s =
     (case processPendingDebits E P DEBIT_BATCH_LIMIT s of (n1, s1) \<Rightarrow>
      case processPendingStaffVoids P DEBIT_BATCH_LIMIT s1 of (n2, s2) \<Rightarrow>
      case flushSettlementBatches E P s2 of (n3, s3) \<Rightarrow> (n1 + n2 + n3, s3))"

end
