(* ===== verification/Settlement.thy ===== *)
theory Settlement
  imports BetValidation WalletOutbox
begin

text \<open>
  \<open>modules/settlement/settlement.service.ts\<close>: grading accepted bets against the results in the
  database, persisting the outcomes with their wallet outbox rows, and flushing the wallet
  batches.
\<close>

definition BATCH_SIZE :: nat where
  "BATCH_SIZE = 50"

subsection \<open>The context of a leg\<close>

record leg_context =
  lc_input :: leg_input
  lc_eventStatus :: event_status

definition loadLegContext :: "dec_lib \<Rightarrow> db \<Rightarrow> leg_row \<Rightarrow> leg_context option" where
  "loadLegContext L d leg =
     (case (load_event d (leg_eventId leg), find_market (leg_marketId leg) d) of
        (Some e, Some market) \<Rightarrow>
          let event = ec_event e in
          (case (hasLegSnapshot leg, leg_marketType leg, leg_homeTeamName leg, leg_awayTeamName leg) of
             (True, Some mt, Some home, Some away) \<Rightarrow>
               let snapshot = \<lparr>
                 sn_marketType = mt,
                 sn_marketLine = line_text L (leg_marketLine leg),
                 sn_homeTeamName = home,
                 sn_awayTeamName = away,
                 sn_eventProviderRef = or_else (leg_eventProviderRef leg) None (ev_providerRef event),
                 sn_sportKey = or_else (leg_sportKey leg) None (sp_key (ec_sport e)),
                 sn_sportName = or_else (leg_sportName leg) None (sp_name (ec_sport e)),
                 sn_leagueKey = or_else (leg_leagueKey leg) None (lg_key (ec_league e)),
                 sn_leagueName = or_else (leg_leagueName leg) None (lg_name (ec_league e))\<rparr> in
               Some \<lparr>lc_input = buildLegSettlementInput leg snapshot (mk_status market)
                                  (ev_homeScore event) (ev_awayScore event),
                     lc_eventStatus = ev_status event\<rparr>
           | _ \<Rightarrow>
               (case find_selection (leg_selectionId leg) d of
                  None \<Rightarrow> None
                | Some selection \<Rightarrow>
                    Some \<lparr>lc_input = \<lparr>
                            li_marketType = mk_type market,
                            li_marketStatus = mk_status market,
                            li_marketLine = line_text L (mk_line market),
                            li_selectionName = leg_selectionName leg,
                            li_homeTeamName = ec_homeName e,
                            li_awayTeamName = ec_awayName e,
                            li_homeScore = ev_homeScore event,
                            li_awayScore = ev_awayScore event\<rparr>,
                          lc_eventStatus = ev_status event\<rparr>))
      | _ \<Rightarrow> None)"

subsection \<open>Grading a bet\<close>

definition aggregateBetResult :: "leg_result list \<Rightarrow> bet_status" where
  "aggregateBetResult legResults =
     (if VOID \<in> set legResults then Bet_VOID
      else if LOST \<in> set legResults then Bet_LOST
      else Bet_WON)"

definition payoutForResult :: "rat \<Rightarrow> rat \<Rightarrow> bet_status \<Rightarrow> rat" where
  "payoutForResult stake potential result =
     (if result = Bet_WON then potential else if result = Bet_VOID then stake else 0)"

fun toLegOutcome :: "leg_result \<Rightarrow> leg_outcome" where
  "toLegOutcome WON = Leg_WON"
| "toLegOutcome LOST = Leg_LOST"
| "toLegOutcome VOID = Leg_VOID"

record graded_bet =
  gr_bet :: bet_row
  gr_legs :: "leg_row list"
  gr_legResults :: "leg_result list"
  gr_betResult :: bet_status
  gr_payoutAmount :: rat

definition leg_settleable :: "leg_context \<Rightarrow> bool" where
  "leg_settleable c \<longleftrightarrow>
     \<not> (lc_eventStatus c \<noteq> Ev_ENDED \<or>
        (li_marketStatus (lc_input c) \<noteq> Mk_SETTLED \<and> li_marketStatus (lc_input c) \<noteq> Mk_VOID))"

text \<open>Every element of a list of options, or \<open>None\<close> when one is missing.\<close>

fun all_some :: "'a option list \<Rightarrow> 'a list option" where
  "all_some [] = Some []"
| "all_some (None # xs) = None"
| "all_some (Some x # xs) = map_option (\<lambda>ys. x # ys) (all_some xs)"

lemma all_some_iff: "all_some xs = Some ys \<longleftrightarrow> xs = map Some ys"
proof (induction xs arbitrary: ys rule: all_some.induct)
  case 1
  then show ?case by auto
next
  case (2 xs)
  then show ?case by (cases ys) auto
next
  case (3 x xs)
  then show ?case by (cases ys) auto
qed

definition gradeBet :: "dec_lib \<Rightarrow> db \<Rightarrow> string \<Rightarrow> graded_bet option" where
  "gradeBet L d betId =
     (case find_bet betId d of
        None \<Rightarrow> None
      | Some bet \<Rightarrow>
      if bet_status bet \<noteq> Bet_ACCEPTED then None
      else
      let legs = sort_legs (legs_of betId d) in
      case all_some (map (loadLegContext L d) legs) of
        None \<Rightarrow> None
      | Some contexts \<Rightarrow>
      if \<exists>c \<in> set contexts. \<not> leg_settleable c then None
      else case all_some (map (\<lambda>c. evaluate_leg (lc_input c)) contexts) of
        None \<Rightarrow> None
      | Some legResults \<Rightarrow>
          let betResult = aggregateBetResult legResults in
          Some \<lparr>gr_bet = bet, gr_legs = legs, gr_legResults = legResults, gr_betResult = betResult,
                gr_payoutAmount =
                  payoutForResult (bet_stake bet) (bet_potentialPayout bet) betResult\<rparr>)"

subsection \<open>Persisting graded bets\<close>

text \<open>
  \<open>walletOutbox.create\<close>: the primary key and the schema's unique constraints on
  \<open>(betId, type)\<close> and on \<open>transactionCode\<close> make a second row throw.
\<close>

definition create_outbox :: "outbox_row \<Rightarrow> db \<Rightarrow> db result" where
  "create_outbox r d =
     (if \<exists>x \<in> set (db_outbox d). (ob_betId x = ob_betId r \<and> ob_type x = ob_type r) \<or>
           ob_transactionCode x = ob_transactionCode r \<or> ob_id x = ob_id r
      then Inl (PlainError ''Unique constraint failed'')
      else Inr (d\<lparr>db_outbox := row_insert r (db_outbox d)\<rparr>))"

definition set_leg_outcomes :: "(leg_row \<times> leg_outcome) list \<Rightarrow> db \<Rightarrow> db" where
  "set_leg_outcomes outcomes d =
     foldl (\<lambda>d (leg, out). update_leg (leg_id leg) (\<lambda>l. l\<lparr>leg_outcome := out\<rparr>) d) d outcomes"

definition settle_bet_row :: "bet_status \<Rightarrow> rat \<Rightarrow> int \<Rightarrow> string option \<Rightarrow> bet_row \<Rightarrow> bet_row" where
  "settle_bet_row result payout now note b =
     b\<lparr>bet_status := result, bet_payoutAmount := Some payout, bet_settledAt := Some now,
       bet_settlementNote := note\<rparr>"

definition new_settlement_row ::
  "string \<Rightarrow> bet_row \<Rightarrow> string \<Rightarrow> string \<Rightarrow> string option \<Rightarrow> wallet_tx \<Rightarrow> int \<Rightarrow> outbox_row" where
  "new_settlement_row outboxId bet type transactionCode batchId transaction now = \<lparr>
     ob_id = outboxId,
     ob_betId = bet_id bet,
     ob_casinoGroupId = bet_casinoGroupId bet,
     ob_type = type,
     ob_transactionCode = transactionCode,
     ob_batchId = batchId,
     ob_payload = Some (serializeWalletTransaction transaction),
     ob_status = Ob_PENDING,
     ob_attempts = 0,
     ob_lastError = None,
     ob_nextRetryAt = None,
     ob_createdAt = now\<rparr>"

definition is_final_result :: "bet_status \<Rightarrow> bool" where
  "is_final_result r \<longleftrightarrow> r = Bet_WON \<or> r = Bet_LOST \<or> r = Bet_VOID"

text \<open>The batch id of a tenant, drawn at its first graded bet of the run.\<close>

definition batch_for ::
  "env \<Rightarrow> string \<Rightarrow> (string \<rightharpoonup> string) \<Rightarrow> 'w world \<Rightarrow> string \<times> (string \<rightharpoonup> string) \<times> 'w world" where
  "batch_for E g batches s =
     (case batches g of
        Some b \<Rightarrow> (b, batches, s)
      | None \<Rightarrow> (let b = env_gen E (w_seq s)
                 in (b, batches(g \<mapsto> b), s\<lparr>w_seq := w_seq s + 1\<rparr>)))"

text \<open>One database transaction: leg outcomes, the bet, the outbox row; all or nothing.\<close>

definition persist_one ::
  "env \<Rightarrow> graded_bet \<Rightarrow> string \<Rightarrow> 'w world \<Rightarrow> unit result \<times> 'w world" where
  "persist_one E entry batchId s =
     (let bet = gr_bet entry;
          code = settlementTransactionCode E (bet_id bet) (gr_betResult entry) in
      case buildSettlementTransaction E bet (gr_legs entry) (gr_betResult entry)
             (gr_payoutAmount entry) code (w_now s) of
        Inl e \<Rightarrow> (Inl e, s)
      | Inr transaction \<Rightarrow>
          let d1 = set_leg_outcomes
                (zip (gr_legs entry) (map toLegOutcome (gr_legResults entry))) (w_db s);
              d2 = update_bet (bet_id bet)
                (settle_bet_row (gr_betResult entry) (gr_payoutAmount entry) (w_now s) None) d1 in
          case create_outbox (new_settlement_row (env_gen E (w_seq s)) bet WALLET_OUTBOX_SETTLE
                 code (Some batchId) transaction (w_now s)) d2 of
            Inl e \<Rightarrow> (Inl e, s\<lparr>w_seq := w_seq s + 1\<rparr>)
          | Inr d3 \<Rightarrow> (Inr (), s\<lparr>w_db := d3, w_seq := w_seq s + 1\<rparr>))"

fun persist_all ::
  "env \<Rightarrow> (string \<rightharpoonup> string) \<Rightarrow> graded_bet list \<Rightarrow> 'w world \<Rightarrow> unit result \<times> 'w world" where
  "persist_all E batches [] s = (Inr (), s)"
| "persist_all E batches (entry # rest) s =
     (if \<not> is_final_result (gr_betResult entry) then persist_all E batches rest s
      else case batch_for E (bet_casinoGroupId (gr_bet entry)) batches s of
        (batchId, batches', s1) \<Rightarrow>
          (case persist_one E entry batchId s1 of
             (Inl e, s2) \<Rightarrow> (Inl e, s2)
           | (Inr u, s2) \<Rightarrow> persist_all E batches' rest s2))"

definition persistGradedSettlements ::
  "env \<Rightarrow> graded_bet list \<Rightarrow> 'w world \<Rightarrow> unit result \<times> 'w world" where
  "persistGradedSettlements E graded s = persist_all E Map.empty graded s"

definition applySettlements ::
  "env \<Rightarrow> 'w wallet_port \<Rightarrow> graded_bet list \<Rightarrow> 'w world \<Rightarrow> unit result \<times> 'w world" where
  "applySettlements E P graded s =
     (case persistGradedSettlements E graded s of
        (Inl e, s') \<Rightarrow> (Inl e, s')
      | (Inr u, s') \<Rightarrow> (Inr (), snd (flushSettlementBatches E P s')))"

subsection \<open>Settlement runs\<close>

definition settleBatch :: "env \<Rightarrow> 'w wallet_port \<Rightarrow> 'w world \<Rightarrow> nat result \<times> 'w world" where
  "settleBatch E P s =
     (let bets = take BATCH_SIZE (order_asc bet_createdAt
            (row_filter (\<lambda>b. bet_status b = Bet_ACCEPTED) (db_bets (w_db s))));
          graded = List.map_filter (\<lambda>b. gradeBet (env_dec E) (w_db s) (bet_id b)) bets in
      if graded = [] then (Inr 0, s)
      else case applySettlements E P graded s of
        (Inl e, s') \<Rightarrow> (Inl e, s')
      | (Inr u, s') \<Rightarrow> (Inr (length graded), s'))"

definition trySettleBet :: "env \<Rightarrow> 'w wallet_port \<Rightarrow> string \<Rightarrow> 'w world \<Rightarrow> bool result \<times> 'w world" where
  "trySettleBet E P betId s =
     (case gradeBet (env_dec E) (w_db s) betId of
        None \<Rightarrow> (Inr False, s)
      | Some graded \<Rightarrow>
          (case applySettlements E P [graded] s of
             (Inl e, s') \<Rightarrow> (Inl e, s')
           | (Inr u, s') \<Rightarrow> (Inr True, s')))"

fun settle_each ::
  "env \<Rightarrow> 'w wallet_port \<Rightarrow> string list \<Rightarrow> 'w world \<Rightarrow> nat result \<times> 'w world" where
  "settle_each E P [] s = (Inr 0, s)"
| "settle_each E P (i # rest) s =
     (case trySettleBet E P i s of
        (Inl e, s') \<Rightarrow> (Inl e, s')
      | (Inr done, s') \<Rightarrow>
          (case settle_each E P rest s' of
             (Inl e, s'') \<Rightarrow> (Inl e, s'')
           | (Inr n, s'') \<Rightarrow> (Inr (if done then n + 1 else n), s'')))"

text \<open>\<open>legs: { some: { eventId } }\<close>\<close>

definition has_leg_on :: "db \<Rightarrow> string \<Rightarrow> bet_row \<Rightarrow> bool" where
  "has_leg_on d eventId b \<longleftrightarrow> (\<exists>l \<in> set (legs_of (bet_id b) d). leg_eventId l = eventId)"

definition open_bets_on :: "db \<Rightarrow> string \<Rightarrow> string \<Rightarrow> bet_row list" where
  "open_bets_on d casinoGroupId eventId =
     row_filter (\<lambda>b. bet_casinoGroupId b = casinoGroupId \<and> bet_status b = Bet_ACCEPTED \<and>
        has_leg_on d eventId b) (db_bets d)"

definition settleBetsForEvent ::
  "env \<Rightarrow> 'w wallet_port \<Rightarrow> string \<Rightarrow> string \<Rightarrow> 'w world \<Rightarrow> (nat \<times> nat) result \<times> 'w world" where
  "settleBetsForEvent E P eventId casinoGroupId s =
     (let bets = order_asc bet_createdAt (open_bets_on (w_db s) casinoGroupId eventId) in
      case settle_each E P (map bet_id bets) s of
        (Inl e, s') \<Rightarrow> (Inl e, s')
      | (Inr settled, s') \<Rightarrow> (Inr (settled, length bets), s'))"

subsection \<open>Why a bet is not settled\<close>

text \<open>
  \<open>logWhyAcceptedBetsAreUnsettled\<close> as the blockers it logs, per accepted bet (newest first).
\<close>

definition leg_blockers :: "dec_lib \<Rightarrow> db \<Rightarrow> leg_row \<Rightarrow> string list" where
  "leg_blockers L d leg =
     (let name = leg_selectionName leg in
      case loadLegContext L d leg of
        None \<Rightarrow> [''leg '' @ name @ '': event/market not found'']
      | Some ctx \<Rightarrow>
          (if lc_eventStatus ctx \<noteq> Ev_ENDED
           then [name @ '': event is '' @ event_status_text (lc_eventStatus ctx) @ '' (need ENDED)'']
           else []) @
          (if li_marketStatus (lc_input ctx) \<noteq> Mk_SETTLED \<and> li_marketStatus (lc_input ctx) \<noteq> Mk_VOID
           then [name @ '': market is '' @ market_status_text (li_marketStatus (lc_input ctx)) @
                 '' (need SETTLED or VOID)'']
           else []) @
          (if li_homeScore (lc_input ctx) = None \<or> li_awayScore (lc_input ctx) = None
           then [name @ '': final scores not in DB yet''] else []))"

definition unsettled_blockers :: "dec_lib \<Rightarrow> db \<Rightarrow> nat \<Rightarrow> (string \<times> string list) list" where
  "unsettled_blockers L d limit =
     map (\<lambda>b. (bet_id b, concat (map (leg_blockers L d) (sort_legs (legs_of (bet_id b) d)))))
       (take limit (order_desc bet_createdAt
          (row_filter (\<lambda>b. bet_status b = Bet_ACCEPTED) (db_bets d))))"

end
