(* ===== verification/AuditLog.thy ===== *)
theory AuditLog
  imports Schema
begin

text \<open>
  \<open>shared/audit/audit.service.ts\<close>: the append-only audit log. A write of an entry never fails
  the operation it belongs to (the service catches and logs a database error), so \<open>audit_record\<close>
  is total.
\<close>

definition audit_record ::
  "string \<Rightarrow> string option \<Rightarrow> string option \<Rightarrow> string \<Rightarrow> string \<Rightarrow> string option \<Rightarrow>
   (string \<times> string) list option \<Rightarrow> (string \<times> string) list option \<Rightarrow> string option \<Rightarrow>
   'w world \<Rightarrow> 'w world" where
  "audit_record actorType actorId casinoGroupId action entityType entityId before after reason s =
     s\<lparr>w_db := (w_db s)\<lparr>db_audit := row_insert \<lparr>
         au_actorType = actorType, au_actorId = actorId, au_casinoGroupId = casinoGroupId,
         au_action = action, au_entityType = entityType, au_entityId = entityId,
         au_before = before, au_after = after, au_reason = reason,
         au_createdAt = w_now s\<rparr> (db_audit (w_db s))\<rparr>\<rparr>"

text \<open>How a JSON value is rendered in an entry: \<open>null\<close> and booleans by their names.\<close>

definition null_text :: "string option \<Rightarrow> string" where
  "null_text x = (case x of None \<Rightarrow> ''null'' | Some t \<Rightarrow> t)"

definition bool_text :: "bool \<Rightarrow> string" where
  "bool_text b = (if b then ''true'' else ''false'')"

text \<open>An audit entry of a staff member acting on a tenant.\<close>

definition staff_audit ::
  "string \<Rightarrow> string \<Rightarrow> string \<Rightarrow> string \<Rightarrow> string \<Rightarrow> (string \<times> string) list option \<Rightarrow>
   (string \<times> string) list option \<Rightarrow> string option \<Rightarrow> 'w world \<Rightarrow> 'w world" where
  "staff_audit staffUserId casinoGroupId action entityType entityId before after reason =
     audit_record ''staff'' (Some staffUserId) (Some casinoGroupId) action entityType
       (Some entityId) before after reason"

lemma audit_record_frame [simp, frame]:
  "db_bets (w_db (audit_record a b c d e f g h i s)) = db_bets (w_db s)"
  "db_legs (w_db (audit_record a b c d e f g h i s)) = db_legs (w_db s)"
  "db_outbox (w_db (audit_record a b c d e f g h i s)) = db_outbox (w_db s)"
  "db_events (w_db (audit_record a b c d e f g h i s)) = db_events (w_db s)"
  "db_markets (w_db (audit_record a b c d e f g h i s)) = db_markets (w_db s)"
  "db_selections (w_db (audit_record a b c d e f g h i s)) = db_selections (w_db s)"
  "w_wallet (audit_record a b c d e f g h i s) = w_wallet s"
  "w_now (audit_record a b c d e f g h i s) = w_now s"
  "w_seq (audit_record a b c d e f g h i s) = w_seq s"
  by (simp_all add: audit_record_def)

lemma staff_audit_frame [simp, frame]:
  "db_bets (w_db (staff_audit u g a t i b f r s)) = db_bets (w_db s)"
  "db_legs (w_db (staff_audit u g a t i b f r s)) = db_legs (w_db s)"
  "db_outbox (w_db (staff_audit u g a t i b f r s)) = db_outbox (w_db s)"
  "db_events (w_db (staff_audit u g a t i b f r s)) = db_events (w_db s)"
  "db_markets (w_db (staff_audit u g a t i b f r s)) = db_markets (w_db s)"
  "db_selections (w_db (staff_audit u g a t i b f r s)) = db_selections (w_db s)"
  "w_wallet (staff_audit u g a t i b f r s) = w_wallet s"
  "w_now (staff_audit u g a t i b f r s) = w_now s"
  "w_seq (staff_audit u g a t i b f r s) = w_seq s"
  by (simp_all add: staff_audit_def)

text \<open>The log only grows, by one entry per call.\<close>

lemma staff_audit_log:
  "\<exists>e. db_audit (w_db (staff_audit u g a t i b f r s)) = db_audit (w_db s) @ [e] \<and>
       au_action e = a \<and> au_actorId e = Some u \<and> au_casinoGroupId e = Some g"
  by (simp add: staff_audit_def audit_record_def row_insert_def)

end
