(* ===== verification/Integrity.thy ===== *)
theory Integrity
  imports Settlement AuditLog
begin

text \<open>
  The integrity of bets, outbox and wallet: which outbox rows a bet in each status has, and
  which of their transactions the wallet has applied. The invariant \<open>integrity\<close> relates the
  tables to the set of codes the wallet has seen; its preservation by a change of rows is
  proved once here, for every operation.
\<close>

subsection \<open>The invariant\<close>

definition is_settled :: "bet_status \<Rightarrow> bool" where
  "is_settled st \<longleftrightarrow> st = Bet_WON \<or> st = Bet_LOST \<or> st = Bet_VOID"

text \<open>The status of a bet, of its debit row, and whether the debit has been applied.\<close>

definition debit_agrees :: "bet_status \<Rightarrow> outbox_status \<Rightarrow> bool \<Rightarrow> bool" where
  "debit_agrees st ob applied \<longleftrightarrow>
     (if st = Bet_PENDING then ob = Ob_PENDING
      else if st = Bet_REJECTED then ob = Ob_FAILED \<and> \<not> applied
      else ob = Ob_COMPLETED \<and> applied)"

text \<open>A credit row (settlement or staff void) carries the payout of its settled bet.\<close>

definition credit_agrees :: "env \<Rightarrow> bet_row \<Rightarrow> outbox_row \<Rightarrow> bool \<Rightarrow> bool" where
  "credit_agrees E b r applied \<longleftrightarrow>
     is_settled (bet_status b) \<and>
     bet_payoutAmount b =
       Some (payoutForResult (bet_stake b) (bet_potentialPayout b) (bet_status b)) \<and>
     (ob_type r = WALLET_OUTBOX_STAFF_VOID \<longrightarrow> bet_status b = Bet_VOID) \<and>
     (ob_status r = Ob_PENDING \<or> ob_status r = Ob_COMPLETED \<and> applied) \<and>
     (\<exists>p. ob_payload r = Some p \<and> st_transactionCode p = ob_transactionCode r \<and>
        st_userCode p = bet_username b \<and> st_roundId p = bet_id b \<and>
        st_amount p = (if bet_status b = Bet_LOST then ''0''
           else dl_show (env_dec E)
             (payoutForResult (bet_stake b) (bet_potentialPayout b) (bet_status b))))"

definition row_agrees :: "env \<Rightarrow> string set \<Rightarrow> db \<Rightarrow> outbox_row \<Rightarrow> bool" where
  "row_agrees E seen d r \<longleftrightarrow>
     ob_transactionCode r \<noteq> [] \<and>
     (\<exists>b. find_bet (ob_betId r) d = Some b \<and>
        (if ob_type r = WALLET_OUTBOX_DEBIT
         then debit_agrees (bet_status b) (ob_status r) (ob_transactionCode r \<in> seen)
         else (ob_type r = WALLET_OUTBOX_SETTLE \<or> ob_type r = WALLET_OUTBOX_STAFF_VOID) \<and>
              credit_agrees E b r (ob_transactionCode r \<in> seen)))"

definition ob_key :: "outbox_row \<Rightarrow> string \<times> string" where
  "ob_key r = (ob_betId r, ob_type r)"

definition unique_rows :: "db \<Rightarrow> bool" where
  "unique_rows d \<longleftrightarrow>
     distinct (map bet_id (db_bets d)) \<and> distinct (map leg_id (db_legs d)) \<and>
     distinct (map ob_id (db_outbox d)) \<and> distinct (map ob_key (db_outbox d)) \<and>
     distinct (map ob_transactionCode (db_outbox d))"

text \<open>Every bet has its debit row, and a settled bet has its credit row.\<close>

definition bet_covered :: "db \<Rightarrow> bet_row \<Rightarrow> bool" where
  "bet_covered d b \<longleftrightarrow>
     (\<exists>r \<in> set (db_outbox d). ob_betId r = bet_id b \<and> ob_type r = WALLET_OUTBOX_DEBIT) \<and>
     (is_settled (bet_status b) \<longrightarrow>
       (\<exists>r \<in> set (db_outbox d). ob_betId r = bet_id b \<and> ob_type r \<noteq> WALLET_OUTBOX_DEBIT))"

definition one_credit :: "db \<Rightarrow> bool" where
  "one_credit d \<longleftrightarrow>
     (\<forall>r \<in> set (db_outbox d). \<forall>r' \<in> set (db_outbox d).
        ob_betId r = ob_betId r' \<and> ob_type r \<noteq> WALLET_OUTBOX_DEBIT \<and>
        ob_type r' \<noteq> WALLET_OUTBOX_DEBIT \<longrightarrow> r = r')"

definition integrity :: "env \<Rightarrow> string set \<Rightarrow> db \<Rightarrow> bool" where
  "integrity E seen d \<longleftrightarrow>
     unique_rows d \<and> one_credit d \<and> (\<forall>r \<in> set (db_outbox d). row_agrees E seen d r) \<and>
     (\<forall>b \<in> set (db_bets d). bet_covered d b)"

lemma integrity_empty: "integrity E seen empty_db"
  by (simp add: integrity_def unique_rows_def one_credit_def empty_db_def)

lemma integrityD:
  assumes "integrity E seen d"
  shows "unique_rows d" "one_credit d"
    "r \<in> set (db_outbox d) \<Longrightarrow> row_agrees E seen d r"
    "b \<in> set (db_bets d) \<Longrightarrow> bet_covered d b"
  using assms by (simp_all add: integrity_def)

lemma unique_rowsD:
  assumes "unique_rows d" and "r \<in> set (db_outbox d)" and "r' \<in> set (db_outbox d)"
  shows "ob_id r = ob_id r' \<Longrightarrow> r = r'"
    and "ob_betId r = ob_betId r' \<Longrightarrow> ob_type r = ob_type r' \<Longrightarrow> r = r'"
    and "ob_transactionCode r = ob_transactionCode r' \<Longrightarrow> r = r'"
proof -
  from assms(1) have inj: "inj_on ob_id (set (db_outbox d))" "inj_on ob_key (set (db_outbox d))"
    "inj_on ob_transactionCode (set (db_outbox d))"
    by (simp_all add: unique_rows_def distinct_map)
  note rr = inj_onD [OF inj(1) _ assms(2,3)] inj_onD [OF inj(2) _ assms(2,3)]
    inj_onD [OF inj(3) _ assms(2,3)]
  show "ob_id r = ob_id r' \<Longrightarrow> r = r'" by (rule rr(1))
  show "ob_betId r = ob_betId r' \<Longrightarrow> ob_type r = ob_type r' \<Longrightarrow> r = r'"
    by (rule rr(2)) (simp add: ob_key_def)
  show "ob_transactionCode r = ob_transactionCode r' \<Longrightarrow> r = r'" by (rule rr(3))
qed

lemma find_bet_in: "unique_rows d \<Longrightarrow> b \<in> set (db_bets d) \<Longrightarrow> find_bet (bet_id b) d = Some b"
  by (simp add: unique_rows_def find_bet_def bets.get_in)

lemma find_bet_unique:
  "unique_rows d \<Longrightarrow> find_bet i d = Some b \<Longrightarrow> b' \<in> set (db_bets d) \<Longrightarrow> bet_id b' = i \<Longrightarrow> b' = b"
  using find_bet_in by fastforce

lemma find_outbox_row:
  assumes "unique_rows d"
  shows "find_outbox i t d = Some r \<longleftrightarrow> r \<in> set (db_outbox d) \<and> ob_betId r = i \<and> ob_type r = t"
proof
  assume "find_outbox i t d = Some r"
  then show "r \<in> set (db_outbox d) \<and> ob_betId r = i \<and> ob_type r = t"
    using outbox_key.get_key [of "(i, t)" "db_outbox d" r] by (simp add: find_outbox_def)
next
  assume r: "r \<in> set (db_outbox d) \<and> ob_betId r = i \<and> ob_type r = t"
  from assms have "distinct (map (\<lambda>r. (ob_betId r, ob_type r)) (db_outbox d))"
    by (simp add: unique_rows_def ob_key_def [abs_def])
  with r outbox_key.get_in [of r "db_outbox d"] show "find_outbox i t d = Some r"
    by (simp add: find_outbox_def)
qed

subsection \<open>What the wallet's progress does to a row\<close>

text \<open>
  A row keeps agreeing while the wallet applies more codes, as long as a refused code is not
  among them.
\<close>

lemma row_agrees_seen:
  assumes "row_agrees E seen d r" and "seen \<subseteq> seen'"
    and "ob_status r = Ob_FAILED \<Longrightarrow> ob_transactionCode r \<in> seen' \<Longrightarrow> ob_transactionCode r \<in> seen"
  shows "row_agrees E seen' d r"
proof -
  from assms(1) obtain b where b: "find_bet (ob_betId r) d = Some b" by (auto simp: row_agrees_def)
  from assms show ?thesis
    by (auto simp: row_agrees_def debit_agrees_def credit_agrees_def b split: if_splits)
qed

lemma row_agrees_bets:
  "find_bet (ob_betId r) d' = find_bet (ob_betId r) d \<Longrightarrow>
   row_agrees E seen d' r = row_agrees E seen d r"
  by (simp add: row_agrees_def)

lemma row_agrees_FAILED:
  "row_agrees E seen d r \<Longrightarrow> ob_status r = Ob_FAILED \<Longrightarrow>
   ob_type r = WALLET_OUTBOX_DEBIT \<and> ob_transactionCode r \<notin> seen \<and>
   (\<exists>b. find_bet (ob_betId r) d = Some b \<and> bet_status b = Bet_REJECTED)"
  by (auto simp: row_agrees_def debit_agrees_def credit_agrees_def split: if_splits)

text \<open>The wallet applied codes of rows that were not refused: every row still agrees.\<close>

lemma rows_agree_seen:
  assumes I: "integrity E seen d" and "seen \<subseteq> seen'"
    and new: "seen' \<subseteq> seen \<union> ob_transactionCode ` {r \<in> set (db_outbox d). ob_status r \<noteq> Ob_FAILED}"
    and r: "r \<in> set (db_outbox d)"
  shows "row_agrees E seen' d r"
proof (rule row_agrees_seen [OF integrityD(3) [OF I r] assms(2)])
  assume f: "ob_status r = Ob_FAILED" and c: "ob_transactionCode r \<in> seen'"
  show "ob_transactionCode r \<in> seen"
  proof (rule ccontr)
    assume "ob_transactionCode r \<notin> seen"
    with c new obtain r' where "r' \<in> set (db_outbox d)" "ob_status r' \<noteq> Ob_FAILED"
      "ob_transactionCode r = ob_transactionCode r'" by auto
    with unique_rowsD(3) [OF integrityD(1) [OF I] r] f show False by auto
  qed
qed

lemma integrity_seen:
  assumes "integrity E seen d" and "seen \<subseteq> seen'"
    and "seen' \<subseteq> seen \<union> ob_transactionCode ` {r \<in> set (db_outbox d). ob_status r \<noteq> Ob_FAILED}"
  shows "integrity E seen' d"
  using assms rows_agree_seen [OF assms] by (auto simp: integrity_def)

subsection \<open>Changes of rows\<close>

text \<open>Rows rewritten in place: the keys stay, so the relations between the rows stay.\<close>

lemma integrity_map:
  assumes I: "integrity E seen d"
    and b: "db_bets d' = map f (db_bets d)" "\<And>b. bet_id (f b) = bet_id b"
    and o: "db_outbox d' = map h (db_outbox d)" "\<And>r. ob_id (h r) = ob_id r"
      "\<And>r. ob_key (h r) = ob_key r" "\<And>r. ob_transactionCode (h r) = ob_transactionCode r"
    and l: "map leg_id (db_legs d') = map leg_id (db_legs d)"
    and rows: "\<And>r. r \<in> set (db_outbox d) \<Longrightarrow> row_agrees E seen' d' (h r)"
    and st: "\<And>b. b \<in> set (db_bets d) \<Longrightarrow> is_settled (bet_status (f b)) \<Longrightarrow> is_settled (bet_status b)"
  shows "integrity E seen' d'"
proof -
  have k: "ob_betId (h r) = ob_betId r" "ob_type (h r) = ob_type r" for r
    using o(3) [of r] by (simp_all add: ob_key_def)
  have "unique_rows d'"
    using integrityD(1) [OF I] b o l by (simp add: unique_rows_def comp_def)
  moreover have "one_credit d'"
    using integrityD(2) [OF I] o(1) k unfolding one_credit_def by (fastforce simp: k)
  moreover have "\<forall>r \<in> set (db_outbox d'). row_agrees E seen' d' r"
    using rows o(1) by auto
  moreover have "\<forall>b \<in> set (db_bets d'). bet_covered d' b"
  proof
    fix b' assume "b' \<in> set (db_bets d')"
    then obtain b0 where "b0 \<in> set (db_bets d)" "b' = f b0" using b(1) by auto
    with integrityD(4) [OF I, of b0] st [of b0] b(2) o(1) k show "bet_covered d' b'"
      unfolding bet_covered_def by auto
  qed
  ultimately show ?thesis by (simp add: integrity_def)
qed

text \<open>Only outbox rows rewritten.\<close>

lemma integrity_map_outbox:
  assumes "integrity E seen d" "db_bets d' = db_bets d" "db_legs d' = db_legs d"
    and "db_outbox d' = map h (db_outbox d)" "\<And>r. ob_id (h r) = ob_id r"
      "\<And>r. ob_key (h r) = ob_key r" "\<And>r. ob_transactionCode (h r) = ob_transactionCode r"
    and rows: "\<And>r. r \<in> set (db_outbox d) \<Longrightarrow> row_agrees E seen' d (h r)"
  shows "integrity E seen' d'"
proof (rule integrity_map [where f = "\<lambda>b. b" and h = h, OF assms(1)])
  show "row_agrees E seen' d' (h r)" if "r \<in> set (db_outbox d)" for r
    using rows [OF that] assms(2) by (simp add: row_agrees_def find_bet_def)
qed (use assms in auto)

text \<open>One bet and one of its outbox rows rewritten, as accepting and rejecting do.\<close>

lemma find_bet_map:
  assumes "db_bets d' = map f (db_bets d)" "\<And>b. bet_id (f b) = bet_id b"
  shows "find_bet i d' = map_option f (find_bet i d)"
proof -
  have "get_by bet_id i (map f bs) = map_option f (get_by bet_id i bs)" for bs
    by (induction bs) (simp_all add: get_by_def assms(2))
  with assms(1) show ?thesis by (simp add: find_bet_def)
qed

subsection \<open>The same book\<close>

text \<open>
  Two databases with the same book: the bets differ at most in the note staff read, the legs are
  the same, and the outbox rows differ at most in their retry bookkeeping.
\<close>

definition bet_core :: "bet_row \<Rightarrow> bet_row" where
  "bet_core b = b\<lparr>bet_settlementNote := None\<rparr>"

definition ob_still :: "outbox_row \<Rightarrow> outbox_row" where
  "ob_still r = r\<lparr>ob_attempts := 0, ob_lastError := None, ob_nextRetryAt := None\<rparr>"

definition same_book :: "db \<Rightarrow> db \<Rightarrow> bool" where
  "same_book d d' \<longleftrightarrow>
     map bet_core (db_bets d') = map bet_core (db_bets d) \<and> db_legs d' = db_legs d \<and>
     map ob_still (db_outbox d') = map ob_still (db_outbox d)"

lemma same_book_refl [simp]: "same_book d d"
  by (simp add: same_book_def)

lemma same_book_trans: "same_book a b \<Longrightarrow> same_book b c \<Longrightarrow> same_book a c"
  by (simp add: same_book_def)

lemma same_bookI:
  "db_bets d' = db_bets d \<Longrightarrow> db_legs d' = db_legs d \<Longrightarrow> db_outbox d' = db_outbox d \<Longrightarrow> same_book d d'"
  by (simp add: same_book_def)

lemma core_fields [simp]:
  "bet_id (bet_core b) = bet_id b" "bet_status (bet_core b) = bet_status b"
  "bet_stake (bet_core b) = bet_stake b" "bet_username (bet_core b) = bet_username b"
  "bet_payoutAmount (bet_core b) = bet_payoutAmount b" "bet_settledAt (bet_core b) = bet_settledAt b"
  "bet_potentialPayout (bet_core b) = bet_potentialPayout b"
  "ob_id (ob_still r) = ob_id r" "ob_betId (ob_still r) = ob_betId r" "ob_type (ob_still r) = ob_type r"
  "ob_transactionCode (ob_still r) = ob_transactionCode r" "ob_status (ob_still r) = ob_status r"
  "ob_payload (ob_still r) = ob_payload r" "ob_casinoGroupId (ob_still r) = ob_casinoGroupId r"
  "ob_key (ob_still r) = ob_key r"
  by (simp_all add: bet_core_def ob_still_def ob_key_def)

definition still_db :: "db \<Rightarrow> db" where
  "still_db d = d\<lparr>db_bets := map bet_core (db_bets d), db_outbox := map ob_still (db_outbox d)\<rparr>"

lemma still_db_sel [simp]:
  "db_bets (still_db d) = map bet_core (db_bets d)" "db_legs (still_db d) = db_legs d"
  "db_outbox (still_db d) = map ob_still (db_outbox d)"
  by (simp_all add: still_db_def)

lemma find_bet_still: "find_bet i (still_db d) = map_option bet_core (find_bet i d)"
  by (rule find_bet_map) simp_all

lemma row_agrees_still: "row_agrees E seen (still_db d) (ob_still r) = row_agrees E seen d r"
  by (cases "find_bet (ob_betId r) d") (simp_all add: row_agrees_def find_bet_still credit_agrees_def)

lemma one_credit_still:
  "unique_rows d \<Longrightarrow> one_credit (still_db d) = one_credit d"
  unfolding one_credit_def by (simp add: ball_simps) (metis core_fields(8) unique_rowsD(1))

lemma integrity_still: "integrity E seen (still_db d) = integrity E seen d"
proof -
  have u: "unique_rows (still_db d) = unique_rows d" by (simp add: unique_rows_def comp_def)
  moreover have "bet_covered (still_db d) (bet_core b) = bet_covered d b" for b
    by (simp add: bet_covered_def)
  ultimately show ?thesis
    using one_credit_still [of d] by (auto simp: integrity_def row_agrees_still)
qed

lemma integrity_same_book:
  assumes "same_book d d'"
  shows "integrity E seen d' = integrity E seen d"
proof -
  have same: "integrity E seen (still_db d') = integrity E seen (still_db d)"
    using assms
    by (simp add: same_book_def integrity_def unique_rows_def one_credit_def row_agrees_def
        bet_covered_def find_bet_def)
  then show ?thesis by (simp add: integrity_still)
qed

text \<open>An operation that touches neither the book nor the wallet.\<close>

definition quiet :: "'w world \<Rightarrow> 'w world \<Rightarrow> bool" where
  "quiet s s' \<longleftrightarrow> same_book (w_db s) (w_db s') \<and> w_wallet s' = w_wallet s"

lemma quiet_refl [simp]: "quiet s s"
  by (simp add: quiet_def)

lemma quiet_trans: "quiet a b \<Longrightarrow> quiet b c \<Longrightarrow> quiet a c"
  by (auto simp: quiet_def intro: same_book_trans)

lemma quiet_audit [simp]: "quiet s (audit_record a b c e f g h i j s') = quiet s s'"
  by (simp add: quiet_def audit_record_def same_book_def)

text \<open>A new credit row of a bet that has none, with the bet settled.\<close>

lemma integrity_credit:
  assumes I: "integrity E seen d"
    and b: "db_bets d' = map f (db_bets d)" "\<And>b. bet_id (f b) = bet_id b"
      "\<And>b. bet_id b \<noteq> ob_betId n \<Longrightarrow> f b = b"
    and o: "db_outbox d' = db_outbox d @ [n]" "ob_type n \<noteq> WALLET_OUTBOX_DEBIT"
    and fresh: "ob_id n \<notin> ob_id ` set (db_outbox d)"
      "ob_transactionCode n \<notin> ob_transactionCode ` set (db_outbox d)"
    and l: "map leg_id (db_legs d') = map leg_id (db_legs d)"
    and old: "find_bet (ob_betId n) d = Some b0" "bet_status b0 = Bet_ACCEPTED"
    and stat: "is_settled (bet_status (f b0))"
    and row: "row_agrees E seen d' n"
  shows "integrity E seen d'"
proof -
  have none: "\<not> (ob_betId r = ob_betId n \<and> ob_type r \<noteq> WALLET_OUTBOX_DEBIT)"
    if "r \<in> set (db_outbox d)" for r
    using integrityD(3) [OF I that] old
    by (auto simp: row_agrees_def credit_agrees_def is_settled_def split: if_splits)
  then have "ob_key n \<notin> ob_key ` set (db_outbox d)"
    using o(2) by (auto simp: ob_key_def)
  then have "unique_rows d'"
    using integrityD(1) [OF I] b(1,2) o fresh l by (simp add: unique_rows_def comp_def)
  moreover have "one_credit d'"
    using integrityD(2) [OF I] none unfolding one_credit_def o(1) by (auto 4 3)
  moreover have "\<forall>r \<in> set (db_outbox d'). row_agrees E seen d' r"
  proof
    fix r assume "r \<in> set (db_outbox d')"
    then consider "r = n" | "r \<in> set (db_outbox d)" using o(1) by auto
    then show "row_agrees E seen d' r"
    proof cases
      case 2
      note a = integrityD(3) [OF I 2]
      show ?thesis
      proof (cases "ob_betId r = ob_betId n")
        case True
        with none [OF 2] have "ob_type r = WALLET_OUTBOX_DEBIT" by blast
        with a True old stat show ?thesis
          by (auto simp: row_agrees_def debit_agrees_def is_settled_def find_bet_map [OF b(1,2)])
      next
        case False
        have "find_bet (ob_betId r) d' = find_bet (ob_betId r) d"
        proof (cases "find_bet (ob_betId r) d")
          case (Some b1)
          with find_bet_id [OF Some] False have "f b1 = b1" by (intro b(3)) simp
          with Some show ?thesis by (simp add: find_bet_map [OF b(1,2)])
        qed (simp add: find_bet_map [OF b(1,2)])
        from a row_agrees_bets [OF this] show ?thesis by blast
      qed
    qed (use row in simp)
  qed
  moreover have "\<forall>b \<in> set (db_bets d'). bet_covered d' b"
  proof
    fix b' assume "b' \<in> set (db_bets d')"
    then obtain b1 where b1: "b1 \<in> set (db_bets d)" "b' = f b1" using b(1) by auto
    note c = integrityD(4) [OF I b1(1), unfolded bet_covered_def]
    have out: "set (db_outbox d') = insert n (set (db_outbox d))" using o(1) by simp
    show "bet_covered d' b'"
    proof (cases "bet_id b1 = ob_betId n")
      case True
      with c b(2) o(2) show ?thesis unfolding bet_covered_def out b1(2) by auto
    next
      case False
      with c b(3) show ?thesis unfolding bet_covered_def out b1(2) by auto
    qed
  qed
  ultimately show ?thesis by (simp add: integrity_def)
qed

text \<open>A new pending bet with its pending debit row.\<close>

lemma integrity_place:
  assumes I: "integrity E seen d"
    and b: "db_bets d' = db_bets d @ [b]" "bet_status b = Bet_PENDING"
      "bet_id b \<notin> bet_id ` set (db_bets d)"
    and o: "db_outbox d' = db_outbox d @ [n]" "ob_type n = WALLET_OUTBOX_DEBIT"
      "ob_betId n = bet_id b" "ob_status n = Ob_PENDING" "ob_transactionCode n \<noteq> []"
    and fresh: "ob_id n \<notin> ob_id ` set (db_outbox d)"
      "ob_transactionCode n \<notin> ob_transactionCode ` set (db_outbox d)"
    and l: "distinct (map leg_id (db_legs d'))"
  shows "integrity E seen d'"
proof -
  have other: "find_bet (ob_betId r) d' = find_bet (ob_betId r) d \<and> ob_betId r \<noteq> bet_id b"
    if in_d: "r \<in> set (db_outbox d)" for r
  proof -
    obtain b1 where b1: "find_bet (ob_betId r) d = Some b1"
      using integrityD(3) [OF I in_d] by (auto simp: row_agrees_def)
    with b(3) have "ob_betId r \<noteq> bet_id b" using find_bet_id [OF b1] by (metis imageI)
    with b1 b(1) show ?thesis
      by (simp add: find_bet_def bets.get_ins_law [unfolded row_insert_def])
  qed
  have new: "find_bet (bet_id b) d' = Some b"
    using b(1,3) bets.get_ins_fresh [of b "db_bets d"]
    by (simp add: find_bet_def row_insert_def)
  have "ob_key n \<notin> ob_key ` set (db_outbox d)"
    using other o(3) by (fastforce simp: ob_key_def)
  then have "unique_rows d'"
    using integrityD(1) [OF I] b o fresh l by (simp add: unique_rows_def)
  moreover have "one_credit d'"
    using integrityD(2) [OF I] o(1,2) unfolding one_credit_def by auto
  moreover have "\<forall>r \<in> set (db_outbox d'). row_agrees E seen d' r"
  proof
    fix r assume "r \<in> set (db_outbox d')"
    then consider "r = n" | "r \<in> set (db_outbox d)" using o(1) by auto
    then show "row_agrees E seen d' r"
      by cases (use new o b(2) other integrityD(3) [OF I, of r] in
        \<open>auto simp: row_agrees_def debit_agrees_def\<close>)
  qed
  moreover have "\<forall>b1 \<in> set (db_bets d'). bet_covered d' b1"
    using integrityD(4) [OF I] b o by (auto simp: bet_covered_def is_settled_def)
  ultimately show ?thesis by (simp add: integrity_def)
qed

end
