(* ===== verification/OutboxIntegrity.thy ===== *)
theory OutboxIntegrity
  imports Integrity
begin

text \<open>
  The outbox worker keeps the integrity of bets, outbox and wallet: a debit attempt, a staff
  void delivery and a settlement batch, whatever the wallet answers, and every worker run
  built from them. The lemmas hold for every wallet under the contract \<open>wallet_ledger\<close>.
\<close>

subsection \<open>Small changes of the tables\<close>

lemma update_bet_map: "db_bets (update_bet i f d) = map (\<lambda>b. if bet_id b = i then f b else b) (db_bets d)"
  by (simp add: update_bet_def upd_by_def row_update_def)

lemma update_outbox_map:
  "db_outbox (update_outbox i h d) = map (\<lambda>r. if ob_id r = i then h r else r) (db_outbox d)"
  by (simp add: update_outbox_def upd_by_def row_update_def)

lemma update_outbox_in_map:
  "db_outbox (update_outbox_in ids h d) = map (\<lambda>r. if ob_id r \<in> set ids then h r else r) (db_outbox d)"
  by (simp add: update_outbox_in_def row_update_def)

lemma update_outbox_in_frame [simp, frame]:
  "db_bets (update_outbox_in ids h d) = db_bets d"
  "db_legs (update_outbox_in ids h d) = db_legs d"
  by (simp_all add: update_outbox_in_def)

text \<open>Rescheduling leaves status, codes and payloads alone.\<close>

lemma integrity_rewrite:
  assumes I: "integrity E seen d"
    and d': "db_bets d' = db_bets d" "db_legs d' = db_legs d" "db_outbox d' = map h (db_outbox d)"
    and h: "\<And>r. ob_id (h r) = ob_id r" "\<And>r. ob_betId (h r) = ob_betId r"
      "\<And>r. ob_type (h r) = ob_type r" "\<And>r. ob_transactionCode (h r) = ob_transactionCode r"
      "\<And>r. ob_status (h r) = ob_status r" "\<And>r. ob_payload (h r) = ob_payload r"
  shows "integrity E seen d'"
proof (rule integrity_map_outbox [OF I d'])
  show "row_agrees E seen d (h r)" if "r \<in> set (db_outbox d)" for r
    using integrityD(3) [OF I that] unfolding row_agrees_def credit_agrees_def h .
qed (simp_all add: h ob_key_def)

lemma integrity_scheduleRetry:
  "integrity E seen (w_db s) \<Longrightarrow> integrity E seen (w_db (scheduleRetry i n e s))"
  by (rule integrity_rewrite [where h = "\<lambda>r. if ob_id r = i then
        r\<lparr>ob_attempts := n + 1, ob_lastError := Some (error_message e),
          ob_nextRetryAt := Some (w_now s + int (retry_delay_seconds (n + 1)) * 1000)\<rparr> else r"])
     (auto simp: scheduleRetry_def Let_def update_outbox_map)

lemma scheduleRetry_frame [simp, frame]:
  "w_wallet (scheduleRetry i n e s) = w_wallet s" "w_now (scheduleRetry i n e s) = w_now s"
  "w_seq (scheduleRetry i n e s) = w_seq s"
  "db_bets (w_db (scheduleRetry i n e s)) = db_bets (w_db s)"
  "db_legs (w_db (scheduleRetry i n e s)) = db_legs (w_db s)"
  by (simp_all add: scheduleRetry_def Let_def)

text \<open>The debit row of a bet, with the code it already has.\<close>

lemma ensure_code_agrees:
  "row_agrees E seen d r \<Longrightarrow> ensure_code E r s = (ob_transactionCode r, s)"
  by (simp add: row_agrees_def ensure_code_def)

lemma debit_row:
  assumes I: "integrity E seen d" and "find_bet i d = Some b"
    and "find_outbox i WALLET_OUTBOX_DEBIT d = Some r"
  shows "r \<in> set (db_outbox d)" "ob_betId r = i" "ob_type r = WALLET_OUTBOX_DEBIT"
    "ob_transactionCode r \<noteq> []"
    "debit_agrees (bet_status b) (ob_status r) (ob_transactionCode r \<in> seen)"
proof -
  show r: "r \<in> set (db_outbox d)" "ob_betId r = i" "ob_type r = WALLET_OUTBOX_DEBIT"
    using find_outbox_row [OF integrityD(1) [OF I]] assms(3) by auto
  from integrityD(3) [OF I r(1)] r assms(2)
  show "ob_transactionCode r \<noteq> []"
    "debit_agrees (bet_status b) (ob_status r) (ob_transactionCode r \<in> seen)"
    by (auto simp: row_agrees_def)
qed

text \<open>One bet moves together with its debit row.\<close>

lemma integrity_debit_step:
  assumes I: "integrity E seen d"
    and b: "find_bet i d = Some b" "bet_status b = Bet_PENDING"
    and r: "r \<in> set (db_outbox d)" "ob_betId r = i" "ob_type r = WALLET_OUTBOX_DEBIT"
    and seen: "seen \<subseteq> seen'" "seen' \<subseteq> insert (ob_transactionCode r) seen"
    and f: "\<And>b. bet_id (f b) = bet_id b" "\<And>b. bet_status (f b) = st" "\<not> is_settled st"
    and h: "\<And>r. ob_id (h r) = ob_id r" "\<And>r. ob_betId (h r) = ob_betId r"
      "\<And>r. ob_type (h r) = ob_type r" "\<And>r. ob_transactionCode (h r) = ob_transactionCode r"
      "\<And>r. ob_status (h r) = ob"
    and ok: "debit_agrees st ob (ob_transactionCode r \<in> seen')"
  shows "integrity E seen' (update_outbox (ob_id r) h (update_bet i f d))"
proof (rule integrity_map [OF I])
  let ?f = "\<lambda>b. if bet_id b = i then f b else b"
  let ?h = "\<lambda>x. if ob_id x = ob_id r then h x else x"
  let ?d = "update_outbox (ob_id r) h (update_bet i f d)"
  show bets: "db_bets ?d = map ?f (db_bets d)" and "db_outbox ?d = map ?h (db_outbox d)"
    by (simp_all add: update_bet_map update_outbox_map)
  show "row_agrees E seen' ?d (?h x)" if x: "x \<in> set (db_outbox d)" for x
  proof (cases "x = r")
    case True
    then show ?thesis
      using b(1) r h ok integrityD(3) [OF I r(1)] f
      by (auto simp: row_agrees_def)
  next
    case False
    then have id: "ob_id x \<noteq> ob_id r" and code: "ob_transactionCode x \<noteq> ob_transactionCode r"
      using unique_rowsD [OF integrityD(1) [OF I] x r(1)] by auto
    note a = integrityD(3) [OF I x]
    have "ob_betId x \<noteq> i"
    proof
      assume i: "ob_betId x = i"
      with False unique_rowsD(2) [OF integrityD(1) [OF I] x r(1)] r
      have "ob_type x \<noteq> WALLET_OUTBOX_DEBIT" by auto
      with a i b show False by (auto simp: row_agrees_def credit_agrees_def is_settled_def)
    qed
    then have same: "find_bet (ob_betId x) ?d = find_bet (ob_betId x) d"
      using f(1) by (cases "find_bet (ob_betId x) d") auto
    from a have "row_agrees E seen' d x"
      by (rule row_agrees_seen) (use seen code in auto)
    with row_agrees_bets [OF same] id show ?thesis by simp
  qed
  show "is_settled (bet_status c)"
    if "c \<in> set (db_bets d)" "is_settled (bet_status (?f c))" for c
    using that f(2,3) by (auto split: if_splits)
qed (simp_all add: f h ob_key_def)

subsection \<open>The debit of one bet\<close>

text \<open>
  The outcomes of a debit attempt: nothing happens (the bet is not pending, unknown, or has no
  leg), or the debit of the pending bet is posted and its answer decides.
\<close>

definition debit_answer ::
  "string \<Rightarrow> bet_row \<Rightarrow> outbox_row \<Rightarrow> string result \<Rightarrow> 'w world \<Rightarrow> bet_row result \<times> 'w world" where
  "debit_answer i b r ans s =
     (case ans of
        Inr x \<Rightarrow> (let s2 = acceptBet i x (ob_id r) s in (Inr (reread_bet i b s2), s2))
      | Inl e \<Rightarrow>
          if is_insufficient e
          then (let s2 = rejectBet i (error_message e) (ob_id r) s in (Inr (reread_bet i b s2), s2))
          else (Inl e, scheduleRetry (ob_id r) (ob_attempts r) e s))"

lemma debit_answer_cases:
  assumes "(res, s') = debit_answer i b r ans s"
  obtains (accepted) x where "ans = Inr x" "s' = acceptBet i x (ob_id r) s" "res = Inr (reread_bet i b s')"
  | (rejected) m where "ans = Inl (WalletReserveError m INSUFFICIENT_FUNDS)"
      "s' = rejectBet i m (ob_id r) s" "res = Inr (reread_bet i b s')"
  | (retry) e where "ans = Inl e" "\<not> is_insufficient e" "res = Inl e"
      "s' = scheduleRetry (ob_id r) (ob_attempts r) e s"
proof (cases ans)
  case (Inr x)
  with assms show ?thesis by (intro accepted [of x]) (simp_all add: debit_answer_def Let_def)
next
  case (Inl e)
  show ?thesis
  proof (cases "is_insufficient e")
    case True
    then obtain m where "e = WalletReserveError m INSUFFICIENT_FUNDS"
      by (auto simp: is_insufficient_def split: api_error.splits)
    with Inl True assms show ?thesis by (intro rejected [of m]) (simp_all add: debit_answer_def Let_def)
  next
    case False
    with Inl assms show ?thesis by (intro retry [of e]) (simp_all add: debit_answer_def)
  qed
qed

lemma processSingleDebit_cases:
  assumes I: "integrity E seen (w_db s)" and p: "processSingleDebit E P i s = (res, s')"
  obtains (idle) "s' = s"
      "(\<exists>b. res = Inr b \<and> find_bet i (w_db s) = Some b \<and> bet_status b \<noteq> Bet_PENDING) \<or>
       (\<exists>e. res = Inl e \<and> (find_bet i (w_db s) = None \<or> legs_of i (w_db s) = []))"
  | (posted) b r t ans w' where "find_bet i (w_db s) = Some b" "bet_status b = Bet_PENDING"
      "find_outbox i WALLET_OUTBOX_DEBIT (w_db s) = Some r"
      "buildBetDebitTransaction E b (legs_of i (w_db s)) (ob_transactionCode r) = Inr t"
      "tx_transactionCode t = ob_transactionCode r"
      "wp_postTransaction P t (w_wallet s) = (ans, w')"
      "(res, s') = debit_answer i b r ans (s\<lparr>w_wallet := w'\<rparr>)"
proof (cases "find_bet i (w_db s)")
  case None
  with p show ?thesis by (intro idle) (auto simp: processSingleDebit_def)
next
  case b: (Some b)
  have bi: "bet_id b = i" "b \<in> set (db_bets (w_db s))" using find_bet_id [OF b] by simp_all
  obtain r where r: "find_outbox i WALLET_OUTBOX_DEBIT (w_db s) = Some r"
    using integrityD(4) [OF I bi(2)] find_outbox_row [OF integrityD(1) [OF I]] bi(1)
    by (auto simp: bet_covered_def)
  note dr = debit_row [OF I b r]
  show ?thesis
  proof (cases "bet_status b = Bet_PENDING")
    case False
    with dr(5) have "bet_status b = Bet_REJECTED \<or> ob_status r = Ob_COMPLETED"
      by (auto simp: debit_agrees_def split: if_splits)
    with p b r False show ?thesis
      by (intro idle) (auto simp: processSingleDebit_def split: if_splits)
  next
    case True
    with dr(5) have st: "ob_status r = Ob_PENDING" by (simp add: debit_agrees_def)
    show ?thesis
    proof (cases "buildBetDebitTransaction E b (legs_of i (w_db s)) (ob_transactionCode r)")
      case (Inl e)
      then have "legs_of i (w_db s) = []"
        using buildBetDebitTransaction_total [of "legs_of i (w_db s)" E b "ob_transactionCode r"] by force
      with p b r True st dr(4) Inl show ?thesis
        by (intro idle) (auto simp: processSingleDebit_def ensure_code_def)
    next
      case (Inr t)
      obtain ans w' where post: "wp_postTransaction P t (w_wallet s) = (ans, w')"
        by (cases "wp_postTransaction P t (w_wallet s)")
      have "(res, s') = debit_answer i b r ans (s\<lparr>w_wallet := w'\<rparr>)"
        using p b r True st dr(4) Inr post
        by (auto simp: processSingleDebit_def ensure_code_def debit_answer_def Let_def
            split: sum.splits if_splits)
      with posted [OF b True r Inr buildBetDebitTransaction_fields(4) [OF Inr] post] show ?thesis .
    qed
  qed
qed

context wallet_ledger begin

lemma integrity_post:
  assumes I: "integrity E (snd (view w)) d"
    and r: "r \<in> set (db_outbox d)" "ob_status r \<noteq> Ob_FAILED" "ob_transactionCode r = tx_transactionCode t"
    and p: "wp_postTransaction port t w = (res, w')"
  shows "integrity E (snd (view w')) d"
  by (rule integrity_seen [OF I post_seen_mono [OF p]]) (use post_seen_bound [OF p] r in force)

lemma processSingleDebit_integrity:
  assumes I: "integrity E (snd (view (w_wallet s))) (w_db s)"
    and p: "processSingleDebit E port i s = (res, s')"
  shows "integrity E (snd (view (w_wallet s'))) (w_db s')"
  using I p
proof (cases rule: processSingleDebit_cases)
  case idle
  with I show ?thesis by simp
next
  case (posted b r t ans w')
  note dr = debit_row [OF I posted(1,3)]
  have st: "ob_status r = Ob_PENDING" using dr(5) posted(2) by (simp add: debit_agrees_def)
  note code = posted(5) and post = posted(6)
  note sb = post_seen_mono [OF post] post_seen_bound [OF post, unfolded code]
  have I': "integrity E (snd (view w')) (w_db s)"
    using integrity_post [OF I dr(1) _ code [symmetric] post] st by simp
  note step = integrity_debit_step [OF I posted(1,2) dr(1-3) sb]
  from posted(7) show ?thesis
  proof (cases rule: debit_answer_cases)
    case (accepted x)
    with post_ok_seen post have "tx_transactionCode t \<in> snd (view w')" by blast
    then have "integrity E (snd (view w')) (w_db (acceptBet i x (ob_id r) (s\<lparr>w_wallet := w'\<rparr>)))"
      unfolding acceptBet_def
      by (simp, intro step [where st = Bet_ACCEPTED and ob = Ob_COMPLETED])
         (simp_all add: is_settled_def debit_agrees_def code)
    with accepted show ?thesis by (simp add: acceptBet_def)
  next
    case (rejected m)
    with post post_refused have "tx_transactionCode t \<notin> snd (view w')" by fastforce
    then have "integrity E (snd (view w')) (w_db (rejectBet i m (ob_id r) (s\<lparr>w_wallet := w'\<rparr>)))"
      unfolding rejectBet_def
      by (simp, intro step [where st = Bet_REJECTED and ob = Ob_FAILED])
         (simp_all add: is_settled_def debit_agrees_def code)
    with rejected show ?thesis by (simp add: rejectBet_def)
  next
    case (retry e)
    with I' show ?thesis by (simp add: integrity_scheduleRetry)
  qed
qed

lemma debit_all_integrity:
  "integrity E (snd (view (w_wallet s))) (w_db s) \<Longrightarrow> debit_all E port ids s = (n, s') \<Longrightarrow>
   integrity E (snd (view (w_wallet s'))) (w_db s')"
  by (induction ids arbitrary: n s)
     (auto split: prod.splits dest: processSingleDebit_integrity)

end

subsection \<open>Credits: staff voids and settlement batches\<close>

text \<open>What the worker never changes in a row, and the entries it has read.\<close>

definition ob_core :: "outbox_row \<Rightarrow> string \<times> string \<times> string \<times> string \<times> stored_tx option" where
  "ob_core r = (ob_id r, ob_betId r, ob_type r, ob_transactionCode r, ob_payload r)"

definition credit_entry :: "db \<Rightarrow> outbox_row \<Rightarrow> bool" where
  "credit_entry d e \<longleftrightarrow> ob_type e \<noteq> WALLET_OUTBOX_DEBIT \<and> ob_core e \<in> ob_core ` set (db_outbox d)"

lemma credit_entry_core:
  "map ob_core (db_outbox d') = map ob_core (db_outbox d) \<Longrightarrow> credit_entry d' e = credit_entry d e"
  by (metis credit_entry_def set_map)

lemma credit_entry_row:
  assumes I: "integrity E seen d" and e: "credit_entry d e"
  obtains r where "r \<in> set (db_outbox d)" "ob_id r = ob_id e" "ob_type r \<noteq> WALLET_OUTBOX_DEBIT"
    "ob_transactionCode r = ob_transactionCode e" "ob_status r \<noteq> Ob_FAILED"
    "tx_transactionCode (payload_tx e) = ob_transactionCode e"
proof -
  from e obtain r where r: "r \<in> set (db_outbox d)" "ob_core r = ob_core e"
    "ob_type r \<noteq> WALLET_OUTBOX_DEBIT"
    by (auto simp: credit_entry_def ob_core_def)
  with integrityD(3) [OF I r(1)] have "ob_status r \<noteq> Ob_FAILED"
    "tx_transactionCode (payload_tx e) = ob_transactionCode e"
    by (auto simp: row_agrees_def credit_agrees_def payload_tx_def ob_core_def
        deserializeWalletTransaction_def)
  with r that show ?thesis by (simp add: ob_core_def)
qed

lemma core_update:
  assumes "\<And>r. ob_core (h r) = ob_core r"
  shows "map ob_core (db_outbox (update_outbox i h d)) = map ob_core (db_outbox d)"
    and "map ob_core (db_outbox (update_outbox_in ids h d)) = map ob_core (db_outbox d)"
  using assms by (simp_all add: update_outbox_map update_outbox_in_map)

lemma core_scheduleRetry [simp]:
  "map ob_core (db_outbox (w_db (scheduleRetry i n e s))) = map ob_core (db_outbox (w_db s))"
  by (simp add: scheduleRetry_def Let_def core_update ob_core_def)

text \<open>Completing credit rows whose code the wallet has applied.\<close>

lemma integrity_complete:
  assumes I: "integrity E seen d"
    and d': "db_bets d' = db_bets d" "db_legs d' = db_legs d"
      "db_outbox d' = map (\<lambda>r. if ob_id r \<in> K then h r else r) (db_outbox d)"
    and h: "\<And>r. ob_core (h r) = ob_core r" "\<And>r. ob_status (h r) = Ob_COMPLETED"
    and K: "\<And>r. r \<in> set (db_outbox d) \<Longrightarrow> ob_id r \<in> K \<Longrightarrow>
      ob_type r \<noteq> WALLET_OUTBOX_DEBIT \<and> ob_transactionCode r \<in> seen"
  shows "integrity E seen d'"
proof -
  let ?h = "\<lambda>r. if ob_id r \<in> K then h r else r"
  have c: "ob_id (h r) = ob_id r" "ob_betId (h r) = ob_betId r" "ob_type (h r) = ob_type r"
    "ob_transactionCode (h r) = ob_transactionCode r" "ob_payload (h r) = ob_payload r" for r
    using h(1) [of r] by (simp_all add: ob_core_def)
  show ?thesis
  proof (rule integrity_map_outbox [OF I d'])
    show "row_agrees E seen d (?h r)" if r: "r \<in> set (db_outbox d)" for r
    proof (cases "ob_id r \<in> K")
      case True
      with K [OF r True] integrityD(3) [OF I r] show ?thesis
        by (simp add: row_agrees_def credit_agrees_def c h(2) del: not_None_eq)
           (auto simp: c)
    qed (use integrityD(3) [OF I r] in simp)
  qed (simp_all add: c ob_key_def)
qed

lemma credit_entries_complete:
  assumes I: "integrity E seen d" and "\<And>e. e \<in> set es \<Longrightarrow> credit_entry d e"
    and seen: "\<And>e. e \<in> set es \<Longrightarrow> ob_transactionCode e \<in> seen"
    and r: "r \<in> set (db_outbox d)" "ob_id r \<in> ob_id ` set es"
  shows "ob_type r \<noteq> WALLET_OUTBOX_DEBIT \<and> ob_transactionCode r \<in> seen"
proof -
  from r(2) obtain e where e: "e \<in> set es" "ob_id r = ob_id e" by auto
  from credit_entry_row [OF I assms(2) [OF e(1)]] obtain r' where
    "r' \<in> set (db_outbox d)" "ob_id r' = ob_id e" "ob_type r' \<noteq> WALLET_OUTBOX_DEBIT"
    "ob_transactionCode r' = ob_transactionCode e" by blast
  with unique_rowsD(1) [OF integrityD(1) [OF I] r(1)] e seen show ?thesis by metis
qed

context wallet_ledger begin

lemma void_all_integrity:
  assumes "integrity E (snd (view (w_wallet s))) (w_db s)"
    and "\<And>e. e \<in> set es \<Longrightarrow> credit_entry (w_db s) e"
    and "void_all port es s = (n, s')"
  shows "integrity E (snd (view (w_wallet s'))) (w_db s')"
  using assms
proof (induction es arbitrary: s n)
  case Nil
  then show ?case by simp
next
  case (Cons e es)
  obtain ans w' where post: "wp_postTransaction port (payload_tx e) (w_wallet s) = (ans, w')"
    by (cases "wp_postTransaction port (payload_tx e) (w_wallet s)")
  from Cons.prems(2) have ce: "credit_entry (w_db s) e" by simp
  obtain r where r: "r \<in> set (db_outbox (w_db s))" "ob_status r \<noteq> Ob_FAILED"
    "ob_transactionCode r = tx_transactionCode (payload_tx e)"
    "tx_transactionCode (payload_tx e) = ob_transactionCode e"
    using credit_entry_row [OF Cons.prems(1) ce] by metis
  note I' = integrity_post [OF Cons.prems(1) r(1-3) post]
  show ?case
  proof (cases ans)
    case (Inr x)
    let ?s = "complete_outbox (ob_id e) (s\<lparr>w_wallet := w'\<rparr>)"
    have seen: "ob_transactionCode e \<in> snd (view w')"
      using post_ok_seen post Inr r(4) by metis
    have "integrity E (snd (view (w_wallet ?s))) (w_db ?s)"
      by (rule integrity_complete [where K = "{ob_id e}" and d = "w_db s" and
            h = "\<lambda>r. r\<lparr>ob_status := Ob_COMPLETED, ob_lastError := None\<rparr>"])
         (use I' seen credit_entries_complete [OF I', of "[e]"] ce in
           \<open>auto simp: complete_outbox_def update_outbox_map ob_core_def\<close>)
    moreover have "credit_entry (w_db ?s) e'" if "e' \<in> set es" for e'
    proof -
      have "map ob_core (db_outbox (w_db ?s)) = map ob_core (db_outbox (w_db s))"
        by (simp add: complete_outbox_def core_update ob_core_def)
      from credit_entry_core [OF this] Cons.prems(2) that show ?thesis by simp
    qed
    ultimately show ?thesis
      using Cons.IH [of ?s] Cons.prems(3) post Inr by (auto split: prod.splits)
  next
    case (Inl x)
    let ?s = "scheduleRetry (ob_id e) (ob_attempts e) x (s\<lparr>w_wallet := w'\<rparr>)"
    have "integrity E (snd (view (w_wallet ?s))) (w_db ?s)"
      using I' by (simp add: integrity_scheduleRetry)
    moreover have "credit_entry (w_db ?s) e'" if "e' \<in> set es" for e'
      using credit_entry_core [of "w_db ?s" "w_db s"] Cons.prems(2) that by simp
    ultimately show ?thesis using Cons.IH [of ?s] Cons.prems(3) post Inl by simp
  qed
qed

end

lemma due_credit_entry:
  assumes "unique_rows d" "r \<in> set (db_outbox d)" "ob_type r \<noteq> WALLET_OUTBOX_DEBIT"
  shows "credit_entry d r"
  using assms by (simp add: credit_entry_def)

lemma retry_all_frame [simp, frame]:
  "w_wallet (retry_all e es s) = w_wallet s" "w_now (retry_all e es s) = w_now s"
  "w_seq (retry_all e es s) = w_seq s"
  "db_bets (w_db (retry_all e es s)) = db_bets (w_db s)"
  "db_legs (w_db (retry_all e es s)) = db_legs (w_db s)"
  by (induction es arbitrary: s) (simp_all add: retry_all_def)

lemma retry_all_integrity:
  "integrity E seen (w_db s) \<Longrightarrow> integrity E seen (w_db (retry_all e es s))"
  by (induction es arbitrary: s) (simp_all add: retry_all_def integrity_scheduleRetry)

text \<open>The batch a flush sends: the rows of its anchor's batch, and the state they are sent in.\<close>

definition batch_state ::
  "env \<Rightarrow> outbox_row \<Rightarrow> outbox_row list \<Rightarrow> 'w world \<Rightarrow> string \<times> 'w world" where
  "batch_state E anchor entries s =
     (case ob_batchId anchor of
        Some b \<Rightarrow> (b, s)
      | None \<Rightarrow> (let b = env_gen E (w_seq s) in
          (b, s\<lparr>w_seq := w_seq s + 1,
                w_db := update_outbox_in (map ob_id entries) (\<lambda>r. r\<lparr>ob_batchId := Some b\<rparr>) (w_db s)\<rparr>)))"

lemma flush_cases:
  assumes "flushSettlementBatchForGroup E P g s = (sent, s')"
  obtains (none) "sent = False" "s' = s"
      "row_filter (settle_due g (w_now s)) (db_outbox (w_db s)) = []"
  | (sent) anchor rest b s2 x w' where
      "order_asc ob_createdAt (row_filter (settle_due g (w_now s)) (db_outbox (w_db s))) = anchor # rest"
      "batch_state E anchor (batch_entries g (ob_batchId anchor) s) s = (b, s2)"
      "wp_postTransactionBatch P g b (map payload_tx (batch_entries g (ob_batchId anchor) s))
         (w_wallet s2) = (Inr x, w')"
      "sent = True"
      "s' = s2\<lparr>w_wallet := w',
             w_db := update_outbox_in (map ob_id (batch_entries g (ob_batchId anchor) s))
               (\<lambda>r. r\<lparr>ob_status := Ob_COMPLETED, ob_batchId := Some b, ob_lastError := None\<rparr>) (w_db s2)\<rparr>"
  | (failed) anchor rest b s2 e w' where
      "order_asc ob_createdAt (row_filter (settle_due g (w_now s)) (db_outbox (w_db s))) = anchor # rest"
      "batch_state E anchor (batch_entries g (ob_batchId anchor) s) s = (b, s2)"
      "wp_postTransactionBatch P g b (map payload_tx (batch_entries g (ob_batchId anchor) s))
         (w_wallet s2) = (Inl e, w')"
      "sent = False"
      "s' = retry_all e (batch_entries g (ob_batchId anchor) s) (s2\<lparr>w_wallet := w'\<rparr>)"
proof (cases "order_asc ob_createdAt (row_filter (settle_due g (w_now s)) (db_outbox (w_db s)))")
  case Nil
  then have "row_filter (settle_due g (w_now s)) (db_outbox (w_db s)) = []"
    by (metis set_order_asc set_empty)
  with Nil assms show ?thesis
    by (intro none) (simp_all add: flushSettlementBatchForGroup_def)
next
  case (Cons anchor rest)
  let ?es = "batch_entries g (ob_batchId anchor) s"
  have "set (anchor # rest) = set (row_filter (settle_due g (w_now s)) (db_outbox (w_db s)))"
    unfolding Cons [symmetric] by simp
  then have a: "anchor \<in> set (row_filter (settle_due g (w_now s)) (db_outbox (w_db s)))" by auto
  then have ne: "?es \<noteq> []"
    by (metis (mono_tags, lifting) batch_entries_def empty_iff empty_set mem_Collect_eq
        set_order_asc set_row_filter)
  obtain b s2 where bs: "batch_state E anchor ?es s = (b, s2)" by (cases "batch_state E anchor ?es s")
  obtain ans w' where post: "wp_postTransactionBatch P g b (map payload_tx ?es) (w_wallet s2) = (ans, w')"
    by (cases "wp_postTransactionBatch P g b (map payload_tx ?es) (w_wallet s2)")
  show ?thesis
  proof (cases ans)
    case (Inr x)
    with assms Cons ne bs post have "sent = True \<and>
      s' = s2\<lparr>w_wallet := w',
             w_db := update_outbox_in (map ob_id ?es)
               (\<lambda>r. r\<lparr>ob_status := Ob_COMPLETED, ob_batchId := Some b, ob_lastError := None\<rparr>) (w_db s2)\<rparr>"
      by (auto simp: flushSettlementBatchForGroup_def batch_state_def Let_def split: option.splits)
    with sent [OF Cons bs] post Inr show ?thesis by blast
  next
    case (Inl e)
    with assms Cons ne bs post have "sent = False \<and> s' = retry_all e ?es (s2\<lparr>w_wallet := w'\<rparr>)"
      by (auto simp: flushSettlementBatchForGroup_def batch_state_def Let_def split: option.splits)
    with failed [OF Cons bs] post Inl show ?thesis by blast
  qed
qed

lemma batch_entries_rows:
  "r \<in> set (batch_entries g b s) \<Longrightarrow>
   r \<in> set (db_outbox (w_db s)) \<and> ob_type r = WALLET_OUTBOX_SETTLE \<and> ob_status r = Ob_PENDING \<and>
   ob_casinoGroupId r = g \<and> ob_batchId r = b"
  by (simp add: batch_entries_def settle_due_def outbox_due_def)

lemma batch_entry_credit:
  assumes "e \<in> set (batch_entries g b s)"
    and "map ob_core (db_outbox (w_db s')) = map ob_core (db_outbox (w_db s))"
  shows "credit_entry (w_db s') e"
proof -
  have "credit_entry (w_db s) e" using batch_entries_rows [OF assms(1)] by (simp add: credit_entry_def)
  with credit_entry_core [OF assms(2)] show ?thesis by blast
qed

lemma batch_state_frame:
  assumes "batch_state E anchor es s = (b, s2)"
  shows "w_wallet s2 = w_wallet s" "w_now s2 = w_now s"
    "map ob_core (db_outbox (w_db s2)) = map ob_core (db_outbox (w_db s))"
    "db_bets (w_db s2) = db_bets (w_db s)" "db_legs (w_db s2) = db_legs (w_db s)"
    "integrity E seen (w_db s) \<Longrightarrow> integrity E seen (w_db s2)"
proof -
  let ?h = "\<lambda>r. r\<lparr>ob_batchId := Some b\<rparr>"
  have s2: "w_db s2 = w_db s \<or> w_db s2 = update_outbox_in (map ob_id es) ?h (w_db s)"
    "w_wallet s2 = w_wallet s" "w_now s2 = w_now s"
    using assms by (auto simp: batch_state_def Let_def split: option.splits)
  then show "w_wallet s2 = w_wallet s" "w_now s2 = w_now s" by simp_all
  show "map ob_core (db_outbox (w_db s2)) = map ob_core (db_outbox (w_db s))"
    using s2(1) by (auto simp: core_update ob_core_def)
  show "db_bets (w_db s2) = db_bets (w_db s)" "db_legs (w_db s2) = db_legs (w_db s)"
    using s2(1) by auto
  show "integrity E seen (w_db s2)" if I: "integrity E seen (w_db s)"
  proof -
    have "integrity E seen (update_outbox_in (map ob_id es) ?h (w_db s))"
      by (rule integrity_rewrite [OF I, where h = "\<lambda>r. if ob_id r \<in> set (map ob_id es) then ?h r else r"])
         (auto simp: update_outbox_in_map)
    with I s2(1) show ?thesis by auto
  qed
qed

context wallet_ledger begin

lemma flush_integrity:
  assumes I: "integrity E (snd (view (w_wallet s))) (w_db s)"
    and f: "flushSettlementBatchForGroup E port g s = (sent, s')"
  shows "integrity E (snd (view (w_wallet s'))) (w_db s')"
  using f
proof (cases rule: flush_cases)
  case none
  with I show ?thesis by simp
next
  case (sent anchor rest b s2 x w')
  let ?es = "batch_entries g (ob_batchId anchor) s"
  note fr = batch_state_frame [OF sent(2)]
  have ce: "credit_entry (w_db s2) e" if "e \<in> set ?es" for e
    by (rule batch_entry_credit [OF that fr(3)])
  note seen = batch_seen_mono [OF sent(3)] batch_seen_bound [OF sent(3)]
  have I2: "integrity E (snd (view (w_wallet s2))) (w_db s2)" using I fr(1,6) by simp
  have code: "tx_transactionCode (payload_tx e) = ob_transactionCode e" if "e \<in> set ?es" for e
    using credit_entry_row [OF I2 ce [OF that]] by metis
  have I': "integrity E (snd (view w')) (w_db s2)"
  proof (rule integrity_seen [OF I2 seen(1)], rule order_trans [OF seen(2)])
    have "ob_transactionCode e \<in> ob_transactionCode ` {r \<in> set (db_outbox (w_db s2)). ob_status r \<noteq> Ob_FAILED}"
      if "e \<in> set ?es" for e
      using credit_entry_row [OF I2 ce [OF that]] by (metis (mono_tags, lifting) imageI mem_Collect_eq)
    with code show "snd (view (w_wallet s2)) \<union> tx_transactionCode ` set (map payload_tx ?es) \<subseteq>
      snd (view (w_wallet s2)) \<union>
      ob_transactionCode ` {r \<in> set (db_outbox (w_db s2)). ob_status r \<noteq> Ob_FAILED}"
      by auto
  qed
  have applied: "ob_transactionCode e \<in> snd (view w')" if "e \<in> set ?es" for e
  proof -
    have "payload_tx e \<in> set (map payload_tx ?es)" using that by simp
    from batch_ok_seen [OF sent(3) this] code [OF that] show ?thesis by simp
  qed
  have "integrity E (snd (view w')) (w_db s')"
    by (rule integrity_complete [OF I', where K = "ob_id ` set ?es" and
          h = "\<lambda>r. r\<lparr>ob_status := Ob_COMPLETED, ob_batchId := Some b, ob_lastError := None\<rparr>"])
       (use credit_entries_complete [OF I' ce applied] in
         \<open>auto simp: sent(5) update_outbox_in_map ob_core_def\<close>)
  then show ?thesis by (simp add: sent(5))
next
  case (failed anchor rest b s2 e w')
  let ?es = "batch_entries g (ob_batchId anchor) s"
  note fr = batch_state_frame [OF failed(2)]
  have ce: "credit_entry (w_db s2) e" if "e \<in> set ?es" for e
    by (rule batch_entry_credit [OF that fr(3)])
  note seen = batch_seen_mono [OF failed(3)] batch_seen_bound [OF failed(3)]
  have I2: "integrity E (snd (view (w_wallet s2))) (w_db s2)" using I fr(1,6) by simp
  have I': "integrity E (snd (view w')) (w_db s2)"
  proof (rule integrity_seen [OF I2 seen(1)], rule order_trans [OF seen(2)])
    have "tx_transactionCode (payload_tx e) \<in>
        ob_transactionCode ` {r \<in> set (db_outbox (w_db s2)). ob_status r \<noteq> Ob_FAILED}"
      if "e \<in> set ?es" for e
      using credit_entry_row [OF I2 ce [OF that]] by (metis (mono_tags, lifting) imageI mem_Collect_eq)
    then show "snd (view (w_wallet s2)) \<union> tx_transactionCode ` set (map payload_tx ?es) \<subseteq>
      snd (view (w_wallet s2)) \<union>
      ob_transactionCode ` {r \<in> set (db_outbox (w_db s2)). ob_status r \<noteq> Ob_FAILED}"
      by auto
  qed
  then show ?thesis by (simp add: failed(5) retry_all_integrity)
qed

lemma flush_groups_integrity:
  "integrity E (snd (view (w_wallet s))) (w_db s) \<Longrightarrow> flush_groups E port gs s = (n, s') \<Longrightarrow>
   integrity E (snd (view (w_wallet s'))) (w_db s')"
  by (induction gs arbitrary: n s) (auto split: prod.splits dest: flush_integrity)

lemma flush_loop_integrity:
  "integrity E (snd (view (w_wallet s))) (w_db s) \<Longrightarrow> flush_loop k E port g s = (n, s') \<Longrightarrow>
   integrity E (snd (view (w_wallet s'))) (w_db s')"
  by (induction k arbitrary: n s) (auto split: prod.splits bool.splits dest: flush_integrity)

lemma flushSettlementBatches_integrity:
  "integrity E (snd (view (w_wallet s))) (w_db s) \<Longrightarrow>
   integrity E (snd (view (w_wallet (snd (flushSettlementBatches E port s)))))
     (w_db (snd (flushSettlementBatches E port s)))"
  by (cases "flushSettlementBatches E port s")
     (auto simp: flushSettlementBatches_def Let_def intro: flush_groups_integrity)

lemma processPendingStaffVoids_integrity:
  assumes I: "integrity E (snd (view (w_wallet s))) (w_db s)"
    and p: "processPendingStaffVoids port k s = (n, s')"
  shows "integrity E (snd (view (w_wallet s'))) (w_db s')"
proof (rule void_all_integrity [OF I])
  let ?es = "take k (order_asc ob_createdAt
      (row_filter (outbox_due WALLET_OUTBOX_STAFF_VOID (w_now s)) (db_outbox (w_db s))))"
  show "void_all port ?es s = (n, s')"
    using p by (simp add: processPendingStaffVoids_def Let_def)
  show "credit_entry (w_db s) e" if "e \<in> set ?es" for e
    using in_set_takeD [OF that] by (auto simp: credit_entry_def outbox_due_def)
qed

lemma processPendingDebits_integrity:
  "integrity E (snd (view (w_wallet s))) (w_db s) \<Longrightarrow> processPendingDebits E port k s = (n, s') \<Longrightarrow>
   integrity E (snd (view (w_wallet s'))) (w_db s')"
  unfolding processPendingDebits_def Let_def by (rule debit_all_integrity)

lemma processPending_integrity:
  assumes I: "integrity E (snd (view (w_wallet s))) (w_db s)"
    and p: "processPending E port s = (n, s')"
  shows "integrity E (snd (view (w_wallet s'))) (w_db s')"
proof -
  obtain n1 s1 n2 s2 n3 where
    r: "processPendingDebits E port DEBIT_BATCH_LIMIT s = (n1, s1)"
      "processPendingStaffVoids port DEBIT_BATCH_LIMIT s1 = (n2, s2)"
      "flushSettlementBatches E port s2 = (n3, s')"
    using p by (auto simp: processPending_def split: prod.splits)
  from flushSettlementBatches_integrity [where s = s2 and E = E]
    processPendingStaffVoids_integrity [OF processPendingDebits_integrity [OF I r(1)] r(2)]
  show ?thesis by (simp add: r(3))
qed

end

end
