(* ===== verification/Bets.thy ===== *)
theory Bets
  imports BetValidation WalletOutbox
begin

text \<open>
  \<open>modules/bets/bets.service.ts\<close>, \<open>bet.mapper.ts\<close>, \<open>idempotency-key.decorator.ts\<close> and the
  placement route of \<open>bets.controller.ts\<close>: placing a bet once per idempotency key, retrying a
  pending one, and reading bets back.
\<close>

subsection \<open>Responses\<close>

record leg_dto =
  ld_selectionId :: string
  ld_marketId :: string
  ld_eventId :: string
  ld_selectionName :: string
  ld_priceAtPlacement :: string
  ld_outcome :: leg_outcome
  ld_marketType :: "market_type option"
  ld_marketLine :: "string option"
  ld_homeTeamName :: "string option"
  ld_awayTeamName :: "string option"
  ld_eventProviderRef :: "string option"

record bet_dto =
  bd_id :: string
  bd_status :: bet_status
  bd_stake :: string
  bd_currency :: string
  bd_combinedOdds :: string
  bd_potentialPayout :: string
  bd_payoutAmount :: "string option"
  bd_settledAt :: "iso_date option"
  bd_rejectionReason :: "string option"
  bd_settlementNote :: "string option"
  bd_createdAt :: iso_date
  bd_legs :: "leg_dto list"

definition toBetLegDto :: "dec_lib \<Rightarrow> leg_row \<Rightarrow> leg_dto" where
  "toBetLegDto L leg = \<lparr>
     ld_selectionId = leg_selectionId leg,
     ld_marketId = leg_marketId leg,
     ld_eventId = leg_eventId leg,
     ld_selectionName = leg_selectionName leg,
     ld_priceAtPlacement = decimalToString L (leg_priceAtPlacement leg),
     ld_outcome = leg_outcome leg,
     ld_marketType = leg_marketType leg,
     ld_marketLine = nullableDecimalToString L (leg_marketLine leg),
     ld_homeTeamName = leg_homeTeamName leg,
     ld_awayTeamName = leg_awayTeamName leg,
     ld_eventProviderRef = leg_eventProviderRef leg\<rparr>"

definition toBetDto :: "dec_lib \<Rightarrow> bet_row \<Rightarrow> leg_row list \<Rightarrow> bet_dto" where
  "toBetDto L bet legs = \<lparr>
     bd_id = bet_id bet,
     bd_status = bet_status bet,
     bd_stake = decimalToString L (bet_stake bet),
     bd_currency = bet_currency bet,
     bd_combinedOdds = decimalToString L (bet_combinedOdds bet),
     bd_potentialPayout = decimalToString L (bet_potentialPayout bet),
     bd_payoutAmount = nullableDecimalToString L (bet_payoutAmount bet),
     bd_settledAt = map_option ISO (bet_settledAt bet),
     bd_rejectionReason = bet_rejectionReason bet,
     bd_settlementNote = bet_settlementNote bet,
     bd_createdAt = ISO (bet_createdAt bet),
     bd_legs = map (toBetLegDto L) (sort_legs legs)\<rparr>"

subsection \<open>The idempotency key\<close>

text \<open>The header value, absent when the request does not carry it.\<close>

definition idempotency_key :: "string option \<Rightarrow> string result" where
  "idempotency_key raw =
     (let key = (case raw of None \<Rightarrow> [] | Some v \<Rightarrow> trim v) in
      if key = [] \<or> length key > 128
      then Inl (BadRequest ''Idempotency-Key header is required (max 128 characters)'')
      else Inr key)"

subsection \<open>Placement\<close>

record user_context =
  uc_casinoGroupId :: string
  uc_userId :: string
  uc_username :: string
  uc_currency :: string

definition find_by_key :: "user_context \<Rightarrow> string \<Rightarrow> db \<Rightarrow> bet_row option" where
  "find_by_key user key d =
     get_by (\<lambda>b. (bet_casinoGroupId b, bet_userId b, bet_idempotencyKey b))
       (uc_casinoGroupId user, uc_userId user, key) (db_bets d)"

definition pending_message :: string where
  "pending_message = ''Bet accepted locally; wallet debit pending '' @ [CHR 0xE2, CHR 0x80, CHR 0x94]
     @ '' retry with the same Idempotency-Key''"

definition attemptWalletDebit ::
  "env \<Rightarrow> 'w wallet_port \<Rightarrow> string \<Rightarrow> 'w world \<Rightarrow> bet_row result \<times> 'w world" where
  "attemptWalletDebit E P betId s =
     (case processSingleDebit E P betId s of
        (Inr bet, s') \<Rightarrow> (Inr bet, s')
      | (Inl e, s') \<Rightarrow>
          (Inl (if is_reserve_error e then ServiceUnavailable pending_message
                else if is_not_found e then e
                else ServiceUnavailable pending_message), s'))"

text \<open>The rows a new bet is created with: the bet, its legs and its debit outbox row.\<close>

definition new_bet :: "user_context \<Rightarrow> string \<Rightarrow> bet_quote \<Rightarrow> string \<Rightarrow> int \<Rightarrow> bet_row" where
  "new_bet user key q betId now = \<lparr>
     bet_id = betId,
     bet_casinoGroupId = uc_casinoGroupId user,
     bet_userId = uc_userId user,
     bet_username = uc_username user,
     bet_idempotencyKey = key,
     bet_stake = q_stake q,
     bet_currency = uc_currency user,
     bet_status = Bet_PENDING,
     bet_combinedOdds = q_combinedOdds q,
     bet_potentialPayout = q_potentialPayout q,
     bet_walletReservationId = None,
     bet_rejectionReason = None,
     bet_payoutAmount = None,
     bet_settledAt = None,
     bet_settlementNote = None,
     bet_createdAt = now\<rparr>"

definition new_leg :: "validated_leg \<Rightarrow> nat \<Rightarrow> string \<Rightarrow> string \<Rightarrow> leg_row" where
  "new_leg leg index legId betId = \<lparr>
     leg_id = legId,
     leg_betId = betId,
     leg_selectionId = vl_selectionId leg,
     leg_marketId = vl_marketId leg,
     leg_eventId = vl_eventId leg,
     leg_selectionName = vl_selectionName leg,
     leg_priceAtPlacement = vl_price leg,
     leg_legOrder = index,
     leg_outcome = Leg_PENDING,
     leg_marketType = None,
     leg_marketLine = None,
     leg_homeTeamName = None,
     leg_awayTeamName = None,
     leg_eventProviderRef = None,
     leg_sportKey = None,
     leg_sportName = None,
     leg_leagueKey = None,
     leg_leagueName = None\<rparr>"

definition new_debit :: "string \<Rightarrow> string \<Rightarrow> string \<Rightarrow> string \<Rightarrow> int \<Rightarrow> outbox_row" where
  "new_debit outboxId betId casinoGroupId transactionCode now = \<lparr>
     ob_id = outboxId,
     ob_betId = betId,
     ob_casinoGroupId = casinoGroupId,
     ob_type = WALLET_OUTBOX_DEBIT,
     ob_transactionCode = transactionCode,
     ob_batchId = None,
     ob_payload = None,
     ob_status = Ob_PENDING,
     ob_attempts = 0,
     ob_lastError = None,
     ob_nextRetryAt = None,
     ob_createdAt = now\<rparr>"

text \<open>The legs in quote order, with ids drawn from position \<open>n\<close> of the generator.\<close>

fun create_legs ::
  "env \<Rightarrow> string \<Rightarrow> nat \<Rightarrow> nat \<Rightarrow> validated_leg list \<Rightarrow> leg_row list result" where
  "create_legs E betId n index [] = Inr []"
| "create_legs E betId n index (leg # rest) =
     (case legSnapshotCreateData (env_dec E) (vl_snapshot leg)
             (new_leg leg index (env_gen E n) betId) of
        Inl e \<Rightarrow> Inl e
      | Inr row \<Rightarrow>
          (case create_legs E betId (n + 1) (index + 1) rest of
             Inl e \<Rightarrow> Inl e
           | Inr rows \<Rightarrow> Inr (row # rows)))"

text \<open>
  The unique columns of the rows a placement creates: primary keys, the idempotency key of a
  user in a tenant, the transaction code. A clash makes the statement throw.
\<close>

definition placement_clash ::
  "user_context \<Rightarrow> string \<Rightarrow> string \<Rightarrow> string \<Rightarrow> string \<Rightarrow> leg_row list \<Rightarrow> db \<Rightarrow> bool" where
  "placement_clash user key betId outboxId transactionCode legs d \<longleftrightarrow>
     (\<exists>b \<in> set (db_bets d). bet_id b = betId \<or>
        (bet_casinoGroupId b = uc_casinoGroupId user \<and> bet_userId b = uc_userId user \<and>
         bet_idempotencyKey b = key)) \<or>
     (\<exists>r \<in> set (db_outbox d). ob_id r = outboxId \<or> ob_transactionCode r = transactionCode) \<or>
     \<not> distinct (map leg_id (db_legs d @ legs))"

text \<open>
  \<open>bet.create\<close> with its nested rows, one statement of the database. The transaction code is
  drawn first, then the ids of the bet, the outbox row and the legs.
\<close>

definition create_bet ::
  "env \<Rightarrow> user_context \<Rightarrow> string \<Rightarrow> bet_quote \<Rightarrow> 'w world \<Rightarrow> string result \<times> 'w world" where
  "create_bet E user key q s =
     (let n = w_seq s;
          transactionCode = env_gen E n;
          betId = env_gen E (n + 1);
          outboxId = env_gen E (n + 2) in
      case create_legs E betId (n + 3) 0 (q_legs q) of
        Inl e \<Rightarrow> (Inl e, s\<lparr>w_seq := n + 1\<rparr>)
      | Inr legs \<Rightarrow>
          if placement_clash user key betId outboxId transactionCode legs (w_db s)
          then (Inl (PlainError ''Unique constraint failed''), s\<lparr>w_seq := n + 3 + length legs\<rparr>)
          else
          (Inr betId,
           s\<lparr>w_seq := n + 3 + length legs,
             w_db := (w_db s)\<lparr>
               db_bets := row_insert (new_bet user key q betId (w_now s)) (db_bets (w_db s)),
               db_legs := db_legs (w_db s) @ legs,
               db_outbox := row_insert
                 (new_debit outboxId betId (uc_casinoGroupId user) transactionCode (w_now s))
                 (db_outbox (w_db s))\<rparr>\<rparr>))"

definition finish_placement ::
  "env \<Rightarrow> bet_row result \<times> 'w world \<Rightarrow> bet_dto result \<times> 'w world" where
  "finish_placement E p =
     (case p of
        (Inl e, s) \<Rightarrow> (Inl e, s)
      | (Inr bet, s) \<Rightarrow> (Inr (toBetDto (env_dec E) bet (legs_of (bet_id bet) (w_db s))), s))"

definition placeBet ::
  "env \<Rightarrow> 'w wallet_port \<Rightarrow> user_context \<Rightarrow> string \<Rightarrow> string list \<Rightarrow> string \<Rightarrow> 'w world
     \<Rightarrow> bet_dto result \<times> 'w world" where
  "placeBet E P user key selectionIds stake s =
     (case find_by_key user key (w_db s) of
        Some existing \<Rightarrow>
          if bet_status existing = Bet_PENDING
          then finish_placement E (attemptWalletDebit E P (bet_id existing) s)
          else finish_placement E (Inr existing, s)
      | None \<Rightarrow>
      case validatePlacement E (uc_casinoGroupId user) selectionIds stake (w_db s) of
        Inl e \<Rightarrow> (Inl e, s)
      | Inr q \<Rightarrow>
      case wp_getBalance P (uc_username user) (uc_casinoGroupId user) (w_wallet s) of
        (Inl e, w') \<Rightarrow> (Inl e, s\<lparr>w_wallet := w'\<rparr>)
      | (Inr (balance, currency), w') \<Rightarrow>
      let s1 = s\<lparr>w_wallet := w'\<rparr> in
      if currency \<noteq> uc_currency user then
        (Inl (BadRequest ''Currency mismatch with wallet''), s1)
      else case stakeLessOrEqualBalance (env_dec E) (q_stake q) balance of
        Inl e \<Rightarrow> (Inl e, s1)
      | Inr enough \<Rightarrow>
      if \<not> enough then (Inl (BadRequest ''Insufficient balance''), s1)
      else case create_bet E user key q s1 of
        (Inl e, s2) \<Rightarrow> (Inl e, s2)
      | (Inr betId, s2) \<Rightarrow> finish_placement E (attemptWalletDebit E P betId s2))"

text \<open>The route: the key from the header, the validated body, then the service.\<close>

definition BetsController_placeBet ::
  "env \<Rightarrow> 'w wallet_port \<Rightarrow> user_context \<Rightarrow> string option \<Rightarrow> string list \<Rightarrow> string \<Rightarrow> 'w world
     \<Rightarrow> bet_dto result \<times> 'w world" where
  "BetsController_placeBet E P user header selectionIds stake s =
     (case idempotency_key header of
        Inl e \<Rightarrow> (Inl e, s)
      | Inr key \<Rightarrow>
          if \<not> PlaceBetDto_ok selectionIds stake then (Inl (BadRequest ''Bad Request''), s)
          else placeBet E P user key selectionIds stake s)"

subsection \<open>Reading bets\<close>

text \<open>\<open>take\<close> of a query: a negative count takes from the end.\<close>

definition take_rows :: "int \<Rightarrow> 'a list \<Rightarrow> 'a list" where
  "take_rows n xs = (if n < 0 then drop (length xs - nat (- n)) xs else take (nat n) xs)"

definition listForUser :: "env \<Rightarrow> string \<Rightarrow> string \<Rightarrow> int \<Rightarrow> db \<Rightarrow> bet_dto list" where
  "listForUser E casinoGroupId userId limit d =
     (let bets = take_rows (min limit 100) (order_desc bet_createdAt
            (row_filter (\<lambda>b. bet_casinoGroupId b = casinoGroupId \<and> bet_userId b = userId)
              (db_bets d)))
      in map (\<lambda>b. toBetDto (env_dec E) b (legs_of (bet_id b) d)) bets)"

definition getForUser :: "env \<Rightarrow> string \<Rightarrow> string \<Rightarrow> string \<Rightarrow> db \<Rightarrow> bet_dto result" where
  "getForUser E casinoGroupId userId betId d =
     (case row_find (\<lambda>b. bet_id b = betId \<and> bet_casinoGroupId b = casinoGroupId \<and>
                         bet_userId b = userId) (db_bets d) of
        None \<Rightarrow> Inl (NotFound ''Bet not found'')
      | Some bet \<Rightarrow> Inr (toBetDto (env_dec E) bet (legs_of (bet_id bet) d)))"

end
