(* ===== verification/StaffBets.thy ===== *)
theory StaffBets
  imports Bets Settlement AuditLog
begin

text \<open>
  \<open>modules/backoffice/bets/staff-bets.service.ts\<close>: the bet monitor, the exception queue and
  the staff void of an accepted bet.
\<close>

subsection \<open>Reading\<close>

record bet_search =
  bs_userId :: "string option"
  bs_status :: "bet_status option"
  bs_eventId :: "string option"
  bs_limit :: "nat option"

definition search_bets :: "env \<Rightarrow> string \<Rightarrow> bet_search \<Rightarrow> db \<Rightarrow> (bet_dto \<times> string) list" where
  "search_bets E casinoGroupId query d =
     (let limit = (case bs_limit query of None \<Rightarrow> 50 | Some n \<Rightarrow> n);
          bets = take limit (order_desc bet_createdAt
            (row_filter (\<lambda>b. bet_casinoGroupId b = casinoGroupId \<and>
               (truthy (bs_userId query) \<longrightarrow> Some (bet_userId b) = bs_userId query) \<and>
               (case bs_status query of None \<Rightarrow> True | Some st \<Rightarrow> bet_status b = st) \<and>
               (if truthy (bs_eventId query)
                then has_leg_on d (the (bs_eventId query)) b else True))
              (db_bets d)))
      in map (\<lambda>b. (toBetDto (env_dec E) b (legs_of (bet_id b) d), bet_userId b)) bets)"

record staff_bet_dto =
  sd_bet :: bet_dto
  sd_userId :: string
  sd_walletReservationId :: "string option"
  sd_idempotencyKey :: string

definition find_group_bet :: "string \<Rightarrow> string \<Rightarrow> db \<Rightarrow> bet_row option" where
  "find_group_bet casinoGroupId betId d =
     row_find (\<lambda>b. bet_id b = betId \<and> bet_casinoGroupId b = casinoGroupId) (db_bets d)"

definition staff_getById :: "env \<Rightarrow> string \<Rightarrow> string \<Rightarrow> db \<Rightarrow> staff_bet_dto result" where
  "staff_getById E casinoGroupId betId d =
     (case find_group_bet casinoGroupId betId d of
        None \<Rightarrow> Inl (NotFound ''Bet not found'')
      | Some bet \<Rightarrow> Inr \<lparr>
          sd_bet = toBetDto (env_dec E) bet (legs_of (bet_id bet) d),
          sd_userId = bet_userId bet,
          sd_walletReservationId = bet_walletReservationId bet,
          sd_idempotencyKey = bet_idempotencyKey bet\<rparr>)"

text \<open>
  The exception queue. The code lists flagged bets and outbox rows by \<open>updatedAt\<close>, a column the
  model leaves out, so here they come in table order; the caps on their number are kept.
\<close>

record exceptions =
  ex_pendingPlacement :: "bet_row list"
  ex_settlementFlags :: "bet_row list"
  ex_walletFailures :: "(outbox_row \<times> bet_row) list"
  ex_totalCount :: nat

definition listExceptions :: "string \<Rightarrow> db \<Rightarrow> exceptions" where
  "listExceptions casinoGroupId d =
     (let pendingPlacement = take 50 (order_desc bet_createdAt
            (row_filter (\<lambda>b. bet_casinoGroupId b = casinoGroupId \<and> bet_status b = Bet_PENDING)
              (db_bets d)));
          settlementFlags = take 50
            (row_filter (\<lambda>b. bet_casinoGroupId b = casinoGroupId \<and> bet_status b = Bet_ACCEPTED \<and>
               bet_settlementNote b \<noteq> None) (db_bets d));
          failedOutboxRows = take 100
            (row_filter (\<lambda>r. ob_casinoGroupId r = casinoGroupId \<and>
               (ob_status r = Ob_FAILED \<or> ob_status r = Ob_PENDING)) (db_outbox d));
          betById = (\<lambda>i. row_find (\<lambda>b. bet_id b = i \<and> bet_casinoGroupId b = casinoGroupId) (db_bets d));
          walletFailures = List.map_filter
            (\<lambda>r. map_option (\<lambda>b. (r, b)) (betById (ob_betId r))) failedOutboxRows
      in \<lparr>ex_pendingPlacement = pendingPlacement, ex_settlementFlags = settlementFlags,
          ex_walletFailures = walletFailures,
          ex_totalCount = length pendingPlacement + length settlementFlags + length walletFailures\<rparr>)"

subsection \<open>Voiding\<close>

definition void_separator :: string where
  "void_separator = [CHR '' '', CHR 0xE2, CHR 0x80, CHR 0x94, CHR '' '']"

definition voidBet ::
  "env \<Rightarrow> string \<Rightarrow> string \<Rightarrow> string \<Rightarrow> string \<Rightarrow> 'w world \<Rightarrow> (bet_dto \<times> string) result \<times> 'w world" where
  "voidBet E casinoGroupId betId reason staffUserId s =
     (case find_group_bet casinoGroupId betId (w_db s) of
        None \<Rightarrow> (Inl (NotFound ''Bet not found''), s)
      | Some bet \<Rightarrow>
      if bet_status bet \<noteq> Bet_ACCEPTED then
        (Inl (BadRequest ''Only ACCEPTED bets can be voided''), s)
      else if starts_with reason ''other:'' \<and> \<not> str_includes reason void_separator then
        (Inl (BadRequest ''A note is required when void reason code is other''), s)
      else
      let legs = legs_of (bet_id bet) (w_db s);
          transactionCode = staffVoidTransactionCode E (bet_id bet) in
      case buildSettlementTransaction E bet legs Bet_VOID (bet_stake bet) transactionCode (w_now s) of
        Inl e \<Rightarrow> (Inl e, s)
      | Inr transaction \<Rightarrow>
      let d1 = set_leg_outcomes (map (\<lambda>l. (l, Leg_VOID)) legs) (w_db s);
          d2 = update_bet (bet_id bet)
            (settle_bet_row Bet_VOID (bet_stake bet) (w_now s)
              (Some (''Voided by staff: '' @ reason))) d1 in
      case create_outbox (new_settlement_row (env_gen E (w_seq s)) bet WALLET_OUTBOX_STAFF_VOID
             transactionCode None transaction (w_now s)) d2 of
        Inl e \<Rightarrow> (Inl e, s\<lparr>w_seq := w_seq s + 1\<rparr>)
      | Inr d3 \<Rightarrow>
      let s1 = s\<lparr>w_db := d3, w_seq := w_seq s + 1\<rparr>;
          voided = reread_bet (bet_id bet) bet s1;
          s2 = staff_audit staffUserId casinoGroupId ''bets.voided'' ''Bet'' betId
            (Some [(''status'', outcome_text (bet_status bet))])
            (Some [(''status'', outcome_text Bet_VOID)]) (Some reason) s1 in
      (Inr (toBetDto (env_dec E) voided (legs_of (bet_id bet) (w_db s1)), bet_userId voided), s2))"

end
