(* ===== verification/BetIntegrity.thy ===== *)
theory BetIntegrity
  imports OutboxIntegrity StaffBets
begin

text \<open>
  The operations on bets keep the integrity of bets, outbox and wallet: placement (new or
  retried), settlement runs and the staff void.
\<close>

subsection \<open>Placement\<close>

text \<open>The id generator never returns an empty text.\<close>

definition ids_ok :: "env \<Rightarrow> bool" where
  "ids_ok E \<longleftrightarrow> (\<forall>n. env_gen E n \<noteq> [])"

lemma create_bet_cases:
  assumes "create_bet E user key q s = (res, s')"
  obtains (failed) e where "res = Inl e" "w_db s' = w_db s" "w_wallet s' = w_wallet s" "w_now s' = w_now s"
  | (created) legs where "res = Inr (env_gen E (w_seq s + 1))"
      "create_legs E (env_gen E (w_seq s + 1)) (w_seq s + 3) 0 (q_legs q) = Inr legs"
      "\<not> placement_clash user key (env_gen E (w_seq s + 1)) (env_gen E (w_seq s + 2))
          (env_gen E (w_seq s)) legs (w_db s)"
      "w_db s' = (w_db s)\<lparr>
          db_bets := db_bets (w_db s) @ [new_bet user key q (env_gen E (w_seq s + 1)) (w_now s)],
          db_legs := db_legs (w_db s) @ legs,
          db_outbox := db_outbox (w_db s) @
            [new_debit (env_gen E (w_seq s + 2)) (env_gen E (w_seq s + 1)) (uc_casinoGroupId user)
               (env_gen E (w_seq s)) (w_now s)]\<rparr>"
      "w_wallet s' = w_wallet s" "w_now s' = w_now s"
proof (cases "create_legs E (env_gen E (w_seq s + 1)) (w_seq s + 3) 0 (q_legs q)")
  case (Inl e)
  with assms show ?thesis by (intro failed) (auto simp: create_bet_def Let_def)
next
  case (Inr legs)
  show ?thesis
  proof (cases "placement_clash user key (env_gen E (w_seq s + 1)) (env_gen E (w_seq s + 2))
          (env_gen E (w_seq s)) legs (w_db s)")
    case True
    with Inr assms show ?thesis by (intro failed) (auto simp: create_bet_def Let_def)
  next
    case False
    with Inr assms show ?thesis
      by (intro created [OF _ Inr False]) (auto simp: create_bet_def Let_def row_insert_def)
  qed
qed

lemma create_bet_integrity:
  assumes I: "integrity E seen (w_db s)" and E: "ids_ok E"
    and c: "create_bet E user key q s = (res, s')"
  shows "integrity E seen (w_db s')"
  using c
proof (cases rule: create_bet_cases)
  case (failed e)
  with I show ?thesis by simp
next
  case (created legs)
  let ?b = "new_bet user key q (env_gen E (w_seq s + 1)) (w_now s)"
  let ?n = "new_debit (env_gen E (w_seq s + 2)) (env_gen E (w_seq s + 1)) (uc_casinoGroupId user)
               (env_gen E (w_seq s)) (w_now s)"
  show ?thesis
  proof (rule integrity_place [OF I, where b = ?b and n = ?n])
    show "bet_id ?b \<notin> bet_id ` set (db_bets (w_db s))"
      "ob_id ?n \<notin> ob_id ` set (db_outbox (w_db s))"
      "ob_transactionCode ?n \<notin> ob_transactionCode ` set (db_outbox (w_db s))"
      "distinct (map leg_id (db_legs (w_db s')))"
      using created(3,4) by (auto simp: placement_clash_def new_bet_def new_debit_def)
    show "ob_transactionCode ?n \<noteq> []" using E by (simp add: new_debit_def ids_ok_def)
  qed (simp_all add: created(4) new_bet_def new_debit_def)
qed

context wallet_ledger begin

lemma attempt_integrity:
  assumes "integrity E (snd (view (w_wallet s))) (w_db s)"
    and "attemptWalletDebit E port i s = (res, s')"
  shows "integrity E (snd (view (w_wallet s'))) (w_db s')"
  using assms processSingleDebit_integrity [OF assms(1)]
  by (auto simp: attemptWalletDebit_def split: prod.splits sum.splits)

lemma placeBet_integrity:
  assumes I: "integrity E (snd (view (w_wallet s))) (w_db s)" and E: "ids_ok E"
    and p: "placeBet E port user key ids stake s = (res, s')"
  shows "integrity E (snd (view (w_wallet s'))) (w_db s')"
proof (cases "find_by_key user key (w_db s)")
  case (Some b)
  have "s' = s \<or> (\<exists>r. attemptWalletDebit E port (bet_id b) s = (r, s'))"
    using p Some
    by (auto simp: placeBet_def finish_placement_def split: if_splits prod.splits sum.splits)
  with I attempt_integrity show ?thesis by metis
next
  case None
  obtain ans w1 where g: "wp_getBalance port (uc_username user) (uc_casinoGroupId user) (w_wallet s) = (ans, w1)"
    by (cases "wp_getBalance port (uc_username user) (uc_casinoGroupId user) (w_wallet s)")
  let ?s1 = "s\<lparr>w_wallet := w1\<rparr>"
  have v: "view w1 = view (w_wallet s)" by (rule balance_effect [OF g])
  have "s' = s \<or> s' = ?s1 \<or> (\<exists>q r s2. create_bet E user key q ?s1 = (r, s2) \<and>
      (s' = s2 \<or> (\<exists>i r'. attemptWalletDebit E port i s2 = (r', s'))))"
    using p None g
    by (auto simp: placeBet_def finish_placement_def Let_def split: if_splits prod.splits sum.splits)
  then consider "s' = s" | "s' = ?s1" | q r where "create_bet E user key q ?s1 = (r, s')"
    | q r s2 i r' where "create_bet E user key q ?s1 = (r, s2)"
        "attemptWalletDebit E port i s2 = (r', s')"
    by blast
  then show ?thesis
  proof cases
    case 3
    then have "w_wallet s' = w1" by (cases rule: create_bet_cases) simp_all
    with create_bet_integrity [OF _ E 3] I v show ?thesis by simp
  next
    case 4
    then have "w_wallet s2 = w1" by (cases rule: create_bet_cases) simp_all
    with create_bet_integrity [OF _ E 4(1)] I v
    have "integrity E (snd (view (w_wallet s2))) (w_db s2)" by simp
    from attempt_integrity [OF this 4(2)] show ?thesis .
  qed (use I v in simp_all)
qed

end

subsection \<open>Settling one bet\<close>

lemma uuid_shape_nonempty: "uuid_shape v d \<noteq> []"
  by (simp add: uuid_shape_def)

lemma create_outbox_InrD:
  assumes "create_outbox r d = Inr d'"
  shows "db_bets d' = db_bets d" "db_legs d' = db_legs d" "db_outbox d' = db_outbox d @ [r]"
    "ob_id r \<notin> ob_id ` set (db_outbox d)"
    "ob_transactionCode r \<notin> ob_transactionCode ` set (db_outbox d)"
  using assms by (auto simp: create_outbox_def row_insert_def split: if_splits)

lemma set_leg_outcomes_frame [simp, frame]:
  "db_bets (set_leg_outcomes os d) = db_bets d"
  "db_outbox (set_leg_outcomes os d) = db_outbox d"
  "map leg_id (db_legs (set_leg_outcomes os d)) = map leg_id (db_legs d)"
  by (induction os arbitrary: d)
     (auto simp: set_leg_outcomes_def update_leg_def legs.keys_upd)

lemma find_bet_outcomes [simp]: "find_bet i (set_leg_outcomes os d) = find_bet i d"
  by (simp add: find_bet_def)

lemma settle_bet_row_frame [simp]:
  "bet_id (settle_bet_row st p n nt b) = bet_id b"
  "bet_status (settle_bet_row st p n nt b) = st"
  "bet_payoutAmount (settle_bet_row st p n nt b) = Some p"
  "bet_stake (settle_bet_row st p n nt b) = bet_stake b"
  "bet_potentialPayout (settle_bet_row st p n nt b) = bet_potentialPayout b"
  "bet_username (settle_bet_row st p n nt b) = bet_username b"
  by (simp_all add: settle_bet_row_def)

text \<open>
  Closing an accepted bet: leg outcomes, the bet's result and payout, and a credit row with the
  matching transaction. Both a settlement and a staff void are of this form.
\<close>

lemma close_bet_integrity:
  assumes I: "integrity E seen d"
    and b: "find_bet (bet_id bet) d = Some bet" "bet_status bet = Bet_ACCEPTED"
    and st: "is_settled st" "payout = payoutForResult (bet_stake bet) (bet_potentialPayout bet) st"
    and t: "buildSettlementTransaction E bet legs st payout code now = Inr t"
    and n: "n = new_settlement_row oid bet type code batch t now" "code \<noteq> []"
      "type = WALLET_OUTBOX_SETTLE \<or> type = WALLET_OUTBOX_STAFF_VOID \<and> st = Bet_VOID"
    and c: "create_outbox n (update_bet (bet_id bet) (settle_bet_row st payout now note)
              (set_leg_outcomes outs d)) = Inr d'"
  shows "integrity E seen d'"
proof -
  let ?g = "settle_bet_row st payout now note"
  let ?f = "\<lambda>b. if bet_id b = bet_id bet then ?g b else b"
  let ?d2 = "update_bet (bet_id bet) ?g (set_leg_outcomes outs d)"
  have d': "d' = ?d2\<lparr>db_outbox := db_outbox d @ [n]\<rparr>"
    and fresh: "ob_id n \<notin> ob_id ` set (db_outbox d)"
      "ob_transactionCode n \<notin> ob_transactionCode ` set (db_outbox d)"
    using c by (auto simp: create_outbox_def row_insert_def split: if_splits)
  note tf = buildSettlementTransaction_fields [OF t]
  show ?thesis
  proof (rule integrity_credit [OF I, where f = ?f and n = n and ?b0.0 = bet])
    show "db_bets d' = map ?f (db_bets d)" by (simp add: d' update_bet_map)
    show "find_bet (ob_betId n) d = Some bet" using b by (simp add: n new_settlement_row_def)
    have "find_bet (bet_id bet) d' = Some (?g bet)"
    proof -
      have "find_bet (bet_id bet) d' = find_bet (bet_id bet) ?d2" by (simp add: d' find_bet_def)
      also have "\<dots> = Some (?g bet)" using b by simp
      finally show ?thesis .
    qed
    then show "row_agrees E seen d' n"
      using st n(2,3) tf
      by (auto simp: row_agrees_def credit_agrees_def n(1) new_settlement_row_def
          serializeWalletTransaction_def)
    show "map leg_id (db_legs d') = map leg_id (db_legs d)" by (simp add: d')
    show "ob_type n \<noteq> WALLET_OUTBOX_DEBIT" using n(3) by (auto simp: n(1) new_settlement_row_def)
  qed (use fresh b st in \<open>auto simp: d' n(1) new_settlement_row_def\<close>)
qed

text \<open>A graded bet that is still open in the database.\<close>

definition open_entry :: "db \<Rightarrow> graded_bet \<Rightarrow> bool" where
  "open_entry d en \<longleftrightarrow>
     find_bet (bet_id (gr_bet en)) d = Some (gr_bet en) \<and> bet_status (gr_bet en) = Bet_ACCEPTED \<and>
     gr_payoutAmount en = payoutForResult (bet_stake (gr_bet en)) (bet_potentialPayout (gr_bet en))
       (gr_betResult en)"

lemma gradeBet_SomeD:
  assumes "gradeBet L d i = Some en"
  shows "find_bet i d = Some (gr_bet en)" "bet_id (gr_bet en) = i" "open_entry d en"
    "is_final_result (gr_betResult en)" "gr_legs en = sort_legs (legs_of i d)"
    "gr_betResult en = aggregateBetResult (gr_legResults en)"
  using assms find_bet_id [of i d]
  by (auto simp: gradeBet_def open_entry_def is_final_result_def aggregateBetResult_def Let_def
      split: option.splits if_splits)

lemma persist_one_cases:
  assumes "persist_one E en batchId s = (res, s')"
  obtains (failed) e where "res = Inl e" "w_db s' = w_db s" "w_wallet s' = w_wallet s" "w_now s' = w_now s"
  | (persisted) t d3 where "res = Inr ()"
      "buildSettlementTransaction E (gr_bet en) (gr_legs en) (gr_betResult en) (gr_payoutAmount en)
         (settlementTransactionCode E (bet_id (gr_bet en)) (gr_betResult en)) (w_now s) = Inr t"
      "create_outbox (new_settlement_row (env_gen E (w_seq s)) (gr_bet en) WALLET_OUTBOX_SETTLE
         (settlementTransactionCode E (bet_id (gr_bet en)) (gr_betResult en)) (Some batchId) t (w_now s))
         (update_bet (bet_id (gr_bet en))
           (settle_bet_row (gr_betResult en) (gr_payoutAmount en) (w_now s) None)
           (set_leg_outcomes (zip (gr_legs en) (map toLegOutcome (gr_legResults en))) (w_db s))) = Inr d3"
      "w_db s' = d3" "w_wallet s' = w_wallet s" "w_now s' = w_now s"
proof (cases "buildSettlementTransaction E (gr_bet en) (gr_legs en) (gr_betResult en) (gr_payoutAmount en)
         (settlementTransactionCode E (bet_id (gr_bet en)) (gr_betResult en)) (w_now s)")
  case (Inl e)
  with assms show ?thesis by (intro failed) (auto simp: persist_one_def Let_def)
next
  case (Inr t)
  show ?thesis
  proof (cases "create_outbox (new_settlement_row (env_gen E (w_seq s)) (gr_bet en) WALLET_OUTBOX_SETTLE
         (settlementTransactionCode E (bet_id (gr_bet en)) (gr_betResult en)) (Some batchId) t (w_now s))
         (update_bet (bet_id (gr_bet en))
           (settle_bet_row (gr_betResult en) (gr_payoutAmount en) (w_now s) None)
           (set_leg_outcomes (zip (gr_legs en) (map toLegOutcome (gr_legResults en))) (w_db s)))")
    case e: (Inl e)
    with Inr assms show ?thesis by (intro failed) (auto simp: persist_one_def Let_def)
  next
    case d3: (Inr d3)
    with Inr assms show ?thesis by (intro persisted [OF _ Inr d3]) (auto simp: persist_one_def Let_def)
  qed
qed

lemma persist_one_integrity:
  assumes I: "integrity E seen (w_db s)" and en: "open_entry (w_db s) en" "is_final_result (gr_betResult en)"
    and p: "persist_one E en batchId s = (res, s')"
  shows "integrity E seen (w_db s')"
  using p
proof (cases rule: persist_one_cases)
  case (failed e)
  with I show ?thesis by simp
next
  case (persisted t d3)
  have "is_settled (gr_betResult en)" using en(2) by (simp add: is_settled_def is_final_result_def)
  from close_bet_integrity [OF I _ _ this _ persisted(2) refl _ _ persisted(3)] en
  show ?thesis
    by (simp add: persisted(4) open_entry_def settlementTransactionCode_def uuid_shape_nonempty)
qed

lemma persist_one_frame:
  assumes p: "persist_one E en batchId s = (res, s')"
  shows "w_wallet s' = w_wallet s" "w_now s' = w_now s"
    "i \<noteq> bet_id (gr_bet en) \<Longrightarrow> find_bet i (w_db s') = find_bet i (w_db s)"
proof -
  show "w_wallet s' = w_wallet s" "w_now s' = w_now s"
    using p by (cases rule: persist_one_cases; simp)+
  show "find_bet i (w_db s') = find_bet i (w_db s)" if "i \<noteq> bet_id (gr_bet en)"
    using p
  proof (cases rule: persist_one_cases)
    case (persisted t d3)
    let ?d2 = "update_bet (bet_id (gr_bet en))
        (settle_bet_row (gr_betResult en) (gr_payoutAmount en) (w_now s) None)
        (set_leg_outcomes (zip (gr_legs en) (map toLegOutcome (gr_legResults en))) (w_db s))"
    have "find_bet i (w_db s') = find_bet i ?d2"
      using create_outbox_InrD(1) [OF persisted(3)] persisted(4) by (simp add: find_bet_def)
    also have "\<dots> = find_bet i (w_db s)"
      using that by (cases "find_bet i (w_db s)") simp_all
    finally show ?thesis .
  qed simp
qed

lemma batch_for_frame:
  assumes "batch_for E g batches s = (b, batches', s')"
  shows "w_db s' = w_db s" "w_wallet s' = w_wallet s" "w_now s' = w_now s"
  using assms by (auto simp: batch_for_def Let_def split: option.splits)

lemma persist_all_integrity:
  assumes "integrity E seen (w_db s)"
    and "\<And>en. en \<in> set graded \<Longrightarrow> open_entry (w_db s) en"
    and "distinct (map (\<lambda>en. bet_id (gr_bet en)) graded)"
    and "persist_all E batches graded s = (res, s')"
  shows "integrity E seen (w_db s') \<and> w_wallet s' = w_wallet s \<and> w_now s' = w_now s"
  using assms
proof (induction graded arbitrary: batches s)
  case Nil
  then show ?case by simp
next
  case (Cons en rest)
  show ?case
  proof (cases "is_final_result (gr_betResult en)")
    case False
    with Cons.IH [of s batches] Cons.prems show ?thesis by simp
  next
    case True
    obtain b batches' s1 where bf: "batch_for E (bet_casinoGroupId (gr_bet en)) batches s = (b, batches', s1)"
      by (cases "batch_for E (bet_casinoGroupId (gr_bet en)) batches s") auto
    note fr1 = batch_for_frame [OF bf]
    obtain r s2 where p1: "persist_one E en b s1 = (r, s2)" by (cases "persist_one E en b s1")
    have I2: "integrity E seen (w_db s2)"
      by (rule persist_one_integrity [OF _ _ True p1]) (use Cons.prems fr1 in simp_all)
    note fr2 = persist_one_frame [OF p1]
    have op: "open_entry (w_db s2) en'" if "en' \<in> set rest" for en'
    proof -
      have "bet_id (gr_bet en') \<noteq> bet_id (gr_bet en)" using Cons.prems(3) that by (fastforce simp: image_iff)
      with fr2(3) fr1(1) Cons.prems(2) [of en'] that show ?thesis by (simp add: open_entry_def)
    qed
    show ?thesis
    proof (cases r)
      case (Inl e)
      with Cons.prems(4) True bf p1 I2 fr1 fr2 show ?thesis by simp
    next
      case (Inr u)
      with Cons.prems(4) True bf p1 have "persist_all E batches' rest s2 = (res, s')" by simp
      from Cons.IH [OF I2 op _ this] Cons.prems(3) fr1 fr2 show ?thesis by simp
    qed
  qed
qed

subsection \<open>Settlement runs\<close>

lemma map_filter_graded:
  assumes "en \<in> set (List.map_filter (\<lambda>b. gradeBet L d (bet_id b)) bs)"
  shows "open_entry d en" and "bet_id (gr_bet en) \<in> bet_id ` set bs"
proof -
  from assms obtain b where b: "b \<in> set bs" "gradeBet L d (bet_id b) = Some en"
    by (auto simp: List.map_filter_def)
  from gradeBet_SomeD [OF b(2)] b(1)
  show "open_entry d en" and "bet_id (gr_bet en) \<in> bet_id ` set bs" by auto
qed

lemma distinct_graded:
  "distinct (map bet_id bs) \<Longrightarrow>
   distinct (map (\<lambda>en. bet_id (gr_bet en)) (List.map_filter (\<lambda>b. gradeBet L d (bet_id b)) bs))"
proof (induction bs)
  case Nil
  then show ?case by (simp add: List.map_filter_simps)
next
  case (Cons b bs)
  have notin: "bet_id b \<notin> (\<lambda>en. bet_id (gr_bet en)) `
      set (List.map_filter (\<lambda>b. gradeBet L d (bet_id b)) bs)"
  proof
    assume "bet_id b \<in> (\<lambda>en. bet_id (gr_bet en)) ` set (List.map_filter (\<lambda>b. gradeBet L d (bet_id b)) bs)"
    then obtain en where en: "en \<in> set (List.map_filter (\<lambda>b. gradeBet L d (bet_id b)) bs)"
      "bet_id (gr_bet en) = bet_id b" by auto
    with map_filter_graded(2) [OF en(1)] Cons.prems show False by simp
  qed
  show ?case
  proof (cases "gradeBet L d (bet_id b)")
    case None
    with Cons show ?thesis by (simp add: List.map_filter_simps)
  next
    case (Some en)
    with gradeBet_SomeD(2) [OF Some] Cons notin show ?thesis by (simp add: List.map_filter_simps)
  qed
qed

lemma distinct_order_filter_take:
  "distinct (map f xs) \<Longrightarrow> distinct (map f (take n (order_asc k (row_filter P xs))))"
proof -
  assume d: "distinct (map f xs)"
  have "distinct (map f (order_asc k (row_filter P xs)))"
    using d by (auto simp: distinct_map order_asc_def row_filter_def intro: inj_on_subset)
  then show ?thesis by (metis distinct_take take_map)
qed

context wallet_ledger begin

lemma applySettlements_integrity:
  assumes I: "integrity E (snd (view (w_wallet s))) (w_db s)"
    and op: "\<And>en. en \<in> set graded \<Longrightarrow> open_entry (w_db s) en"
    and d: "distinct (map (\<lambda>en. bet_id (gr_bet en)) graded)"
    and a: "applySettlements E port graded s = (res, s')"
  shows "integrity E (snd (view (w_wallet s'))) (w_db s')"
proof -
  obtain r s1 where p: "persist_all E Map.empty graded s = (r, s1)"
    by (cases "persist_all E Map.empty graded s")
  from persist_all_integrity [OF I op d p]
  have I1: "integrity E (snd (view (w_wallet s1))) (w_db s1)" by simp
  from a p consider "s' = s1" | "s' = snd (flushSettlementBatches E port s1)"
    by (auto simp: applySettlements_def persistGradedSettlements_def split: sum.splits)
  then show ?thesis
    by cases (use I1 flushSettlementBatches_integrity [OF I1] in simp_all)
qed

lemma settleBatch_integrity:
  assumes I: "integrity E (snd (view (w_wallet s))) (w_db s)" and b: "settleBatch E port s = (res, s')"
  shows "integrity E (snd (view (w_wallet s'))) (w_db s')"
proof -
  let ?bets = "take BATCH_SIZE (order_asc bet_createdAt
      (row_filter (\<lambda>b. bet_status b = Bet_ACCEPTED) (db_bets (w_db s))))"
  let ?graded = "List.map_filter (\<lambda>b. gradeBet (env_dec E) (w_db s) (bet_id b)) ?bets"
  from b consider "s' = s" | r where "applySettlements E port ?graded s = (r, s')"
    by (auto simp: settleBatch_def Let_def split: if_splits prod.splits sum.splits)
  then show ?thesis
  proof cases
    case 2
    show ?thesis
    proof (rule applySettlements_integrity [OF I _ _ 2])
      show "open_entry (w_db s) en" if "en \<in> set ?graded" for en
        by (rule map_filter_graded [OF that])
      show "distinct (map (\<lambda>en. bet_id (gr_bet en)) ?graded)"
        using integrityD(1) [OF I]
        by (intro distinct_graded distinct_order_filter_take) (simp add: unique_rows_def)
    qed
  qed (use I in simp)
qed

lemma trySettleBet_integrity:
  assumes I: "integrity E (snd (view (w_wallet s))) (w_db s)" and b: "trySettleBet E port i s = (res, s')"
  shows "integrity E (snd (view (w_wallet s'))) (w_db s')"
proof (cases "gradeBet (env_dec E) (w_db s) i")
  case None
  with I b show ?thesis by (simp add: trySettleBet_def)
next
  case (Some en)
  with b obtain r where "applySettlements E port [en] s = (r, s')"
    by (auto simp: trySettleBet_def split: prod.splits sum.splits)
  from applySettlements_integrity [OF I _ _ this] gradeBet_SomeD(3) [OF Some] show ?thesis by simp
qed

lemma settle_each_integrity:
  "integrity E (snd (view (w_wallet s))) (w_db s) \<Longrightarrow> settle_each E port is s = (res, s') \<Longrightarrow>
   integrity E (snd (view (w_wallet s'))) (w_db s')"
proof (induction "is" arbitrary: s res)
  case (Cons i rest)
  obtain r s1 where t: "trySettleBet E port i s = (r, s1)" by (cases "trySettleBet E port i s")
  note I1 = trySettleBet_integrity [OF Cons.prems(1) t]
  from Cons.prems(2) t consider "s' = s1" | r' where "settle_each E port rest s1 = (r', s')"
    by (auto split: sum.splits prod.splits)
  then show ?case by cases (use I1 Cons.IH in blast)+
qed simp

lemma settleBetsForEvent_integrity:
  "integrity E (snd (view (w_wallet s))) (w_db s) \<Longrightarrow> settleBetsForEvent E port ev g s = (res, s') \<Longrightarrow>
   integrity E (snd (view (w_wallet s'))) (w_db s')"
  by (auto simp: settleBetsForEvent_def Let_def split: prod.splits sum.splits
      intro: settle_each_integrity)

end

subsection \<open>The staff void\<close>

lemma find_group_bet_find:
  "find_group_bet g i d = Some b \<Longrightarrow> unique_rows d \<Longrightarrow>
   find_bet i d = Some b \<and> bet_casinoGroupId b = g \<and> bet_id b = i"
  using find_bet_in by (fastforce simp: find_group_bet_def dest!: row_find_SomeD)

lemma voidBet_cases:
  assumes "voidBet E g i reason staff s = (res, s')"
  obtains (refused) e where "res = Inl e" "w_db s' = w_db s" "w_wallet s' = w_wallet s" "w_now s' = w_now s"
  | (voided) bet t d3 dto where "find_group_bet g i (w_db s) = Some bet" "bet_status bet = Bet_ACCEPTED"
      "buildSettlementTransaction E bet (legs_of (bet_id bet) (w_db s)) Bet_VOID (bet_stake bet)
         (staffVoidTransactionCode E (bet_id bet)) (w_now s) = Inr t"
      "create_outbox (new_settlement_row (env_gen E (w_seq s)) bet WALLET_OUTBOX_STAFF_VOID
         (staffVoidTransactionCode E (bet_id bet)) None t (w_now s))
         (update_bet (bet_id bet) (settle_bet_row Bet_VOID (bet_stake bet) (w_now s)
             (Some (''Voided by staff: '' @ reason)))
           (set_leg_outcomes (map (\<lambda>l. (l, Leg_VOID)) (legs_of (bet_id bet) (w_db s))) (w_db s))) = Inr d3"
      "res = Inr dto"
      "s' = staff_audit staff g ''bets.voided'' ''Bet'' i
            (Some [(''status'', outcome_text (bet_status bet))])
            (Some [(''status'', outcome_text Bet_VOID)]) (Some reason)
            (s\<lparr>w_db := d3, w_seq := w_seq s + 1\<rparr>)"
proof (cases "find_group_bet g i (w_db s)")
  case None
  with assms show ?thesis by (intro refused) (auto simp: voidBet_def)
next
  case (Some bet)
  let ?t = "buildSettlementTransaction E bet (legs_of (bet_id bet) (w_db s)) Bet_VOID (bet_stake bet)
         (staffVoidTransactionCode E (bet_id bet)) (w_now s)"
  show ?thesis
  proof (cases "bet_status bet = Bet_ACCEPTED \<and>
      \<not> (starts_with reason ''other:'' \<and> \<not> str_includes reason void_separator)")
    case False
    with Some assms have "(\<exists>e. res = Inl e) \<and> s' = s"
      by (simp add: voidBet_def split: if_splits) blast+
    with refused show ?thesis by blast
  next
    case ok: True
    show ?thesis
    proof (cases ?t)
      case (Inl e)
      with Some ok assms show ?thesis by (intro refused) (auto simp: voidBet_def Let_def)
    next
      case t: (Inr t)
      show ?thesis
      proof (cases "create_outbox (new_settlement_row (env_gen E (w_seq s)) bet WALLET_OUTBOX_STAFF_VOID
         (staffVoidTransactionCode E (bet_id bet)) None t (w_now s))
         (update_bet (bet_id bet) (settle_bet_row Bet_VOID (bet_stake bet) (w_now s)
             (Some (''Voided by staff: '' @ reason)))
           (set_leg_outcomes (map (\<lambda>l. (l, Leg_VOID)) (legs_of (bet_id bet) (w_db s))) (w_db s)))")
        case (Inl e)
        with Some ok t assms show ?thesis by (intro refused) (auto simp: voidBet_def Let_def)
      next
        case d3: (Inr d3)
        with Some ok t assms show ?thesis
          by (intro voided [OF Some _ t d3]) (auto simp: voidBet_def Let_def)
      qed
    qed
  qed
qed

lemma voidBet_integrity:
  assumes I: "integrity E seen (w_db s)" and v: "voidBet E g i reason staff s = (res, s')"
  shows "integrity E seen (w_db s') \<and> w_wallet s' = w_wallet s \<and> w_now s' = w_now s"
  using v
proof (cases rule: voidBet_cases)
  case (refused e)
  with I show ?thesis by simp
next
  case (voided bet t d3 dto)
  note fb = find_group_bet_find [OF voided(1) integrityD(1) [OF I]]
  have "integrity E seen d3"
    by (rule close_bet_integrity [OF I _ voided(2) _ _ voided(3) refl _ _ voided(4)])
       (use fb in \<open>simp_all add: is_settled_def payoutForResult_def staffVoidTransactionCode_def
          uuid_shape_nonempty\<close>)
  then show ?thesis
    by (simp add: voided(6) integrity_def unique_rows_def one_credit_def row_agrees_def
        bet_covered_def find_bet_def)
qed

end
