(* ===== verification/Evolution.thy ===== *)
theory Evolution
  imports BetIntegrity
begin

text \<open>
  How the records and the wallet evolve: what is fixed when a bet is placed stays fixed, a
  status only moves forward (pending, then accepted or rejected, then won, lost or void), and
  every transaction the wallet applies is one an outbox row of the database describes.
\<close>

subsection \<open>What never changes\<close>

definition bet_terms where
  "bet_terms b = (bet_id b, bet_casinoGroupId b, bet_userId b, bet_username b, bet_idempotencyKey b,
     bet_stake b, bet_currency b, bet_combinedOdds b, bet_potentialPayout b, bet_createdAt b)"

definition leg_terms :: "leg_row \<Rightarrow> leg_row" where
  "leg_terms l = l\<lparr>leg_outcome := Leg_PENDING\<rparr>"

text \<open>A step of a bet's life. Once settled, status, payout and settlement time are final.\<close>

definition status_step :: "bet_row \<Rightarrow> bet_row \<Rightarrow> bool" where
  "status_step b b' \<longleftrightarrow>
     bet_status b = Bet_PENDING \<or>
     bet_status b = Bet_ACCEPTED \<and> bet_status b' \<noteq> Bet_PENDING \<and> bet_status b' \<noteq> Bet_REJECTED \<or>
     bet_status b' = bet_status b \<and> bet_payoutAmount b' = bet_payoutAmount b \<and>
       bet_settledAt b' = bet_settledAt b"

definition evolves :: "db \<Rightarrow> db \<Rightarrow> bool" where
  "evolves d d' \<longleftrightarrow>
     (\<forall>i b. find_bet i d = Some b \<longrightarrow>
        (\<exists>b'. find_bet i d' = Some b' \<and> bet_terms b' = bet_terms b \<and> status_step b b') \<and>
        map leg_terms (legs_of i d') = map leg_terms (legs_of i d)) \<and>
     ob_core ` set (db_outbox d) \<subseteq> ob_core ` set (db_outbox d')"

lemma status_step_refl [simp]: "status_step b b"
  by (simp add: status_step_def)

lemma status_step_trans: "status_step a b \<Longrightarrow> status_step b c \<Longrightarrow> status_step a c"
  by (cases "bet_status a"; cases "bet_status b") (auto simp: status_step_def)

lemma evolves_refl [simp]: "evolves d d"
  by (auto simp: evolves_def)

lemma evolves_trans: "evolves a b \<Longrightarrow> evolves b c \<Longrightarrow> evolves a c"
  unfolding evolves_def by (metis (no_types, lifting) status_step_trans subset_trans)

text \<open>Nothing about bets has changed, or outbox rows were rewritten in place.\<close>

lemma evolves_outbox:
  "db_bets d' = db_bets d \<Longrightarrow> db_legs d' = db_legs d \<Longrightarrow>
   map ob_core (db_outbox d') = map ob_core (db_outbox d) \<Longrightarrow> evolves d d'"
  by (simp add: evolves_def find_bet_def legs_of_def) (metis list.set_map order_refl)

lemma bet_terms_core [simp]: "bet_terms (bet_core b) = bet_terms b"
  by (simp add: bet_terms_def bet_core_def)

lemma same_book_find:
  assumes "same_book d d'" and "find_bet i d = Some b"
  shows "\<exists>b'. find_bet i d' = Some b' \<and> bet_core b' = bet_core b"
proof -
  have "find_bet i (still_db d') = find_bet i (still_db d)"
    using assms(1) by (simp add: find_bet_def same_book_def)
  with assms(2) show ?thesis by (simp add: find_bet_still)
qed

lemma ob_core_still: "ob_core (ob_still r) = ob_core r"
  by (simp add: ob_core_def)

lemma evolves_same_book:
  assumes "same_book d d'"
  shows "evolves d d'"
proof -
  have "map ob_core (db_outbox d') = map (ob_core \<circ> ob_still) (db_outbox d')"
    by (simp add: comp_def ob_core_still)
  also have "\<dots> = map (ob_core \<circ> ob_still) (db_outbox d)"
    using assms by (metis map_map same_book_def)
  finally have o: "map ob_core (db_outbox d') = map ob_core (db_outbox d)"
    by (simp add: comp_def ob_core_still)
  have l: "legs_of i d' = legs_of i d" for i
    using assms by (simp add: same_book_def legs_of_def)
  have b: "\<exists>b'. find_bet i d' = Some b' \<and> bet_terms b' = bet_terms b \<and> status_step b b'"
    if "find_bet i d = Some b" for i b
  proof -
    from same_book_find [OF assms that] obtain b' where b': "find_bet i d' = Some b'"
      and c: "bet_core b' = bet_core b" by blast
    from c have "bet_terms b' = bet_terms b" "bet_status b' = bet_status b"
      "bet_payoutAmount b' = bet_payoutAmount b" "bet_settledAt b' = bet_settledAt b"
      by (metis bet_terms_core core_fields)+
    with b' show ?thesis by (auto simp: status_step_def)
  qed
  have s: "ob_core ` set (db_outbox d) = ob_core ` set (db_outbox d')" using o by (metis list.set_map)
  show ?thesis unfolding evolves_def using b l s by simp
qed

subsection \<open>The transaction of an outbox row\<close>

definition row_tx :: "env \<Rightarrow> db \<Rightarrow> outbox_row \<Rightarrow> wallet_tx result" where
  "row_tx E d r =
     (if ob_type r = WALLET_OUTBOX_DEBIT
      then (case find_bet (ob_betId r) d of
              None \<Rightarrow> Inl (PlainError ''no bet'')
            | Some b \<Rightarrow> buildBetDebitTransaction E b (legs_of (ob_betId r) d) (ob_transactionCode r))
      else Inr (payload_tx r))"

definition records :: "env \<Rightarrow> db \<Rightarrow> wallet_tx \<Rightarrow> bool" where
  "records E d t \<longleftrightarrow> (\<exists>r \<in> set (db_outbox d). row_tx E d r = Inr t)"

lemma insort_key_map: "(\<And>x. k (f x) = k x) \<Longrightarrow> insort_key k (f x) (map f xs) = map f (insort_key k x xs)"
  by (induction xs) auto

lemma sort_key_map: "(\<And>x. k (f x) = k x) \<Longrightarrow> sort_key k (map f xs) = map f (sort_key k xs)"
  by (induction xs) (simp_all add: insort_key_map)

lemma leg_terms_fields [simp]:
  "leg_legOrder (leg_terms l) = leg_legOrder l" "leg_eventId (leg_terms l) = leg_eventId l"
  "leg_betId (leg_terms l) = leg_betId l" "leg_leagueKey (leg_terms l) = leg_leagueKey l"
  "leg_id (leg_terms l) = leg_id l"
  by (simp_all add: leg_terms_def)

lemma sort_legs_terms: "sort_legs (map leg_terms legs) = map leg_terms (sort_legs legs)"
  by (simp add: sort_legs_def sort_key_map)

lemma primaryLeg_terms:
  "primaryLeg (map leg_terms legs) = map_sum id leg_terms (primaryLeg legs)"
  by (simp add: primaryLeg_def sort_legs_terms split: list.split)

lemma legLine_terms [simp]: "legLine L (leg_terms l) = legLine L l"
  by (simp add: legLine_def leg_terms_def)

lemma enumerate_map: "enumerate n (map f xs) = map (\<lambda>(i, x). (i, f x)) (enumerate n xs)"
  by (induction xs arbitrary: n) auto

lemma buildPlacementDetail_terms:
  "buildPlacementDetail L b (map leg_terms legs) = buildPlacementDetail L b legs"
proof -
  note sort_legs_terms [of legs]
  then show ?thesis
    unfolding buildPlacementDetail_def Let_def
    by (cases "sort_legs legs" rule: remdups_adj.cases)
       (simp_all add: enumerate_map case_prod_beta' comp_def)
qed

lemma buildBetDebitTransaction_terms:
  "buildBetDebitTransaction E b (map leg_terms legs) code = buildBetDebitTransaction E b legs code"
  by (cases "primaryLeg legs")
     (simp_all add: buildBetDebitTransaction_def historyIdFromLegs_def gameCodeFromLegs_def
       primaryLeg_terms gameCode_of_leg_def buildPlacementDetail_terms Let_def)

lemma buildBetDebitTransaction_bet:
  "bet_terms b' = bet_terms b \<Longrightarrow>
   buildBetDebitTransaction E b' legs code = buildBetDebitTransaction E b legs code"
  by (simp add: buildBetDebitTransaction_def bet_terms_def buildPlacementDetail_def Let_def
      split: sum.split)

text \<open>What keeps the terms of bets and the rows of the outbox keeps what they describe.\<close>

definition keeps :: "db \<Rightarrow> db \<Rightarrow> bool" where
  "keeps d d' \<longleftrightarrow>
     (\<forall>i b. find_bet i d = Some b \<longrightarrow>
        (\<exists>b'. find_bet i d' = Some b' \<and> bet_terms b' = bet_terms b) \<and>
        map leg_terms (legs_of i d') = map leg_terms (legs_of i d)) \<and>
     ob_core ` set (db_outbox d) \<subseteq> ob_core ` set (db_outbox d')"

lemma evolves_keeps: "evolves d d' \<Longrightarrow> keeps d d'"
  unfolding evolves_def keeps_def by blast

lemma keeps_refl [simp]: "keeps d d"
  by (simp add: evolves_keeps)

lemma keeps_trans: "keeps a b \<Longrightarrow> keeps b c \<Longrightarrow> keeps a c"
  unfolding keeps_def by (metis (no_types, lifting) subset_trans)

lemma records_keeps:
  assumes ev: "keeps d d'" and t: "records E d t"
  shows "records E d' t"
proof -
  from t obtain r where r: "r \<in> set (db_outbox d)" "row_tx E d r = Inr t"
    by (auto simp: records_def)
  from ev r(1) obtain r' where r': "r' \<in> set (db_outbox d')" "ob_core r' = ob_core r"
    by (auto simp: keeps_def)
  have core: "ob_type r' = ob_type r" "ob_betId r' = ob_betId r" "ob_payload r' = ob_payload r"
    "ob_transactionCode r' = ob_transactionCode r"
    using r'(2) by (simp_all add: ob_core_def)
  have "row_tx E d' r' = Inr t"
  proof (cases "ob_type r = WALLET_OUTBOX_DEBIT")
    case False
    with r(2) core show ?thesis by (simp add: row_tx_def payload_tx_def)
  next
    case True
    with r(2) obtain b where b: "find_bet (ob_betId r) d = Some b"
      "buildBetDebitTransaction E b (legs_of (ob_betId r) d) (ob_transactionCode r) = Inr t"
      by (auto simp: row_tx_def split: option.splits)
    from ev b(1) obtain b' where b': "find_bet (ob_betId r) d' = Some b'" "bet_terms b' = bet_terms b"
      and l: "map leg_terms (legs_of (ob_betId r) d') = map leg_terms (legs_of (ob_betId r) d)"
      unfolding keeps_def by metis
    have "buildBetDebitTransaction E b' (legs_of (ob_betId r) d') c =
        buildBetDebitTransaction E b (legs_of (ob_betId r) d) c" for c
      by (metis l b'(2) buildBetDebitTransaction_bet buildBetDebitTransaction_terms)
    with b b'(1) True core show ?thesis by (simp add: row_tx_def)
  qed
  with r'(1) show ?thesis by (auto simp: records_def)
qed

lemma records_evolves: "evolves d d' \<Longrightarrow> records E d t \<Longrightarrow> records E d' t"
  by (rule records_keeps [OF evolves_keeps])

subsection \<open>Moves of records and wallet\<close>

text \<open>
  From ledger \<open>g\<close> and database \<open>d\<close> to \<open>g'\<close> and \<open>d'\<close>: the records evolve, and the wallet has
  applied transactions that rows of \<open>d'\<close> describe, and no others.
\<close>

definition moves :: "env \<Rightarrow> (string \<Rightarrow> rat \<Rightarrow> rat) \<Rightarrow> ledger \<Rightarrow> db \<Rightarrow> ledger \<Rightarrow> db \<Rightarrow> bool" where
  "moves E credit g d g' d' \<longleftrightarrow>
     evolves d d' \<and> (\<exists>ts. g' = foldl (apply_tx credit) g ts \<and> (\<forall>t \<in> set ts. records E d' t))"

lemma moves_refl [simp]: "moves E c g d g d"
  unfolding moves_def by (intro conjI evolves_refl exI [of _ "[]"]) simp_all

lemma moves_evolves: "evolves d d' \<Longrightarrow> moves E c g d g d'"
  unfolding moves_def by (intro conjI exI [of _ "[]"]) simp_all

lemma moves_trans:
  assumes "moves E c g d g1 d1" and "moves E c g1 d1 g2 d2"
  shows "moves E c g d g2 d2"
proof -
  from assms(1) obtain ts where ts: "g1 = foldl (apply_tx c) g ts" "\<forall>t \<in> set ts. records E d1 t"
    by (auto simp: moves_def)
  from assms(2) obtain us where us: "g2 = foldl (apply_tx c) g1 us" "\<forall>t \<in> set us. records E d2 t"
    by (auto simp: moves_def)
  have ev: "evolves d d1" "evolves d1 d2" using assms by (simp_all add: moves_def)
  have "\<forall>t \<in> set (ts @ us). records E d2 t" using ts(2) us(2) records_evolves [OF ev(2)] by auto
  with evolves_trans [OF ev] show ?thesis
    unfolding moves_def by (intro conjI exI [of _ "ts @ us"]) (simp_all add: ts(1) us(1))
qed

lemma moves_apply:
  assumes "evolves d d'" and "g' = g \<or> g' = apply_tx c g t" and "records E d' t"
  shows "moves E c g d g' d'"
proof -
  from assms(2) obtain ts where "g' = foldl (apply_tx c) g ts" "set ts \<subseteq> {t}"
  proof
    assume "g' = g" then show ?thesis by (intro that [of "[]"]) simp_all
  next
    assume "g' = apply_tx c g t" then show ?thesis by (intro that [of "[t]"]) simp_all
  qed
  with assms show ?thesis unfolding moves_def by blast
qed

subsection \<open>The operations move records and wallet\<close>

lemma legs_of_frame:
  "db_legs d' = db_legs d \<Longrightarrow> legs_of i d' = legs_of i d"
  by (simp add: legs_of_def)

lemma legs_of_updates [simp, frame]:
  "legs_of j (update_bet i f d) = legs_of j d" "legs_of j (update_outbox k h d) = legs_of j d"
  by (simp_all add: legs_of_def)

lemma evolves_bet:
  assumes b: "find_bet i d = Some b" "status_step b (f b)" "bet_terms (f b) = bet_terms b"
    and id: "\<And>b. bet_id (f b) = bet_id b"
    and d': "db_bets d' = db_bets (update_bet i f d)"
    and l: "\<And>j. map leg_terms (legs_of j d') = map leg_terms (legs_of j d)"
    and o: "ob_core ` set (db_outbox d) \<subseteq> ob_core ` set (db_outbox d')"
  shows "evolves d d'"
proof -
  have "find_bet j d' = map_option (\<lambda>b. if i = j then f b else b) (find_bet j d)" for j
    using d' id find_bet_update [of f j i d] by (simp add: find_bet_def)
  with b l o show ?thesis by (auto simp: evolves_def)
qed

lemma core_outbox_image:
  "map ob_core (db_outbox d') = map ob_core (db_outbox d) \<Longrightarrow>
   ob_core ` set (db_outbox d) \<subseteq> ob_core ` set (db_outbox d')"
  by (metis list.set_map order_refl)

lemma map_leg_terms_update:
  "map leg_terms (legs_of j (update_leg k (\<lambda>l. l\<lparr>leg_outcome := out\<rparr>) d)) = map leg_terms (legs_of j d)"
  unfolding legs_of_def update_leg_def upd_by_def
  by (simp add: row_filter_update) (simp add: row_update_def leg_terms_def)

lemma map_leg_terms_outcomes [simp]:
  "map leg_terms (legs_of j (set_leg_outcomes os d)) = map leg_terms (legs_of j d)"
  by (induction os arbitrary: d) (auto simp: set_leg_outcomes_def map_leg_terms_update)

lemma ob_core_update [simp]:
  "ob_core (r\<lparr>ob_status := st\<rparr>) = ob_core r" "ob_core (r\<lparr>ob_lastError := e\<rparr>) = ob_core r"
  "ob_core (r\<lparr>ob_batchId := bi\<rparr>) = ob_core r"
  by (simp_all add: ob_core_def)

lemma evolves_accept:
  assumes "find_bet i (w_db s) = Some b" "bet_status b = Bet_PENDING"
  shows "evolves (w_db s) (w_db (acceptBet i x k s))" "evolves (w_db s) (w_db (rejectBet i m k s))"
proof -
  show "evolves (w_db s) (w_db (acceptBet i x k s))"
    unfolding acceptBet_def
    by (rule evolves_bet [OF assms(1)])
       (use assms(2) in \<open>simp_all add: status_step_def bet_terms_def core_outbox_image core_update\<close>)
  show "evolves (w_db s) (w_db (rejectBet i m k s))"
    unfolding rejectBet_def
    by (rule evolves_bet [OF assms(1)])
       (use assms(2) in \<open>simp_all add: status_step_def bet_terms_def core_outbox_image core_update\<close>)
qed

lemma evolves_scheduleRetry: "evolves (w_db s) (w_db (scheduleRetry i n e s))"
  by (rule evolves_outbox) simp_all

lemma evolves_close:
  assumes b: "find_bet (bet_id bet) d = Some bet" "bet_status bet = Bet_ACCEPTED" "is_settled st"
    and c: "create_outbox n (update_bet (bet_id bet) (settle_bet_row st payout now note)
              (set_leg_outcomes outs d)) = Inr d'"
  shows "evolves d d'"
proof (rule evolves_bet [OF b(1)])
  note c' = create_outbox_InrD [OF c]
  show "status_step bet (settle_bet_row st payout now note bet)"
    using b(2,3) by (auto simp: status_step_def is_settled_def)
  show "bet_terms (settle_bet_row st payout now note bet) = bet_terms bet"
    by (simp add: settle_bet_row_def bet_terms_def)
  show "db_bets d' = db_bets (update_bet (bet_id bet) (settle_bet_row st payout now note) d)"
    using c'(1) by (simp add: update_bet_def)
  show "map leg_terms (legs_of j d') = map leg_terms (legs_of j d)" for j
  proof -
    have "legs_of j d' = legs_of j (set_leg_outcomes outs d)" using c'(2) by (simp add: legs_of_def)
    then show ?thesis by simp
  qed
  show "ob_core ` set (db_outbox d) \<subseteq> ob_core ` set (db_outbox d')" using c'(3) by auto
qed simp

text \<open>A placement adds rows under new ids.\<close>

lemma create_legs_betId:
  "create_legs E i n k legs = Inr rows \<Longrightarrow> l \<in> set rows \<Longrightarrow> leg_betId l = i"
proof (induction legs arbitrary: n k rows)
  case (Cons leg rest)
  then show ?case
    by (auto simp: legSnapshotCreateData_def new_leg_def split: sum.splits option.splits)
qed simp

lemma evolves_create:
  assumes "unique_rows (w_db s)" and "create_bet E user key q s = (res, s')"
  shows "evolves (w_db s) (w_db s')"
  using assms(2)
proof (cases rule: create_bet_cases)
  case (failed e)
  then show ?thesis by simp
next
  case (created legs)
  let ?i = "env_gen E (w_seq s + 1)"
  have other: "find_bet j (w_db s') = Some b \<and> legs_of j (w_db s') = legs_of j (w_db s)"
    if "find_bet j (w_db s) = Some b" for j b
  proof -
    have j: "j \<noteq> ?i"
      using find_bet_id [OF that] created(3) by (auto simp: placement_clash_def)
    have "row_filter (\<lambda>l. leg_betId l = j) legs = []"
      using create_legs_betId [OF created(2)] j by (auto simp: row_filter_def filter_empty_conv)
    then have "legs_of j (w_db s') = legs_of j (w_db s)"
      by (simp add: legs_of_def created(4) row_filter_def)
    moreover have "find_bet j (w_db s') = Some b"
      using that by (simp add: find_bet_def created(4) bets.get_ins_law [unfolded row_insert_def])
    ultimately show ?thesis by simp
  qed
  have "ob_core ` set (db_outbox (w_db s)) \<subseteq> ob_core ` set (db_outbox (w_db s'))"
    by (auto simp: created(4))
  with other show ?thesis by (fastforce simp: evolves_def)
qed

lemma records_entry:
  assumes "credit_entry d e"
  shows "records E d (payload_tx e)"
proof -
  from assms obtain r where "r \<in> set (db_outbox d)" "ob_type r \<noteq> WALLET_OUTBOX_DEBIT"
    "ob_payload r = ob_payload e"
    by (auto simp: credit_entry_def ob_core_def)
  then show ?thesis by (auto simp: records_def row_tx_def payload_tx_def intro!: bexI)
qed

lemma evolves_retry_all: "evolves d (w_db s) \<Longrightarrow> evolves d (w_db (retry_all e es s))"
  by (induction es arbitrary: s)
     (simp_all add: retry_all_def evolves_trans [OF _ evolves_scheduleRetry])

lemma evolves_batch_state:
  "batch_state E anchor es s = (b, s2) \<Longrightarrow> evolves (w_db s) (w_db s2)"
  by (rule evolves_outbox) (simp_all add: batch_state_frame)

lemma evolves_staff_audit: "evolves d (w_db s) \<Longrightarrow> evolves d (w_db (staff_audit u g a t i b f r s))"
  by (erule evolves_trans) (rule evolves_outbox; simp)

lemma voidBet_evolves:
  assumes u: "unique_rows (w_db s)" and v: "voidBet E g i reason staff s = (res, s')"
  shows "evolves (w_db s) (w_db s')"
  using v
proof (cases rule: voidBet_cases)
  case (voided bet t d3 dto)
  note fb = find_group_bet_find [OF voided(1) u]
  have "evolves (w_db s) d3"
    by (rule evolves_close [OF _ voided(2) _ voided(4)]) (use fb in \<open>simp_all add: is_settled_def\<close>)
  then show ?thesis by (simp add: voided(6) evolves_staff_audit)
qed simp

lemma persist_one_evolves:
  assumes en: "open_entry (w_db s) en" "is_final_result (gr_betResult en)"
    and p: "persist_one E en batchId s = (res, s')"
  shows "evolves (w_db s) (w_db s')"
  using p
proof (cases rule: persist_one_cases)
  case (persisted t d3)
  show ?thesis
    unfolding persisted(4)
    by (rule evolves_close [OF _ _ _ persisted(3)])
       (use en in \<open>auto simp: open_entry_def is_settled_def is_final_result_def\<close>)
qed simp

lemma persist_all_evolves:
  assumes "\<And>en. en \<in> set graded \<Longrightarrow> open_entry (w_db s) en"
    and "distinct (map (\<lambda>en. bet_id (gr_bet en)) graded)"
    and "persist_all E batches graded s = (res, s')"
  shows "evolves (w_db s) (w_db s')"
  using assms
proof (induction graded arbitrary: batches s)
  case (Cons en rest)
  show ?case
  proof (cases "is_final_result (gr_betResult en)")
    case False
    with Cons.IH [of s batches] Cons.prems show ?thesis by simp
  next
    case True
    obtain b batches' s1 where bf: "batch_for E (bet_casinoGroupId (gr_bet en)) batches s = (b, batches', s1)"
      by (cases "batch_for E (bet_casinoGroupId (gr_bet en)) batches s") auto
    note fr1 = batch_for_frame [OF bf]
    obtain r s2 where p1: "persist_one E en b s1 = (r, s2)" by (cases "persist_one E en b s1")
    have ev: "evolves (w_db s) (w_db s2)"
      using persist_one_evolves [OF _ True p1] Cons.prems(1) fr1(1) by simp
    have op: "open_entry (w_db s2) en'" if "en' \<in> set rest" for en'
    proof -
      have "bet_id (gr_bet en') \<noteq> bet_id (gr_bet en)"
        using Cons.prems(2) that by (fastforce simp: image_iff)
      with persist_one_frame(3) [OF p1] fr1(1) Cons.prems(1) [of en'] that
      show ?thesis by (simp add: open_entry_def)
    qed
    show ?thesis
    proof (cases r)
      case (Inl e)
      with Cons.prems(3) True bf p1 ev show ?thesis by simp
    next
      case (Inr u)
      with Cons.prems(3) True bf p1 have "persist_all E batches' rest s2 = (res, s')" by simp
      from evolves_trans [OF ev Cons.IH [OF op _ this]] Cons.prems(2) show ?thesis by simp
    qed
  qed
qed simp

context wallet_ledger begin

lemma processSingleDebit_moves:
  assumes I: "integrity E (snd (view (w_wallet s))) (w_db s)"
    and p: "processSingleDebit E port i s = (res, s')"
  shows "moves E credit (view (w_wallet s)) (w_db s) (view (w_wallet s')) (w_db s')"
  using I p
proof (cases rule: processSingleDebit_cases)
  case (posted b r t ans w')
  note dr = debit_row [OF I posted(1,3)]
  have "row_tx E (w_db s) r = Inr t" using dr(2,3) posted(1,4) by (auto simp: row_tx_def)
  with dr(1) have rec: "records E (w_db s) t" by (auto simp: records_def)
  have m: "moves E credit (view (w_wallet s)) (w_db s) (view w') d'" if "evolves (w_db s) d'" for d'
    by (rule moves_apply [OF that post_effect [OF posted(6)] records_evolves [OF that rec]])
  from posted(7) show ?thesis
  proof (cases rule: debit_answer_cases)
    case (accepted x)
    have "evolves (w_db s) (w_db s')"
      using evolves_accept(1) [of i "s\<lparr>w_wallet := w'\<rparr>" b x "ob_id r"] posted(1,2) accepted(2) by simp
    from m [OF this] show ?thesis by (simp add: accepted(2) acceptBet_def)
  next
    case (rejected n)
    have "evolves (w_db s) (w_db s')"
      using evolves_accept(2) [of i "s\<lparr>w_wallet := w'\<rparr>" b n "ob_id r"] posted(1,2) rejected(2) by simp
    from m [OF this] show ?thesis by (simp add: rejected(2) rejectBet_def)
  next
    case (retry e)
    have "evolves (w_db s) (w_db s')"
      using evolves_scheduleRetry [of "s\<lparr>w_wallet := w'\<rparr>"] retry(4) by simp
    from m [OF this] show ?thesis by (simp add: retry(4))
  qed
qed simp

lemma debit_all_moves:
  "integrity E (snd (view (w_wallet s))) (w_db s) \<Longrightarrow> debit_all E port ids s = (n, s') \<Longrightarrow>
   moves E credit (view (w_wallet s)) (w_db s) (view (w_wallet s')) (w_db s')"
  by (induction ids arbitrary: n s)
     (auto split: prod.splits dest: processSingleDebit_moves processSingleDebit_integrity
       intro: moves_trans)

lemma void_all_moves:
  assumes "\<And>e. e \<in> set es \<Longrightarrow> credit_entry (w_db s) e" and "void_all port es s = (n, s')"
  shows "moves E credit (view (w_wallet s)) (w_db s) (view (w_wallet s')) (w_db s')"
  using assms
proof (induction es arbitrary: s n)
  case (Cons e es)
  obtain ans w' where post: "wp_postTransaction port (payload_tx e) (w_wallet s) = (ans, w')"
    by (cases "wp_postTransaction port (payload_tx e) (w_wallet s)")
  have go: "moves E credit (view (w_wallet s)) (w_db s) (view (w_wallet s')) (w_db s')"
    if v: "void_all port es s1 = (m, s')" and c: "map ob_core (db_outbox (w_db s1)) = map ob_core (db_outbox (w_db s))"
      and w: "w_wallet s1 = w'" and ev: "evolves (w_db s) (w_db s1)" for s1 m
  proof -
    have ce: "credit_entry (w_db s1) x" if "x \<in> set (e # es)" for x
      using credit_entry_core [OF c] Cons.prems(1) that by blast
    have "moves E credit (view (w_wallet s)) (w_db s) (view (w_wallet s1)) (w_db s1)"
      using moves_apply [OF ev post_effect [OF post] records_entry [OF ce]] w by simp
    from moves_trans [OF this Cons.IH [OF ce v]] show ?thesis by simp
  qed
  show ?case
  proof (cases ans)
    case (Inr x)
    let ?s = "complete_outbox (ob_id e) (s\<lparr>w_wallet := w'\<rparr>)"
    have c: "map ob_core (db_outbox (w_db ?s)) = map ob_core (db_outbox (w_db s))"
      by (simp add: complete_outbox_def core_update)
    from Cons.prems(2) post Inr obtain m where "void_all port es ?s = (m, s')"
      by (auto split: prod.splits)
    then show ?thesis by (rule go [OF _ c]) (simp_all add: complete_outbox_def evolves_outbox core_update)
  next
    case (Inl x)
    let ?s = "scheduleRetry (ob_id e) (ob_attempts e) x (s\<lparr>w_wallet := w'\<rparr>)"
    from Cons.prems(2) post Inl have "void_all port es ?s = (n, s')" by simp
    then show ?thesis
      by (rule go) (use evolves_scheduleRetry [of "s\<lparr>w_wallet := w'\<rparr>"] in simp_all)
  qed
qed simp

lemma flush_moves:
  assumes f: "flushSettlementBatchForGroup E port g s = (sent, s')"
  shows "moves E credit (view (w_wallet s)) (w_db s) (view (w_wallet s')) (w_db s')"
proof -
  have batch: "moves E credit (view (w_wallet s)) (w_db s) (view w') d'"
    if bs: "batch_state E anchor (batch_entries g b0 s) s = (b, s2)"
      and post: "wp_postTransactionBatch port g b (map payload_tx (batch_entries g b0 s))
         (w_wallet s2) = (ans, w')"
      and ev: "evolves (w_db s2) d'" for anchor b0 b s2 ans w' d'
  proof -
    have ev': "evolves (w_db s) d'" by (rule evolves_trans [OF evolves_batch_state [OF bs] ev])
    obtain n where n: "view w' = foldl (apply_tx credit) (view (w_wallet s))
        (take n (map payload_tx (batch_entries g b0 s)))"
      using batch_effect [OF post] batch_state_frame(1) [OF bs] by auto
    have "records E d' t" if t: "t \<in> set (take n (map payload_tx (batch_entries g b0 s)))" for t
    proof -
      from in_set_takeD [OF t] obtain e where "e \<in> set (batch_entries g b0 s)" "t = payload_tx e" by auto
      with records_evolves [OF ev' records_entry [OF batch_entry_credit [OF _ refl]]] show ?thesis by blast
    qed
    with ev' n show ?thesis unfolding moves_def by blast
  qed
  from f show ?thesis
  proof (cases rule: flush_cases)
    case (sent anchor rest b s2 x w')
    have "evolves (w_db s2) (w_db s')"
      by (rule evolves_outbox) (simp_all add: sent(5) core_update)
    from batch [OF sent(2,3) this] show ?thesis by (simp add: sent(5))
  next
    case (failed anchor rest b s2 e w')
    have "evolves (w_db s2) (w_db s')" by (simp add: failed(5) evolves_retry_all)
    from batch [OF failed(2,3) this] show ?thesis by (simp add: failed(5))
  qed simp
qed

lemma flush_groups_moves:
  "flush_groups E port gs s = (n, s') \<Longrightarrow>
   moves E credit (view (w_wallet s)) (w_db s) (view (w_wallet s')) (w_db s')"
  by (induction gs arbitrary: n s)
     (auto split: prod.splits dest: flush_moves intro: moves_trans)

lemma flush_loop_moves:
  "flush_loop k E port g s = (n, s') \<Longrightarrow>
   moves E credit (view (w_wallet s)) (w_db s) (view (w_wallet s')) (w_db s')"
  by (induction k arbitrary: n s)
     (auto split: prod.splits bool.splits dest: flush_moves intro: moves_trans)

lemma flushSettlementBatches_moves:
  "moves E credit (view (w_wallet s)) (w_db s)
     (view (w_wallet (snd (flushSettlementBatches E port s)))) (w_db (snd (flushSettlementBatches E port s)))"
  by (cases "flushSettlementBatches E port s")
     (auto simp: flushSettlementBatches_def Let_def intro: flush_groups_moves)

lemma processPending_moves:
  assumes I: "integrity E (snd (view (w_wallet s))) (w_db s)"
    and p: "processPending E port s = (n, s')"
  shows "moves E credit (view (w_wallet s)) (w_db s) (view (w_wallet s')) (w_db s')"
proof -
  obtain n1 s1 n2 s2 n3 where
    r: "processPendingDebits E port DEBIT_BATCH_LIMIT s = (n1, s1)"
      "processPendingStaffVoids port DEBIT_BATCH_LIMIT s1 = (n2, s2)"
      "flushSettlementBatches E port s2 = (n3, s')"
    using p by (auto simp: processPending_def split: prod.splits)
  have m1: "moves E credit (view (w_wallet s)) (w_db s) (view (w_wallet s1)) (w_db s1)"
    using r(1) I unfolding processPendingDebits_def Let_def by (intro debit_all_moves)
  have m2: "moves E credit (view (w_wallet s1)) (w_db s1) (view (w_wallet s2)) (w_db s2)"
    by (rule void_all_moves [OF _ r(2) [unfolded processPendingStaffVoids_def Let_def]])
       (drule in_set_takeD, auto simp: credit_entry_def outbox_due_def)
  from moves_trans [OF moves_trans [OF m1 m2] flushSettlementBatches_moves [of E s2]] r(3)
  show ?thesis by simp
qed

lemma attempt_moves:
  assumes "integrity E (snd (view (w_wallet s))) (w_db s)"
    and "attemptWalletDebit E port i s = (res, s')"
  shows "moves E credit (view (w_wallet s)) (w_db s) (view (w_wallet s')) (w_db s')"
  using assms processSingleDebit_moves [OF assms(1)]
  by (auto simp: attemptWalletDebit_def split: prod.splits sum.splits)

lemma placeBet_moves:
  assumes I: "integrity E (snd (view (w_wallet s))) (w_db s)" and E: "ids_ok E"
    and p: "placeBet E port user key ids stake s = (res, s')"
  shows "moves E credit (view (w_wallet s)) (w_db s) (view (w_wallet s')) (w_db s')"
proof (cases "find_by_key user key (w_db s)")
  case (Some b)
  have "s' = s \<or> (\<exists>r. attemptWalletDebit E port (bet_id b) s = (r, s'))"
    using p Some
    by (auto simp: placeBet_def finish_placement_def split: if_splits prod.splits sum.splits)
  with I attempt_moves show ?thesis by fastforce
next
  case None
  obtain ans w1 where g: "wp_getBalance port (uc_username user) (uc_casinoGroupId user) (w_wallet s) = (ans, w1)"
    by (cases "wp_getBalance port (uc_username user) (uc_casinoGroupId user) (w_wallet s)")
  let ?s1 = "s\<lparr>w_wallet := w1\<rparr>"
  have v: "view w1 = view (w_wallet s)" by (rule balance_effect [OF g])
  have "s' = s \<or> s' = ?s1 \<or> (\<exists>q r s2. create_bet E user key q ?s1 = (r, s2) \<and>
      (s' = s2 \<or> (\<exists>i r'. attemptWalletDebit E port i s2 = (r', s'))))"
    using p None g
    by (auto simp: placeBet_def finish_placement_def Let_def split: if_splits prod.splits sum.splits)
  then consider "s' = s" | "s' = ?s1" | q r where "create_bet E user key q ?s1 = (r, s')"
    | q r s2 i r' where "create_bet E user key q ?s1 = (r, s2)"
        "attemptWalletDebit E port i s2 = (r', s')"
    by blast
  then show ?thesis
  proof cases
    case 3
    then have "w_wallet s' = w1" by (cases rule: create_bet_cases) simp_all
    moreover have "evolves (w_db s) (w_db s')" using evolves_create [OF _ 3] integrityD(1) [OF I] by simp
    ultimately show ?thesis using v by (simp add: moves_evolves)
  next
    case 4
    then have w: "w_wallet s2 = w1" by (cases rule: create_bet_cases) simp_all
    have ev: "evolves (w_db s) (w_db s2)" using evolves_create [OF _ 4(1)] integrityD(1) [OF I] by simp
    have "integrity E (snd (view (w_wallet s2))) (w_db s2)"
      using create_bet_integrity [OF _ E 4(1)] I v w by simp
    from attempt_moves [OF this 4(2)] moves_evolves [OF ev] v w
    show ?thesis by (metis moves_trans)
  qed (use v in simp_all)
qed

lemma applySettlements_moves:
  assumes op: "\<And>en. en \<in> set graded \<Longrightarrow> open_entry (w_db s) en"
    and d: "distinct (map (\<lambda>en. bet_id (gr_bet en)) graded)"
    and w: "integrity E seen (w_db s)"
    and a: "applySettlements E port graded s = (res, s')"
  shows "moves E credit (view (w_wallet s)) (w_db s) (view (w_wallet s')) (w_db s')"
proof -
  obtain r s1 where p: "persist_all E Map.empty graded s = (r, s1)"
    by (cases "persist_all E Map.empty graded s")
  have m: "moves E credit (view (w_wallet s)) (w_db s) (view (w_wallet s1)) (w_db s1)"
    using persist_all_evolves [OF op d p] persist_all_integrity [OF w op d p]
    by (simp add: moves_evolves)
  from a p consider "s' = s1" | "s' = snd (flushSettlementBatches E port s1)"
    by (auto simp: applySettlements_def persistGradedSettlements_def split: sum.splits)
  then show ?thesis
    by cases (use m moves_trans [OF m flushSettlementBatches_moves] in simp_all)
qed

lemma settleBatch_moves:
  assumes I: "integrity E (snd (view (w_wallet s))) (w_db s)" and b: "settleBatch E port s = (res, s')"
  shows "moves E credit (view (w_wallet s)) (w_db s) (view (w_wallet s')) (w_db s')"
proof -
  let ?bets = "take BATCH_SIZE (order_asc bet_createdAt
      (row_filter (\<lambda>b. bet_status b = Bet_ACCEPTED) (db_bets (w_db s))))"
  let ?graded = "List.map_filter (\<lambda>b. gradeBet (env_dec E) (w_db s) (bet_id b)) ?bets"
  from b consider "s' = s" | r where "applySettlements E port ?graded s = (r, s')"
    by (auto simp: settleBatch_def Let_def split: if_splits prod.splits sum.splits)
  then show ?thesis
  proof cases
    case 2
    show ?thesis
    proof (rule applySettlements_moves [OF _ _ I 2])
      show "open_entry (w_db s) en" if "en \<in> set ?graded" for en
        by (rule map_filter_graded [OF that])
      show "distinct (map (\<lambda>en. bet_id (gr_bet en)) ?graded)"
        using integrityD(1) [OF I]
        by (intro distinct_graded distinct_order_filter_take) (simp add: unique_rows_def)
    qed
  qed simp
qed

lemma trySettleBet_moves:
  assumes I: "integrity E (snd (view (w_wallet s))) (w_db s)" and b: "trySettleBet E port i s = (res, s')"
  shows "moves E credit (view (w_wallet s)) (w_db s) (view (w_wallet s')) (w_db s')"
proof (cases "gradeBet (env_dec E) (w_db s) i")
  case None
  with b show ?thesis by (simp add: trySettleBet_def)
next
  case (Some en)
  with b obtain r where "applySettlements E port [en] s = (r, s')"
    by (auto simp: trySettleBet_def split: prod.splits sum.splits)
  from applySettlements_moves [OF _ _ I this] gradeBet_SomeD(3) [OF Some] show ?thesis by simp
qed

lemma settle_each_moves:
  "integrity E (snd (view (w_wallet s))) (w_db s) \<Longrightarrow> settle_each E port is s = (res, s') \<Longrightarrow>
   moves E credit (view (w_wallet s)) (w_db s) (view (w_wallet s')) (w_db s')"
proof (induction "is" arbitrary: s res)
  case (Cons i rest)
  obtain r s1 where t: "trySettleBet E port i s = (r, s1)" by (cases "trySettleBet E port i s")
  note m1 = trySettleBet_moves [OF Cons.prems(1) t]
  note I1 = trySettleBet_integrity [OF Cons.prems(1) t]
  from Cons.prems(2) t consider "s' = s1" | r' where "settle_each E port rest s1 = (r', s')"
    by (auto split: sum.splits prod.splits)
  then show ?case by cases (use m1 moves_trans [OF m1] Cons.IH [OF I1] in blast)+
qed simp

lemma settleBetsForEvent_moves:
  "integrity E (snd (view (w_wallet s))) (w_db s) \<Longrightarrow> settleBetsForEvent E port ev g s = (res, s') \<Longrightarrow>
   moves E credit (view (w_wallet s)) (w_db s) (view (w_wallet s')) (w_db s')"
  by (auto simp: settleBetsForEvent_def Let_def split: prod.splits sum.splits
      intro: settle_each_moves)

end

end
