(* ===== verification/System.thy ===== *)
theory System
  imports Evolution
begin

text \<open>
  The running service: the requests, workers and back-office operations that touch bets and the
  wallet, as one step relation, and the states it reaches from an empty book. Steps are whole
  operations; the catalogue (fixtures, events, markets, prices, tenants), the clock, the id
  supply, the notes on bets and the retry bookkeeping of the outbox change freely between them.
\<close>

subsection \<open>Steps\<close>

inductive step :: "env \<Rightarrow> 'w wallet_port \<Rightarrow> 'w world \<Rightarrow> 'w world \<Rightarrow> bool" for E P where
  place: "BetsController_placeBet E P user header selectionIds stake s = (res, s') \<Longrightarrow> step E P s s'"
| outbox_worker: "processPending E P s = (n, s') \<Longrightarrow> step E P s s'"
| settlement_worker: "settleBatch E P s = (res, s') \<Longrightarrow> step E P s s'"
| settle_event: "settleBetsForEvent E P eventId g s = (res, s') \<Longrightarrow> step E P s s'"
| flush_group: "flushSettlementBatchesForCasinoGroup E P g s = (n, s') \<Longrightarrow> step E P s s'"
| staff_void: "voidBet E g betId reason staff s = (res, s') \<Longrightarrow> step E P s s'"
| catalogue: "same_book (w_db s) (w_db s') \<Longrightarrow> w_wallet s' = w_wallet s \<Longrightarrow> step E P s s'"

inductive_cases stepE: "step E P s s'"

text \<open>An empty book; the catalogue is arbitrary.\<close>

definition empty_book :: "'w world \<Rightarrow> bool" where
  "empty_book s \<longleftrightarrow> db_bets (w_db s) = [] \<and> db_legs (w_db s) = [] \<and> db_outbox (w_db s) = []"

inductive reach :: "env \<Rightarrow> 'w wallet_port \<Rightarrow> 'w world \<Rightarrow> 'w world \<Rightarrow> bool" for E P s0 where
  start: "reach E P s0 s0"
| more: "reach E P s0 s \<Longrightarrow> step E P s s' \<Longrightarrow> reach E P s0 s'"

lemma reach_trans: "reach E P s0 s1 \<Longrightarrow> reach E P s1 s2 \<Longrightarrow> reach E P s0 s2"
  by (rotate_tac, induction rule: reach.induct) (auto intro: reach.more)

context wallet_ledger begin

lemma controller_step:
  assumes "BetsController_placeBet E port user header ids stake s = (res, s')"
  shows "s' = s \<or> (\<exists>key. placeBet E port user key ids stake s = (res, s'))"
  using assms by (auto simp: BetsController_placeBet_def split: sum.splits if_splits)

lemma step_integrity:
  assumes st: "step E port s s'" and E: "ids_ok E"
    and I: "integrity E (snd (view (w_wallet s))) (w_db s)"
  shows "integrity E (snd (view (w_wallet s'))) (w_db s')"
  using st
proof (cases rule: step.cases)
  case (place user header ids stake res)
  from controller_step [OF this] I placeBet_integrity [OF I E] show ?thesis by metis
next
  case (flush_group g n)
  then show ?thesis
    unfolding flushSettlementBatchesForCasinoGroup_def by (rule flush_loop_integrity [OF I])
next
  case (staff_void g betId reason staff res)
  from voidBet_integrity [OF I this] show ?thesis by simp
next
  case catalogue
  with I integrity_same_book show ?thesis by simp
qed (use processPending_integrity [OF I] settleBatch_integrity [OF I] settleBetsForEvent_integrity [OF I]
    in blast)+

lemma step_moves:
  assumes st: "step E port s s'" and E: "ids_ok E"
    and I: "integrity E (snd (view (w_wallet s))) (w_db s)"
  shows "moves E credit (view (w_wallet s)) (w_db s) (view (w_wallet s')) (w_db s')"
  using st
proof (cases rule: step.cases)
  case (place user header ids stake res)
  from controller_step [OF this] placeBet_moves [OF I E] show ?thesis by fastforce
next
  case (flush_group g n)
  then show ?thesis
    unfolding flushSettlementBatchesForCasinoGroup_def by (rule flush_loop_moves)
next
  case (staff_void g betId reason staff res)
  have "w_wallet s' = w_wallet s" using voidBet_integrity [OF I staff_void] by simp
  with voidBet_evolves [OF integrityD(1) [OF I] staff_void] show ?thesis by (simp add: moves_evolves)
next
  case catalogue
  with evolves_same_book [OF catalogue(1)] show ?thesis by (simp add: moves_evolves)
qed (use processPending_moves [OF I] settleBatch_moves [OF I] settleBetsForEvent_moves [OF I]
    in blast)+

lemma empty_book_integrity: "empty_book s \<Longrightarrow> integrity E seen (w_db s)"
  by (simp add: empty_book_def integrity_def unique_rows_def one_credit_def)

lemma reach_integrity:
  assumes "reach E port s0 s" and "ids_ok E" and "integrity E (snd (view (w_wallet s0))) (w_db s0)"
  shows "integrity E (snd (view (w_wallet s))) (w_db s)"
  using assms by (induction rule: reach.induct) (auto intro: step_integrity)

lemma reach_moves:
  assumes "reach E port s0 s" and "ids_ok E" and "integrity E (snd (view (w_wallet s0))) (w_db s0)"
  shows "moves E credit (view (w_wallet s0)) (w_db s0) (view (w_wallet s)) (w_db s)"
  using assms(1)
proof (induction rule: reach.induct)
  case start
  then show ?case by simp
next
  case (more s s')
  show ?case
    by (rule moves_trans [OF more.IH step_moves [OF more.hyps(2) assms(2)]])
       (rule reach_integrity [OF more.hyps(1) assms(2,3)])
qed

end

subsection \<open>The ledger equation\<close>

text \<open>The value and the owner of an outbox row, read off its bet.\<close>

definition row_value :: "db \<Rightarrow> outbox_row \<Rightarrow> rat" where
  "row_value d r =
     (case find_bet (ob_betId r) d of
        None \<Rightarrow> 0
      | Some b \<Rightarrow>
          if ob_type r = WALLET_OUTBOX_DEBIT then - bet_stake b
          else payoutForResult (bet_stake b) (bet_potentialPayout b) (bet_status b))"

definition row_owner :: "db \<Rightarrow> outbox_row \<Rightarrow> string" where
  "row_owner d r = (case find_bet (ob_betId r) d of None \<Rightarrow> [] | Some b \<Rightarrow> bet_username b)"

text \<open>Amounts the decimal texts carry exactly.\<close>

definition amounts_exact :: "db \<Rightarrow> bool" where
  "amounts_exact d \<longleftrightarrow>
     (\<forall>b \<in> set (db_bets d). exact20 (bet_stake b) \<and> 0 \<le> bet_stake b \<and> exact20 (bet_potentialPayout b))"

text \<open>The wallet adds the amount it is sent.\<close>

definition credit_adds :: "env \<Rightarrow> (string \<Rightarrow> rat \<Rightarrow> rat) \<Rightarrow> bool" where
  "credit_adds E credit \<longleftrightarrow>
     (\<forall>a b x. dl_parse (env_dec E) a = Some x \<longrightarrow> credit a b = b + x)"

lemma foldl_apply_distinct:
  "\<exists>us. foldl (apply_tx c) g ts = foldl (apply_tx c) g us \<and> distinct (map tx_transactionCode us) \<and>
        set us \<subseteq> set ts \<and> (\<forall>u \<in> set us. tx_transactionCode u \<notin> snd g)"
proof (induction ts rule: rev_induct)
  case Nil
  then show ?case by (intro exI [of _ "[]"]) simp
next
  case (snoc t ts)
  then obtain us where us: "foldl (apply_tx c) g ts = foldl (apply_tx c) g us"
    "distinct (map tx_transactionCode us)" "set us \<subseteq> set ts" "\<forall>u \<in> set us. tx_transactionCode u \<notin> snd g"
    by blast
  show ?case
  proof (cases "tx_transactionCode t \<in> snd (foldl (apply_tx c) g us)")
    case True
    with us show ?thesis by (intro exI [of _ us]) auto
  next
    case False
    with us show ?thesis
      by (intro exI [of _ "us @ [t]"]) (auto simp: foldl_apply_seen)
  qed
qed

lemma foldl_apply_balance:
  assumes "distinct (map tx_transactionCode us)" "\<forall>u \<in> set us. tx_transactionCode u \<notin> snd g"
    and "\<And>t b. t \<in> set us \<Longrightarrow> c (tx_amount t) b = b + val t"
  shows "fst (foldl (apply_tx c) g us) x = fst g x + (\<Sum>t\<leftarrow>filter (\<lambda>t. tx_userCode t = x) us. val t)"
  using assms
proof (induction us rule: rev_induct)
  case (snoc t us)
  have "tx_transactionCode t \<notin> snd (foldl (apply_tx c) g us)"
    using snoc.prems by (auto simp: foldl_apply_seen)
  then have "fst (apply_tx c (foldl (apply_tx c) g us) t) x =
      (if x = tx_userCode t then c (tx_amount t) (fst (foldl (apply_tx c) g us) x)
       else fst (foldl (apply_tx c) g us) x)"
    by (simp add: apply_tx_def)
  with snoc show ?case by (cases "x = tx_userCode t") auto
qed simp

text \<open>The transaction of a row that agrees with its bet: its code, owner and value.\<close>

lemma row_tx_fields:
  assumes A: "row_agrees E seen d r" and u: "find_bet (ob_betId r) d = Some b"
    and L: "dec_lib_ok (env_dec E)"
    and ex: "exact20 (bet_stake b)" "0 \<le> bet_stake b" "exact20 (bet_potentialPayout b)"
    and t: "row_tx E d r = Inr t"
  shows "tx_transactionCode t = ob_transactionCode r" "tx_userCode t = row_owner d r"
    "dl_parse (env_dec E) (tx_amount t) = Some (row_value d r)"
proof -
  note ok = dec_lib_okD [OF L]
  have "tx_transactionCode t = ob_transactionCode r \<and> tx_userCode t = row_owner d r \<and>
    dl_parse (env_dec E) (tx_amount t) = Some (row_value d r)"
  proof (cases "ob_type r = WALLET_OUTBOX_DEBIT")
    case True
    with t u have "buildBetDebitTransaction E b (legs_of (ob_betId r) d) (ob_transactionCode r) = Inr t"
      by (simp add: row_tx_def)
    from buildBetDebitTransaction_fields [OF this] True u ok(2) [OF ex(1,2)]
    show ?thesis by (simp add: row_owner_def row_value_def)
  next
    case False
    with A u have C: "credit_agrees E b r (ob_transactionCode r \<in> seen)"
      by (simp add: row_agrees_def)
    then obtain p where p: "ob_payload r = Some p" "st_transactionCode p = ob_transactionCode r"
      "st_userCode p = bet_username b"
      "st_amount p = (if bet_status b = Bet_LOST then ''0''
           else dl_show (env_dec E)
             (payoutForResult (bet_stake b) (bet_potentialPayout b) (bet_status b)))"
      unfolding credit_agrees_def by blast
    have "dl_parse (env_dec E) (st_amount p) = Some (row_value d r)"
    proof (cases "bet_status b = Bet_LOST")
      case lost: True
      with p(4) ok(11) u False show ?thesis by (simp add: row_value_def payoutForResult_def)
    next
      case nl: False
      have "exact20 (payoutForResult (bet_stake b) (bet_potentialPayout b) (bet_status b))"
        using ex by (simp add: payoutForResult_def)
      with ok(1) nl p(4) u False show ?thesis by (simp add: row_value_def)
    qed
    moreover from t False have "t = payload_tx r" by (simp add: row_tx_def)
    ultimately show ?thesis
      using p(1-3) u by (simp add: payload_tx_def deserializeWalletTransaction_def row_owner_def)
  qed
  then show "tx_transactionCode t = ob_transactionCode r" "tx_userCode t = row_owner d r"
    "dl_parse (env_dec E) (tx_amount t) = Some (row_value d r)" by simp_all
qed

text \<open>
  A wallet that has applied transactions of rows with distinct codes and nothing else: the balance
  of a user is the initial one plus the values of the user's rows whose code has been applied.
\<close>

lemma ledger_sum:
  assumes ts: "g = foldl (apply_tx c) g0 ts" "\<forall>t \<in> set ts. records E d t" and init: "snd g0 = {}"
    and codes: "distinct (map ob_transactionCode (db_outbox d))"
    and row: "\<And>r t. r \<in> set (db_outbox d) \<Longrightarrow> row_tx E d r = Inr t \<Longrightarrow>
      tx_transactionCode t = ob_transactionCode r \<and> tx_userCode t = own r \<and>
      (\<forall>x. c (tx_amount t) x = x + val r)"
  shows "fst g u = fst g0 u +
    (\<Sum>r\<leftarrow>filter (\<lambda>r. ob_transactionCode r \<in> snd g \<and> own r = u) (db_outbox d). val r)"
proof -
  let ?rows = "filter (\<lambda>r. ob_transactionCode r \<in> snd g \<and> own r = u) (db_outbox d)"
  have same: "r = r'" if "r \<in> set (db_outbox d)" "r' \<in> set (db_outbox d)"
      "ob_transactionCode r = ob_transactionCode r'" for r r'
    using codes that by (auto simp: distinct_map dest: inj_onD)
  obtain us where us: "g = foldl (apply_tx c) g0 us" "distinct (map tx_transactionCode us)"
    "set us \<subseteq> set ts" "\<forall>t \<in> set us. tx_transactionCode t \<notin> snd g0"
    using foldl_apply_distinct [of c g0 ts] ts(1) by metis
  have seen: "snd g = tx_transactionCode ` set us"
    using us(1) init by (simp add: foldl_apply_seen)
  have "\<exists>r \<in> set (db_outbox d). row_tx E d r = Inr t" if "t \<in> set us" for t
    using that us(3) ts(2) by (auto simp: records_def)
  then obtain f where f: "t \<in> set us \<Longrightarrow> f t \<in> set (db_outbox d) \<and> row_tx E d (f t) = Inr t" for t
    by metis
  have ff: "tx_transactionCode t = ob_transactionCode (f t) \<and> tx_userCode t = own (f t) \<and>
      (\<forall>x. c (tx_amount t) x = x + val (f t))" if "t \<in> set us" for t
    using row [of "f t" t] f [OF that] by blast
  let ?us = "filter (\<lambda>t. tx_userCode t = u) us"
  have inj: "inj_on f (set us)"
  proof (rule inj_onI)
    fix t t' assume t: "t \<in> set us" "t' \<in> set us" "f t = f t'"
    with f have "Inr t = (Inr t' :: wallet_tx result)" by metis
    then show "t = t'" by simp
  qed
  have "fst g u = fst g0 u + (\<Sum>t\<leftarrow>?us. val (f t))"
    unfolding us(1) by (rule foldl_apply_balance [OF us(2,4), where val = "\<lambda>t. val (f t)"]) (use ff in blast)
  also have "(\<Sum>t\<leftarrow>?us. val (f t)) = (\<Sum>t\<in>set ?us. val (f t))"
    using us(2) by (intro sum_list_distinct_conv_sum_set) (simp add: distinct_map)
  also have "\<dots> = (\<Sum>r\<in>f ` set ?us. val r)"
    using inj by (subst sum.reindex) (auto intro: inj_on_subset)
  also have "f ` set ?us = set ?rows"
  proof
    show "f ` set ?us \<subseteq> set ?rows" using f ff seen by force
    show "set ?rows \<subseteq> f ` set ?us"
    proof
      fix r assume "r \<in> set ?rows"
      then have r: "r \<in> set (db_outbox d)" "ob_transactionCode r \<in> snd g" "own r = u" by auto
      with seen obtain t where t: "t \<in> set us" "tx_transactionCode t = ob_transactionCode r" by auto
      with ff f have "f t = r" using same [OF _ r(1)] by metis
      with ff [OF t(1)] t(1) r(3) show "r \<in> f ` set ?us" by (intro image_eqI [of _ _ t]) auto
    qed
  qed
  also have "(\<Sum>r\<in>set ?rows. val r) = (\<Sum>r\<leftarrow>?rows. val r)"
    using codes by (intro sum_list_distinct_conv_sum_set [symmetric]) (simp add: distinct_map)
  finally show ?thesis .
qed

context wallet_ledger begin

text \<open>The ledger of a run from an empty book, with every row's value read off its bet.\<close>

lemma ledger_equation:
  assumes R: "reach E port s0 s" and E: "ids_ok E" and L: "dec_lib_ok (env_dec E)"
    and init: "empty_book s0" "snd (view (w_wallet s0)) = {}"
    and C: "credit_adds E credit" and X: "amounts_exact (w_db s)"
  shows "fst (view (w_wallet s)) u = fst (view (w_wallet s0)) u +
    (\<Sum>r\<leftarrow>filter (\<lambda>r. ob_transactionCode r \<in> snd (view (w_wallet s)) \<and> row_owner (w_db s) r = u)
        (db_outbox (w_db s)). row_value (w_db s) r)"
proof -
  note I0 = empty_book_integrity [OF init(1)]
  note I = reach_integrity [OF R E I0]
  obtain ts where ts: "view (w_wallet s) = foldl (apply_tx credit) (view (w_wallet s0)) ts"
    "\<forall>t \<in> set ts. records E (w_db s) t"
    using reach_moves [OF R E I0] by (auto simp: moves_def)
  show ?thesis
  proof (rule ledger_sum [OF ts init(2)])
    show "distinct (map ob_transactionCode (db_outbox (w_db s)))"
      using integrityD(1) [OF I] by (simp add: unique_rows_def)
  next
    fix r t assume r: "r \<in> set (db_outbox (w_db s))" and t: "row_tx E (w_db s) r = Inr t"
    note A = integrityD(3) [OF I r]
    then obtain b where b: "find_bet (ob_betId r) (w_db s) = Some b" by (auto simp: row_agrees_def)
    with X find_bet_id [OF b] have "exact20 (bet_stake b)" "0 \<le> bet_stake b" "exact20 (bet_potentialPayout b)"
      by (auto simp: amounts_exact_def)
    from row_tx_fields [OF A b L this t] C
    show "tx_transactionCode t = ob_transactionCode r \<and> tx_userCode t = row_owner (w_db s) r \<and>
      (\<forall>x. credit (tx_amount t) x = x + row_value (w_db s) r)"
      by (auto simp: credit_adds_def)
  qed
qed

end

text \<open>The invariant in the states the service reaches from an empty book.\<close>

lemma reachable_integrity:
  assumes "wallet_ledger P view credit" and "ids_ok E" and "empty_book s0" and "reach E P s0 s"
  shows "integrity E (snd (view (w_wallet s))) (w_db s)"
  by (rule wallet_ledger.reach_integrity [OF assms(1,4,2)])
     (rule wallet_ledger.empty_book_integrity [OF assms(1,3)])

lemma reachable_step_moves:
  assumes "wallet_ledger P view credit" and "ids_ok E" and "empty_book s0" and "reach E P s0 s"
    and "step E P s s'"
  shows "moves E credit (view (w_wallet s)) (w_db s) (view (w_wallet s')) (w_db s')"
  by (rule wallet_ledger.step_moves [OF assms(1,5,2) reachable_integrity [OF assms(1-4)]])

text \<open>A wallet keeps its contract under any balance call that leaves it unchanged.\<close>

lemma wallet_ledger_balance:
  assumes "wallet_ledger P view credit" and "\<And>u g w. snd (gb u g w) = w"
  shows "wallet_ledger (P\<lparr>wp_getBalance := gb\<rparr>) view credit"
proof -
  note laws = wallet_ledger.post_effect [OF assms(1)] wallet_ledger.post_ok [OF assms(1)]
    wallet_ledger.post_refused [OF assms(1)] wallet_ledger.batch_effect [OF assms(1)]
    wallet_ledger.batch_ok [OF assms(1)]
  show ?thesis
    using laws assms(2) by unfold_locales (auto dest: arg_cong [where f = snd])
qed

end
