(* ===== verification/Ingestion.thy ===== *)
theory Ingestion
  imports BetValidation AuditLog WalletOutbox Integrity
    "HOL-Library.List_Lexorder" "HOL-Library.Char_ord"
begin

text \<open>
  \<open>modules/ingestion/ingestion.service.ts\<close>, \<open>ingestion-live.scope.ts\<close>,
  \<open>modules/providers/provider.types.ts\<close> and \<open>modules/casino-groups/tenant-offering.config.ts\<close>:
  a provider's snapshot written into the catalogue, the live events and markets, the final
  result of an event, the purge of mock fixtures and the league offering of the demo tenants.

  The provider's answer is an argument. The provider's status and market type names are those
  of the schema (the \<open>*_STATUS_MAP\<close> tables of the code map each name to itself), so the
  normalized records use the schema's enums. Publishing to the realtime channel and metrics are
  not modelled.
\<close>

subsection \<open>Snapshots\<close>

record n_sport =
  ns_key :: string
  ns_name :: string
  ns_slug :: string

record n_league =
  nl_key :: string
  nl_sportKey :: string
  nl_name :: string
  nl_region :: "string option"

record n_team =
  nt_key :: string
  nt_sportKey :: string
  nt_name :: string
  nt_shortName :: "string option"

record n_fixture =
  nf_providerRef :: string
  nf_leagueKey :: string
  nf_homeTeamKey :: string
  nf_awayTeamKey :: string
  nf_startsAt :: iso_date
  nf_status :: fixture_status

record n_event =
  ne_providerRef :: string
  ne_fixtureProviderRef :: string
  ne_status :: event_status
  ne_homeScore :: "int option"
  ne_awayScore :: "int option"
  ne_period :: "string option"
  ne_clock :: "string option"

record n_market =
  nm_providerRef :: string
  nm_eventProviderRef :: string
  nm_type :: market_type
  nm_status :: market_status
  nm_line :: "string option"

record n_selection =
  nx_providerRef :: string
  nx_marketProviderRef :: string
  nx_name :: string
  nx_status :: selection_status
  nx_price :: string

record provider_snapshot =
  ps_sports :: "n_sport list"
  ps_leagues :: "n_league list"
  ps_teams :: "n_team list"
  ps_fixtures :: "n_fixture list"
  ps_events :: "n_event list"
  ps_markets :: "n_market list"
  ps_selections :: "n_selection list"

definition EMPTY_PROVIDER_SNAPSHOT :: provider_snapshot where
  "EMPTY_PROVIDER_SNAPSHOT = \<lparr>ps_sports = [], ps_leagues = [], ps_teams = [], ps_fixtures = [],
     ps_events = [], ps_markets = [], ps_selections = []\<rparr>"

definition unique_error :: api_error where
  "unique_error = PlainError ''Unique constraint failed''"

subsection \<open>The catalogue\<close>

definition upsertSport :: "env \<Rightarrow> n_sport \<Rightarrow> 'w world \<Rightarrow> unit result \<times> 'w world" where
  "upsertSport E sport s =
     (case upsert sp_key (ns_key sport)
             (\<lambda>i. \<lparr>sp_id = i, sp_key = ns_key sport, sp_name = ns_name sport,
                   sp_slug = ns_slug sport, sp_active = True\<rparr>)
             (\<lambda>r. r\<lparr>sp_name := ns_name sport, sp_slug := ns_slug sport\<rparr>)
             (env_gen E) (w_seq s) (db_sports (w_db s)) of
        (rows, n) \<Rightarrow>
          if distinct (map sp_slug rows)
          then (Inr (), s\<lparr>w_seq := n, w_db := (w_db s)\<lparr>db_sports := rows\<rparr>\<rparr>)
          else (Inl unique_error, s))"

definition upsertLeague ::
  "env \<Rightarrow> (string \<Rightarrow> string option) \<Rightarrow> n_league \<Rightarrow> 'w world \<Rightarrow> unit result \<times> 'w world" where
  "upsertLeague E sportIdByKey league s =
     (case sportIdByKey (nl_sportKey league) of
        None \<Rightarrow> (Inr (), s)
      | Some sportId \<Rightarrow>
      if sportId = [] then (Inr (), s)
      else case upsert lg_key (nl_key league)
             (\<lambda>i. \<lparr>lg_id = i, lg_sportId = sportId, lg_key = nl_key league, lg_name = nl_name league,
                   lg_region = nl_region league, lg_active = True\<rparr>)
             (\<lambda>r. r\<lparr>lg_name := nl_name league,
                    lg_region := (case nl_region league of None \<Rightarrow> lg_region r | Some x \<Rightarrow> Some x),
                    lg_sportId := sportId\<rparr>)
             (env_gen E) (w_seq s) (db_leagues (w_db s)) of
        (rows, n) \<Rightarrow> (Inr (), s\<lparr>w_seq := n, w_db := (w_db s)\<lparr>db_leagues := rows\<rparr>\<rparr>))"

definition upsertTeam ::
  "env \<Rightarrow> (string \<Rightarrow> string option) \<Rightarrow> n_team \<Rightarrow> 'w world \<Rightarrow> unit result \<times> 'w world" where
  "upsertTeam E sportIdByKey team s =
     (case sportIdByKey (nt_sportKey team) of
        None \<Rightarrow> (Inr (), s)
      | Some sportId \<Rightarrow>
      if sportId = [] then (Inr (), s)
      else case upsert tm_key (nt_key team)
             (\<lambda>i. \<lparr>tm_id = i, tm_sportId = sportId, tm_key = nt_key team, tm_name = nt_name team,
                   tm_shortName = nt_shortName team\<rparr>)
             (\<lambda>r. r\<lparr>tm_name := nt_name team,
                    tm_shortName := (case nt_shortName team of None \<Rightarrow> tm_shortName r | Some x \<Rightarrow> Some x),
                    tm_sportId := sportId\<rparr>)
             (env_gen E) (w_seq s) (db_teams (w_db s)) of
        (rows, n) \<Rightarrow> (Inr (), s\<lparr>w_seq := n, w_db := (w_db s)\<lparr>db_teams := rows\<rparr>\<rparr>))"

text \<open>\<open>undefined\<close> in an update leaves the column as it is; in a create it is the default, \<open>NULL\<close>.\<close>

definition upsertCatalogFromSnapshot ::
  "env \<Rightarrow> provider_snapshot \<Rightarrow> 'w world \<Rightarrow> unit result \<times> 'w world" where
  "upsertCatalogFromSnapshot E snapshot s =
     and_then (each (upsertSport E) (ps_sports snapshot) s) (\<lambda>_ s1.
       let sportIdByKey = keyToId (map (\<lambda>r. (sp_key r, sp_id r)) (db_sports (w_db s1))) in
     and_then (each (upsertLeague E sportIdByKey) (ps_leagues snapshot) s1) (\<lambda>_ s2.
     and_then (each (upsertTeam E sportIdByKey) (ps_teams snapshot) s2) (\<lambda>_ s3. (Inr (), s3))))"

fun iso_time :: "iso_date \<Rightarrow> int" where
  "iso_time (ISO t) = t"

text \<open>One fixture: 1 when it was written, 0 when a reference is unknown.\<close>

definition upsertFixture ::
  "env \<Rightarrow> (string \<Rightarrow> string option) \<Rightarrow> (string \<Rightarrow> string option) \<Rightarrow> n_fixture \<Rightarrow> 'w world \<Rightarrow>
   nat result \<times> 'w world" where
  "upsertFixture E leagueIdByKey teamIdByKey fixture s =
     (let leagueId = leagueIdByKey (nf_leagueKey fixture);
          homeTeamId = teamIdByKey (nf_homeTeamKey fixture);
          awayTeamId = teamIdByKey (nf_awayTeamKey fixture) in
      if \<not> truthy leagueId \<or> \<not> truthy homeTeamId \<or> \<not> truthy awayTeamId then (Inr 0, s)
      else
      let write = (\<lambda>r. r\<lparr>fx_leagueId := the leagueId, fx_homeTeamId := the homeTeamId,
                 fx_awayTeamId := the awayTeamId, fx_startsAt := iso_time (nf_startsAt fixture),
                 fx_status := nf_status fixture\<rparr>) in
      case upsert fx_providerRef (nf_providerRef fixture)
             (\<lambda>i. write \<lparr>fx_id = i, fx_leagueId = [], fx_homeTeamId = [], fx_awayTeamId = [],
                fx_startsAt = 0, fx_status = Fx_SCHEDULED, fx_providerRef = nf_providerRef fixture\<rparr>)
             write (env_gen E) (w_seq s) (db_fixtures (w_db s)) of
        (rows, n) \<Rightarrow> (Inr 1, s\<lparr>w_seq := n, w_db := (w_db s)\<lparr>db_fixtures := rows\<rparr>\<rparr>))"

subsection \<open>Purging fixtures\<close>

definition MOCK_FIXTURE_PROVIDER_PREFIX :: string where
  "MOCK_FIXTURE_PROVIDER_PREFIX = ''mock_''"

definition PURGED_MOCK_FIXTURE_PROVIDER_PREFIX :: string where
  "PURGED_MOCK_FIXTURE_PROVIDER_PREFIX = ''purged_mock_''"

definition MOCK_TEAM_KEYS :: "string list" where
  "MOCK_TEAM_KEYS = [''epl_ars'', ''epl_che'', ''epl_liv'', ''epl_mci'', ''laliga_rma'',
     ''laliga_fcb'', ''nba_lal'', ''nba_bos'', ''nba_gsw'', ''nba_mia'']"

definition mockFixtureWhere :: "fixture_row \<Rightarrow> bool" where
  "mockFixtureWhere f \<longleftrightarrow>
     starts_with (fx_providerRef f) MOCK_FIXTURE_PROVIDER_PREFIX \<or>
     starts_with (fx_providerRef f) PURGED_MOCK_FIXTURE_PROVIDER_PREFIX"

definition events_of :: "db \<Rightarrow> string list \<Rightarrow> string list" where
  "events_of d fixtureIds = map ev_id (row_filter (\<lambda>e. ev_fixtureId e \<in> set fixtureIds) (db_events d))"

definition markets_of :: "db \<Rightarrow> string list \<Rightarrow> string list" where
  "markets_of d eventIds = map mk_id (row_filter (\<lambda>m. mk_eventId m \<in> set eventIds) (db_markets d))"

definition selections_of :: "db \<Rightarrow> string list \<Rightarrow> string list" where
  "selections_of d fixtureIds =
     map sl_id (row_filter (\<lambda>x. sl_marketId x \<in> set (markets_of d (events_of d fixtureIds)))
       (db_selections d))"

definition is_active :: "bet_status \<Rightarrow> bool" where
  "is_active st \<longleftrightarrow> st = Bet_PENDING \<or> st = Bet_ACCEPTED"

definition fixtureHasActiveBets :: "db \<Rightarrow> fixture_row \<Rightarrow> bool" where
  "fixtureHasActiveBets d f \<longleftrightarrow>
     (\<exists>l \<in> set (db_legs d). leg_selectionId l \<in> set (selections_of d [fx_id f]) \<and>
        (\<exists>b \<in> set (db_bets d). bet_id b = leg_betId l \<and> is_active (bet_status b)))"

text \<open>Deleting fixtures cascades to their events, markets, selections and odds snapshots.\<close>

definition delete_fixtures :: "string list \<Rightarrow> db \<Rightarrow> db" where
  "delete_fixtures fixtureIds d =
     (let eventIds = events_of d fixtureIds; marketIds = markets_of d eventIds;
          selectionIds = selections_of d fixtureIds in
      d\<lparr>db_fixtures := row_delete (\<lambda>f. fx_id f \<in> set fixtureIds) (db_fixtures d),
        db_events := row_delete (\<lambda>e. ev_id e \<in> set eventIds) (db_events d),
        db_markets := row_delete (\<lambda>m. mk_id m \<in> set marketIds) (db_markets d),
        db_selections := row_delete (\<lambda>x. sl_id x \<in> set selectionIds) (db_selections d),
        db_snapshots := row_delete (\<lambda>x. os_selectionId x \<in> set selectionIds) (db_snapshots d)\<rparr>)"

definition delete_bets :: "string list \<Rightarrow> db \<Rightarrow> db" where
  "delete_bets betIds d =
     d\<lparr>db_outbox := row_delete (\<lambda>r. ob_betId r \<in> set betIds) (db_outbox d),
       db_bets := row_delete (\<lambda>b. bet_id b \<in> set betIds) (db_bets d),
       db_legs := row_delete (\<lambda>l. leg_betId l \<in> set betIds) (db_legs d)\<rparr>"

text \<open>The fixtures a purge removes and the bets that go with them: (fixtures, bets) counted.\<close>

definition deleteFixturesAndBetHistory ::
  "(fixture_row \<Rightarrow> bool) \<Rightarrow> 'w world \<Rightarrow> (nat \<times> nat) \<times> 'w world" where
  "deleteFixturesAndBetHistory P s =
     (let d = w_db s;
          fixtureIds = map fx_id (row_filter (\<lambda>f. P f \<and> \<not> fixtureHasActiveBets d f) (db_fixtures d));
          selectionIds = selections_of d fixtureIds;
          betIds = distinct_first (map leg_betId
            (row_filter (\<lambda>l. leg_selectionId l \<in> set selectionIds) (db_legs d))) in
      if fixtureIds = [] then ((0, 0), s)
      else if selectionIds \<noteq> [] \<and> betIds \<noteq> [] then
        ((length fixtureIds, length (row_filter (\<lambda>b. bet_id b \<in> set betIds) (db_bets d))),
         s\<lparr>w_db := delete_fixtures fixtureIds (delete_bets betIds d)\<rparr>)
      else
        ((length (row_filter (\<lambda>f. fx_id f \<in> set fixtureIds) (db_fixtures d)), 0),
         s\<lparr>w_db := delete_fixtures fixtureIds d\<rparr>))"

record purge_summary =
  pu_fixturesRemoved :: nat
  pu_betsRemoved :: nat
  pu_fixturesSkipped :: nat
  pu_teamsRemoved :: nat

definition purgeMockCatalog :: "'w world \<Rightarrow> purge_summary \<times> 'w world" where
  "purgeMockCatalog s =
     (let fixturesSkipped = length (row_filter
            (\<lambda>f. mockFixtureWhere f \<and> fixtureHasActiveBets (w_db s) f) (db_fixtures (w_db s))) in
      case deleteFixturesAndBetHistory mockFixtureWhere s of
        ((fixturesRemoved, betsRemoved), s1) \<Rightarrow>
          let d = w_db s1;
              gone = (\<lambda>t. tm_key t \<in> set MOCK_TEAM_KEYS \<and>
                 (\<forall>f \<in> set (db_fixtures d). fx_homeTeamId f \<noteq> tm_id t \<and> fx_awayTeamId f \<noteq> tm_id t)) in
          (\<lparr>pu_fixturesRemoved = fixturesRemoved, pu_betsRemoved = betsRemoved,
            pu_fixturesSkipped = fixturesSkipped,
            pu_teamsRemoved = length (row_filter gone (db_teams d))\<rparr>,
           s1\<lparr>w_db := d\<lparr>db_teams := row_delete gone (db_teams d)\<rparr>\<rparr>))"

text \<open>The fixtures of a snapshot, then (mock provider only) the purge of stale mock fixtures.\<close>

definition upsertFixturesFromSnapshot ::
  "env \<Rightarrow> provider_snapshot \<Rightarrow> bool \<Rightarrow> 'w world \<Rightarrow> nat result \<times> 'w world" where
  "upsertFixturesFromSnapshot E snapshot purgeStale s =
     (let leagueIdByKey = keyToId (map (\<lambda>r. (lg_key r, lg_id r)) (db_leagues (w_db s)));
          teamIdByKey = keyToId (map (\<lambda>r. (tm_key r, tm_id r)) (db_teams (w_db s))) in
      and_then (each (upsertFixture E leagueIdByKey teamIdByKey) (ps_fixtures snapshot) s) (\<lambda>counts s1.
        let fixtureCount = sum_list counts in
        if \<not> purgeStale then (Inr fixtureCount, s1)
        else if env_FIXTURE_PROVIDER E = ''odds-api'' then (Inr fixtureCount, s1)
        else
        let activeMockRefs = filter (\<lambda>ref. starts_with ref ''mock_'') (map nf_providerRef (ps_fixtures snapshot)) in
        if activeMockRefs = [] then (Inr fixtureCount, s1)
        else (Inr fixtureCount, snd (deleteFixturesAndBetHistory
               (\<lambda>f. starts_with (fx_providerRef f) ''mock_'' \<and> fx_providerRef f \<notin> set activeMockRefs) s1))))"

subsection \<open>Live data\<close>

text \<open>\<open>closeMarketsForEndedEvent\<close>: every market and selection of the event becomes \<open>SETTLED\<close>.\<close>

definition closeMarketsForEndedEvent :: "string \<Rightarrow> 'w world \<Rightarrow> 'w world" where
  "closeMarketsForEndedEvent eventId s =
     (let d = w_db s;
          d1 = d\<lparr>db_markets := row_update (\<lambda>m. mk_eventId m = eventId)
                   (\<lambda>m. m\<lparr>mk_status := Mk_SETTLED\<rparr>) (db_markets d)\<rparr>;
          d2 = d1\<lparr>db_selections := row_update (\<lambda>x. sl_marketId x \<in> set (markets_of d1 [eventId]))
                   (\<lambda>x. x\<lparr>sl_status := Sl_SETTLED\<rparr>) (db_selections d1)\<rparr>
      in s\<lparr>w_db := d2\<rparr>)"

definition write_event :: "string \<Rightarrow> n_event \<Rightarrow> event_row \<Rightarrow> event_row" where
  "write_event fixtureId event r =
     r\<lparr>ev_fixtureId := fixtureId, ev_status := ne_status event, ev_homeScore := ne_homeScore event,
       ev_awayScore := ne_awayScore event, ev_period := ne_period event, ev_clock := ne_clock event\<rparr>"

definition new_event :: "string \<Rightarrow> string \<Rightarrow> event_row" where
  "new_event i providerRef = \<lparr>ev_id = i, ev_fixtureId = [], ev_providerRef = providerRef,
     ev_status = Ev_SCHEDULED, ev_homeScore = None, ev_awayScore = None, ev_period = None,
     ev_clock = None\<rparr>"

definition ingestEvent ::
  "env \<Rightarrow> (string \<Rightarrow> string option) \<Rightarrow> n_event \<Rightarrow> 'w world \<Rightarrow> nat result \<times> 'w world" where
  "ingestEvent E fixtureIdByRef event s =
     (case fixtureIdByRef (ne_fixtureProviderRef event) of
        None \<Rightarrow> (Inr 0, s)
      | Some fixtureId \<Rightarrow>
      if fixtureId = [] then (Inr 0, s)
      else case upsert ev_providerRef (ne_providerRef event)
             (\<lambda>i. write_event fixtureId event (new_event i (ne_providerRef event)))
             (write_event fixtureId event) (env_gen E) (w_seq s) (db_events (w_db s)) of
        (rows, n) \<Rightarrow>
          if \<not> distinct (map ev_fixtureId rows) then (Inl unique_error, s)
          else
          let s1 = s\<lparr>w_seq := n, w_db := (w_db s)\<lparr>db_events := rows\<rparr>\<rparr> in
          (case get_by ev_providerRef (ne_providerRef event) rows of
             None \<Rightarrow> (Inr 1, s1)
           | Some saved \<Rightarrow>
               (Inr 1, if ev_status saved = Ev_ENDED
                       then closeMarketsForEndedEvent (ev_id saved) s1 else s1)))"

definition ingestMarket ::
  "env \<Rightarrow> (string \<Rightarrow> string option) \<Rightarrow> n_market \<Rightarrow> 'w world \<Rightarrow> nat result \<times> 'w world" where
  "ingestMarket E eventIdByRef market s =
     (case eventIdByRef (nm_eventProviderRef market) of
        None \<Rightarrow> (Inr 0, s)
      | Some eventId \<Rightarrow>
      if eventId = [] then (Inr 0, s)
      else case (if truthy (nm_line market)
                 then map_sum id Some (parse_decimal (env_dec E) (the (nm_line market)))
                 else Inr None) of
        Inl e \<Rightarrow> (Inl e, s)
      | Inr line \<Rightarrow>
      let write = (\<lambda>r. r\<lparr>mk_eventId := eventId, mk_type := nm_type market,
                         mk_status := nm_status market, mk_line := line\<rparr>) in
      case upsert mk_providerRef (nm_providerRef market)
             (\<lambda>i. write \<lparr>mk_id = i, mk_eventId = [], mk_providerRef = nm_providerRef market,
                mk_type = MATCH_RESULT, mk_status = Mk_OPEN, mk_line = None\<rparr>)
             write (env_gen E) (w_seq s) (db_markets (w_db s)) of
        (rows, n) \<Rightarrow> (Inr 1, s\<lparr>w_seq := n, w_db := (w_db s)\<lparr>db_markets := rows\<rparr>\<rparr>))"

text \<open>One selection: whether it was written, and whether a price snapshot was recorded.\<close>

definition ingestSelection ::
  "env \<Rightarrow> (string \<Rightarrow> string option) \<Rightarrow> (string \<Rightarrow> rat option) \<Rightarrow> n_selection \<Rightarrow> 'w world \<Rightarrow>
   (nat \<times> nat) result \<times> 'w world" where
  "ingestSelection E marketIdByRef priceByRef selection s =
     (case marketIdByRef (nx_marketProviderRef selection) of
        None \<Rightarrow> (Inr (0, 0), s)
      | Some marketId \<Rightarrow>
      if marketId = [] then (Inr (0, 0), s)
      else case parse_decimal (env_dec E) (nx_price selection) of
        Inl e \<Rightarrow> (Inl e, s)
      | Inr price \<Rightarrow>
      let priceChanged = (priceByRef (nx_providerRef selection) \<noteq> Some price);
          write = (\<lambda>r. r\<lparr>sl_marketId := marketId, sl_name := nx_name selection,
                         sl_status := nx_status selection, sl_price := price\<rparr>) in
      case upsert sl_providerRef (nx_providerRef selection)
             (\<lambda>i. write \<lparr>sl_id = i, sl_marketId = [], sl_providerRef = nx_providerRef selection,
                sl_name = [], sl_status = Sl_OPEN, sl_price = 0\<rparr>)
             write (env_gen E) (w_seq s) (db_selections (w_db s)) of
        (rows, n) \<Rightarrow>
          let s1 = s\<lparr>w_seq := n, w_db := (w_db s)\<lparr>db_selections := rows\<rparr>\<rparr> in
          (case get_by sl_providerRef (nx_providerRef selection) rows of
             None \<Rightarrow> (Inr (1, 0), s1)
           | Some saved \<Rightarrow>
               if priceChanged then
                 (Inr (1, 1), s1\<lparr>w_db := (w_db s1)\<lparr>db_snapshots := row_insert
                    \<lparr>os_selectionId = sl_id saved, os_price = price, os_capturedAt = w_now s\<rparr>
                    (db_snapshots (w_db s1))\<rparr>\<rparr>)
               else (Inr (1, 0), s1)))"

record live_counts =
  lc_events :: nat
  lc_markets :: nat
  lc_selections :: nat
  lc_oddsSnapshots :: nat

definition ingestLiveData ::
  "env \<Rightarrow> provider_snapshot \<Rightarrow> 'w world \<Rightarrow> live_counts result \<times> 'w world" where
  "ingestLiveData E snapshot s =
     (let fixtureIdByRef = keyToId (map (\<lambda>r. (fx_providerRef r, fx_id r)) (db_fixtures (w_db s))) in
      and_then (each (ingestEvent E fixtureIdByRef) (ps_events snapshot) s) (\<lambda>events s1.
        let eventIdByRef = keyToId (map (\<lambda>r. (ev_providerRef r, ev_id r)) (db_events (w_db s1))) in
      and_then (each (ingestMarket E eventIdByRef) (ps_markets snapshot) s1) (\<lambda>markets s2.
        let marketIdByRef = keyToId (map (\<lambda>r. (mk_providerRef r, mk_id r)) (db_markets (w_db s2)));
            priceByRef = map_of (rev (map (\<lambda>r. (sl_providerRef r, sl_price r)) (db_selections (w_db s2)))) in
      and_then (each (ingestSelection E marketIdByRef priceByRef) (ps_selections snapshot) s2)
        (\<lambda>selections s3.
          (Inr \<lparr>lc_events = sum_list events, lc_markets = sum_list markets,
                lc_selections = sum_list (map fst selections),
                lc_oddsSnapshots = sum_list (map snd selections)\<rparr>, s3)))))"

definition applyResultsSnapshot ::
  "env \<Rightarrow> provider_snapshot \<Rightarrow> 'w world \<Rightarrow> live_counts result \<times> 'w world" where
  "applyResultsSnapshot E snapshot s = ingestLiveData E snapshot s"

subsection \<open>The final result of an event\<close>

definition finalizeEventResult ::
  "string \<Rightarrow> int \<Rightarrow> int \<Rightarrow> 'w world \<Rightarrow> string option \<times> 'w world" where
  "finalizeEventResult providerRef homeScore awayScore s =
     (case get_by ev_providerRef providerRef (db_events (w_db s)) of
        None \<Rightarrow> (None, s)
      | Some event \<Rightarrow>
      let d = w_db s;
          d1 = d\<lparr>db_fixtures := upd_by fx_id (ev_fixtureId event)
                   (\<lambda>f. f\<lparr>fx_status := Fx_ENDED\<rparr>) (db_fixtures d),
                 db_events := upd_by ev_id (ev_id event)
                   (\<lambda>e. e\<lparr>ev_status := Ev_ENDED, ev_homeScore := Some homeScore,
                          ev_awayScore := Some awayScore\<rparr>) (db_events d)\<rparr>;
          s1 = closeMarketsForEndedEvent (ev_id event) (s\<lparr>w_db := d1\<rparr>);
          d2 = w_db s1;
          noted = (\<lambda>b. bet_status b = Bet_ACCEPTED \<and>
            (\<exists>l \<in> set (db_legs d2). leg_betId l = bet_id b \<and> leg_eventId l = ev_id event)) in
      (Some (ev_id event),
       s1\<lparr>w_db := d2\<lparr>db_bets := row_update noted (\<lambda>b. b\<lparr>bet_settlementNote := None\<rparr>) (db_bets d2)\<rparr>\<rparr>))"

subsection \<open>League offering of the demo tenants\<close>

definition NBA_LEAGUE_KEY :: string where
  "NBA_LEAGUE_KEY = ''basketball_nba''"

definition ACME_LEAGUE_PREFIXES :: "string list" where
  "ACME_LEAGUE_PREFIXES = [NBA_LEAGUE_KEY]"

definition BETZONE_LEAGUE_PREFIXES :: "string list" where
  "BETZONE_LEAGUE_PREFIXES = [NBA_LEAGUE_KEY]"

definition isLeagueOffered :: "string \<Rightarrow> string list \<Rightarrow> bool" where
  "isLeagueOffered leagueKey offeredLeagueKeys \<longleftrightarrow> leagueKey \<in> set offeredLeagueKeys"

definition find_group_league :: "string \<Rightarrow> string \<Rightarrow> db \<Rightarrow> group_league_row option" where
  "find_group_league g l d = get_by (\<lambda>r. (gl_casinoGroupId r, gl_leagueId r)) (g, l) (db_groupLeagues d)"

text \<open>\<open>casinoGroupLeague.upsert\<close>: the row keeps its platform lock.\<close>

definition set_group_league :: "string \<Rightarrow> string \<Rightarrow> bool \<Rightarrow> db \<Rightarrow> db" where
  "set_group_league g l enabled d =
     (case find_group_league g l d of
        Some r \<Rightarrow> d\<lparr>db_groupLeagues := upd_by (\<lambda>r. (gl_casinoGroupId r, gl_leagueId r)) (g, l)
                    (\<lambda>r. r\<lparr>gl_enabled := enabled\<rparr>) (db_groupLeagues d)\<rparr>
      | None \<Rightarrow> d\<lparr>db_groupLeagues := row_insert \<lparr>gl_casinoGroupId = g, gl_leagueId = l,
                    gl_enabled = enabled, gl_platformLocked = False\<rparr> (db_groupLeagues d)\<rparr>)"

definition syncLeague :: "string \<Rightarrow> string \<Rightarrow> string list \<Rightarrow> league_row \<Rightarrow> 'w world \<Rightarrow> 'w world" where
  "syncLeague slug groupId offeredLeagueKeys league s =
     (let enabled = isLeagueOffered (lg_key league) offeredLeagueKeys;
          existing = find_group_league groupId (lg_id league) (w_db s);
          s1 = s\<lparr>w_db := set_group_league groupId (lg_id league) enabled (w_db s)\<rparr> in
      if map_option gl_enabled existing \<noteq> Some enabled then
        audit_record ''system'' (Some ''ingestion'') (Some groupId) ''tenant.league_offering_updated''
          ''CasinoGroupLeague'' (Some (groupId @ '':'' @ lg_id league))
          (map_option (\<lambda>r. [(''enabled'', bool_text (gl_enabled r)), (''leagueKey'', lg_key league)]) existing)
          (Some [(''enabled'', bool_text enabled), (''leagueKey'', lg_key league)])
          (Some (''Catalog ingest sync for '' @ slug)) s1
      else s1)"

definition syncTenantLeagues :: "string \<Rightarrow> string list \<Rightarrow> 'w world \<Rightarrow> 'w world" where
  "syncTenantLeagues slug offeredLeagueKeys s =
     (case get_by cg_slug slug (db_groups (w_db s)) of
        None \<Rightarrow> s
      | Some tenant \<Rightarrow>
          foldl (\<lambda>s league. syncLeague slug (cg_id tenant) offeredLeagueKeys league s) s
            (db_leagues (w_db s)))"

subsection \<open>Ingestion runs\<close>

record ingestion_summary =
  is_sports :: nat
  is_leagues :: nat
  is_teams :: nat
  is_fixtures :: nat
  is_live :: live_counts

definition buildSummary :: "provider_snapshot \<Rightarrow> nat \<Rightarrow> live_counts \<Rightarrow> ingestion_summary" where
  "buildSummary snapshot fixtureCount live = \<lparr>
     is_sports = length (ps_sports snapshot),
     is_leagues = length (ps_leagues snapshot),
     is_teams = length (ps_teams snapshot),
     is_fixtures = fixtureCount,
     is_live = live\<rparr>"

text \<open>\<open>ingestFixtures\<close>, given the provider's answer (a snapshot or the error it threw).\<close>

definition ingestFixtures ::
  "env \<Rightarrow> provider_snapshot result \<Rightarrow> 'w world \<Rightarrow> ingestion_summary result \<times> 'w world" where
  "ingestFixtures E fetched s =
     (case fetched of
        Inl e \<Rightarrow> (Inl e, s)
      | Inr snapshot \<Rightarrow>
      and_then (upsertCatalogFromSnapshot E snapshot s) (\<lambda>_ s1.
        let s2 = syncTenantLeagues ''acme'' ACME_LEAGUE_PREFIXES s1;
            s3 = syncTenantLeagues ''betzone'' BETZONE_LEAGUE_PREFIXES s2 in
      and_then (upsertFixturesFromSnapshot E snapshot True s3) (\<lambda>fixtureCount s4.
      and_then (ingestLiveData E snapshot s4) (\<lambda>live s5.
        (Inr (buildSummary snapshot fixtureCount live), s5)))))"

definition live_game :: "db \<Rightarrow> fixture_row \<Rightarrow> bool" where
  "live_game d f \<longleftrightarrow>
     fx_status f = Fx_LIVE \<or> (\<exists>e \<in> set (db_events d). ev_fixtureId e = fx_id f \<and> ev_status e = Ev_LIVE)"

definition hasLiveGames :: "db \<Rightarrow> bool" where
  "hasLiveGames d \<longleftrightarrow> row_find (live_game d) (db_fixtures d) \<noteq> None"

text \<open>Live fixtures, and those starting within the window when one is configured.\<close>

definition resolveLiveSportKeys :: "int \<Rightarrow> int \<Rightarrow> db \<Rightarrow> string list" where
  "resolveLiveSportKeys prestartMinutes now d =
     (let scope = (\<lambda>f. live_game d f \<or>
            (prestartMinutes > 0 \<and> fx_status f = Fx_SCHEDULED \<and> now \<le> fx_startsAt f \<and>
             fx_startsAt f \<le> now + prestartMinutes * 60000));
          keys = List.map_filter (\<lambda>f. map_option lg_key (find_league (fx_leagueId f) d))
            (row_filter scope (db_fixtures d))
      in sort (remdups keys))"

record live_summary =
  lv_sportKeys :: "string list"
  lv_skipped :: bool
  lv_summary :: "ingestion_summary option"   \<comment> \<open>\<open>None\<close>: all counts are 0\<close>

text \<open>
  \<open>ingestLiveTick\<close>: \<open>fetch\<close> is the provider's optional live call, from the sport keys to a
  snapshot or an error.
\<close>

definition ingestLiveTick ::
  "env \<Rightarrow> (string list \<Rightarrow> provider_snapshot result) option \<Rightarrow> 'w world \<Rightarrow> live_summary result \<times> 'w world" where
  "ingestLiveTick E fetch s =
     (let sportKeys = resolveLiveSportKeys (env_INGEST_LIVE_PRESTART_MINUTES E) (w_now s) (w_db s) in
      if sportKeys = [] then
        (Inr \<lparr>lv_sportKeys = [], lv_skipped = True, lv_summary = None\<rparr>, s)
      else case fetch of
        None \<Rightarrow> (Inl (PlainError ''Live ingest is not supported for the current FIXTURE_PROVIDER''), s)
      | Some f \<Rightarrow>
      (case f sportKeys of
         Inl e \<Rightarrow> (Inl e, s)
       | Inr snapshot \<Rightarrow>
       and_then (upsertCatalogFromSnapshot E snapshot s) (\<lambda>_ s1.
       and_then (upsertFixturesFromSnapshot E snapshot False s1) (\<lambda>fixtureCount s2.
       and_then (ingestLiveData E snapshot s2) (\<lambda>live s3.
         (Inr \<lparr>lv_sportKeys = sportKeys, lv_skipped = False,
               lv_summary = Some (buildSummary snapshot fixtureCount live)\<rparr>, s3))))))"

subsection \<open>Ingestion and the book\<close>

text \<open>
  No ingestion step touches a bet, a leg, an outbox row or the wallet; the purge of mock
  fixtures is the exception.
\<close>

lemmas ingestion_steps = upsertSport_def upsertLeague_def upsertTeam_def upsertFixture_def
  ingestEvent_def ingestMarket_def ingestSelection_def closeMarketsForEndedEvent_def

lemma ingestion_steps_quiet [simp]:
  "quiet s (snd (upsertSport E sport s))"
  "quiet s (snd (upsertLeague E m league s))"
  "quiet s (snd (upsertTeam E m team s))"
  "quiet s (snd (upsertFixture E m m' fixture s))"
  "quiet s (closeMarketsForEndedEvent i s)"
  "quiet s (snd (ingestEvent E m event s))"
  "quiet s (snd (ingestMarket E m market s))"
  "quiet s (snd (ingestSelection E m price selection s))"
  by (auto simp: ingestion_steps Let_def quiet_def same_book_def split: option.split sum.split prod.split)

lemma each_quiet: "(\<And>x s. quiet s (snd (f x s))) \<Longrightarrow> quiet s (snd (each f xs s))"
  by (rule each_keeps [where Q = "quiet s"]) (auto intro: quiet_trans)

lemma and_then_quiet:
  "quiet s (snd p) \<Longrightarrow> (\<And>a s'. quiet s' (snd (k a s'))) \<Longrightarrow> quiet s (snd (and_then p k))"
  by (rule and_then_keeps [where Q = "quiet s"]) (auto intro: quiet_trans)

lemma upsertCatalog_quiet [simp]: "quiet s (snd (upsertCatalogFromSnapshot E snapshot s))"
  unfolding upsertCatalogFromSnapshot_def Let_def
  by (intro and_then_quiet each_quiet ingestion_steps_quiet) simp_all

lemma upsertFixtures_quiet [simp]:
  "\<not> purge \<or> env_FIXTURE_PROVIDER E = ''odds-api'' \<Longrightarrow>
   quiet s (snd (upsertFixturesFromSnapshot E snapshot purge s))"
  unfolding upsertFixturesFromSnapshot_def Let_def
  by (intro and_then_quiet each_quiet ingestion_steps_quiet) auto

lemma ingestLiveData_quiet [simp]: "quiet s (snd (ingestLiveData E snapshot s))"
  unfolding ingestLiveData_def Let_def
  by (intro and_then_quiet each_quiet ingestion_steps_quiet) simp_all

lemma syncLeague_quiet: "quiet s (syncLeague slug g keys league s)"
  by (auto simp: syncLeague_def Let_def quiet_def same_book_def set_group_league_def audit_record_def
      split: option.split)

lemma syncTenantLeagues_quiet [simp]: "quiet s (syncTenantLeagues slug keys s)"
proof -
  have "quiet s (foldl (\<lambda>s l. syncLeague slug g keys l s) s ls)" for g ls and s :: "'a world"
    by (induction ls arbitrary: s) (auto intro: quiet_trans syncLeague_quiet)
  then show ?thesis by (auto simp: syncTenantLeagues_def split: option.split)
qed

lemma ingestFixtures_quiet:
  assumes "env_FIXTURE_PROVIDER E = ''odds-api''"
  shows "quiet s (snd (ingestFixtures E fetched s))"
proof -
  have step: "quiet s' (snd (upsertFixturesFromSnapshot E x True
      (syncTenantLeagues t2 k2 (syncTenantLeagues t1 k1 s'))))" for x t1 k1 t2 k2 and s' :: "'a world"
  proof -
    let ?a = "syncTenantLeagues t1 k1 s'"
    have "quiet s' (syncTenantLeagues t2 k2 ?a)"
      by (rule quiet_trans [OF syncTenantLeagues_quiet syncTenantLeagues_quiet])
    moreover have "quiet (syncTenantLeagues t2 k2 ?a)
        (snd (upsertFixturesFromSnapshot E x True (syncTenantLeagues t2 k2 ?a)))"
      by (rule upsertFixtures_quiet) (simp add: assms)
    ultimately show ?thesis by (rule quiet_trans)
  qed
  show ?thesis
  proof (cases fetched)
    case (Inr snapshot)
    then show ?thesis
      unfolding ingestFixtures_def Let_def Inr sum.case
      by (intro and_then_quiet step upsertCatalog_quiet ingestLiveData_quiet) simp_all
  qed (simp add: ingestFixtures_def)
qed

lemma ingestLiveTick_quiet: "quiet s (snd (ingestLiveTick E fetch s))"
  by (auto simp: ingestLiveTick_def Let_def split: option.split sum.split intro!: and_then_quiet)

lemma finalizeEventResult_quiet: "quiet s (snd (finalizeEventResult ref h a s))"
  by (auto simp: finalizeEventResult_def Let_def quiet_def same_book_def row_update_def bet_core_def
      closeMarketsForEndedEvent_def comp_def split: option.split)

end
