(* ===== verification/Redis.thy ===== *)
theory Redis
  imports Schema
begin

text \<open>
  The Redis server as the services use it (\<open>shared/cache/redis.service.ts\<close> only opens the
  connection): four commands as a port over an abstract server state, what the commands are
  documented to do (\<open>redis_ok\<close>), and a server that does so. Time is in milliseconds, a time to
  live in seconds. A command may fail, and a write that failed may have been carried out.

  A cached value is a plain text or the JSON text of a casino group, which the constructor
  \<open>GroupJson\<close> stands for (\<open>JSON.stringify\<close>, read back by \<open>JSON.parse\<close>).
\<close>

record casino_group_ctx =
  cc_id :: string
  cc_slug :: string
  cc_name :: string
  cc_defaultCurrency :: string
  cc_timezone :: string

datatype redis_value = Plain string | GroupJson casino_group_ctx

record 'r redis_port =
  rp_get :: "string \<Rightarrow> int \<Rightarrow> 'r \<Rightarrow> redis_value option result"
  rp_setEx :: "string \<Rightarrow> redis_value \<Rightarrow> int \<Rightarrow> int \<Rightarrow> 'r \<Rightarrow> unit result \<times> 'r"
  rp_setNxEx :: "string \<Rightarrow> redis_value \<Rightarrow> int \<Rightarrow> int \<Rightarrow> 'r \<Rightarrow> bool result \<times> 'r"
  rp_del :: "string list \<Rightarrow> 'r \<Rightarrow> unit result \<times> 'r"

text \<open>The keys of the server with their values and the time they expire at.\<close>

type_synonym redis_view = "string \<Rightarrow> (redis_value \<times> int) option"

definition live_value :: "redis_view \<Rightarrow> string \<Rightarrow> int \<Rightarrow> redis_value option" where
  "live_value m k now =
     (case m k of None \<Rightarrow> None | Some (v, e) \<Rightarrow> if now < e then Some v else None)"

definition redis_ok :: "'r redis_port \<Rightarrow> ('r \<Rightarrow> redis_view) \<Rightarrow> bool" where
  "redis_ok P view \<longleftrightarrow>
     (\<forall>k now r x. rp_get P k now r = Inr x \<longrightarrow> x = live_value (view r) k now) \<and>
     (\<forall>k v ttl now r x r'. rp_setEx P k v ttl now r = (x, r') \<longrightarrow>
        view r' = (view r)(k \<mapsto> (v, now + ttl * 1000)) \<or> (\<exists>e. x = Inl e) \<and> view r' = view r) \<and>
     (\<forall>k v ttl now r x r'. rp_setNxEx P k v ttl now r = (x, r') \<longrightarrow>
        (if live_value (view r) k now = None
         then x \<noteq> Inr False \<and> view r' = (view r)(k \<mapsto> (v, now + ttl * 1000)) \<or>
              (\<exists>e. x = Inl e) \<and> view r' = view r
         else x \<noteq> Inr True \<and> view r' = view r)) \<and>
     (\<forall>ks r x r'. rp_del P ks r = (x, r') \<longrightarrow>
        view r' = (\<lambda>k. if k \<in> set ks then None else view r k) \<or> (\<exists>e. x = Inl e) \<and> view r' = view r)"

lemma redis_okD:
  assumes "redis_ok P view"
  shows "rp_get P k now r = Inr x \<Longrightarrow> x = live_value (view r) k now"
    and "rp_setEx P k v ttl now r = (Inr u, r') \<Longrightarrow> view r' = (view r)(k \<mapsto> (v, now + ttl * 1000))"
    and "rp_setNxEx P k v ttl now r = (Inr True, r') \<Longrightarrow>
      live_value (view r) k now = None \<and> view r' = (view r)(k \<mapsto> (v, now + ttl * 1000))"
    and "rp_setNxEx P k v ttl now r = (Inr False, r') \<Longrightarrow> view r' = view r"
    and "rp_del P ks r = (Inr u, r') \<Longrightarrow> view r' = (\<lambda>k. if k \<in> set ks then None else view r k)"
proof -
  note ok = assms [unfolded redis_ok_def]
  show "rp_get P k now r = Inr x \<Longrightarrow> x = live_value (view r) k now"
    by (rule ok [THEN conjunct1, rule_format])
  show "rp_setEx P k v ttl now r = (Inr u, r') \<Longrightarrow> view r' = (view r)(k \<mapsto> (v, now + ttl * 1000))"
    using ok [THEN conjunct2, THEN conjunct1, rule_format, of k v ttl now r "Inr u" r'] by simp
  have nx: "if live_value (view r) k now = None
      then x \<noteq> Inr False \<and> view r' = (view r)(k \<mapsto> (v, now + ttl * 1000)) \<or> (\<exists>e. x = Inl e) \<and> view r' = view r
      else x \<noteq> Inr True \<and> view r' = view r" if "rp_setNxEx P k v ttl now r = (x, r')" for x
    by (rule ok [THEN conjunct2, THEN conjunct2, THEN conjunct1, rule_format, OF that])
  show "rp_setNxEx P k v ttl now r = (Inr True, r') \<Longrightarrow>
      live_value (view r) k now = None \<and> view r' = (view r)(k \<mapsto> (v, now + ttl * 1000))"
    using nx [of "Inr True"] by (auto split: if_splits)
  show "rp_setNxEx P k v ttl now r = (Inr False, r') \<Longrightarrow> view r' = view r"
    using nx [of "Inr False"] by (auto split: if_splits)
  show "rp_del P ks r = (Inr u, r') \<Longrightarrow> view r' = (\<lambda>k. if k \<in> set ks then None else view r k)"
    using ok [THEN conjunct2, THEN conjunct2, THEN conjunct2, rule_format, of ks r "Inr u" r'] by simp
qed

text \<open>A server that keeps its keys in a map and never fails.\<close>

definition mem_redis :: "redis_view redis_port" where
  "mem_redis = \<lparr>
     rp_get = (\<lambda>k now m. Inr (live_value m k now)),
     rp_setEx = (\<lambda>k v ttl now m. (Inr (), m(k \<mapsto> (v, now + ttl * 1000)))),
     rp_setNxEx = (\<lambda>k v ttl now m. if live_value m k now = None
        then (Inr True, m(k \<mapsto> (v, now + ttl * 1000))) else (Inr False, m)),
     rp_del = (\<lambda>ks m. (Inr (), (\<lambda>k. if k \<in> set ks then None else m k)))\<rparr>"

lemma mem_redis_ok: "redis_ok mem_redis id"
  by (auto simp: redis_ok_def mem_redis_def)

end
