(* ===== verification/IngestGuard.thy ===== *)
theory IngestGuard
  imports Redis
begin

text \<open>
  \<open>modules/ingestion/ingest-lock.service.ts\<close> and \<open>ingest-quota.service.ts\<close>: the lock that keeps
  several instances from ingesting at once, and the pause of the feed when its quota runs low or
  its key is refused.
\<close>

definition show_int :: "int \<Rightarrow> string" where
  "show_int n = (if n < 0 then CHR ''-'' # show_nat (nat (- n)) else show_nat (nat n))"

subsection \<open>The lock\<close>

definition INGEST_LIVE_LOCK_KEY :: string where
  "INGEST_LIVE_LOCK_KEY = ''ingest:live:lock''"

definition INGEST_CATALOG_LOCK_KEY :: string where
  "INGEST_CATALOG_LOCK_KEY = ''ingest:catalog:lock''"

definition INGEST_CATALOG_LOCK_TTL_SECONDS :: int where
  "INGEST_CATALOG_LOCK_TTL_SECONDS = 3600"

definition tryAcquire :: "'r redis_port \<Rightarrow> string \<Rightarrow> string \<Rightarrow> int \<Rightarrow> int \<Rightarrow> 'r \<Rightarrow> bool result \<times> 'r" where
  "tryAcquire R token key ttlSeconds now r = rp_setNxEx R key (Plain token) ttlSeconds now r"

text \<open>
  A history of attempts on the locks, by any instance: each with its time, token, key and time to
  live. The result says which attempts succeeded.
\<close>

record attempt =
  at_now :: int
  at_token :: string
  at_key :: string
  at_ttl :: int

fun run_attempts :: "'r redis_port \<Rightarrow> attempt list \<Rightarrow> 'r \<Rightarrow> bool result list \<times> 'r" where
  "run_attempts R [] r = ([], r)"
| "run_attempts R (a # as) r =
     (case tryAcquire R (at_token a) (at_key a) (at_ttl a) (at_now a) r of
        (x, r1) \<Rightarrow> (case run_attempts R as r1 of (xs, r2) \<Rightarrow> (x # xs, r2)))"

lemma run_attempts_Cons [simp]:
  "fst (run_attempts R (a # as) r) =
     (let p = tryAcquire R (at_token a) (at_key a) (at_ttl a) (at_now a) r in
      fst p # fst (run_attempts R as (snd p)))"
  by (simp add: case_prod_beta Let_def)

lemma length_run_attempts [simp]: "length (fst (run_attempts R as r)) = length as"
  by (induction as arbitrary: r) (simp_all add: Let_def del: run_attempts.simps(2))

lemma take_run_attempts: "fst (run_attempts R (take m as) r) = take m (fst (run_attempts R as r))"
proof (induction as arbitrary: m r)
  case (Cons a as)
  then show ?case by (cases m) (simp_all add: Let_def del: run_attempts.simps(2))
qed simp

declare run_attempts.simps(2) [simp del]

text \<open>A key held until \<open>e\<close> is refused to every attempt before \<open>e\<close>.\<close>

lemma held_refused:
  assumes R: "redis_ok R view" and "view r k = Some (v, e)"
    and "\<forall>a \<in> set as. at_now a < e"
    and "i < length as" and "at_key (as ! i) = k"
  shows "fst (run_attempts R as r) ! i \<noteq> Inr True"
  using assms(2-)
proof (induction as arbitrary: r i)
  case (Cons a as)
  obtain x r1 where s: "tryAcquire R (at_token a) (at_key a) (at_ttl a) (at_now a) r = (x, r1)" by fastforce
  note nx = R [unfolded redis_ok_def, THEN conjunct2, THEN conjunct2, THEN conjunct1, rule_format,
      OF s [unfolded tryAcquire_def]]
  have v: "view r1 k = Some (v, e)"
  proof (cases "at_key a = k")
    case True
    with Cons.prems nx show ?thesis by (simp add: live_value_def)
  next
    case False
    with Cons.prems(1) nx show ?thesis by (auto split: if_splits)
  qed
  show ?case
  proof (cases i)
    case 0
    with Cons.prems nx s show ?thesis by (auto simp: live_value_def split: prod.split)
  next
    case (Suc j)
    with Cons.IH [OF v, of j] Cons.prems s show ?thesis by (auto split: prod.split)
  qed
qed simp

lemma run_attempts_drop:
  "i \<le> length as \<Longrightarrow> \<exists>r'. \<forall>j < length as - i. fst (run_attempts R as r) ! (i + j) = fst (run_attempts R (drop i as) r') ! j"
proof (induction as arbitrary: i r)
  case (Cons a as)
  show ?case
  proof (cases i)
    case 0
    then show ?thesis by auto
  next
    case (Suc n)
    obtain x r1 where s: "tryAcquire R (at_token a) (at_key a) (at_ttl a) (at_now a) r = (x, r1)" by fastforce
    from Cons.IH [of n r1] Cons.prems Suc obtain r' where
      "\<forall>j < length as - n. fst (run_attempts R as r1) ! (n + j) = fst (run_attempts R (drop n as) r') ! j" by auto
    with Suc s show ?thesis by (intro exI [of _ r']) (auto split: prod.split)
  qed
qed auto

text \<open>Two successful attempts on one key are at least the first one's time to live apart.\<close>

lemma lock_exclusive:
  assumes R: "redis_ok R view" and ij: "i < j" "j < length as"
    and sorted: "sorted (map at_now as)"
    and won: "fst (run_attempts R as r) ! i = Inr True" "fst (run_attempts R as r) ! j = Inr True"
    and key: "at_key (as ! i) = at_key (as ! j)"
  shows "at_now (as ! i) + at_ttl (as ! i) * 1000 \<le> at_now (as ! j)"
proof (rule ccontr)
  let ?a = "as ! i"
  assume late: "\<not> ?thesis"
  obtain r' where r': "\<forall>n < length as - i. fst (run_attempts R as r) ! (i + n) = fst (run_attempts R (drop i as) r') ! n"
    using run_attempts_drop [of i as R r] ij by auto
  have dr: "drop i as = ?a # drop (Suc i) as" using ij by (simp add: Cons_nth_drop_Suc)
  obtain x r1 where s: "tryAcquire R (at_token ?a) (at_key ?a) (at_ttl ?a) (at_now ?a) r' = (x, r1)" by fastforce
  from r' [rule_format, of 0] ij won(1) dr s have "x = Inr True" by (auto split: prod.splits)
  with redis_okD(3) [OF R s [unfolded tryAcquire_def \<open>x = Inr True\<close>]]
  have v: "view r1 (at_key ?a) = Some (Plain (at_token ?a), at_now ?a + at_ttl ?a * 1000)" by simp
  let ?mid = "take (j - i) (drop (Suc i) as)"
  have "at_now b < at_now ?a + at_ttl ?a * 1000" if "b \<in> set ?mid" for b
  proof -
    from that obtain n where n: "n < j - i" "Suc i + n < length as" "b = as ! (Suc i + n)"
      by (auto simp: in_set_conv_nth)
    have "at_now b \<le> at_now (as ! j)"
      using sorted_nth_mono [OF sorted, of "Suc i + n" j] n ij by simp
    with late show ?thesis by simp
  qed
  moreover have "j - Suc i < length ?mid" using ij by simp
  moreover have "at_key (?mid ! (j - Suc i)) = at_key ?a" using ij key by simp
  ultimately have "fst (run_attempts R ?mid r1) ! (j - Suc i) \<noteq> Inr True"
    using held_refused [OF R v, of ?mid "j - Suc i"] by blast
  moreover have "fst (run_attempts R as r) ! j = fst (run_attempts R (drop (Suc i) as) r1) ! (j - Suc i)"
    using r' [rule_format, of "j - i"] ij dr s by (auto split: prod.split simp: nth_Cons')
  ultimately show False using won(2) ij by (simp add: take_run_attempts)
qed

subsection \<open>The pause\<close>

definition PAUSED_UNTIL_KEY :: string where
  "PAUSED_UNTIL_KEY = ''ingest:odds-api:paused-until''"

record quota_config =
  qc_REMAINING_MIN :: rat
  qc_PAUSE_MINUTES :: int

definition plain_text_of :: "redis_value option \<Rightarrow> string option" where
  "plain_text_of v = (case v of Some (Plain t) \<Rightarrow> Some t | _ \<Rightarrow> None)"

definition isPaused :: "'r redis_port \<Rightarrow> int \<Rightarrow> 'r \<Rightarrow> bool result \<times> 'r" where
  "isPaused R now r =
     (case rp_get R PAUSED_UNTIL_KEY now r of
        Inl e \<Rightarrow> (Inl e, r)
      | Inr raw \<Rightarrow>
      if \<not> truthy (plain_text_of raw) then (Inr False, r)
      else if (case js_number (the (plain_text_of raw)) of None \<Rightarrow> True | Some t \<Rightarrow> t \<le> of_int now) then
        (case rp_del R [PAUSED_UNTIL_KEY] r of
           (Inl e, r') \<Rightarrow> (Inl e, r')
         | (Inr u, r') \<Rightarrow> (Inr False, r'))
      else (Inr True, r))"

definition pauseForMinutes :: "'r redis_port \<Rightarrow> int \<Rightarrow> int \<Rightarrow> 'r \<Rightarrow> unit result \<times> 'r" where
  "pauseForMinutes R minutes now r =
     (let paused_until = now + minutes * 60000 in
      case rp_get R PAUSED_UNTIL_KEY now r of
        Inl e \<Rightarrow> (Inl e, r)
      | Inr existing \<Rightarrow>
          let t = plain_text_of existing in
          if (if truthy t then (case js_number (the t) of None \<Rightarrow> False | Some x \<Rightarrow> x > of_int paused_until)
              else 0 > paused_until)
          then (Inr (), r)
          else rp_setEx R PAUSED_UNTIL_KEY (Plain (show_int paused_until)) (minutes * 60) now r)"

definition pauseForAuthFailure :: "quota_config \<Rightarrow> 'r redis_port \<Rightarrow> int \<Rightarrow> 'r \<Rightarrow> unit result \<times> 'r" where
  "pauseForAuthFailure C R now r = pauseForMinutes R (qc_PAUSE_MINUTES C) now r"

text \<open>The header \<open>x-requests-remaining\<close>, if the answer had it.\<close>

definition recordQuotaHeaders ::
  "quota_config \<Rightarrow> 'r redis_port \<Rightarrow> string option \<Rightarrow> int \<Rightarrow> 'r \<Rightarrow> unit result \<times> 'r" where
  "recordQuotaHeaders C R remainingRaw now r =
     (case remainingRaw of
        None \<Rightarrow> (Inr (), r)
      | Some text \<Rightarrow>
      (case js_number text of
         None \<Rightarrow> (Inr (), r)
       | Some remaining \<Rightarrow>
           if remaining \<ge> qc_REMAINING_MIN C then (Inr (), r)
           else pauseForMinutes R (qc_PAUSE_MINUTES C) now r))"

end
