(* ===== verification/StaffSettlement.thy ===== *)
theory StaffSettlement
  imports StaffBets Ingestion IngestGuard
begin

text \<open>
  \<open>modules/backoffice/settlement/staff-settlement.service.ts\<close> and its request bodies: the queue of
  settlement payments not yet delivered, their retransmission, the events that hold open bets and
  what keeps them open, the settlement of one event on demand, and the manual final score.
  The column \<open>updatedAt\<close> is left out of the listed items, and the details of an HTTP error
  beyond its message (\<open>blockers\<close>) are left out of the error.
\<close>

subsection \<open>The queue of undelivered payments\<close>

definition pending_settle :: "string \<Rightarrow> outbox_row \<Rightarrow> bool" where
  "pending_settle casinoGroupId r \<longleftrightarrow>
     ob_casinoGroupId r = casinoGroupId \<and> ob_type r = WALLET_OUTBOX_SETTLE \<and> ob_status r = Ob_PENDING"

text \<open>\<open>orderBy: [batchId asc, createdAt asc]\<close>: rows without a batch come last.\<close>

definition queue_order :: "outbox_row list \<Rightarrow> outbox_row list" where
  "queue_order rows =
     (let byAge = order_asc ob_createdAt rows in
      sort_key (\<lambda>r. the (ob_batchId r)) (row_filter (\<lambda>r. ob_batchId r \<noteq> None) byAge) @
      row_filter (\<lambda>r. ob_batchId r = None) byAge)"

record queue_item =
  qi_outbox :: outbox_row
  qi_retryDue :: bool
  qi_walletAmount :: "string option"
  qi_bet :: bet_row
  qi_stake :: string
  qi_payoutAmount :: "string option"

definition find_group_bet_of :: "string \<Rightarrow> db \<Rightarrow> outbox_row \<Rightarrow> bet_row option" where
  "find_group_bet_of casinoGroupId d row = find_group_bet casinoGroupId (ob_betId row) d"

definition queue_item_of :: "dec_lib \<Rightarrow> int \<Rightarrow> outbox_row \<Rightarrow> bet_row \<Rightarrow> queue_item" where
  "queue_item_of L now row bet = \<lparr>
     qi_outbox = row,
     qi_retryDue = (case ob_nextRetryAt row of None \<Rightarrow> True | Some t \<Rightarrow> t \<le> now),
     qi_walletAmount = map_option st_amount (ob_payload row),
     qi_bet = bet,
     qi_stake = decimalToString L (bet_stake bet),
     qi_payoutAmount = map_option (decimalToString L) (bet_payoutAmount bet)\<rparr>"

record queue_batch =
  qb_batchId :: "string option"
  qb_count :: nat
  qb_oldestCreatedAt :: int

text \<open>\<open>batchStats\<close>, a \<open>Map\<close> in insertion order keyed by \<open>batchId ?? 'unassigned'\<close>.\<close>

fun add_to_batch :: "outbox_row \<Rightarrow> (string \<times> nat \<times> int) list \<Rightarrow> (string \<times> nat \<times> int) list" where
  "add_to_batch row [] =
     [(case ob_batchId row of None \<Rightarrow> ''unassigned'' | Some b \<Rightarrow> b, 1, ob_createdAt row)]"
| "add_to_batch row ((key, n, oldest) # stats) =
     (if key = (case ob_batchId row of None \<Rightarrow> ''unassigned'' | Some b \<Rightarrow> b)
      then (key, n + 1, min oldest (ob_createdAt row)) # stats
      else (key, n, oldest) # add_to_batch row stats)"

record settlement_queue =
  sq_pendingCount :: nat
  sq_batchCount :: nat
  sq_retryingCount :: nat
  sq_dueNowCount :: nat
  sq_batches :: "queue_batch list"
  sq_items :: "queue_item list"

definition listWalletSettlementQueue :: "env \<Rightarrow> string \<Rightarrow> 'w world \<Rightarrow> settlement_queue" where
  "listWalletSettlementQueue E casinoGroupId s =
     (let d = w_db s;
          rows = take 200 (queue_order (row_filter (pending_settle casinoGroupId) (db_outbox d)));
          known = List.map_filter
            (\<lambda>row. map_option (\<lambda>bet. (row, bet)) (find_group_bet_of casinoGroupId d row)) rows;
          items = map (\<lambda>(row, bet). queue_item_of (env_dec E) (w_now s) row bet) known;
          stats = foldl (\<lambda>stats (row, bet). add_to_batch row stats) [] known;
          batches = sort_key qb_oldestCreatedAt (map (\<lambda>(key, n, oldest).
            \<lparr>qb_batchId = (if key = ''unassigned'' then None else Some key), qb_count = n,
              qb_oldestCreatedAt = oldest\<rparr>) stats)
      in \<lparr>sq_pendingCount = length items, sq_batchCount = length batches,
          sq_retryingCount = length (filter (\<lambda>i. ob_attempts (qi_outbox i) > 0) items),
          sq_dueNowCount = length (filter qi_retryDue items),
          sq_batches = batches, sq_items = items\<rparr>)"

subsection \<open>Retransmission\<close>

record retry_result =
  rr_batchesSent :: nat
  rr_pendingBefore :: nat
  rr_pendingAfter :: nat

definition count_pending_settle :: "string \<Rightarrow> db \<Rightarrow> nat" where
  "count_pending_settle casinoGroupId d = length (row_filter (pending_settle casinoGroupId) (db_outbox d))"

definition clear_backoff :: "string \<Rightarrow> db \<Rightarrow> db" where
  "clear_backoff casinoGroupId d =
     d\<lparr>db_outbox := row_update (pending_settle casinoGroupId) (\<lambda>r. r\<lparr>ob_nextRetryAt := None\<rparr>) (db_outbox d)\<rparr>"

definition retryWalletSettlementTransmission ::
  "env \<Rightarrow> 'w wallet_port \<Rightarrow> string \<Rightarrow> string \<Rightarrow> 'w world \<Rightarrow> retry_result \<times> 'w world" where
  "retryWalletSettlementTransmission E P casinoGroupId staffUserId s =
     (let pendingBefore = count_pending_settle casinoGroupId (w_db s) in
      if pendingBefore = 0 then
        (\<lparr>rr_batchesSent = 0, rr_pendingBefore = 0, rr_pendingAfter = 0\<rparr>, s)
      else case flushSettlementBatchesForCasinoGroup E P casinoGroupId
             (s\<lparr>w_db := clear_backoff casinoGroupId (w_db s)\<rparr>) of
        (batchesSent, s1) \<Rightarrow>
          let pendingAfter = count_pending_settle casinoGroupId (w_db s1) in
          (\<lparr>rr_batchesSent = batchesSent, rr_pendingBefore = pendingBefore, rr_pendingAfter = pendingAfter\<rparr>,
           staff_audit staffUserId casinoGroupId ''settlement.wallet_retry'' ''CasinoGroup'' casinoGroupId
             None (Some [(''batchesSent'', show_nat batchesSent), (''pendingBefore'', show_nat pendingBefore),
               (''pendingAfter'', show_nat pendingAfter)])
             (Some ''Staff manually triggered wallet settlement transmission'') s1))"

subsection \<open>Unsettled events\<close>

definition describeBlockers :: "event_row \<Rightarrow> market_row option \<Rightarrow> string list" where
  "describeBlockers event market =
     (if ev_status event \<noteq> Ev_ENDED
      then [''Event is '' @ event_status_text (ev_status event) @ '' (need ENDED)''] else []) @
     (case market of
        None \<Rightarrow> [''No market found for open bets'']
      | Some m \<Rightarrow>
          if mk_status m \<noteq> Mk_SETTLED \<and> mk_status m \<noteq> Mk_VOID
          then [''Market is '' @ market_status_text (mk_status m) @ '' (need SETTLED or VOID)''] else []) @
     (if ev_homeScore event = None \<or> ev_awayScore event = None then [''Final scores missing''] else [])"

record unsettled_event =
  ue_eventId :: string
  ue_providerRef :: string
  ue_eventStatus :: event_status
  ue_homeScore :: "int option"
  ue_awayScore :: "int option"
  ue_matchup :: string
  ue_marketStatus :: "market_status option"
  ue_openBetCount :: nat
  ue_blockers :: "string list"
  ue_readyToSettle :: bool

definition open_legs :: "db \<Rightarrow> string \<Rightarrow> leg_row list" where
  "open_legs d casinoGroupId =
     row_filter (\<lambda>l. row_find (\<lambda>b. bet_id b = leg_betId l \<and> bet_casinoGroupId b = casinoGroupId \<and>
        bet_status b = Bet_ACCEPTED) (db_bets d) \<noteq> None) (db_legs d)"

definition loadUnsettledEventRow :: "string \<Rightarrow> string \<Rightarrow> db \<Rightarrow> unsettled_event option" where
  "loadUnsettledEventRow casinoGroupId eventId d =
     (let openBetCount = length (open_bets_on d casinoGroupId eventId) in
      if openBetCount = 0 then None
      else case load_event d eventId of
        None \<Rightarrow> None
      | Some c \<Rightarrow>
      let event = ec_event c;
          marketIds = distinct_first (map leg_marketId
            (row_filter (\<lambda>l. leg_eventId l = eventId) (open_legs d casinoGroupId)));
          market = row_find (\<lambda>m. mk_id m \<in> set marketIds) (db_markets d);
          blockers = describeBlockers event market in
      Some \<lparr>ue_eventId = eventId, ue_providerRef = ev_providerRef event, ue_eventStatus = ev_status event,
        ue_homeScore = ev_homeScore event, ue_awayScore = ev_awayScore event,
        ue_matchup = ec_homeName c @ '' vs '' @ ec_awayName c,
        ue_marketStatus = map_option mk_status market, ue_openBetCount = openBetCount,
        ue_blockers = blockers, ue_readyToSettle = (blockers = [])\<rparr>)"

definition listUnsettledEvents :: "string \<Rightarrow> db \<Rightarrow> unsettled_event list" where
  "listUnsettledEvents casinoGroupId d =
     List.map_filter (\<lambda>eventId. loadUnsettledEventRow casinoGroupId eventId d)
       (distinct_first (map leg_eventId (open_legs d casinoGroupId)))"

subsection \<open>Settling one event\<close>

record event_run =
  er_eventId :: string
  er_settled :: nat
  er_attempted :: nat
  er_remainingOpenBets :: int

definition run_result :: "string \<Rightarrow> nat \<times> nat \<Rightarrow> event_run" where
  "run_result eventId result = \<lparr>er_eventId = eventId, er_settled = fst result, er_attempted = snd result,
     er_remainingOpenBets = int (snd result) - int (fst result)\<rparr>"

definition audit_event_run ::
  "string \<Rightarrow> string \<Rightarrow> string \<Rightarrow> nat \<times> nat \<Rightarrow> string \<Rightarrow> 'w world \<Rightarrow> 'w world" where
  "audit_event_run staffUserId casinoGroupId eventId result reason =
     staff_audit staffUserId casinoGroupId ''settlement.event_run'' ''Event'' eventId None
       (Some [(''settled'', show_nat (fst result)), (''attempted'', show_nat (snd result))]) (Some reason)"

definition runSettlementForEvent ::
  "env \<Rightarrow> 'w wallet_port \<Rightarrow> string \<Rightarrow> string \<Rightarrow> string \<Rightarrow> 'w world \<Rightarrow> event_run result \<times> 'w world" where
  "runSettlementForEvent E P casinoGroupId eventId staffUserId s =
     (case loadUnsettledEventRow casinoGroupId eventId (w_db s) of
        None \<Rightarrow> (Inl (NotFound ''No open bets found for this event''), s)
      | Some row \<Rightarrow>
      if \<not> ue_readyToSettle row then (Inl (BadRequest ''Event is not ready to settle''), s)
      else and_then (settleBetsForEvent E P eventId casinoGroupId s) (\<lambda>result s1.
        (Inr (run_result eventId result),
         audit_event_run staffUserId casinoGroupId eventId result ''Staff triggered settlement for event'' s1)))"

subsection \<open>A manual result\<close>

definition applyManualResultAndSettle ::
  "env \<Rightarrow> 'w wallet_port \<Rightarrow> string \<Rightarrow> string \<Rightarrow> int \<Rightarrow> int \<Rightarrow> string \<Rightarrow> 'w world \<Rightarrow> event_run result \<times> 'w world" where
  "applyManualResultAndSettle E P casinoGroupId eventId homeScore awayScore staffUserId s =
     (if open_bets_on (w_db s) casinoGroupId eventId = [] then
        (Inl (NotFound ''No open bets found for this event''), s)
      else case find_event eventId (w_db s) of
        None \<Rightarrow> (Inl (NotFound ''Event not found''), s)
      | Some event \<Rightarrow>
      (case finalizeEventResult (ev_providerRef event) homeScore awayScore s of
         (None, s1) \<Rightarrow> (Inl (NotFound ''Event not found''), s1)
       | (Some updatedEventId, s1) \<Rightarrow>
         let s2 = staff_audit staffUserId casinoGroupId ''settlement.manual_result'' ''Event'' eventId None
               (Some [(''homeScore'', show_int homeScore), (''awayScore'', show_int awayScore),
                 (''providerRef'', ev_providerRef event)])
               (Some ''Staff entered final score for settlement'') s1 in
         and_then (settleBetsForEvent E P eventId casinoGroupId s2) (\<lambda>result s3.
           (Inr (run_result eventId result),
            audit_event_run staffUserId casinoGroupId eventId result ''Settlement run after manual result'' s3))))"

definition applyManualResultByProviderRef ::
  "env \<Rightarrow> 'w wallet_port \<Rightarrow> string \<Rightarrow> string \<Rightarrow> int \<Rightarrow> int \<Rightarrow> string \<Rightarrow> 'w world \<Rightarrow> event_run result \<times> 'w world" where
  "applyManualResultByProviderRef E P casinoGroupId providerRef homeScore awayScore staffUserId s =
     (case get_by ev_providerRef (trim providerRef) (db_events (w_db s)) of
        None \<Rightarrow> (Inl (NotFound (''Event not found for providerRef='' @ providerRef)), s)
      | Some event \<Rightarrow>
          applyManualResultAndSettle E P casinoGroupId (ev_id event) homeScore awayScore staffUserId s)"

text \<open>\<open>ApplyEventResultDto\<close> and \<open>ApplyProviderResultDto\<close>: whole scores from 0.\<close>

definition ApplyEventResultDto_ok :: "int \<Rightarrow> int \<Rightarrow> bool" where
  "ApplyEventResultDto_ok homeScore awayScore \<longleftrightarrow> 0 \<le> homeScore \<and> 0 \<le> awayScore"

definition ApplyProviderResultDto_ok :: "string \<Rightarrow> int \<Rightarrow> int \<Rightarrow> bool" where
  "ApplyProviderResultDto_ok providerRef homeScore awayScore \<longleftrightarrow>
     3 \<le> length providerRef \<and> 0 \<le> homeScore \<and> 0 \<le> awayScore"

end
