(* ===== verification/OddsMap.thy ===== *)
theory OddsMap
  imports Ingestion
begin

text \<open>
  \<open>modules/providers/odds-api/odds-api.config.ts\<close>, \<open>odds-api-sport.util.ts\<close>,
  \<open>odds-api.types.ts\<close> and \<open>odds-api.mapper.ts\<close>: the feed's shapes, the configuration of sports,
  and the mapping of odds and scores into a provider snapshot.

  A JavaScript \<open>Map\<close> is the list of its entries in insertion order. A JSON number is an exact
  decimal and \<open>String(x)\<close> its plain text (odds and points have few decimals and are far from the
  magnitudes printed with an exponent). \<open>String.normalize('NFKD')\<close> with the removal of combining
  marks is the argument \<open>nfkd\<close>; it leaves ASCII texts as they are. Every commence time is a valid
  instant. The group configuration is a plain object: its inherited property names are not sport
  keys.
\<close>

subsection \<open>Maps in insertion order\<close>

definition js_set :: "'k \<Rightarrow> 'v \<Rightarrow> ('k \<times> 'v) list \<Rightarrow> ('k \<times> 'v) list" where
  "js_set k v m =
     (if k \<in> fst ` set m then map (\<lambda>(k', v'). if k' = k then (k', v) else (k', v')) m else m @ [(k, v)])"

definition js_keyed :: "('v \<Rightarrow> 'k) \<Rightarrow> ('k \<times> 'v) list \<Rightarrow> bool" where
  "js_keyed key m \<longleftrightarrow> distinct (map fst m) \<and> (\<forall>(k, v) \<in> set m. key v = k)"

lemma js_set_fst:
  "map fst (js_set k v m) = (if k \<in> fst ` set m then map fst m else map fst m @ [k])"
  by (auto simp: js_set_def)

lemma js_set_keys: "fst ` set (js_set k v m) = insert k (fst ` set m)"
proof -
  have "fst ` set (js_set k v m) = set (map fst (js_set k v m))" by simp
  then show ?thesis unfolding js_set_fst by auto
qed

lemma map_of_replace:
  "map_of (map (\<lambda>(k', v'). if k' = k then (k', v) else (k', v')) m) x =
     (if x = k \<and> k \<in> fst ` set m then Some v else map_of m x)"
proof (induction m)
  case (Cons p m)
  then show ?case by (cases p; cases "x = k"; cases "k \<in> fst ` set m") simp_all
qed simp

lemma js_set_get [simp]: "map_of (js_set k v m) x = (if x = k then Some v else map_of m x)"
proof (cases "k \<in> fst ` set m")
  case True
  then show ?thesis by (simp add: js_set_def map_of_replace)
next
  case False
  then have "map_of m k = None" by (simp add: map_of_eq_None_iff)
  with False show ?thesis by (auto simp: js_set_def map_add_def split: option.split)
qed

lemma js_keyed_set: "js_keyed key m \<Longrightarrow> key v = k \<Longrightarrow> js_keyed key (js_set k v m)"
proof -
  assume m: "js_keyed key m" and v: "key v = k"
  have "distinct (map fst (js_set k v m))" using m unfolding js_set_fst by (auto simp: js_keyed_def)
  moreover have "\<forall>(k', v') \<in> set (js_set k v m). key v' = k'"
    using m v by (auto simp: js_keyed_def js_set_def split: if_splits)
  ultimately show ?thesis by (simp add: js_keyed_def)
qed

lemma js_keyed_values: "js_keyed key m \<Longrightarrow> map key (map snd m) = map fst m"
  by (auto simp: js_keyed_def)

subsection \<open>The feed\<close>

record odds_sport =
  os_key :: string
  os_group :: string
  os_title :: string
  os_active :: bool
  os_has_outrights :: bool

record odds_outcome =
  oo_name :: string
  oo_price :: rat
  oo_point :: "rat option"

record odds_market =
  om_key :: string
  om_outcomes :: "odds_outcome list"

record odds_bookmaker =
  ok_key :: string
  ok_markets :: "odds_market list"

record odds_event =
  oe_id :: string
  oe_commence_time :: iso_date
  oe_home_team :: string
  oe_away_team :: string
  oe_bookmakers :: "odds_bookmaker list"

record event_score =
  es_id :: string
  es_commence_time :: iso_date
  es_completed :: bool
  es_home_team :: string
  es_away_team :: string
  es_scores :: "(string \<times> string) list option"   \<comment> \<open>team name and score text\<close>

subsection \<open>Configuration\<close>

record sport_config =
  sg_groupSportKey :: string
  sg_region :: string
  sg_bookmaker :: string
  sg_leagueName :: string
  sg_regionName :: string

definition group_config :: "string \<Rightarrow> sport_config" where
  "group_config k = \<lparr>sg_groupSportKey = k, sg_region = ''all'', sg_bookmaker = [],
     sg_leagueName = [], sg_regionName = []\<rparr>"

definition ODDS_API_SPORT_CONFIG :: "string \<Rightarrow> sport_config option" where
  "ODDS_API_SPORT_CONFIG k =
     (if k \<in> set [''basketball'', ''baseball'', ''americanfootball'', ''soccer'']
      then Some (group_config k) else None)"

definition ODDS_API_MARKET_TYPE_MAP :: "string \<Rightarrow> market_type option" where
  "ODDS_API_MARKET_TYPE_MAP = map_of [(''h2h'', MATCH_RESULT), (''spreads'', HANDICAP), (''totals'', TOTAL)]"

definition ODDS_API_ALL_REGIONS :: string where
  "ODDS_API_ALL_REGIONS = ''us,us2,uk,eu,au''"

definition resolveRegions :: "string \<Rightarrow> string" where
  "resolveRegions configured =
     (if to_lower (trim configured) = ''all'' then ODDS_API_ALL_REGIONS else configured)"

definition is_slug_char :: "char \<Rightarrow> bool" where
  "is_slug_char c \<longleftrightarrow> is_digit c \<or> 97 \<le> char_code c \<and> char_code c \<le> 122"

text \<open>\<open>.replace(/[^a-z0-9]+/g, '_')\<close>: a run of other characters becomes one underscore.\<close>

fun squeeze :: "bool \<Rightarrow> string \<Rightarrow> string" where
  "squeeze inRun [] = []"
| "squeeze inRun (c # s) =
     (if is_slug_char c then c # squeeze False s
      else if inRun then squeeze True s else CHR ''_'' # squeeze True s)"

text \<open>\<open>.replace(/^_|_$/g, '')\<close>: one underscore at either end.\<close>

definition drop_ends :: "string \<Rightarrow> string" where
  "drop_ends s =
     (let t = (case s of CHR ''_'' # r \<Rightarrow> r | _ \<Rightarrow> s) in
      if t \<noteq> [] \<and> last t = CHR ''_'' then butlast t else t)"

definition slugify :: "(string \<Rightarrow> string) \<Rightarrow> string \<Rightarrow> string" where
  "slugify nfkd v = take 48 (drop_ends (squeeze False (nfkd (to_lower v))))"

definition isIngestibleSport :: "odds_sport \<Rightarrow> bool" where
  "isIngestibleSport sport \<longleftrightarrow> os_active sport \<and> \<not> os_has_outrights sport"

text \<open>The keys an entry of the configuration stands for, and the entries in turn.\<close>

definition entry_keys :: "string list \<Rightarrow> string \<Rightarrow> string list" where
  "entry_keys known entry =
     (if entry = ''all'' then []
      else if entry \<in> set known then [entry]
      else filter (\<lambda>k. starts_with k (entry @ ''_'')) known)"

definition resolve_keys :: "string list \<Rightarrow> string list \<Rightarrow> string list" where
  "resolve_keys configured known =
     (if configured = [''all''] then known
      else distinct_first (concat (map (entry_keys known) configured)))"

definition resolveSportKeys :: "string list \<Rightarrow> odds_sport list \<Rightarrow> string list" where
  "resolveSportKeys configured apiSports =
     resolve_keys configured (map os_key (filter isIngestibleSport apiSports))"

definition resolveCatalogLeagueKeys :: "string list \<Rightarrow> string list \<Rightarrow> string list" where
  "resolveCatalogLeagueKeys configured catalogLeagueKeys = resolve_keys configured catalogLeagueKeys"

definition first_part :: "string \<Rightarrow> string" where
  "first_part s = takeWhile (\<lambda>c. c \<noteq> CHR ''_'') s"

definition resolveSportConfig :: "(string \<Rightarrow> string) \<Rightarrow> string \<Rightarrow> odds_sport option \<Rightarrow> sport_config" where
  "resolveSportConfig nfkd sportKey apiSport =
     (let title = (case apiSport of None \<Rightarrow> sportKey | Some a \<Rightarrow> os_title a) in
      case ODDS_API_SPORT_CONFIG sportKey of
        Some exact \<Rightarrow> exact\<lparr>sg_leagueName :=
          (if sg_leagueName exact \<noteq> [] then sg_leagueName exact
           else if title \<noteq> [] then title else sportKey)\<rparr>
      | None \<Rightarrow>
      let groupKey = first_part sportKey in
      (case ODDS_API_SPORT_CONFIG groupKey of
         Some grp \<Rightarrow>
           if groupKey \<noteq> sportKey then grp\<lparr>sg_leagueName := title\<rparr>
           else \<lparr>sg_groupSportKey = (case apiSport of Some a \<Rightarrow> slugify nfkd (os_group a) | None \<Rightarrow> groupKey),
                 sg_region = [], sg_bookmaker = [], sg_leagueName = title, sg_regionName = []\<rparr>
       | None \<Rightarrow> \<lparr>sg_groupSportKey = (case apiSport of Some a \<Rightarrow> slugify nfkd (os_group a) | None \<Rightarrow> groupKey),
                 sg_region = [], sg_bookmaker = [], sg_leagueName = title, sg_regionName = []\<rparr>))"

definition syntheticOddsApiSport :: "string \<Rightarrow> odds_sport" where
  "syntheticOddsApiSport sportKey =
     (let g = first_part sportKey in
      \<lparr>os_key = sportKey, os_group = to_upper (take 1 g) @ drop 1 g, os_title = sportKey,
        os_active = True, os_has_outrights = False\<rparr>)"

subsection \<open>Scores, labels and references\<close>

text \<open>\<open>Number.parseInt(text, 10)\<close>: leading white space, a sign, the digits; \<open>None\<close> is NaN.\<close>

definition parse_int :: "string \<Rightarrow> int option" where
  "parse_int s =
     (let t = dropWhile is_space s;
          neg = (t \<noteq> [] \<and> hd t = CHR ''-'');
          u = (if t \<noteq> [] \<and> (hd t = CHR ''-'' \<or> hd t = CHR ''+'') then tl t else t);
          ds = takeWhile is_digit u in
      if ds = [] then None
      else Some (if neg then - int (nat_of_digits ds) else int (nat_of_digits ds)))"

definition teamKey :: "(string \<Rightarrow> string) \<Rightarrow> string \<Rightarrow> string \<Rightarrow> string" where
  "teamKey nfkd sportKey teamName = sportKey @ ''_'' @ slugify nfkd teamName"

definition pickBookmaker :: "odds_bookmaker list \<Rightarrow> string \<Rightarrow> odds_bookmaker option" where
  "pickBookmaker bookmakers preferredKey =
     (case bookmakers of
        [] \<Rightarrow> None
      | b # _ \<Rightarrow>
          if preferredKey \<noteq> [] then
            (case List.find (\<lambda>x. ok_key x = preferredKey) bookmakers of Some p \<Rightarrow> Some p | None \<Rightarrow> Some b)
          else Some b)"

definition parseScore :: "(string \<times> string) list option \<Rightarrow> string \<Rightarrow> string \<Rightarrow> int option \<times> int option" where
  "parseScore scores homeTeam awayTeam =
     (case scores of
        None \<Rightarrow> (None, None)
      | Some entries \<Rightarrow>
          (Option.bind (List.find (\<lambda>e. fst e = homeTeam) entries) (\<lambda>e. parse_int (snd e)),
           Option.bind (List.find (\<lambda>e. fst e = awayTeam) entries) (\<lambda>e. parse_int (snd e))))"

definition hasStarted :: "int \<Rightarrow> iso_date \<Rightarrow> bool" where
  "hasStarted now commenceTime \<longleftrightarrow> iso_time commenceTime \<le> now"

definition fixtureStatus :: "int \<Rightarrow> iso_date \<Rightarrow> event_score option \<Rightarrow> fixture_status" where
  "fixtureStatus now commenceTime score =
     (if (case score of None \<Rightarrow> False | Some sc \<Rightarrow> es_completed sc) then Fx_ENDED
      else if \<not> hasStarted now commenceTime then Fx_SCHEDULED
      else Fx_LIVE)"

definition eventStatus :: "int \<Rightarrow> iso_date \<Rightarrow> event_score option \<Rightarrow> event_status" where
  "eventStatus now commenceTime score =
     (let fixture = fixtureStatus now commenceTime score in
      if fixture = Fx_ENDED then Ev_ENDED
      else if fixture = Fx_LIVE then Ev_LIVE
      else Ev_SCHEDULED)"

text \<open>\<open>String(x)\<close> of a JSON number.\<close>

definition num_text :: "rat \<Rightarrow> string" where
  "num_text x = exact_show x"

definition selectionLabel :: "odds_outcome \<Rightarrow> string" where
  "selectionLabel outcome =
     (case oo_point outcome of
        None \<Rightarrow> oo_name outcome
      | Some point \<Rightarrow>
          if str_includes (to_lower (oo_name outcome)) ''over'' \<or> str_includes (to_lower (oo_name outcome)) ''under''
          then oo_name outcome @ '' '' @ num_text point
          else oo_name outcome @ '' '' @ (if point > 0 then ''+'' else []) @ num_text point)"

definition marketLine :: "odds_market \<Rightarrow> string option" where
  "marketLine market =
     (case List.find (\<lambda>o'. oo_point o' \<noteq> None) (om_outcomes market) of
        None \<Rightarrow> None
      | Some o' \<Rightarrow> map_option num_text (oo_point o'))"

definition marketRef :: "string \<Rightarrow> string \<Rightarrow> string \<Rightarrow> string" where
  "marketRef eventId bookmakerKey marketKey = eventId @ '':'' @ bookmakerKey @ '':'' @ marketKey"

definition selectionProviderRef ::
  "(string \<Rightarrow> string) \<Rightarrow> string \<Rightarrow> string \<Rightarrow> string \<Rightarrow> odds_outcome \<Rightarrow> string" where
  "selectionProviderRef nfkd eventId bookmakerKey marketKey outcome =
     marketRef eventId bookmakerKey marketKey @ '':'' @ slugify nfkd (oo_name outcome) @ '':'' @
       (case oo_point outcome of None \<Rightarrow> ''np'' | Some point \<Rightarrow> num_text point)"

subsection \<open>The mapping\<close>

record map_input =
  mi_sportKeys :: "string list"
  mi_apiSports :: "odds_sport list"
  mi_oddsBySport :: "string \<Rightarrow> odds_event list option"
  mi_scoresBySport :: "string \<Rightarrow> event_score list option"
  mi_marketKeys :: "string list"

definition entries_of :: "('k \<Rightarrow> 'v list option) \<Rightarrow> 'k \<Rightarrow> 'v list" where
  "entries_of m k = (case m k of None \<Rightarrow> [] | Some xs \<Rightarrow> xs)"

record mapper =
  mp_sports :: "(string \<times> n_sport) list"
  mp_leagues :: "(string \<times> n_league) list"
  mp_teams :: "(string \<times> n_team) list"
  mp_fixtures :: "(string \<times> n_fixture) list"
  mp_events :: "(string \<times> n_event) list"
  mp_markets :: "(string \<times> n_market) list"
  mp_selections :: "(string \<times> n_selection) list"

definition empty_mapper :: mapper where
  "empty_mapper = \<lparr>mp_sports = [], mp_leagues = [], mp_teams = [], mp_fixtures = [], mp_events = [],
     mp_markets = [], mp_selections = []\<rparr>"

text \<open>The teams, the fixture and the event of a game, from its odds entry or its score entry.\<close>

definition add_team :: "(string \<Rightarrow> string) \<Rightarrow> string \<Rightarrow> string \<Rightarrow> string \<Rightarrow> mapper \<Rightarrow> mapper" where
  "add_team nfkd sportKey groupKey teamName m =
     m\<lparr>mp_teams := js_set (teamKey nfkd sportKey teamName)
         \<lparr>nt_key = teamKey nfkd sportKey teamName, nt_sportKey = groupKey, nt_name = teamName, nt_shortName = None\<rparr>
         (mp_teams m)\<rparr>"

definition add_game ::
  "(string \<Rightarrow> string) \<Rightarrow> int \<Rightarrow> string \<Rightarrow> string \<Rightarrow> string \<Rightarrow> string \<Rightarrow> string \<Rightarrow> iso_date \<Rightarrow>
   event_score option \<Rightarrow> mapper \<Rightarrow> mapper" where
  "add_game nfkd now sportKey groupKey eventId home away commenceTime score m =
     (let m1 = add_team nfkd sportKey groupKey away (add_team nfkd sportKey groupKey home m);
          scores = parseScore (Option.bind score es_scores) home away in
      m1\<lparr>mp_fixtures := js_set eventId
            \<lparr>nf_providerRef = eventId, nf_leagueKey = sportKey, nf_homeTeamKey = teamKey nfkd sportKey home,
              nf_awayTeamKey = teamKey nfkd sportKey away, nf_startsAt = commenceTime,
              nf_status = fixtureStatus now commenceTime score\<rparr> (mp_fixtures m1),
          mp_events := js_set eventId
            \<lparr>ne_providerRef = eventId, ne_fixtureProviderRef = eventId,
              ne_status = eventStatus now commenceTime score,
              ne_homeScore = fst scores, ne_awayScore = snd scores, ne_period = None, ne_clock = None\<rparr>
            (mp_events m1)\<rparr>)"

definition add_outcome ::
  "(string \<Rightarrow> string) \<Rightarrow> bool \<Rightarrow> string \<Rightarrow> string \<Rightarrow> string \<Rightarrow> mapper \<Rightarrow> odds_outcome \<Rightarrow> mapper" where
  "add_outcome nfkd isEnded eventId bookmakerKey marketKey m outcome =
     (let selRef = selectionProviderRef nfkd eventId bookmakerKey marketKey outcome in
      m\<lparr>mp_selections := js_set selRef
          \<lparr>nx_providerRef = selRef, nx_marketProviderRef = marketRef eventId bookmakerKey marketKey,
            nx_name = selectionLabel outcome, nx_status = (if isEnded then Sl_SETTLED else Sl_OPEN),
            nx_price = num_text (oo_price outcome)\<rparr> (mp_selections m)\<rparr>)"

definition add_market ::
  "(string \<Rightarrow> string) \<Rightarrow> string list \<Rightarrow> bool \<Rightarrow> string \<Rightarrow> string \<Rightarrow> mapper \<Rightarrow> odds_market \<Rightarrow> mapper" where
  "add_market nfkd marketKeys isEnded eventId bookmakerKey m market =
     (if om_key market \<notin> set marketKeys then m
      else case ODDS_API_MARKET_TYPE_MAP (om_key market) of
        None \<Rightarrow> m
      | Some type \<Rightarrow>
          let ref = marketRef eventId bookmakerKey (om_key market);
              m1 = m\<lparr>mp_markets := js_set ref
                \<lparr>nm_providerRef = ref, nm_eventProviderRef = eventId, nm_type = type,
                  nm_status = (if isEnded then Mk_SETTLED else Mk_OPEN), nm_line = marketLine market\<rparr>
                (mp_markets m)\<rparr> in
          foldl (add_outcome nfkd isEnded eventId bookmakerKey (om_key market)) m1 (om_outcomes market))"

definition add_odds_event ::
  "(string \<Rightarrow> string) \<Rightarrow> int \<Rightarrow> string list \<Rightarrow> string \<Rightarrow> sport_config \<Rightarrow>
   (string \<Rightarrow> event_score option) \<Rightarrow> mapper \<Rightarrow> odds_event \<Rightarrow> mapper" where
  "add_odds_event nfkd now marketKeys sportKey config scoresByEventId m event =
     (let score = scoresByEventId (oe_id event);
          m1 = add_game nfkd now sportKey (sg_groupSportKey config) (oe_id event) (oe_home_team event)
            (oe_away_team event) (oe_commence_time event) score m;
          isEnded = (eventStatus now (oe_commence_time event) score = Ev_ENDED) in
      case pickBookmaker (oe_bookmakers event) (sg_bookmaker config) of
        None \<Rightarrow> m1
      | Some bookmaker \<Rightarrow>
          foldl (add_market nfkd marketKeys isEnded (oe_id event) (ok_key bookmaker)) m1 (ok_markets bookmaker))"

definition add_score ::
  "(string \<Rightarrow> string) \<Rightarrow> int \<Rightarrow> string \<Rightarrow> sport_config \<Rightarrow> string list \<Rightarrow> mapper \<Rightarrow> event_score \<Rightarrow> mapper" where
  "add_score nfkd now sportKey config oddsEventIds m score =
     (if es_id score \<in> set oddsEventIds \<or> es_id score \<in> fst ` set (mp_events m) then m
      else add_game nfkd now sportKey (sg_groupSportKey config) (es_id score) (es_home_team score)
             (es_away_team score) (es_commence_time score) (Some score) m)"

definition map_sport ::
  "(string \<Rightarrow> string) \<Rightarrow> int \<Rightarrow> map_input \<Rightarrow> (string \<Rightarrow> event_score option) \<Rightarrow> mapper \<Rightarrow> string \<Rightarrow> mapper" where
  "map_sport nfkd now input scoresByEventId m sportKey =
     (let apiSport = map_of (rev (map (\<lambda>a. (os_key a, a)) (mi_apiSports input))) sportKey;
          config = resolveSportConfig nfkd sportKey apiSport;
          gk = sg_groupSportKey config;
          m1 = (if gk \<in> fst ` set (mp_sports m) then m
                else m\<lparr>mp_sports := js_set gk
                  \<lparr>ns_key = gk, ns_name = (case apiSport of None \<Rightarrow> gk | Some a \<Rightarrow> os_group a), ns_slug = gk\<rparr>
                  (mp_sports m)\<rparr>);
          m2 = m1\<lparr>mp_leagues := js_set sportKey
                \<lparr>nl_key = sportKey, nl_sportKey = gk, nl_name = sg_leagueName config,
                  nl_region = (if sg_regionName config = [] then None else Some (sg_regionName config))\<rparr>
                (mp_leagues m1)\<rparr>;
          odds = entries_of (mi_oddsBySport input) sportKey;
          m3 = foldl (add_odds_event nfkd now (mi_marketKeys input) sportKey config scoresByEventId) m2 odds in
      foldl (add_score nfkd now sportKey config (map oe_id odds)) m3
        (entries_of (mi_scoresBySport input) sportKey))"

definition scores_by_id :: "map_input \<Rightarrow> string \<Rightarrow> event_score option" where
  "scores_by_id input =
     map_of (rev (map (\<lambda>x. (es_id x, x))
       (concat (map (entries_of (mi_scoresBySport input)) (mi_sportKeys input)))))"

definition mapper_snapshot :: "mapper \<Rightarrow> provider_snapshot" where
  "mapper_snapshot m = \<lparr>ps_sports = map snd (mp_sports m), ps_leagues = map snd (mp_leagues m),
     ps_teams = map snd (mp_teams m), ps_fixtures = map snd (mp_fixtures m),
     ps_events = map snd (mp_events m), ps_markets = map snd (mp_markets m),
     ps_selections = map snd (mp_selections m)\<rparr>"

definition mapOddsApiToSnapshot :: "(string \<Rightarrow> string) \<Rightarrow> int \<Rightarrow> map_input \<Rightarrow> provider_snapshot" where
  "mapOddsApiToSnapshot nfkd now input =
     mapper_snapshot (foldl (map_sport nfkd now input (scores_by_id input)) empty_mapper (mi_sportKeys input))"

end
