(* ===== verification/OddsFeed.thy ===== *)
theory OddsFeed
  imports OddsMap IngestGuard
begin

text \<open>
  \<open>modules/providers/odds-api/odds-api.provider.ts\<close>: fetching sports, odds and scores and building a
  snapshot. The HTTP client and the feed's server are a parameter with a state, Redis another; an
  answer is the quota header and the data, or a failure with its status and message. The clock
  does not move during one call.
\<close>

datatype 'a feed_reply = Feed_ok "string option" 'a | Feed_fail "nat option" string

type_synonym params = "(string \<times> string) list"

record 'h feed_http =
  fh_sports :: "string \<Rightarrow> params \<Rightarrow> 'h \<Rightarrow> odds_sport list feed_reply \<times> 'h"
  fh_odds :: "string \<Rightarrow> params \<Rightarrow> 'h \<Rightarrow> odds_event list feed_reply \<times> 'h"
  fh_scores :: "string \<Rightarrow> params \<Rightarrow> 'h \<Rightarrow> event_score list feed_reply \<times> 'h"

record odds_config =
  oc_nfkd :: "string \<Rightarrow> string"
  oc_API_KEY :: "string option"
  oc_BASE_URL :: string
  oc_SPORT_KEYS :: "string list"
  oc_REGIONS :: string
  oc_MARKETS :: "string list"
  oc_ODDS_FORMAT :: string
  oc_SCORES_DAYS_FROM :: int
  oc_quota :: quota_config

definition requireApiKey :: "odds_config \<Rightarrow> string result" where
  "requireApiKey C =
     (if truthy (oc_API_KEY C) then Inr (the (oc_API_KEY C))
      else Inl (PlainError ''ODDS_API_KEY is required for OddsApiProvider''))"

text \<open>One request: the quota header is recorded, and a 401 pauses the feed.\<close>

definition feed_get ::
  "odds_config \<Rightarrow> 'r redis_port \<Rightarrow> int \<Rightarrow> ('h \<Rightarrow> 'a feed_reply \<times> 'h) \<Rightarrow> 'h \<times> 'r \<Rightarrow> 'a result \<times> ('h \<times> 'r)" where
  "feed_get C R now call s =
     (case s of (h, r) \<Rightarrow>
      (case call h of
         (Feed_ok remaining data, h') \<Rightarrow>
           (case recordQuotaHeaders (oc_quota C) R remaining now r of
              (Inl e, r') \<Rightarrow> (Inl e, (h', r'))
            | (Inr u, r') \<Rightarrow> (Inr data, (h', r')))
       | (Feed_fail status message, h') \<Rightarrow>
           if status = Some 401 then
             (case pauseForAuthFailure (oc_quota C) R now r of
                (Inl e, r') \<Rightarrow> (Inl e, (h', r'))
              | (Inr u, r') \<Rightarrow> (Inl (PlainError message), (h', r')))
           else (Inl (PlainError message), (h', r))))"

definition fetchSports ::
  "odds_config \<Rightarrow> 'h feed_http \<Rightarrow> 'r redis_port \<Rightarrow> int \<Rightarrow> string \<Rightarrow> 'h \<times> 'r \<Rightarrow> odds_sport list result \<times> ('h \<times> 'r)" where
  "fetchSports C H R now apiKey =
     feed_get C R now (fh_sports H (oc_BASE_URL C @ ''/sports'') [(''apiKey'', apiKey)])"

definition fetchOdds ::
  "odds_config \<Rightarrow> 'h feed_http \<Rightarrow> 'r redis_port \<Rightarrow> int \<Rightarrow> string \<Rightarrow> string \<Rightarrow> string \<Rightarrow> 'h \<times> 'r \<Rightarrow>
   odds_event list result \<times> ('h \<times> 'r)" where
  "fetchOdds C H R now apiKey sportKey regions =
     feed_get C R now (fh_odds H (oc_BASE_URL C @ ''/sports/'' @ sportKey @ ''/odds'')
       [(''apiKey'', apiKey), (''regions'', regions), (''markets'', join_with '','' (oc_MARKETS C)),
        (''oddsFormat'', oc_ODDS_FORMAT C)])"

definition fetchScoresForEventIdsInternal ::
  "odds_config \<Rightarrow> 'h feed_http \<Rightarrow> 'r redis_port \<Rightarrow> int \<Rightarrow> string \<Rightarrow> string \<Rightarrow> string list \<Rightarrow> 'h \<times> 'r \<Rightarrow>
   event_score list result \<times> ('h \<times> 'r)" where
  "fetchScoresForEventIdsInternal C H R now apiKey sportKey eventIds =
     feed_get C R now (fh_scores H (oc_BASE_URL C @ ''/sports/'' @ sportKey @ ''/scores'')
       ([(''apiKey'', apiKey), (''daysFrom'', show_int (oc_SCORES_DAYS_FROM C))] @
        (if eventIds \<noteq> [] then [(''eventIds'', join_with '','' eventIds)] else [])))"

definition fetchScores ::
  "odds_config \<Rightarrow> 'h feed_http \<Rightarrow> 'r redis_port \<Rightarrow> int \<Rightarrow> string \<Rightarrow> string \<Rightarrow> 'h \<times> 'r \<Rightarrow>
   event_score list result \<times> ('h \<times> 'r)" where
  "fetchScores C H R now apiKey sportKey = fetchScoresForEventIdsInternal C H R now apiKey sportKey []"

definition fetchScoresForEventIds ::
  "odds_config \<Rightarrow> 'h feed_http \<Rightarrow> 'r redis_port \<Rightarrow> int \<Rightarrow> string \<Rightarrow> string list \<Rightarrow> 'h \<times> 'r \<Rightarrow>
   event_score list result \<times> ('h \<times> 'r)" where
  "fetchScoresForEventIds C H R now sportKey eventIds s =
     (case requireApiKey C of
        Inl e \<Rightarrow> (Inl e, s)
      | Inr apiKey \<Rightarrow> fetchScoresForEventIdsInternal C H R now apiKey sportKey eventIds s)"

text \<open>A failed request counts as an empty answer.\<close>

definition or_empty :: "'a list result \<Rightarrow> 'a list" where
  "or_empty r = (case r of Inl e \<Rightarrow> [] | Inr xs \<Rightarrow> xs)"

definition sport_regions :: "odds_config \<Rightarrow> odds_sport list \<Rightarrow> string \<Rightarrow> string" where
  "sport_regions C apiSports sportKey =
     (let region = sg_region (resolveSportConfig (oc_nfkd C) sportKey
            (List.find (\<lambda>a. os_key a = sportKey) apiSports)) in
      if region \<noteq> [] then resolveRegions region else resolveRegions (oc_REGIONS C))"

definition fetch_sport ::
  "odds_config \<Rightarrow> 'h feed_http \<Rightarrow> 'r redis_port \<Rightarrow> int \<Rightarrow> string \<Rightarrow> odds_sport list \<Rightarrow> string \<Rightarrow> 'h \<times> 'r \<Rightarrow>
   (odds_event list \<times> event_score list) \<times> ('h \<times> 'r)" where
  "fetch_sport C H R now apiKey apiSports sportKey s =
     (case fetchOdds C H R now apiKey sportKey (sport_regions C apiSports sportKey) s of (odds, s1) \<Rightarrow>
      case fetchScores C H R now apiKey sportKey s1 of (scores, s2) \<Rightarrow>
        ((or_empty odds, or_empty scores), s2))"

fun fetch_each ::
  "odds_config \<Rightarrow> 'h feed_http \<Rightarrow> 'r redis_port \<Rightarrow> int \<Rightarrow> string \<Rightarrow> odds_sport list \<Rightarrow> string list \<Rightarrow> 'h \<times> 'r \<Rightarrow>
   (string \<times> odds_event list \<times> event_score list) list \<times> ('h \<times> 'r)" where
  "fetch_each C H R now apiKey apiSports [] s = ([], s)"
| "fetch_each C H R now apiKey apiSports (k # ks) s =
     (case fetch_sport C H R now apiKey apiSports k s of ((odds, scores), s1) \<Rightarrow>
      case fetch_each C H R now apiKey apiSports ks s1 of (rest, s2) \<Rightarrow> ((k, odds, scores) # rest, s2))"

definition buildSnapshot ::
  "odds_config \<Rightarrow> 'h feed_http \<Rightarrow> 'r redis_port \<Rightarrow> int \<Rightarrow> string \<Rightarrow> string list \<Rightarrow> odds_sport list \<Rightarrow> 'h \<times> 'r \<Rightarrow>
   provider_snapshot \<times> ('h \<times> 'r)" where
  "buildSnapshot C H R now apiKey sportKeys apiSports s =
     (case fetch_each C H R now apiKey apiSports sportKeys s of (fetched, s1) \<Rightarrow>
        (mapOddsApiToSnapshot (oc_nfkd C) now \<lparr>
           mi_sportKeys = sportKeys,
           mi_apiSports = apiSports,
           mi_oddsBySport = map_of (rev (map (\<lambda>(k, odds, scores). (k, odds)) fetched)),
           mi_scoresBySport = map_of (rev (map (\<lambda>(k, odds, scores). (k, scores)) fetched)),
           mi_marketKeys = filter (\<lambda>k. ODDS_API_MARKET_TYPE_MAP k \<noteq> None) (oc_MARKETS C)\<rparr>, s1))"

definition fetchSnapshot ::
  "odds_config \<Rightarrow> 'h feed_http \<Rightarrow> 'r redis_port \<Rightarrow> int \<Rightarrow> 'h \<times> 'r \<Rightarrow> provider_snapshot result \<times> ('h \<times> 'r)" where
  "fetchSnapshot C H R now s =
     (case requireApiKey C of
        Inl e \<Rightarrow> (Inl e, s)
      | Inr apiKey \<Rightarrow>
      (case fetchSports C H R now apiKey s of
         (Inl e, s1) \<Rightarrow> (Inl e, s1)
       | (Inr apiSports, s1) \<Rightarrow>
           let sportKeys = resolveSportKeys (oc_SPORT_KEYS C) apiSports in
           (case buildSnapshot C H R now apiKey sportKeys apiSports s1 of
              (snapshot, s2) \<Rightarrow> (Inr snapshot, s2))))"

definition fetchLiveSnapshot ::
  "odds_config \<Rightarrow> 'h feed_http \<Rightarrow> 'r redis_port \<Rightarrow> int \<Rightarrow> string list \<Rightarrow> 'h \<times> 'r \<Rightarrow>
   provider_snapshot result \<times> ('h \<times> 'r)" where
  "fetchLiveSnapshot C H R now sportKeys s =
     (if sportKeys = [] then (Inr EMPTY_PROVIDER_SNAPSHOT, s)
      else case requireApiKey C of
        Inl e \<Rightarrow> (Inl e, s)
      | Inr apiKey \<Rightarrow>
      (case buildSnapshot C H R now apiKey sportKeys (map syntheticOddsApiSport sportKeys) s of
         (snapshot, s1) \<Rightarrow> (Inr snapshot, s1)))"

end
