(* ===== verification/ResultsIngest.thy ===== *)
theory ResultsIngest
  imports OddsFeed Settlement
begin

text \<open>
  \<open>modules/ingestion/results-ingest.service.ts\<close>, \<open>results-settlement.worker.ts\<close> and
  \<open>ingestion-scheduler.service.ts\<close>: refreshing the results of the events that accepted bets are on,
  flagging the overdue ones, settling, and the schedule of live and catalogue ingestion. The timers
  of the scheduler are not modelled; each function is what a timer runs.
\<close>

subsection \<open>Which events to refresh\<close>

record open_event =
  op_providerRef :: string
  op_sportKey :: string
  op_kickoff :: int

definition accepted_legs :: "db \<Rightarrow> leg_row list" where
  "accepted_legs d =
     row_filter (\<lambda>l. row_find (\<lambda>b. bet_id b = leg_betId l \<and> bet_status b = Bet_ACCEPTED) (db_bets d) \<noteq> None)
       (db_legs d)"

definition open_event_of :: "db \<Rightarrow> event_row \<Rightarrow> open_event option" where
  "open_event_of d event =
     Option.bind (find_fixture (ev_fixtureId event) d) (\<lambda>fixture.
     Option.bind (find_league (fx_leagueId fixture) d) (\<lambda>league.
       Some \<lparr>op_providerRef = ev_providerRef event, op_sportKey = lg_key league,
             op_kickoff = fx_startsAt fixture\<rparr>))"

definition loadOpenBetEvents :: "db \<Rightarrow> open_event list" where
  "loadOpenBetEvents d =
     (let eventIds = distinct_first (map leg_eventId (accepted_legs d)) in
      List.map_filter (open_event_of d) (row_filter (\<lambda>e. ev_id e \<in> set eventIds) (db_events d)))"

text \<open>\<open>groupBySport\<close>: a \<open>Map\<close> in the order of first occurrence.\<close>

definition groupBySport :: "open_event list \<Rightarrow> (string \<times> open_event list) list" where
  "groupBySport rows =
     map (\<lambda>k. (k, filter (\<lambda>r. op_sportKey r = k) rows)) (distinct_first (map op_sportKey rows))"

definition EVENT_ID_CHUNK_SIZE :: nat where
  "EVENT_ID_CHUNK_SIZE = 20"

function chunks :: "nat \<Rightarrow> 'a list \<Rightarrow> 'a list list" where
  "chunks n xs = (if xs = [] \<or> n = 0 then [] else take n xs # chunks n (drop n xs))"
  by pat_completeness auto

termination
  by (relation "measure (\<lambda>(n, xs). length xs)") auto

declare chunks.simps [simp del]

text \<open>The requests of a run: sport key and event references of each call.\<close>

definition score_requests :: "open_event list \<Rightarrow> (string \<times> string list) list" where
  "score_requests rows =
     concat (map (\<lambda>(sportKey, grp). map (Pair sportKey)
         (chunks EVENT_ID_CHUNK_SIZE (distinct_first (map op_providerRef grp))))
       (groupBySport rows))"

subsection \<open>Refreshing and flagging\<close>

definition snapshotFromScores :: "odds_config \<Rightarrow> int \<Rightarrow> string \<Rightarrow> event_score list \<Rightarrow> provider_snapshot" where
  "snapshotFromScores C now sportKey scores =
     mapOddsApiToSnapshot (oc_nfkd C) now \<lparr>
       mi_sportKeys = [sportKey],
       mi_apiSports = [syntheticOddsApiSport sportKey],
       mi_oddsBySport = [sportKey \<mapsto> []],
       mi_scoresBySport = [sportKey \<mapsto> scores],
       mi_marketKeys = []\<rparr>"

text \<open>
  The calls in turn: a failed call is skipped, the answers are applied. The counts are the scores
  returned and the events updated.
\<close>

fun ingest_requests ::
  "env \<Rightarrow> odds_config \<Rightarrow> 'h feed_http \<Rightarrow> 'r redis_port \<Rightarrow> (string \<times> string list) list \<Rightarrow>
   ('h \<times> 'r) \<times> 'w world \<Rightarrow> (nat \<times> nat) result \<times> (('h \<times> 'r) \<times> 'w world)" where
  "ingest_requests E C H R [] s = (Inr (0, 0), s)"
| "ingest_requests E C H R ((sportKey, chunk) # requests) (f, s) =
     (case fetchScoresForEventIds C H R (w_now s) sportKey chunk f of
        (Inl e, f1) \<Rightarrow> ingest_requests E C H R requests (f1, s)
      | (Inr scores, f1) \<Rightarrow>
          if scores = [] then ingest_requests E C H R requests (f1, s)
          else
          (case applyResultsSnapshot E (snapshotFromScores C (w_now s) sportKey scores) s of
             (Inl e, s1) \<Rightarrow> (Inl e, (f1, s1))
           | (Inr applied, s1) \<Rightarrow>
               (case ingest_requests E C H R requests (f1, s1) of
                  (Inl e, t) \<Rightarrow> (Inl e, t)
                | (Inr (returned, updated), t) \<Rightarrow>
                    (Inr (length scores + returned, lc_events applied + updated), t))))"

definition stale_note :: "int \<Rightarrow> string" where
  "stale_note staleHours =
     ''Awaiting results ('' @ show_int staleHours @ ''h+ since kickoff). '' @
     ''Use npm run result:manual if The Odds API no longer returns this event.''"

definition is_overdue :: "int \<Rightarrow> db \<Rightarrow> bet_row \<Rightarrow> bool" where
  "is_overdue cutoff d bet \<longleftrightarrow>
     (\<exists>e \<in> set (db_events d). ev_id e \<in> leg_eventId ` set (legs_of (bet_id bet) d) \<and>
        (case find_fixture (ev_fixtureId e) d of None \<Rightarrow> False | Some f \<Rightarrow> fx_startsAt f < cutoff) \<and>
        ev_status e \<noteq> Ev_ENDED)"

definition set_note :: "string \<Rightarrow> string option \<Rightarrow> db \<Rightarrow> db" where
  "set_note betId note d = update_bet betId (\<lambda>b. b\<lparr>bet_settlementNote := note\<rparr>) d"

definition flag_bet :: "int \<Rightarrow> string \<Rightarrow> nat \<times> db \<Rightarrow> bet_row \<Rightarrow> nat \<times> db" where
  "flag_bet cutoff note acc bet =
     (case acc of (flagged, d) \<Rightarrow>
      if \<not> is_overdue cutoff d bet then
        (flagged, if truthy (bet_settlementNote bet) then set_note (bet_id bet) None d else d)
      else if bet_settlementNote bet \<noteq> Some note then (flagged + 1, set_note (bet_id bet) (Some note) d)
      else (flagged, d))"

definition flagStaleBets :: "env \<Rightarrow> 'w world \<Rightarrow> nat \<times> 'w world" where
  "flagStaleBets E s =
     (let staleHours = env_SETTLEMENT_STALE_HOURS E;
          cutoff = w_now s - staleHours * 60 * 60 * 1000;
          bets = row_filter (\<lambda>b. bet_status b = Bet_ACCEPTED) (db_bets (w_db s)) in
      case foldl (flag_bet cutoff (stale_note staleHours)) (0, w_db s) bets of
        (flagged, d) \<Rightarrow> (flagged, s\<lparr>w_db := d\<rparr>))"

record results_summary =
  ri_skipped :: bool
  ri_sportKeys :: "string list"
  ri_eventIdsRequested :: nat
  ri_scoresReturned :: nat
  ri_eventsUpdated :: nat
  ri_betsSettled :: nat
  ri_betsFlaggedStale :: nat

definition no_results :: "bool \<Rightarrow> results_summary" where
  "no_results skipped = \<lparr>ri_skipped = skipped, ri_sportKeys = [], ri_eventIdsRequested = 0,
     ri_scoresReturned = 0, ri_eventsUpdated = 0, ri_betsSettled = 0, ri_betsFlaggedStale = 0\<rparr>"

definition ingestOpenBetResults ::
  "env \<Rightarrow> odds_config \<Rightarrow> 'h feed_http \<Rightarrow> 'r redis_port \<Rightarrow> ('h \<times> 'r) \<times> 'w world \<Rightarrow>
   results_summary result \<times> (('h \<times> 'r) \<times> 'w world)" where
  "ingestOpenBetResults E C H R fs =
     (if env_FIXTURE_PROVIDER E \<noteq> ''odds-api'' then (Inr (no_results True), fs)
      else
      let liabilities = loadOpenBetEvents (w_db (snd fs)) in
      if liabilities = [] then (Inr (no_results False), fs)
      else
      (case ingest_requests E C H R (score_requests liabilities) fs of
         (Inl e, t) \<Rightarrow> (Inl e, t)
       | (Inr (scoresReturned, eventsUpdated), (f, s)) \<Rightarrow>
           (case flagStaleBets E s of (flagged, s1) \<Rightarrow>
              (Inr \<lparr>ri_skipped = False, ri_sportKeys = map fst (groupBySport liabilities),
                    ri_eventIdsRequested = length liabilities, ri_scoresReturned = scoresReturned,
                    ri_eventsUpdated = eventsUpdated, ri_betsSettled = 0,
                    ri_betsFlaggedStale = flagged\<rparr>, (f, s1)))))"

definition runResultsAndSettlement ::
  "env \<Rightarrow> 'w wallet_port \<Rightarrow> odds_config \<Rightarrow> 'h feed_http \<Rightarrow> 'r redis_port \<Rightarrow> ('h \<times> 'r) \<times> 'w world \<Rightarrow>
   results_summary result \<times> (('h \<times> 'r) \<times> 'w world)" where
  "runResultsAndSettlement E P C H R fs =
     (case ingestOpenBetResults E C H R fs of
        (Inl e, t) \<Rightarrow> (Inl e, t)
      | (Inr ingest, (f, s)) \<Rightarrow>
          (case settleBatch E P s of
             (Inl e, s1) \<Rightarrow> (Inl e, (f, s1))
           | (Inr n, s1) \<Rightarrow> (Inr (ingest\<lparr>ri_betsSettled := n\<rparr>), (f, s1))))"

text \<open>\<open>ResultsSettlementWorker.poll\<close>: a failure is logged.\<close>

definition poll_results ::
  "env \<Rightarrow> 'w wallet_port \<Rightarrow> odds_config \<Rightarrow> 'h feed_http \<Rightarrow> 'r redis_port \<Rightarrow> ('h \<times> 'r) \<times> 'w world \<Rightarrow>
   ('h \<times> 'r) \<times> 'w world" where
  "poll_results E P C H R fs = snd (runResultsAndSettlement E P C H R fs)"

subsection \<open>The ingestion schedule\<close>

record schedule_config =
  sf_INGEST_LIVE_ENABLED :: bool
  sf_INGEST_LIVE_INTERVAL_SECONDS :: int
  sf_INGEST_CATALOG_ENABLED :: bool

record ('h, 'r, 'w) scheduler =
  sd_feed :: "'h \<times> 'r"
  sd_world :: "'w world"
  sd_livePollActive :: bool

definition set_redis :: "'r \<Rightarrow> ('h, 'r, 'w) scheduler \<Rightarrow> ('h, 'r, 'w) scheduler" where
  "set_redis r st = st\<lparr>sd_feed := (fst (sd_feed st), r)\<rparr>"

text \<open>A pause is checked and an error of the check ends the run.\<close>

definition paused :: "'r redis_port \<Rightarrow> ('h, 'r, 'w) scheduler \<Rightarrow> bool result \<times> ('h, 'r, 'w) scheduler" where
  "paused R st =
     (case isPaused R (w_now (sd_world st)) (snd (sd_feed st)) of (p, r) \<Rightarrow> (p, set_redis r st))"

definition live_lock_ttl :: "schedule_config \<Rightarrow> int" where
  "live_lock_ttl G = max (sf_INGEST_LIVE_INTERVAL_SECONDS G - 5) 10"

definition runLiveTick ::
  "env \<Rightarrow> schedule_config \<Rightarrow> odds_config \<Rightarrow> 'h feed_http \<Rightarrow> 'r redis_port \<Rightarrow> string \<Rightarrow>
   ('h, 'r, 'w) scheduler \<Rightarrow> unit result \<times> ('h, 'r, 'w) scheduler" where
  "runLiveTick E G C H R token st =
     (if \<not> sf_INGEST_LIVE_ENABLED G then (Inr (), st)
      else case paused R st of
        (Inl e, st1) \<Rightarrow> (Inl e, st1)
      | (Inr p, st1) \<Rightarrow>
      if p then (Inr (), st1)
      else if \<not> hasLiveGames (w_db (sd_world st1)) then (Inr (), st1\<lparr>sd_livePollActive := False\<rparr>)
      else
      (case tryAcquire R token INGEST_LIVE_LOCK_KEY (live_lock_ttl G) (w_now (sd_world st1)) (snd (sd_feed st1)) of
         (Inl e, r) \<Rightarrow> (Inl e, set_redis r st1)
       | (Inr acquired, r) \<Rightarrow>
           let st2 = set_redis r st1; s = sd_world st2 in
           if \<not> acquired then (Inr (), st2)
           else
           let sportKeys = resolveLiveSportKeys (env_INGEST_LIVE_PRESTART_MINUTES E) (w_now s) (w_db s) in
           if sportKeys = [] then (Inr (), st2)
           else (case fetchLiveSnapshot C H R (w_now s) sportKeys (sd_feed st2) of (fetched, f) \<Rightarrow>
             (Inr (), st2\<lparr>sd_feed := f,
                sd_world := snd (ingestLiveTick E (Some (\<lambda>_. fetched)) s)\<rparr>))))"

definition runLiveWatch ::
  "env \<Rightarrow> schedule_config \<Rightarrow> odds_config \<Rightarrow> 'h feed_http \<Rightarrow> 'r redis_port \<Rightarrow> string \<Rightarrow>
   ('h, 'r, 'w) scheduler \<Rightarrow> unit result \<times> ('h, 'r, 'w) scheduler" where
  "runLiveWatch E G C H R token st =
     (if \<not> sf_INGEST_LIVE_ENABLED G then (Inr (), st)
      else case paused R st of
        (Inl e, st1) \<Rightarrow> (Inl e, st1)
      | (Inr p, st1) \<Rightarrow>
      if p \<or> \<not> hasLiveGames (w_db (sd_world st1)) then (Inr (), st1\<lparr>sd_livePollActive := False\<rparr>)
      else if \<not> sd_livePollActive st1 then
        runLiveTick E G C H R token (st1\<lparr>sd_livePollActive := True\<rparr>)
      else (Inr (), st1))"

definition runCatalogIngest ::
  "env \<Rightarrow> schedule_config \<Rightarrow> odds_config \<Rightarrow> 'h feed_http \<Rightarrow> 'r redis_port \<Rightarrow> string \<Rightarrow>
   ('h, 'r, 'w) scheduler \<Rightarrow> unit result \<times> ('h, 'r, 'w) scheduler" where
  "runCatalogIngest E G C H R token st =
     (if \<not> sf_INGEST_CATALOG_ENABLED G then (Inr (), st)
      else case paused R st of
        (Inl e, st1) \<Rightarrow> (Inl e, st1)
      | (Inr p, st1) \<Rightarrow>
      if p then (Inr (), st1)
      else
      (case tryAcquire R token INGEST_CATALOG_LOCK_KEY INGEST_CATALOG_LOCK_TTL_SECONDS
              (w_now (sd_world st1)) (snd (sd_feed st1)) of
         (Inl e, r) \<Rightarrow> (Inl e, set_redis r st1)
       | (Inr acquired, r) \<Rightarrow>
           let st2 = set_redis r st1; s = sd_world st2 in
           if \<not> acquired then (Inr (), st2)
           else (case fetchSnapshot C H R (w_now s) (sd_feed st2) of (fetched, f) \<Rightarrow>
             (Inr (), st2\<lparr>sd_feed := f, sd_world := snd (ingestFixtures E fetched s)\<rparr>))))"

end
