(* ===== verification/Trading.thy ===== *)
theory Trading
  imports StaffBets Integrity
begin

text \<open>
  \<open>modules/backoffice/trading/trading.service.ts\<close> and its request bodies: the tradable markets,
  the open exposure, the risk limits of a tenant, and the suspension and resumption of events and
  markets by a trader. The markets are listed by \<open>updatedAt\<close>, a column the model leaves out: its
  values are an argument.
\<close>

subsection \<open>The tenant's catalogue\<close>

text \<open>\<open>fixture: { league: { groups: { some: { casinoGroupId, enabled: true } } } }\<close>\<close>

definition event_offered :: "db \<Rightarrow> string \<Rightarrow> event_row \<Rightarrow> bool" where
  "event_offered d casinoGroupId event \<longleftrightarrow>
     (case find_fixture (ev_fixtureId event) d of
        None \<Rightarrow> False
      | Some fixture \<Rightarrow> league_offered d casinoGroupId (fx_leagueId fixture))"

definition assertTenantEvent :: "string \<Rightarrow> string \<Rightarrow> db \<Rightarrow> event_row result" where
  "assertTenantEvent casinoGroupId eventId d =
     (case row_find (\<lambda>e. ev_id e = eventId \<and> event_offered d casinoGroupId e) (db_events d) of
        None \<Rightarrow> Inl (NotFound ''Event not found for this tenant'')
      | Some event \<Rightarrow> Inr event)"

definition assertTenantMarket :: "string \<Rightarrow> string \<Rightarrow> db \<Rightarrow> (market_row \<times> event_row) result" where
  "assertTenantMarket casinoGroupId marketId d =
     (case find_market marketId d of
        None \<Rightarrow> Inl (NotFound ''Market not found for this tenant'')
      | Some market \<Rightarrow>
          (case find_event (mk_eventId market) d of
             None \<Rightarrow> Inl (NotFound ''Market not found for this tenant'')
           | Some event \<Rightarrow>
               if event_offered d casinoGroupId event then Inr (market, event)
               else Inl (NotFound ''Market not found for this tenant'')))"

subsection \<open>Tradable markets\<close>

record tradable_market =
  tr_marketId :: string
  tr_marketType :: market_type
  tr_marketStatus :: market_status
  tr_marketLine :: "string option"
  tr_eventId :: string
  tr_eventStatus :: event_status
  tr_providerRef :: string
  tr_matchup :: string

definition is_tradable :: "db \<Rightarrow> string \<Rightarrow> market_row \<Rightarrow> bool" where
  "is_tradable d casinoGroupId market \<longleftrightarrow>
     (mk_status market = Mk_OPEN \<or> mk_status market = Mk_SUSPENDED) \<and>
     (case find_event (mk_eventId market) d of
        None \<Rightarrow> False
      | Some event \<Rightarrow> ev_status event \<noteq> Ev_ENDED \<and> ev_status event \<noteq> Ev_CANCELLED \<and>
          event_offered d casinoGroupId event)"

definition tradable_row :: "dec_lib \<Rightarrow> db \<Rightarrow> market_row \<Rightarrow> tradable_market option" where
  "tradable_row L d market =
     map_option (\<lambda>c. \<lparr>
         tr_marketId = mk_id market, tr_marketType = mk_type market,
         tr_marketStatus = mk_status market,
         tr_marketLine = map_option (decimalToString L) (mk_line market),
         tr_eventId = ev_id (ec_event c), tr_eventStatus = ev_status (ec_event c),
         tr_providerRef = ev_providerRef (ec_event c),
         tr_matchup = ec_homeName c @ '' vs '' @ ec_awayName c\<rparr>)
       (load_event d (mk_eventId market))"

definition clamp_limit :: "int \<Rightarrow> int" where
  "clamp_limit limit = min (max limit 1) 100"

definition listTradableMarkets ::
  "env \<Rightarrow> (market_row \<Rightarrow> int) \<Rightarrow> string \<Rightarrow> int \<Rightarrow> db \<Rightarrow> tradable_market list" where
  "listTradableMarkets E updatedAt casinoGroupId limit d =
     List.map_filter (tradable_row (env_dec E) d)
       (take (nat (clamp_limit limit))
         (order_desc updatedAt (row_filter (is_tradable d casinoGroupId) (db_markets d))))"

subsection \<open>Exposure\<close>

record event_exposure =
  xe_eventId :: string
  xe_betCount :: nat
  xe_stake :: rat
  xe_potentialPayout :: rat

text \<open>\<open>byEvent\<close>, a \<open>Map\<close> in insertion order: one leg of a bet added to its event's row.\<close>

fun add_leg :: "dec_lib \<Rightarrow> bet_row \<Rightarrow> string \<Rightarrow> event_exposure list \<Rightarrow> event_exposure list" where
  "add_leg L bet eventId [] =
     [\<lparr>xe_eventId = eventId, xe_betCount = 1, xe_stake = dl_plus L 0 (bet_stake bet),
       xe_potentialPayout = dl_plus L 0 (bet_potentialPayout bet)\<rparr>]"
| "add_leg L bet eventId (row # rows) =
     (if xe_eventId row = eventId
      then row\<lparr>xe_betCount := xe_betCount row + 1, xe_stake := dl_plus L (xe_stake row) (bet_stake bet),
               xe_potentialPayout := dl_plus L (xe_potentialPayout row) (bet_potentialPayout bet)\<rparr> # rows
      else row # add_leg L bet eventId rows)"

record exposure =
  xp_openBetCount :: nat
  xp_currency :: "string option"
  xp_totalStake :: string
  xp_totalPotentialPayout :: string
  xp_byEvent :: "(string \<times> nat \<times> string \<times> string) list"

definition exposure_rows :: "dec_lib \<Rightarrow> db \<Rightarrow> bet_row list \<Rightarrow> event_exposure list" where
  "exposure_rows L d bets =
     foldl (\<lambda>rows bet. foldl (\<lambda>rows leg. add_leg L bet (leg_eventId leg) rows) rows (legs_of (bet_id bet) d))
       [] bets"

definition getExposure :: "env \<Rightarrow> string \<Rightarrow> db \<Rightarrow> exposure" where
  "getExposure E casinoGroupId d =
     (let L = env_dec E;
          bets = row_filter (\<lambda>b. bet_casinoGroupId b = casinoGroupId \<and> bet_status b = Bet_ACCEPTED) (db_bets d);
          totalStake = foldl (\<lambda>t b. dl_plus L t (bet_stake b)) 0 bets;
          totalPotentialPayout = foldl (\<lambda>t b. dl_plus L t (bet_potentialPayout b)) 0 bets
      in \<lparr>xp_openBetCount = length bets,
          xp_currency = (case bets of [] \<Rightarrow> None | b # _ \<Rightarrow> Some (bet_currency b)),
          xp_totalStake = decimalToString L totalStake,
          xp_totalPotentialPayout = decimalToString L totalPotentialPayout,
          xp_byEvent = map (\<lambda>row. (xe_eventId row, xe_betCount row, decimalToString L (xe_stake row),
              decimalToString L (xe_potentialPayout row))) (exposure_rows L d bets)\<rparr>)"

subsection \<open>Risk limits\<close>

record risk_limits =
  lim_minStake :: "string option"
  lim_maxStake :: "string option"
  lim_maxPayout :: "string option"

definition find_limits :: "string \<Rightarrow> db \<Rightarrow> risk_limit_row option" where
  "find_limits casinoGroupId d =
     get_by (\<lambda>r. (rl_casinoGroupId r, rl_scope r, rl_scopeRef r)) (casinoGroupId, ''GLOBAL'', [])
       (db_riskLimits d)"

definition limits_of :: "dec_lib \<Rightarrow> risk_limit_row \<Rightarrow> risk_limits" where
  "limits_of L limit = \<lparr>
     lim_minStake = map_option (decimalToString L) (rl_minStake limit),
     lim_maxStake = map_option (decimalToString L) (rl_maxStake limit),
     lim_maxPayout = map_option (decimalToString L) (rl_maxPayout limit)\<rparr>"

definition getLimits :: "env \<Rightarrow> string \<Rightarrow> db \<Rightarrow> risk_limits" where
  "getLimits E casinoGroupId d =
     (case find_limits casinoGroupId d of
        None \<Rightarrow> \<lparr>lim_minStake = None, lim_maxStake = None, lim_maxPayout = None\<rparr>
      | Some limit \<Rightarrow> limits_of (env_dec E) limit)"

text \<open>A field of the request: absent, or a text; the empty text clears the limit.\<close>

record PatchRiskLimitsDto =
  pl_minStake :: "string option"
  pl_maxStake :: "string option"
  pl_maxPayout :: "string option"

definition patch_limit_text_ok :: "string option \<Rightarrow> bool" where
  "patch_limit_text_ok x = (case x of None \<Rightarrow> True | Some t \<Rightarrow> stake_text_ok t)"

definition PatchRiskLimitsDto_ok :: "PatchRiskLimitsDto \<Rightarrow> bool" where
  "PatchRiskLimitsDto_ok dto \<longleftrightarrow> patch_limit_text_ok (pl_minStake dto) \<and>
     patch_limit_text_ok (pl_maxStake dto) \<and> patch_limit_text_ok (pl_maxPayout dto)"

definition parse_limit :: "dec_lib \<Rightarrow> string option \<Rightarrow> rat option result" where
  "parse_limit L x =
     (if truthy x then map_sum id Some (parse_decimal L (the x)) else Inr None)"

definition patched_limit :: "string option \<Rightarrow> rat option \<Rightarrow> rat option \<Rightarrow> rat option" where
  "patched_limit field new old = (case field of None \<Rightarrow> old | Some _ \<Rightarrow> new)"

definition limit_pairs :: "risk_limits \<Rightarrow> (string \<times> string) list" where
  "limit_pairs l = [(''minStake'', null_text (lim_minStake l)), (''maxStake'', null_text (lim_maxStake l)),
     (''maxPayout'', null_text (lim_maxPayout l))]"

definition patchLimits ::
  "env \<Rightarrow> string \<Rightarrow> PatchRiskLimitsDto \<Rightarrow> string \<Rightarrow> 'w world \<Rightarrow> risk_limits result \<times> 'w world" where
  "patchLimits E casinoGroupId dto staffUserId s =
     (let L = env_dec E; before = getLimits E casinoGroupId (w_db s);
          key = (\<lambda>r. (rl_casinoGroupId r, rl_scope r, rl_scopeRef r)) in
      case parse_limit L (pl_minStake dto) of Inl e \<Rightarrow> (Inl e, s) | Inr minStake \<Rightarrow>
      case parse_limit L (pl_maxStake dto) of Inl e \<Rightarrow> (Inl e, s) | Inr maxStake \<Rightarrow>
      case parse_limit L (pl_maxPayout dto) of Inl e \<Rightarrow> (Inl e, s) | Inr maxPayout \<Rightarrow>
      case upsert key (casinoGroupId, ''GLOBAL'', [])
             (\<lambda>i. \<lparr>rl_id = i, rl_casinoGroupId = casinoGroupId, rl_scope = ''GLOBAL'', rl_scopeRef = [],
                rl_minStake = minStake, rl_maxStake = maxStake, rl_maxPayout = maxPayout\<rparr>)
             (\<lambda>r. r\<lparr>rl_minStake := patched_limit (pl_minStake dto) minStake (rl_minStake r),
                    rl_maxStake := patched_limit (pl_maxStake dto) maxStake (rl_maxStake r),
                    rl_maxPayout := patched_limit (pl_maxPayout dto) maxPayout (rl_maxPayout r)\<rparr>)
             (env_gen E) (w_seq s) (db_riskLimits (w_db s)) of
        (rows, n) \<Rightarrow>
          let s1 = s\<lparr>w_seq := n, w_db := (w_db s)\<lparr>db_riskLimits := rows\<rparr>\<rparr>;
              limitId = (case find_limits casinoGroupId (w_db s1) of None \<Rightarrow> [] | Some r \<Rightarrow> rl_id r);
              after = getLimits E casinoGroupId (w_db s1) in
          (Inr after, staff_audit staffUserId casinoGroupId ''trading.limits_updated'' ''RiskLimit'' limitId
             (Some ([(''casinoGroupId'', casinoGroupId), (''scope'', ''GLOBAL'')] @ limit_pairs before)) (Some (limit_pairs after)) None s1))"

subsection \<open>Suspending and resuming\<close>

definition set_event_status :: "string \<Rightarrow> event_status \<Rightarrow> db \<Rightarrow> db" where
  "set_event_status eventId st d = d\<lparr>db_events := upd_by ev_id eventId (\<lambda>e. e\<lparr>ev_status := st\<rparr>) (db_events d)\<rparr>"

definition set_market_status :: "(market_row \<Rightarrow> bool) \<Rightarrow> market_status \<Rightarrow> selection_status \<Rightarrow> db \<Rightarrow> db" where
  "set_market_status P mst sst d =
     (let ids = map mk_id (row_filter P (db_markets d)) in
      d\<lparr>db_markets := row_update P (\<lambda>m. m\<lparr>mk_status := mst\<rparr>) (db_markets d),
        db_selections := row_update (\<lambda>x. sl_marketId x \<in> set ids) (\<lambda>x. x\<lparr>sl_status := sst\<rparr>)
          (db_selections d)\<rparr>)"

definition suspendEvent ::
  "string \<Rightarrow> string \<Rightarrow> string \<Rightarrow> string \<Rightarrow> 'w world \<Rightarrow> (string \<times> event_status) result \<times> 'w world" where
  "suspendEvent casinoGroupId eventId reason staffUserId s =
     (case assertTenantEvent casinoGroupId eventId (w_db s) of
        Inl e \<Rightarrow> (Inl e, s)
      | Inr event \<Rightarrow>
      if ev_status event = Ev_ENDED \<or> ev_status event = Ev_CANCELLED then
        (Inl (BadRequest ''Cannot suspend an ended or cancelled event''), s)
      else
      let d = set_market_status (\<lambda>m. mk_eventId m = eventId) Mk_SUSPENDED Sl_SUSPENDED
            (set_event_status eventId Ev_SUSPENDED (w_db s)) in
      (Inr (eventId, Ev_SUSPENDED),
       staff_audit staffUserId casinoGroupId ''trading.event_suspended'' ''Event'' eventId None None
         (Some reason) (s\<lparr>w_db := d\<rparr>)))"

definition suspendMarket ::
  "string \<Rightarrow> string \<Rightarrow> string \<Rightarrow> string \<Rightarrow> 'w world \<Rightarrow> (string \<times> market_status) result \<times> 'w world" where
  "suspendMarket casinoGroupId marketId reason staffUserId s =
     (case assertTenantMarket casinoGroupId marketId (w_db s) of
        Inl e \<Rightarrow> (Inl e, s)
      | Inr (market, event) \<Rightarrow>
      if mk_status market = Mk_SETTLED \<or> mk_status market = Mk_VOID then
        (Inl (BadRequest ''Cannot suspend a settled or void market''), s)
      else
      (Inr (marketId, Mk_SUSPENDED),
       staff_audit staffUserId casinoGroupId ''trading.market_suspended'' ''Market'' marketId None None
         (Some reason)
         (s\<lparr>w_db := set_market_status (\<lambda>m. mk_id m = marketId) Mk_SUSPENDED Sl_SUSPENDED (w_db s)\<rparr>)))"

definition resumeMarket ::
  "string \<Rightarrow> string \<Rightarrow> string \<Rightarrow> 'w world \<Rightarrow> (string \<times> market_status) result \<times> 'w world" where
  "resumeMarket casinoGroupId marketId staffUserId s =
     (case assertTenantMarket casinoGroupId marketId (w_db s) of
        Inl e \<Rightarrow> (Inl e, s)
      | Inr (market, event) \<Rightarrow>
      if ev_status event = Ev_ENDED then
        (Inl (BadRequest ''Cannot resume market on an ended event''), s)
      else
      (Inr (marketId, Mk_OPEN),
       staff_audit staffUserId casinoGroupId ''trading.market_resumed'' ''Market'' marketId None None None
         (s\<lparr>w_db := set_market_status (\<lambda>m. mk_id m = marketId) Mk_OPEN Sl_OPEN (w_db s)\<rparr>)))"

text \<open>\<open>SuspendReasonDto\<close>\<close>

definition SuspendReasonDto_ok :: "string \<Rightarrow> bool" where
  "SuspendReasonDto_ok reason \<longleftrightarrow> 3 \<le> length reason"

end
