(* ===== verification/Operations.thy ===== *)
theory Operations
  imports System StaffSettlement ResultsIngest Trading
begin

text \<open>
  The operations that are compositions of the steps of \<open>System\<close>: each staff settlement operation,
  the results worker, the trading desk and ingestion is a sequence of steps, so the invariants of
  reachable states hold after it, whether it succeeds or throws half way.
\<close>

abbreviation runs :: "env \<Rightarrow> 'w wallet_port \<Rightarrow> 'w world \<Rightarrow> 'w world \<Rightarrow> bool" where
  "runs \<equiv> reach"

lemma quiet_step: "quiet s s' \<Longrightarrow> step E P s s'"
  by (rule step.catalogue) (simp_all add: quiet_def)

lemma quiet_runs: "quiet s s' \<Longrightarrow> runs E P s s'"
  by (rule reach.more [OF reach.start quiet_step])

lemma step_runs: "step E P s s' \<Longrightarrow> runs E P s s'"
  by (rule reach.more [OF reach.start])

lemma runs_quiet: "runs E P s s1 \<Longrightarrow> quiet s1 s2 \<Longrightarrow> runs E P s s2"
  by (erule reach.more) (rule quiet_step)

lemma quiet_staff_audit [simp]: "quiet s (staff_audit u g a t i b f r s') = quiet s s'"
  by (simp add: staff_audit_def)

text \<open>An outbox row that only loses its retry time.\<close>

lemma clear_backoff_quiet: "quiet s (s\<lparr>w_db := clear_backoff g (w_db s)\<rparr>)"
  by (simp add: quiet_def same_book_def clear_backoff_def row_update_def ob_still_def)

subsection \<open>Staff settlement\<close>

lemma retry_runs: "runs E P s (snd (retryWalletSettlementTransmission E P g u s))"
proof (cases "count_pending_settle g (w_db s) = 0")
  case True
  then show ?thesis by (simp add: retryWalletSettlementTransmission_def reach.start)
next
  case False
  let ?s = "s\<lparr>w_db := clear_backoff g (w_db s)\<rparr>"
  obtain n s1 where f: "flushSettlementBatchesForCasinoGroup E P g ?s = (n, s1)" by fastforce
  have "runs E P s s1"
    by (rule reach.more [OF quiet_runs [OF clear_backoff_quiet] step.flush_group [OF f]])
  then have "runs E P s (staff_audit u g a t i b c r s1)" for a t i b c r
    by (rule runs_quiet) simp
  with False f show ?thesis by (simp add: retryWalletSettlementTransmission_def Let_def)
qed

lemma settle_then_audit_runs:
  assumes "runs E P s s1"
  shows "runs E P s (snd (and_then (settleBetsForEvent E P i g s1)
    (\<lambda>result s2. (Inr (f result), audit_event_run u g i result reason s2))))"
proof -
  obtain r s2 where p: "settleBetsForEvent E P i g s1 = (r, s2)" by fastforce
  have a: "runs E P s s2" by (rule reach.more [OF assms step.settle_event [OF p]])
  have "runs E P s (audit_event_run u g i result reason s2)" for result
    by (rule runs_quiet [OF a]) (simp add: audit_event_run_def)
  with a p show ?thesis by (cases r) simp_all
qed

lemma runSettlementForEvent_runs: "runs E P s (snd (runSettlementForEvent E P g i u s))"
  by (auto simp: runSettlementForEvent_def reach.start
      intro: settle_then_audit_runs [OF reach.start] split: option.split)

lemma applyManualResultAndSettle_runs: "runs E P s (snd (applyManualResultAndSettle E P g i h a u s))"
proof (cases "open_bets_on (w_db s) g i = [] \<or> find_event i (w_db s) = None")
  case True
  then show ?thesis by (auto simp: applyManualResultAndSettle_def reach.start split: option.split)
next
  case False
  then obtain e where e: "open_bets_on (w_db s) g i \<noteq> []" "find_event i (w_db s) = Some e" by auto
  obtain x s1 where f: "finalizeEventResult (ev_providerRef e) h a s = (x, s1)" by fastforce
  have q: "quiet s s1" using finalizeEventResult_quiet f by (metis snd_conv)
  show ?thesis
  proof (cases x)
    case None
    with e f quiet_runs [OF q] show ?thesis by (simp add: applyManualResultAndSettle_def)
  next
    case (Some j)
    have "runs E P s (staff_audit u g x t i b c r s1)" for x t b c r
      by (rule quiet_runs) (simp add: q)
    from settle_then_audit_runs [OF this] Some e f show ?thesis
      by (simp add: applyManualResultAndSettle_def Let_def)
  qed
qed

lemma applyManualResultByProviderRef_runs:
  "runs E P s (snd (applyManualResultByProviderRef E P g ref h a u s))"
  by (auto simp: applyManualResultByProviderRef_def reach.start
      intro: applyManualResultAndSettle_runs split: option.split)

subsection \<open>The results worker\<close>

lemma set_note_same_book: "same_book d (set_note i n d)"
  by (simp add: same_book_def set_note_def update_bet_def upd_by_def row_update_def bet_core_def)

lemma flag_bet_same_book: "same_book d (snd (flag_bet c n (k, d) b))"
  by (simp add: flag_bet_def set_note_same_book)

lemma flag_all_same_book: "same_book d (snd (foldl (flag_bet c n) (k, d) bs))"
proof (induction bs arbitrary: k d)
  case (Cons b bs)
  obtain k1 d1 where f: "flag_bet c n (k, d) b = (k1, d1)" by fastforce
  with flag_bet_same_book [of d c n k b] have "same_book d d1" by simp
  from same_book_trans [OF this Cons.IH] f show ?case by simp
qed simp

lemma flagStaleBets_quiet: "quiet s (snd (flagStaleBets E s))"
proof -
  have "same_book (w_db s) (snd (foldl (flag_bet c n) (0, w_db s) bs))" for c n bs
    by (rule flag_all_same_book)
  then show ?thesis
    by (simp add: flagStaleBets_def Let_def quiet_def split: prod.split) (metis snd_conv)
qed

lemma ingest_requests_quiet: "quiet s (snd (snd (ingest_requests E C H R reqs (f, s))))"
proof (induction reqs arbitrary: f s)
  case (Cons req reqs)
  obtain k chunk where req: "req = (k, chunk)" by fastforce
  obtain a f1 where fetch: "fetchScoresForEventIds C H R (w_now s) k chunk f = (a, f1)"
    by (cases "fetchScoresForEventIds C H R (w_now s) k chunk f")
  obtain x s1 where ap: "applyResultsSnapshot E (snapshotFromScores C (w_now s) k (or_empty a)) s = (x, s1)"
    by fastforce
  have q: "quiet s s1" using ingestLiveData_quiet ap unfolding applyResultsSnapshot_def by (metis snd_conv)
  show ?case
    using Cons.IH [of s f1] quiet_trans [OF q Cons.IH [of s1 f1]] q req fetch ap
    by (auto simp: or_empty_def split: sum.splits prod.splits)
qed simp

lemma ingestOpenBetResults_quiet: "quiet (snd fs) (snd (snd (ingestOpenBetResults E C H R fs)))"
proof -
  obtain f s where fs: "fs = (f, s)" by fastforce
  obtain r f1 s1 where i: "ingest_requests E C H R (score_requests (loadOpenBetEvents (w_db s))) (f, s) = (r, f1, s1)"
    by (metis prod_cases3)
  obtain n s2 where fl: "flagStaleBets E s1 = (n, s2)" by fastforce
  have "quiet s s1" using ingest_requests_quiet i by (metis snd_conv)
  moreover have "quiet s1 s2" using flagStaleBets_quiet fl by (metis snd_conv)
  ultimately show ?thesis
    using quiet_trans fs i fl by (auto simp: ingestOpenBetResults_def Let_def split: sum.split)
qed

lemma runResultsAndSettlement_runs:
  "runs E P (snd fs) (snd (snd (runResultsAndSettlement E P C H R fs)))"
proof -
  obtain r f s where i: "ingestOpenBetResults E C H R fs = (r, f, s)" by (metis prod_cases3)
  have q: "runs E P (snd fs) s" using quiet_runs ingestOpenBetResults_quiet i by (metis snd_conv)
  obtain x s1 where b: "settleBatch E P s = (x, s1)" by fastforce
  have "runs E P (snd fs) s1" by (rule reach.more [OF q step.settlement_worker [OF b]])
  with q i b show ?thesis by (auto simp: runResultsAndSettlement_def split: sum.split)
qed

subsection \<open>The trading desk\<close>

lemma suspendEvent_quiet: "quiet s (snd (suspendEvent g i reason u s))"
  by (auto simp: suspendEvent_def quiet_def same_book_def set_market_status_def set_event_status_def Let_def
      split: sum.split)

lemma suspendMarket_quiet: "quiet s (snd (suspendMarket g i reason u s))"
  by (auto simp: suspendMarket_def quiet_def same_book_def set_market_status_def Let_def split: sum.split)

lemma resumeMarket_quiet: "quiet s (snd (resumeMarket g i u s))"
  by (auto simp: resumeMarket_def quiet_def same_book_def set_market_status_def Let_def split: sum.split)

lemma patchLimits_quiet: "quiet s (snd (patchLimits E g dto u s))"
  by (auto simp: patchLimits_def quiet_def same_book_def Let_def split: sum.split prod.split)

text \<open>Everything beside the bets themselves, as one relation.\<close>

inductive office_op :: "env \<Rightarrow> 'w wallet_port \<Rightarrow> odds_config \<Rightarrow> 'h feed_http \<Rightarrow> 'r redis_port \<Rightarrow>
  'w world \<Rightarrow> 'w world \<Rightarrow> bool" for E P C H R where
  retry: "office_op E P C H R s (snd (retryWalletSettlementTransmission E P g u s))"
| run_event: "office_op E P C H R s (snd (runSettlementForEvent E P g i u s))"
| manual: "office_op E P C H R s (snd (applyManualResultByProviderRef E P g ref h a u s))"
| manual_event: "office_op E P C H R s (snd (applyManualResultAndSettle E P g i h a u s))"
| results: "office_op E P C H R s (snd (snd (runResultsAndSettlement E P C H R (f, s))))"
| suspend_event: "office_op E P C H R s (snd (suspendEvent g i reason u s))"
| suspend_market: "office_op E P C H R s (snd (suspendMarket g i reason u s))"
| resume_market: "office_op E P C H R s (snd (resumeMarket g i u s))"
| limits: "office_op E P C H R s (snd (patchLimits E g dto u s))"
| live_ingest: "office_op E P C H R s (snd (ingestLiveTick E fetch s))"
| catalog_ingest: "env_FIXTURE_PROVIDER E = ''odds-api'' \<Longrightarrow> office_op E P C H R s (snd (ingestFixtures E fetched s))"

lemma office_op_runs: "office_op E P C H R s s' \<Longrightarrow> runs E P s s'"
proof (induction rule: office_op.induct)
  case (results s f)
  then show ?case using runResultsAndSettlement_runs [of E P "(f, s)"] by simp
qed (auto intro: retry_runs runSettlementForEvent_runs applyManualResultByProviderRef_runs
    applyManualResultAndSettle_runs quiet_runs suspendEvent_quiet suspendMarket_quiet resumeMarket_quiet
    patchLimits_quiet ingestLiveTick_quiet ingestFixtures_quiet)

end
