(* ===== verification/Example.thy ===== *)
theory Example
  imports StaffBets "HOL-Library.Code_Target_Numeral"
begin

text \<open>
  A concrete service for the witnesses: exact decimals, the in-memory wallet with a balance of
  100, one football match with a result market and a total market, and one player. The library
  functions are simple computable ones that meet their contracts.
\<close>

definition ex_sha :: "string \<Rightarrow> nat list" where
  "ex_sha t = take 32 (replicate 6 0 @ map of_char (rev t) @ replicate 32 0)"

definition ex_env :: env where
  "ex_env = \<lparr> env_gen = (\<lambda>n. ''id'' @ show_nat n), env_sha = ex_sha, env_dec = exact_lib,
     env_BET_MIN_STAKE = ''1'', env_BET_MAX_STAKE = ''1000'', env_BET_MAX_PAYOUT = ''5000'',
     env_WALLET_STUB_BALANCE = ''100.00'', env_SETTLEMENT_STALE_HOURS = 6,
     env_FIXTURE_PROVIDER = ''mock'', env_INGEST_LIVE_PRESTART_MINUTES = 15 \<rparr>"

definition ex_event :: "event_status \<Rightarrow> int option \<Rightarrow> int option \<Rightarrow> event_row" where
  "ex_event st h a = \<lparr> ev_id = ''e1'', ev_fixtureId = ''f1'', ev_providerRef = ''pe1'', ev_status = st,
     ev_homeScore = h, ev_awayScore = a, ev_period = None, ev_clock = None \<rparr>"

definition ex_market :: "string \<Rightarrow> market_type \<Rightarrow> market_status \<Rightarrow> rat option \<Rightarrow> market_row" where
  "ex_market i mt st line = \<lparr> mk_id = i, mk_eventId = ''e1'', mk_providerRef = ''p'' @ i, mk_type = mt,
     mk_status = st, mk_line = line \<rparr>"

definition ex_selection :: "string \<Rightarrow> string \<Rightarrow> string \<Rightarrow> rat \<Rightarrow> selection_row" where
  "ex_selection i m n p = \<lparr> sl_id = i, sl_marketId = m, sl_providerRef = ''p'' @ i, sl_name = n,
     sl_status = Sl_OPEN, sl_price = p \<rparr>"

definition ex_db :: "event_row \<Rightarrow> market_status \<Rightarrow> db" where
  "ex_db ev mst = empty_db\<lparr>
     db_sports := [\<lparr> sp_id = ''s1'', sp_key = ''soccer'', sp_name = ''Soccer'', sp_slug = ''soccer'', sp_active = True \<rparr>],
     db_leagues := [\<lparr> lg_id = ''l1'', lg_sportId = ''s1'', lg_key = ''epl'', lg_name = ''EPL'',
                      lg_region = None, lg_active = True \<rparr>],
     db_teams := [\<lparr> tm_id = ''t1'', tm_sportId = ''s1'', tm_key = ''red'', tm_name = ''Red'', tm_shortName = None \<rparr>,
                  \<lparr> tm_id = ''t2'', tm_sportId = ''s1'', tm_key = ''blue'', tm_name = ''Blue'', tm_shortName = None \<rparr>],
     db_fixtures := [\<lparr> fx_id = ''f1'', fx_leagueId = ''l1'', fx_homeTeamId = ''t1'', fx_awayTeamId = ''t2'',
                       fx_startsAt = 0, fx_status = Fx_LIVE, fx_providerRef = ''pf1'' \<rparr>],
     db_events := [ev],
     db_markets := [ex_market ''m1'' MATCH_RESULT mst None, ex_market ''m2'' TOTAL mst (Some (5/2))],
     db_selections := [ex_selection ''x1'' ''m1'' ''Red'' 2, ex_selection ''x2'' ''m1'' ''Blue'' 3,
                       ex_selection ''x3'' ''m2'' ''Over'' (3/2)],
     db_groupLeagues := [\<lparr> gl_casinoGroupId = ''g1'', gl_leagueId = ''l1'', gl_enabled = True,
                           gl_platformLocked = False \<rparr>] \<rparr>"

definition ex_world :: "stub world" where
  "ex_world = \<lparr> w_db = ex_db (ex_event Ev_LIVE None None) Mk_OPEN, w_wallet = empty_stub, w_now = 1000, w_seq = 0 \<rparr>"

definition ex_user :: user_context where
  "ex_user = \<lparr> uc_casinoGroupId = ''g1'', uc_userId = ''u1'', uc_username = ''ann'', uc_currency = ''USD'' \<rparr>"

text \<open>The same service after the player backed Red for 10, with the bet in status \<open>st\<close> and its debit in \<open>ob\<close>.\<close>

definition ex_bet :: "bet_status \<Rightarrow> bet_row" where
  "ex_bet st = \<lparr> bet_id = ''id1'', bet_casinoGroupId = ''g1'', bet_userId = ''u1'', bet_username = ''ann'',
     bet_idempotencyKey = ''k1'', bet_stake = 10, bet_currency = ''USD'', bet_status = st,
     bet_combinedOdds = 2, bet_potentialPayout = 20,
     bet_walletReservationId = (if st = Bet_PENDING then None else Some ''id0''),
     bet_rejectionReason = None, bet_payoutAmount = None, bet_settledAt = None, bet_settlementNote = None,
     bet_createdAt = 1000 \<rparr>"

definition ex_bet_leg :: leg_row where
  "ex_bet_leg = \<lparr> leg_id = ''id3'', leg_betId = ''id1'', leg_selectionId = ''x1'', leg_marketId = ''m1'',
     leg_eventId = ''e1'', leg_selectionName = ''Red'', leg_priceAtPlacement = 2, leg_legOrder = 0,
     leg_outcome = Leg_PENDING, leg_marketType = Some MATCH_RESULT, leg_marketLine = None,
     leg_homeTeamName = Some ''Red'', leg_awayTeamName = Some ''Blue'', leg_eventProviderRef = Some ''pe1'',
     leg_sportKey = Some ''soccer'', leg_sportName = Some ''Soccer'', leg_leagueKey = Some ''epl'',
     leg_leagueName = Some ''EPL'' \<rparr>"

definition ex_debit :: "outbox_status \<Rightarrow> outbox_row" where
  "ex_debit st = \<lparr> ob_id = ''id2'', ob_betId = ''id1'', ob_casinoGroupId = ''g1'',
     ob_type = WALLET_OUTBOX_DEBIT, ob_transactionCode = ''id0'', ob_batchId = None, ob_payload = None,
     ob_status = st, ob_attempts = 0, ob_lastError = None, ob_nextRetryAt = None, ob_createdAt = 1000 \<rparr>"

definition ex_book :: "bet_status \<Rightarrow> outbox_status \<Rightarrow> event_row \<Rightarrow> market_status \<Rightarrow> stub world" where
  "ex_book st ob ev mst = \<lparr>
     w_db = (ex_db ev mst)\<lparr> db_bets := [ex_bet st], db_legs := [ex_bet_leg], db_outbox := [ex_debit ob] \<rparr>,
     w_wallet = (if ob = Ob_COMPLETED
       then \<lparr> sb_balances = (\<lambda>u. if u = ''ann'' then Some 90 else None), sb_postedCodes = {''id0''} \<rparr>
       else empty_stub),
     w_now = 1000, w_seq = 4 \<rparr>"

definition ex_accepted :: "stub world" where
  "ex_accepted = ex_book Bet_ACCEPTED Ob_COMPLETED (ex_event Ev_LIVE None None) Mk_OPEN"

definition ex_pending :: "stub world" where
  "ex_pending = ex_book Bet_PENDING Ob_PENDING (ex_event Ev_LIVE None None) Mk_OPEN"

definition ex_gradable :: "stub world" where
  "ex_gradable = ex_book Bet_ACCEPTED Ob_COMPLETED (ex_event Ev_ENDED (Some 2) (Some 1)) Mk_SETTLED"

lemma ex_gen_inj: "inj_on (env_gen ex_env) A"
proof (rule inj_onI)
  fix m n assume "env_gen ex_env m = env_gen ex_env n"
  then have "show_nat m = show_nat n" by (simp add: ex_env_def)
  then show "m = n" using nat_of_digits_show [of m] by simp
qed

lemma ex_gen_ne: "env_gen ex_env n = i \<Longrightarrow> nat_of_digits (drop 2 i) = n"
  by (auto simp: ex_env_def)

end
