(* ===== verification/ExampleRuns.thy ===== *)
theory ExampleRuns
  imports System Example
begin

text \<open>
  Runs of the concrete service of \<open>Example\<close>, on which the witnesses about whole runs are evaluated.
\<close>

text \<open>A run of the concrete service: a placement, the final score, and a settlement run.\<close>

definition ex_placed :: "stub world" where
  "ex_placed = snd (BetsController_placeBet ex_env (stub_port ex_env) ex_user (Some ''k1'')
     [''x1''] ''10.00'' ex_world)"

definition ex_final_score :: "stub world \<Rightarrow> stub world" where
  "ex_final_score s = s\<lparr>w_db := (w_db s)\<lparr>
     db_events := [ex_event Ev_ENDED (Some 2) (Some 1)],
     db_markets := [ex_market ''m1'' MATCH_RESULT Mk_SETTLED None, ex_market ''m2'' TOTAL Mk_SETTLED (Some (5/2))]\<rparr>\<rparr>"

definition ex_ended :: "stub world" where
  "ex_ended = ex_final_score ex_placed"

definition ex_settled :: "stub world" where
  "ex_settled = snd (settleBatch ex_env (stub_port ex_env) ex_ended)"

lemma ex_ids: "ids_ok ex_env"
  by (simp add: ids_ok_def ex_env_def)

lemma ex_start: "empty_book ex_world"
  by (simp add: empty_book_def ex_world_def ex_db_def empty_db_def)

lemma ex_reach:
  "reach ex_env (stub_port ex_env) ex_world ex_placed"
  "reach ex_env (stub_port ex_env) ex_world ex_ended"
  "reach ex_env (stub_port ex_env) ex_world ex_settled"
proof -
  show p: "reach ex_env (stub_port ex_env) ex_world ex_placed"
    unfolding ex_placed_def
    by (rule reach.more [OF reach.start step.place]) (rule prod.collapse [symmetric])
  show e: "reach ex_env (stub_port ex_env) ex_world ex_ended"
    by (rule reach.more [OF p step.catalogue]) (simp_all add: ex_ended_def ex_final_score_def same_bookI)
  show "reach ex_env (stub_port ex_env) ex_world ex_settled"
    unfolding ex_settled_def
    by (rule reach.more [OF e step.settlement_worker]) (rule prod.collapse [symmetric])
qed

lemma ex_credit: "credit_adds ex_env (stub_credit ex_env)"
  by (simp add: credit_adds_def stub_credit_def ex_env_def)

lemma ex_amounts: "amounts_exact (w_db ex_placed)"
  by code_simp

end
