(* ===== verification/Interleaving.thy ===== *)
theory Interleaving
  imports System
begin

text \<open>
  Requests and workers that overlap. A whole operation of \<open>System\<close> is cut where the code awaits the
  wallet or opens a transaction: what it reads first, each call of the wallet, each write. A piece
  that is still to run is a \<open>job\<close>, which holds what the operation has read; jobs of any number of
  requests and workers run in any order, and a job may be lost (the process ends).
\<close>

subsection \<open>The pieces of the operations\<close>

text \<open>\<open>processSingleDebit\<close>: the reads, up to the transaction; the answer is written by \<open>debit_answer\<close>.\<close>

definition debit_read ::
  "env \<Rightarrow> string \<Rightarrow> 'w world \<Rightarrow> (bet_row result + bet_row \<times> outbox_row \<times> wallet_tx) \<times> 'w world" where
  "debit_read E betId s =
     (case find_bet betId (w_db s) of
        None \<Rightarrow> (Inl (Inl (PlainError (''Bet '' @ betId @ '' not found''))), s)
      | Some bet \<Rightarrow>
      if bet_status bet = Bet_ACCEPTED \<or> bet_status bet = Bet_REJECTED then (Inl (Inr bet), s)
      else case find_outbox betId WALLET_OUTBOX_DEBIT (w_db s) of
        None \<Rightarrow> (Inl (Inr bet), s)
      | Some outbox \<Rightarrow>
      if ob_status outbox = Ob_COMPLETED then (Inl (Inr bet), s)
      else case ensure_code E outbox s of (transactionCode, s1) \<Rightarrow>
      case buildBetDebitTransaction E bet (legs_of betId (w_db s)) transactionCode of
        Inl e \<Rightarrow> (Inl (Inl e), s1)
      | Inr transaction \<Rightarrow> (Inr (bet, outbox, transaction), s1))"

lemma debit_pieces:
  "processSingleDebit E P i s =
     (case debit_read E i s of
        (Inl res, s1) \<Rightarrow> (res, s1)
      | (Inr (b, r, t), s1) \<Rightarrow>
          (case wp_postTransaction P t (w_wallet s1) of
             (ans, w') \<Rightarrow> debit_answer i b r ans (s1\<lparr>w_wallet := w'\<rparr>)))"
  by (auto simp: processSingleDebit_def debit_read_def debit_answer_def Let_def
      split: option.split prod.split sum.split)

text \<open>\<open>placeBet\<close> for a new key: the quote and the balance; the rows are written by \<open>create_bet\<close>.\<close>

definition place_read ::
  "env \<Rightarrow> 'w wallet_port \<Rightarrow> user_context \<Rightarrow> string list \<Rightarrow> string \<Rightarrow> 'w world \<Rightarrow> bet_quote result \<times> 'w world" where
  "place_read E P user selectionIds stake s =
     (case validatePlacement E (uc_casinoGroupId user) selectionIds stake (w_db s) of
        Inl e \<Rightarrow> (Inl e, s)
      | Inr q \<Rightarrow>
      case wp_getBalance P (uc_username user) (uc_casinoGroupId user) (w_wallet s) of
        (Inl e, w') \<Rightarrow> (Inl e, s\<lparr>w_wallet := w'\<rparr>)
      | (Inr (balance, currency), w') \<Rightarrow>
      let s1 = s\<lparr>w_wallet := w'\<rparr> in
      if currency \<noteq> uc_currency user then (Inl (BadRequest ''Currency mismatch with wallet''), s1)
      else case stakeLessOrEqualBalance (env_dec E) (q_stake q) balance of
        Inl e \<Rightarrow> (Inl e, s1)
      | Inr enough \<Rightarrow> if \<not> enough then (Inl (BadRequest ''Insufficient balance''), s1) else (Inr q, s1))"

lemma place_pieces:
  "find_by_key user key (w_db s) = None \<Longrightarrow>
   placeBet E P user key ids stake s =
     (case place_read E P user ids stake s of
        (Inl e, s1) \<Rightarrow> (Inl e, s1)
      | (Inr q, s1) \<Rightarrow>
          (case create_bet E user key q s1 of
             (Inl e, s2) \<Rightarrow> (Inl e, s2)
           | (Inr betId, s2) \<Rightarrow> finish_placement E (attemptWalletDebit E P betId s2)))"
  by (auto simp: placeBet_def place_read_def Let_def split: prod.split sum.split)

text \<open>\<open>voidBet\<close>: the checks with the transaction, and the write with its audit entry.\<close>

definition void_read ::
  "env \<Rightarrow> string \<Rightarrow> string \<Rightarrow> string \<Rightarrow> 'w world \<Rightarrow> (bet_row \<times> leg_row list \<times> wallet_tx) result" where
  "void_read E casinoGroupId betId reason s =
     (case find_group_bet casinoGroupId betId (w_db s) of
        None \<Rightarrow> Inl (NotFound ''Bet not found'')
      | Some bet \<Rightarrow>
      if bet_status bet \<noteq> Bet_ACCEPTED then Inl (BadRequest ''Only ACCEPTED bets can be voided'')
      else if starts_with reason ''other:'' \<and> \<not> str_includes reason void_separator then
        Inl (BadRequest ''A note is required when void reason code is other'')
      else
      let legs = legs_of (bet_id bet) (w_db s) in
      case buildSettlementTransaction E bet legs Bet_VOID (bet_stake bet)
             (staffVoidTransactionCode E (bet_id bet)) (w_now s) of
        Inl e \<Rightarrow> Inl e
      | Inr transaction \<Rightarrow> Inr (bet, legs, transaction))"

definition void_write ::
  "env \<Rightarrow> string \<Rightarrow> string \<Rightarrow> string \<Rightarrow> string \<Rightarrow> bet_row \<Rightarrow> leg_row list \<Rightarrow> wallet_tx \<Rightarrow> 'w world \<Rightarrow>
   (bet_dto \<times> string) result \<times> 'w world" where
  "void_write E casinoGroupId betId reason staffUserId bet legs transaction s =
     (let d1 = set_leg_outcomes (map (\<lambda>l. (l, Leg_VOID)) legs) (w_db s);
          d2 = update_bet (bet_id bet)
            (settle_bet_row Bet_VOID (bet_stake bet) (w_now s)
              (Some (''Voided by staff: '' @ reason))) d1 in
      case create_outbox (new_settlement_row (env_gen E (w_seq s)) bet WALLET_OUTBOX_STAFF_VOID
             (staffVoidTransactionCode E (bet_id bet)) None transaction (w_now s)) d2 of
        Inl e \<Rightarrow> (Inl e, s\<lparr>w_seq := w_seq s + 1\<rparr>)
      | Inr d3 \<Rightarrow>
      let s1 = s\<lparr>w_db := d3, w_seq := w_seq s + 1\<rparr>;
          voided = reread_bet (bet_id bet) bet s1;
          s2 = staff_audit staffUserId casinoGroupId ''bets.voided'' ''Bet'' betId
            (Some [(''status'', outcome_text (bet_status bet))])
            (Some [(''status'', outcome_text Bet_VOID)]) (Some reason) s1 in
      (Inr (toBetDto (env_dec E) voided (legs_of (bet_id bet) (w_db s1)), bet_userId voided), s2))"

lemma void_pieces:
  "voidBet E g i reason staff s =
     (case void_read E g i reason s of
        Inl e \<Rightarrow> (Inl e, s)
      | Inr (bet, legs, t) \<Rightarrow> void_write E g i reason staff bet legs t s)"
  by (cases "find_group_bet g i (w_db s)")
    (auto simp: voidBet_def void_read_def void_write_def Let_def split: sum.split)

text \<open>Delivery of a staff void, and of a settlement batch: the rows read, the call, the answer written.\<close>

definition deliver_write :: "outbox_row \<Rightarrow> string result \<Rightarrow> 'w world \<Rightarrow> 'w world" where
  "deliver_write entry ans s =
     (case ans of
        Inr x \<Rightarrow> complete_outbox (ob_id entry) s
      | Inl e \<Rightarrow> scheduleRetry (ob_id entry) (ob_attempts entry) e s)"

definition flush_read :: "env \<Rightarrow> string \<Rightarrow> 'w world \<Rightarrow> (string \<times> outbox_row list) option \<times> 'w world" where
  "flush_read E casinoGroupId s =
     (case order_asc ob_createdAt
             (row_filter (settle_due casinoGroupId (w_now s)) (db_outbox (w_db s))) of
        [] \<Rightarrow> (None, s)
      | anchor # _ \<Rightarrow>
          let entries = batch_entries casinoGroupId (ob_batchId anchor) s in
          (case batch_state E anchor entries s of (batchId, s2) \<Rightarrow> (Some (batchId, entries), s2)))"

definition flush_write :: "string \<Rightarrow> outbox_row list \<Rightarrow> string result \<Rightarrow> 'w world \<Rightarrow> 'w world" where
  "flush_write batchId entries ans s =
     (case ans of
        Inr x \<Rightarrow> s\<lparr>w_db := update_outbox_in (map ob_id entries)
          (\<lambda>r. r\<lparr>ob_status := Ob_COMPLETED, ob_batchId := Some batchId, ob_lastError := None\<rparr>) (w_db s)\<rparr>
      | Inl e \<Rightarrow> retry_all e entries s)"

lemma flush_pieces:
  assumes "flushSettlementBatchForGroup E P g s = (sent, s')"
  shows "flush_read E g s = (None, s') \<and> s' = s \<or>
    (\<exists>b es s2 ans w'. flush_read E g s = (Some (b, es), s2) \<and>
       wp_postTransactionBatch P g b (map payload_tx es) (w_wallet s2) = (ans, w') \<and>
       s' = flush_write b es ans (s2\<lparr>w_wallet := w'\<rparr>))"
  using assms
proof (cases rule: flush_cases)
  case none
  then have "order_asc ob_createdAt (row_filter (settle_due g (w_now s)) (db_outbox (w_db s))) = []"
    by (simp add: order_asc_def)
  with none show ?thesis by (simp add: flush_read_def)
next
  case (sent anchor rest b s2 x w')
  then show ?thesis by (simp add: flush_read_def flush_write_def)
next
  case (failed anchor rest b s2 e w')
  then show ?thesis by (simp add: flush_read_def flush_write_def)
qed

subsection \<open>Jobs\<close>

datatype job =
    Debit_call string bet_row outbox_row wallet_tx
  | Debit_write string bet_row outbox_row "string result"
  | Place_write user_context string bet_quote
  | Settle_write graded_bet
  | Void_write string string string string bet_row "leg_row list" wallet_tx
  | Deliver_call outbox_row
  | Deliver_write outbox_row "string result"
  | Flush_call string string "outbox_row list"
  | Flush_write string "outbox_row list" "string result"

text \<open>The first piece of an operation: what it reads, and the job it leaves.\<close>

inductive begins :: "env \<Rightarrow> 'w wallet_port \<Rightarrow> 'w world \<Rightarrow> job \<Rightarrow> 'w world \<Rightarrow> bool" for E P where
  debit: "debit_read E i s = (Inr (b, r, t), s') \<Longrightarrow> begins E P s (Debit_call i b r t) s'"
| place: "find_by_key user key (w_db s) = None \<Longrightarrow> place_read E P user ids stake s = (Inr q, s') \<Longrightarrow>
    begins E P s (Place_write user key q) s'"
| grade: "gradeBet (env_dec E) (w_db s) i = Some en \<Longrightarrow> begins E P s (Settle_write en) s"
| void: "void_read E g i reason s = Inr (bet, legs, t) \<Longrightarrow>
    begins E P s (Void_write g i reason staff bet legs t) s"
| deliver: "e \<in> set (db_outbox (w_db s)) \<Longrightarrow> outbox_due WALLET_OUTBOX_STAFF_VOID (w_now s) e \<Longrightarrow>
    begins E P s (Deliver_call e) s"
| flush: "flush_read E g s = (Some (b, es), s') \<Longrightarrow> begins E P s (Flush_call g b es) s'"

text \<open>
  The next piece of a job, with the job that is left. The batch id of a settlement is the one its
  worker has drawn.
\<close>

fun advance :: "env \<Rightarrow> 'w wallet_port \<Rightarrow> string \<Rightarrow> job \<Rightarrow> 'w world \<Rightarrow> job option \<times> 'w world" where
  "advance E P batchId (Debit_call i b r t) s =
     (case wp_postTransaction P t (w_wallet s) of
        (ans, w') \<Rightarrow> (Some (Debit_write i b r ans), s\<lparr>w_wallet := w'\<rparr>))"
| "advance E P batchId (Debit_write i b r ans) s = (None, snd (debit_answer i b r ans s))"
| "advance E P batchId (Place_write user key q) s = (None, snd (create_bet E user key q s))"
| "advance E P batchId (Settle_write en) s = (None, snd (persist_one E en batchId s))"
| "advance E P batchId (Void_write g i reason staff bet legs t) s =
     (None, snd (void_write E g i reason staff bet legs t s))"
| "advance E P batchId (Deliver_call e) s =
     (case wp_postTransaction P (payload_tx e) (w_wallet s) of
        (ans, w') \<Rightarrow> (Some (Deliver_write e ans), s\<lparr>w_wallet := w'\<rparr>))"
| "advance E P batchId (Deliver_write e ans) s = (None, deliver_write e ans s)"
| "advance E P batchId (Flush_call g b es) s =
     (case wp_postTransactionBatch P g b (map payload_tx es) (w_wallet s) of
        (ans, w') \<Rightarrow> (Some (Flush_write b es ans), s\<lparr>w_wallet := w'\<rparr>))"
| "advance E P batchId (Flush_write b es ans) s = (None, flush_write b es ans s)"

text \<open>One step: a piece begins, a job goes on or is lost, a read ends in nothing, or the world moves.\<close>

inductive istep :: "env \<Rightarrow> 'w wallet_port \<Rightarrow> 'w world \<Rightarrow> job list \<Rightarrow> 'w world \<Rightarrow> job list \<Rightarrow> bool"
  for E P where
  begin_job: "begins E P s j s' \<Longrightarrow> istep E P s js s' (j # js)"
| next_piece: "advance E P batchId j s = (Some j', s') \<Longrightarrow> istep E P s (xs @ j # ys) s' (xs @ j' # ys)"
| last_piece: "advance E P batchId j s = (None, s') \<Longrightarrow> istep E P s (xs @ j # ys) s' (xs @ ys)"
| lost: "istep E P s (xs @ j # ys) s (xs @ ys)"
| no_debit: "debit_read E i s = (Inl res, s') \<Longrightarrow> istep E P s js s' js"
| balance: "wp_getBalance P u g (w_wallet s) = (ans, w') \<Longrightarrow> istep E P s js (s\<lparr>w_wallet := w'\<rparr>) js"
| catalogue: "same_book (w_db s) (w_db s') \<Longrightarrow> w_wallet s' = w_wallet s \<Longrightarrow> istep E P s js s' js"

inductive ireach :: "env \<Rightarrow> 'w wallet_port \<Rightarrow> 'w world \<Rightarrow> job list \<Rightarrow> 'w world \<Rightarrow> job list \<Rightarrow> bool"
  for E P s0 js0 where
  istart: "ireach E P s0 js0 s0 js0"
| imore: "ireach E P s0 js0 s js \<Longrightarrow> istep E P s js s' js' \<Longrightarrow> ireach E P s0 js0 s' js'"

lemma ireach_trans: "ireach E P s0 j0 s1 j1 \<Longrightarrow> ireach E P s1 j1 s2 j2 \<Longrightarrow> ireach E P s0 j0 s2 j2"
  by (rotate_tac, induction rule: ireach.induct) (auto intro: ireach.imore)

text \<open>The steps of the job at the head.\<close>

lemma head_steps:
  "advance E P batchId j s = (Some j', s') \<Longrightarrow> ireach E P s (j # js) s' (j' # js)"
  "advance E P batchId j s = (None, s') \<Longrightarrow> ireach E P s (j # js) s' js"
  "ireach E P s (j # js) s js"
  using imore [OF istart next_piece [where xs = "[]"]] imore [OF istart last_piece [where xs = "[]"]]
    imore [OF istart lost [where xs = "[]"]] by auto

lemma istep_reach: "istep E P s js s' js' \<Longrightarrow> ireach E P s js s' js'"
  by (rule imore [OF istart])

subsection \<open>Whole operations are runs of their pieces\<close>

text \<open>A job that has begun runs to its end with nothing in between.\<close>

lemma runs_out:
  assumes "begins E P s j s1"
  shows "advance E P b j s1 = (None, s') \<Longrightarrow> ireach E P s js s' js"
    and "advance E P b j s1 = (Some j', s2) \<Longrightarrow> advance E P b' j' s2 = (None, s') \<Longrightarrow> ireach E P s js s' js"
proof -
  note first = istep_reach [OF begin_job [OF assms]]
  show "advance E P b j s1 = (None, s') \<Longrightarrow> ireach E P s js s' js"
    by (rule ireach_trans [OF first head_steps(2)])
  show "advance E P b j s1 = (Some j', s2) \<Longrightarrow> advance E P b' j' s2 = (None, s') \<Longrightarrow> ireach E P s js s' js"
    by (rule ireach_trans [OF ireach_trans [OF first head_steps(1)] head_steps(2)])
qed

lemma drop_jobs: "ireach E P s (xs @ js) s js"
proof (induction xs)
  case (Cons x xs)
  from ireach_trans [OF head_steps(3) Cons] show ?case by simp
qed (simp add: istart)

lemma begin_all:
  assumes "\<And>j. j \<in> set ks \<Longrightarrow> begins E P s j s"
  shows "ireach E P s js s (ks @ js)"
  using assms
proof (induction ks)
  case (Cons k ks)
  then have "ireach E P s js s (ks @ js)" by simp
  moreover have "istep E P s (ks @ js) s (k # ks @ js)" by (rule begin_job) (use Cons in simp)
  ultimately show ?case by (auto intro: imore)
qed (simp add: istart)

lemma debit_run: "processSingleDebit E P i s = (res, s') \<Longrightarrow> ireach E P s js s' js"
proof -
  assume p: "processSingleDebit E P i s = (res, s')"
  obtain x s1 where r: "debit_read E i s = (x, s1)" by fastforce
  show ?thesis
  proof (cases x)
    case (Inl y)
    with p r have "s' = s1" by (simp add: debit_pieces)
    with no_debit r Inl show ?thesis using istep_reach by metis
  next
    case (Inr y)
    obtain b r0 t where y: "y = (b, r0, t)" by (cases y)
    obtain ans w' where post: "wp_postTransaction P t (w_wallet s1) = (ans, w')" by fastforce
    have s': "s' = snd (debit_answer i b r0 ans (s1\<lparr>w_wallet := w'\<rparr>))"
      using p r Inr y post by (simp add: debit_pieces)
    have "begins E P s (Debit_call i b r0 t) s1" by (rule begins.debit) (use r Inr y in simp)
    then show ?thesis
      by (rule runs_out(2) [where b = "[]" and b' = "[]"]) (use post in simp, use s' in simp)
  qed
qed

lemma debit_all_run: "debit_all E P ids s = (n, s') \<Longrightarrow> ireach E P s js s' js"
proof (induction ids arbitrary: s n)
  case (Cons i ids)
  obtain r s1 where p: "processSingleDebit E P i s = (r, s1)" by fastforce
  obtain m s2 where d: "debit_all E P ids s1 = (m, s2)" by fastforce
  with Cons.prems p have "s' = s2" by simp
  with d have "debit_all E P ids s1 = (m, s')" by simp
  from ireach_trans [OF debit_run [OF p] Cons.IH [OF this]] show ?case .
qed (simp add: istart)

lemma void_all_run: "void_all P es s = (n, s') \<Longrightarrow> ireach E P s (map Deliver_call es @ js) s' js"
proof (induction es arbitrary: s n)
  case (Cons e es)
  obtain ans w' where post: "wp_postTransaction P (payload_tx e) (w_wallet s) = (ans, w')" by fastforce
  let ?s1 = "s\<lparr>w_wallet := w'\<rparr>" and ?rest = "map Deliver_call es @ js"
  obtain m where rest: "void_all P es (deliver_write e ans ?s1) = (m, s')"
    using Cons.prems post by (auto simp: deliver_write_def split: sum.splits prod.splits)
  have "ireach E P s (Deliver_call e # ?rest) ?s1 (Deliver_write e ans # ?rest)"
    by (rule head_steps(1) [where batchId = "[]"]) (simp add: post)
  moreover have "ireach E P ?s1 (Deliver_write e ans # ?rest) (deliver_write e ans ?s1) ?rest"
    by (rule head_steps(2) [where batchId = "[]"]) simp
  ultimately have "ireach E P s (Deliver_call e # ?rest) (deliver_write e ans ?s1) ?rest"
    by (rule ireach_trans)
  from ireach_trans [OF this Cons.IH [OF rest]] show ?case by simp
qed (simp add: istart)

lemma staff_voids_run: "processPendingStaffVoids P k s = (n, s') \<Longrightarrow> ireach E P s js s' js"
proof -
  assume p: "processPendingStaffVoids P k s = (n, s')"
  let ?es = "take k (order_asc ob_createdAt
    (row_filter (outbox_due WALLET_OUTBOX_STAFF_VOID (w_now s)) (db_outbox (w_db s))))"
  have "begins E P s j s" if "j \<in> set (map Deliver_call ?es)" for j
    using that by (auto intro: begins.deliver dest!: in_set_takeD)
  from ireach_trans [OF begin_all [OF this] void_all_run] p show ?thesis
    by (simp add: processPendingStaffVoids_def Let_def)
qed

lemma flush_run: "flushSettlementBatchForGroup E P g s = (sent, s') \<Longrightarrow> ireach E P s js s' js"
proof (drule flush_pieces, elim disjE exE conjE, goal_cases)
  case 1
  then show ?case by (simp add: istart)
next
  case (2 b es s2 ans w')
  have "begins E P s (Flush_call g b es) s2" by (rule begins.flush) (rule 2)
  then show ?case by (rule runs_out(2) [where b = "[]" and b' = "[]"]) (use 2 in simp, use 2 in simp)
qed

lemma flush_groups_run: "flush_groups E P gs s = (n, s') \<Longrightarrow> ireach E P s js s' js"
  by (induction gs arbitrary: n s)
     (auto simp: istart split: prod.splits dest: flush_run intro: ireach_trans)

lemma flush_loop_run: "flush_loop k E P g s = (n, s') \<Longrightarrow> ireach E P s js s' js"
  by (induction k arbitrary: n s)
     (auto simp: istart split: prod.splits bool.splits dest: flush_run intro: ireach_trans)

lemma flush_batches_run: "ireach E P s js (snd (flushSettlementBatches E P s)) js"
  by (cases "flushSettlementBatches E P s") (auto simp: flushSettlementBatches_def Let_def intro: flush_groups_run)

lemma outbox_worker_run:
  assumes "processPending E P s = (n, s')"
  shows "ireach E P s js s' js"
proof -
  obtain a s1 where d: "processPendingDebits E P DEBIT_BATCH_LIMIT s = (a, s1)" by fastforce
  obtain b s2 where v: "processPendingStaffVoids P DEBIT_BATCH_LIMIT s1 = (b, s2)" by fastforce
  from assms d v have "s' = snd (flushSettlementBatches E P s2)"
    by (auto simp: processPending_def split: prod.splits)
  moreover have "ireach E P s js s1 js"
    using d by (auto simp: processPendingDebits_def Let_def intro: debit_all_run)
  ultimately show ?thesis
    using staff_voids_run [OF v] flush_batches_run ireach_trans by metis
qed

lemma batch_for_run:
  "batch_for E g batches s = (b, batches', s') \<Longrightarrow> ireach E P s js s' js"
  using batch_for_frame [of E g batches s b batches' s'] by (intro istep_reach catalogue) simp_all

lemma persist_all_run:
  "persist_all E batches graded s = (res, s') \<Longrightarrow> ireach E P s (map Settle_write graded @ js) s' js"
proof (induction graded arbitrary: batches s)
  case (Cons en rest)
  let ?rest = "map Settle_write rest @ js"
  show ?case
  proof (cases "is_final_result (gr_betResult en)")
    case False
    with Cons.prems have "persist_all E batches rest s = (res, s')" by simp
    from ireach_trans [OF head_steps(3) Cons.IH [OF this]] show ?thesis by simp
  next
    case True
    obtain b batches' s1 where bf: "batch_for E (bet_casinoGroupId (gr_bet en)) batches s = (b, batches', s1)"
      by (cases "batch_for E (bet_casinoGroupId (gr_bet en)) batches s") auto
    obtain r s2 where p: "persist_one E en b s1 = (r, s2)" by fastforce
    have "ireach E P s1 (Settle_write en # ?rest) s2 ?rest"
      by (rule head_steps(2) [where batchId = b]) (simp add: p)
    with batch_for_run [OF bf] have go: "ireach E P s (Settle_write en # ?rest) s2 ?rest"
      by (rule ireach_trans)
    show ?thesis
    proof (cases r)
      case (Inl e)
      with Cons.prems True bf p have "s' = s2" by simp
      with ireach_trans [OF go drop_jobs] show ?thesis by simp
    next
      case (Inr u)
      with Cons.prems True bf p have "persist_all E batches' rest s2 = (res, s')" by simp
      from ireach_trans [OF go Cons.IH [OF this]] show ?thesis by simp
    qed
  qed
qed (simp add: istart)

lemma settlements_run:
  assumes "\<And>en. en \<in> set graded \<Longrightarrow> \<exists>i. gradeBet (env_dec E) (w_db s) i = Some en"
    and "applySettlements E P graded s = (res, s')"
  shows "ireach E P s js s' js"
proof -
  obtain r s1 where p: "persistGradedSettlements E graded s = (r, s1)" by fastforce
  have "begins E P s j s" if "j \<in> set (map Settle_write graded)" for j
    using that assms(1) by (auto intro: begins.grade)
  from ireach_trans [OF begin_all [OF this] persist_all_run] p have run: "ireach E P s js s1 js"
    by (simp add: persistGradedSettlements_def)
  from assms(2) p have "s' = s1 \<or> s' = snd (flushSettlementBatches E P s1)"
    by (auto simp: applySettlements_def split: sum.splits)
  with run ireach_trans [OF run flush_batches_run] show ?thesis by auto
qed

lemma settlement_worker_run: "settleBatch E P s = (res, s') \<Longrightarrow> ireach E P s js s' js"
proof -
  assume p: "settleBatch E P s = (res, s')"
  let ?graded = "List.map_filter (\<lambda>b. gradeBet (env_dec E) (w_db s) (bet_id b)) (take BATCH_SIZE
    (order_asc bet_createdAt (row_filter (\<lambda>b. bet_status b = Bet_ACCEPTED) (db_bets (w_db s)))))"
  have g: "\<exists>i. gradeBet (env_dec E) (w_db s) i = Some en" if "en \<in> set ?graded" for en
    using that by (auto simp: map_filter_def)
  from p have "s' = s \<or> (\<exists>r. applySettlements E P ?graded s = (r, s'))"
    by (auto simp: settleBatch_def Let_def split: if_splits prod.splits sum.splits)
  with settlements_run [OF g] show ?thesis by (auto intro: istart)
qed

lemma settle_each_run: "settle_each E P is s = (res, s') \<Longrightarrow> ireach E P s js s' js"
proof (induction "is" arbitrary: s res)
  case (Cons i rest)
  obtain r s1 where t: "trySettleBet E P i s = (r, s1)" by fastforce
  have one: "ireach E P s js s1 js"
  proof (cases "gradeBet (env_dec E) (w_db s) i")
    case None
    with t show ?thesis by (simp add: trySettleBet_def istart)
  next
    case (Some en)
    with t obtain x where "applySettlements E P [en] s = (x, s1)"
      by (auto simp: trySettleBet_def split: prod.splits sum.splits)
    from settlements_run [OF _ this] Some show ?thesis by auto
  qed
  from Cons.prems t consider "s' = s1" | r' where "settle_each E P rest s1 = (r', s')"
    by (auto split: sum.splits prod.splits)
  then show ?case by cases (use one ireach_trans [OF one Cons.IH] in auto)
qed (simp add: istart)

lemma attempt_run: "attemptWalletDebit E P i s = (res, s') \<Longrightarrow> ireach E P s js s' js"
  by (auto simp: attemptWalletDebit_def split: prod.splits sum.splits dest: debit_run)

lemma finish_run:
  "finish_placement E (attemptWalletDebit E P i s) = (res, s') \<Longrightarrow> ireach E P s js s' js"
  by (cases "attemptWalletDebit E P i s")
     (auto simp: finish_placement_def dest: attempt_run split: sum.splits)

lemma place_read_refused:
  "place_read E P user ids stake s = (Inl e, s1) \<Longrightarrow> ireach E P s js s1 js"
  by (auto simp: place_read_def Let_def split: sum.splits prod.splits if_splits
      intro: istart istep_reach balance)

lemma place_run:
  assumes "placeBet E P user key ids stake s = (res, s')"
  shows "ireach E P s js s' js"
proof (cases "find_by_key user key (w_db s)")
  case (Some b)
  show ?thesis
  proof (cases "bet_status b = Bet_PENDING")
    case True
    with assms Some show ?thesis by (auto simp: placeBet_def intro: finish_run)
  next
    case False
    with assms Some show ?thesis by (simp add: placeBet_def finish_placement_def istart)
  qed
next
  case None
  obtain x s1 where r: "place_read E P user ids stake s = (x, s1)" by fastforce
  show ?thesis
  proof (cases x)
    case (Inl e)
    with assms None r have "s' = s1" by (simp add: place_pieces)
    with place_read_refused r Inl show ?thesis by metis
  next
    case (Inr q)
    obtain y s2 where c: "create_bet E user key q s1 = (y, s2)" by fastforce
    have "begins E P s (Place_write user key q) s1" by (rule begins.place) (use None r Inr in simp_all)
    from runs_out(1) [OF this, of "[]" s2] c have created: "ireach E P s js s2 js" by simp
    show ?thesis
    proof (cases y)
      case (Inl e)
      with assms None r Inr c have "s' = s2" by (simp add: place_pieces)
      with created show ?thesis by simp
    next
      case (Inr i)
      with assms None r \<open>x = Inr q\<close> c
      have "finish_placement E (attemptWalletDebit E P i s2) = (res, s')" by (simp add: place_pieces)
      from ireach_trans [OF created finish_run [OF this]] show ?thesis .
    qed
  qed
qed

lemma void_run:
  assumes "voidBet E g i reason staff s = (res, s')"
  shows "ireach E P s js s' js"
proof (cases "void_read E g i reason s")
  case (Inl e)
  with assms show ?thesis by (simp add: void_pieces istart)
next
  case (Inr x)
  obtain bet legs t where x: "x = (bet, legs, t)" by (cases x)
  with assms Inr have "void_write E g i reason staff bet legs t s = (res, s')" by (simp add: void_pieces)
  moreover have "begins E P s (Void_write g i reason staff bet legs t) s"
    by (rule begins.void) (use Inr x in simp)
  ultimately show ?thesis using runs_out(1) [of E P s _ s "[]" s'] by simp
qed

text \<open>Every step of \<open>System\<close> is a run that begins and ends without jobs of its own.\<close>

lemma step_run:
  assumes "step E P s s'"
  shows "ireach E P s js s' js"
  using assms
proof (cases rule: step.cases)
  case (place user header ids stake res)
  then have "s' = s \<or> (\<exists>key. placeBet E P user key ids stake s = (res, s'))"
    by (auto simp: BetsController_placeBet_def split: sum.splits if_splits)
  then show ?thesis by (auto intro: istart place_run)
next
  case (settle_event eventId g res)
  then show ?thesis
    by (auto simp: settleBetsForEvent_def Let_def split: prod.splits sum.splits intro: settle_each_run)
next
  case (flush_group g n)
  then show ?thesis unfolding flushSettlementBatchesForCasinoGroup_def by (rule flush_loop_run)
next
  case catalogue
  then show ?thesis by (intro istep_reach istep.catalogue)
qed (auto intro: outbox_worker_run settlement_worker_run void_run)

lemma reach_run: "reach E P s0 s \<Longrightarrow> ireach E P s0 js s js"
  by (induction rule: reach.induct) (auto intro: istart ireach_trans step_run)

end
