(* ===== verification/InterleavedLedger.thy ===== *)
theory InterleavedLedger
  imports Interleaving
begin

text \<open>
  What overlapping requests and workers cannot break. Whatever their pieces are interleaved with,
  and whichever of them are lost, the rows stay unique, a bet keeps its terms, every transaction the
  wallet applies is one that a row describes, and a row never changes what it describes.
\<close>

subsection \<open>The invariant\<close>

text \<open>A credit row carries nothing, the stake or the potential payout of its bet.\<close>

definition credit_text :: "dec_lib \<Rightarrow> bet_row \<Rightarrow> string \<Rightarrow> bool" where
  "credit_text L b t \<longleftrightarrow> t = ''0'' \<or> t = dl_show L 0 \<or> t = dl_show L (bet_stake b) \<or> t = dl_show L (bet_potentialPayout b)"

definition loose_row :: "env \<Rightarrow> db \<Rightarrow> outbox_row \<Rightarrow> bool" where
  "loose_row E d r \<longleftrightarrow>
     ob_transactionCode r \<noteq> [] \<and>
     (\<exists>b. find_bet (ob_betId r) d = Some b \<and>
        (ob_type r \<noteq> WALLET_OUTBOX_DEBIT \<longrightarrow>
          (\<exists>p. ob_payload r = Some p \<and> st_transactionCode p = ob_transactionCode r \<and>
             st_userCode p = bet_username b \<and> credit_text (env_dec E) b (st_amount p))))"

definition loose :: "env \<Rightarrow> db \<Rightarrow> bool" where
  "loose E d \<longleftrightarrow> unique_rows d \<and> (\<forall>r \<in> set (db_outbox d). loose_row E d r)"

text \<open>The bet a job holds is the bet of the database, but for its progress.\<close>

definition holds_bet :: "db \<Rightarrow> bet_row \<Rightarrow> bool" where
  "holds_bet d b \<longleftrightarrow> (\<exists>b'. find_bet (bet_id b) d = Some b' \<and> bet_terms b' = bet_terms b)"

fun job_ok :: "env \<Rightarrow> db \<Rightarrow> job \<Rightarrow> bool" where
  "job_ok E d (Debit_call i b r t) = records E d t"
| "job_ok E d (Debit_write i b r ans) = True"
| "job_ok E d (Place_write user key q) = True"
| "job_ok E d (Settle_write en) =
     (holds_bet d (gr_bet en) \<and>
      gr_payoutAmount en = payoutForResult (bet_stake (gr_bet en)) (bet_potentialPayout (gr_bet en)) (gr_betResult en))"
| "job_ok E d (Void_write g i reason staff bet legs t) =
     (holds_bet d bet \<and> tx_transactionCode t = staffVoidTransactionCode E (bet_id bet) \<and>
      tx_userCode t = bet_username bet \<and> tx_amount t = dl_show (env_dec E) (bet_stake bet))"
| "job_ok E d (Deliver_call e) = records E d (payload_tx e)"
| "job_ok E d (Deliver_write e ans) = True"
| "job_ok E d (Flush_call g b es) = (\<forall>e \<in> set es. records E d (payload_tx e))"
| "job_ok E d (Flush_write b es ans) = True"

lemma bet_terms_fields:
  "bet_terms b' = bet_terms b \<Longrightarrow> bet_id b' = bet_id b \<and> bet_stake b' = bet_stake b \<and>
     bet_potentialPayout b' = bet_potentialPayout b \<and> bet_username b' = bet_username b"
  by (simp add: bet_terms_def)

lemma holds_bet_keeps: "keeps d d' \<Longrightarrow> holds_bet d b \<Longrightarrow> holds_bet d' b"
  unfolding keeps_def holds_bet_def by metis

lemma job_ok_keeps: "keeps d d' \<Longrightarrow> job_ok E d j \<Longrightarrow> job_ok E d' j"
  by (cases j) (auto simp: holds_bet_keeps records_keeps)

lemma loose_row_keeps:
  assumes "keeps d d'" and "loose_row E d r" and "ob_core r' = ob_core r"
  shows "loose_row E d' r'"
proof -
  from assms(2) obtain b where b: "find_bet (ob_betId r) d = Some b" by (auto simp: loose_row_def)
  with assms(1) obtain b' where b': "find_bet (ob_betId r) d' = Some b'" "bet_terms b' = bet_terms b"
    unfolding keeps_def by metis
  from bet_terms_fields [OF b'(2)] assms(2,3) b b'(1) show ?thesis
    by (auto simp: loose_row_def ob_core_def credit_text_def)
qed

subsection \<open>Rows rewritten in place\<close>

lemma keeps_bet:
  assumes "db_bets d' = db_bets (update_bet i f d)" and "\<And>b. bet_terms (f b) = bet_terms b"
    and "\<And>j. map leg_terms (legs_of j d') = map leg_terms (legs_of j d)"
    and "ob_core ` set (db_outbox d) \<subseteq> ob_core ` set (db_outbox d')"
  shows "keeps d d'"
proof -
  have "bet_id (f b) = bet_id b" for b using bet_terms_fields [OF assms(2)] by simp
  then have "find_bet j d' = map_option (\<lambda>b. if i = j then f b else b) (find_bet j d)" for j
    using assms(1) find_bet_update [of f j i d] by (simp add: find_bet_def)
  with assms(2-4) show ?thesis by (auto simp: keeps_def)
qed

lemma keeps_outbox:
  "db_bets d' = db_bets d \<Longrightarrow> db_legs d' = db_legs d \<Longrightarrow>
   map ob_core (db_outbox d') = map ob_core (db_outbox d) \<Longrightarrow> keeps d d'"
  by (rule evolves_keeps [OF evolves_outbox])

lemma core_keys:
  assumes "map ob_core (db_outbox d') = map ob_core (db_outbox d)"
  shows "map ob_id (db_outbox d') = map ob_id (db_outbox d)"
    and "map ob_key (db_outbox d') = map ob_key (db_outbox d)"
    and "map ob_transactionCode (db_outbox d') = map ob_transactionCode (db_outbox d)"
proof -
  have proj: "map (\<lambda>r. f (ob_core r)) (db_outbox d') = map (\<lambda>r. f (ob_core r)) (db_outbox d)" for f
    using arg_cong [OF assms, of "map f"] by (simp add: comp_def)
  show "map ob_id (db_outbox d') = map ob_id (db_outbox d)"
    using proj [of fst] by (simp add: ob_core_def)
  show "map ob_key (db_outbox d') = map ob_key (db_outbox d)"
    using proj [of "\<lambda>(i, b, t, c, p). (b, t)"] by (simp add: ob_core_def ob_key_def [abs_def])
  show "map ob_transactionCode (db_outbox d') = map ob_transactionCode (db_outbox d)"
    using proj [of "\<lambda>(i, b, t, c, p). c"] by (simp add: ob_core_def)
qed

lemma loose_rewrite:
  assumes "loose E d" and k: "keeps d d'" and "map ob_core (db_outbox d') = map ob_core (db_outbox d)"
    and "map bet_id (db_bets d') = map bet_id (db_bets d)" and "map leg_id (db_legs d') = map leg_id (db_legs d)"
  shows "loose E d'"
proof -
  have "unique_rows d'" using assms(1,4,5) core_keys [OF assms(3)] by (simp add: loose_def unique_rows_def)
  moreover have "loose_row E d' r" if "r \<in> set (db_outbox d')" for r
  proof -
    have "ob_core r \<in> set (map ob_core (db_outbox d))" using that assms(3) by (metis image_eqI list.set_map)
    then obtain r0 where "r0 \<in> set (db_outbox d)" "ob_core r = ob_core r0" by auto
    with assms(1) loose_row_keeps [OF k] show ?thesis by (auto simp: loose_def)
  qed
  ultimately show ?thesis by (simp add: loose_def)
qed

lemma bet_ids_update:
  "(\<And>b. bet_terms (f b) = bet_terms b) \<Longrightarrow> map bet_id (db_bets (update_bet i f d)) = map bet_id (db_bets d)"
  using bet_terms_fields by (fastforce simp: update_bet_map)

text \<open>A write of the database: whatever was recorded stays, and the wallet is not touched.\<close>

definition db_write :: "env \<Rightarrow> 'w world \<Rightarrow> 'w world \<Rightarrow> bool" where
  "db_write E s s' \<longleftrightarrow> w_wallet s' = w_wallet s \<and>
     (loose E (w_db s) \<longrightarrow> keeps (w_db s) (w_db s') \<and> loose E (w_db s'))"

lemma db_writeI:
  assumes "w_wallet s' = w_wallet s" and "keeps (w_db s) (w_db s')"
    and "map ob_core (db_outbox (w_db s')) = map ob_core (db_outbox (w_db s))"
    and "map bet_id (db_bets (w_db s')) = map bet_id (db_bets (w_db s))"
    and "map leg_id (db_legs (w_db s')) = map leg_id (db_legs (w_db s))"
  shows "db_write E s s'"
  using assms loose_rewrite by (auto simp: db_write_def)

lemma db_write_outbox:
  assumes "w_wallet s' = w_wallet s" and "db_bets (w_db s') = db_bets (w_db s)"
    and "db_legs (w_db s') = db_legs (w_db s)"
    and "map ob_core (db_outbox (w_db s')) = map ob_core (db_outbox (w_db s))"
  shows "db_write E s s'"
  by (rule db_writeI) (use assms keeps_outbox in simp_all)

lemma db_write_retry: "db_write E s (scheduleRetry i n e s)"
  by (rule db_write_outbox) simp_all

lemma db_write_trans: "db_write E a b \<Longrightarrow> db_write E b c \<Longrightarrow> db_write E a c"
  by (auto simp: db_write_def intro: keeps_trans)

lemma db_write_accept: "db_write E s (acceptBet i x k s)" "db_write E s (rejectBet i m k s)"
  unfolding acceptBet_def rejectBet_def
  by (rule db_writeI, simp, rule keeps_bet, simp, simp add: bet_terms_def,
      simp_all add: core_update core_outbox_image bet_ids_update bet_terms_def)+

lemma db_write_debit: "db_write E s (snd (debit_answer i b r ans s))"
  by (auto simp: debit_answer_def Let_def db_write_accept db_write_retry split: sum.split)

lemma db_write_deliver: "db_write E s (deliver_write e ans s)"
proof (cases ans)
  case (Inl x)
  then show ?thesis by (simp add: deliver_write_def db_write_retry)
next
  case (Inr x)
  show ?thesis
    by (rule db_write_outbox) (simp_all add: Inr deliver_write_def complete_outbox_def core_update)
qed

lemma db_write_retry_all: "db_write E s (retry_all e es s)"
proof (induction es arbitrary: s)
  case Nil
  show ?case by (simp add: retry_all_def db_write_def)
next
  case (Cons x es)
  show ?case
    using db_write_trans [OF db_write_retry Cons] by (simp add: retry_all_def)
qed

lemma db_write_flush: "db_write E s (flush_write b es ans s)"
proof (cases ans)
  case (Inl x)
  then show ?thesis by (simp add: flush_write_def db_write_retry_all)
next
  case (Inr x)
  show ?thesis by (rule db_write_outbox) (simp_all add: Inr flush_write_def core_update)
qed

lemma db_write_catalogue:
  assumes "same_book (w_db s) (w_db s')" and "w_wallet s' = w_wallet s"
  shows "db_write E s s'"
proof -
  have "map (\<lambda>r. ob_core (ob_still r)) (db_outbox (w_db s')) = map (\<lambda>r. ob_core (ob_still r)) (db_outbox (w_db s))"
    using assms(1) unfolding same_book_def by (metis (no_types, lifting) map_map comp_apply map_cong)
  then have o: "map ob_core (db_outbox (w_db s')) = map ob_core (db_outbox (w_db s))"
    by (simp add: ob_core_still)
  have "map (\<lambda>b. bet_id (bet_core b)) (db_bets (w_db s')) = map (\<lambda>b. bet_id (bet_core b)) (db_bets (w_db s))"
    using assms(1) unfolding same_book_def by (metis (no_types, lifting) map_map comp_apply map_cong)
  then have b: "map bet_id (db_bets (w_db s')) = map bet_id (db_bets (w_db s))" by simp
  show ?thesis
    by (rule db_writeI [OF assms(2) evolves_keeps [OF evolves_same_book [OF assms(1)]] o b])
       (use assms(1) in \<open>simp add: same_book_def\<close>)
qed

subsection \<open>Rows added\<close>

lemma find_bet_ex: "i \<in> bet_id ` set (db_bets d) \<Longrightarrow> \<exists>b. find_bet i d = Some b"
  using row_find_ex by (fastforce simp: find_bet_def get_by_def)

lemma db_write_create:
  assumes E: "ids_ok E" and c: "create_bet E user key q s = (res, s')"
  shows "db_write E s s'"
proof (cases "loose E (w_db s)")
  case False
  with c show ?thesis by (cases rule: create_bet_cases) (simp_all add: db_write_def)
next
  case True
  then have u: "unique_rows (w_db s)" by (simp add: loose_def)
  note k = evolves_keeps [OF evolves_create [OF u c]]
  from c show ?thesis
  proof (cases rule: create_bet_cases)
    case (failed e)
    with True show ?thesis by (simp add: db_write_def)
  next
    case (created legs)
    let ?n = "new_debit (env_gen E (w_seq s + 2)) (env_gen E (w_seq s + 1)) (uc_casinoGroupId user)
               (env_gen E (w_seq s)) (w_now s)"
    have old: "\<forall>r \<in> set (db_outbox (w_db s)). env_gen E (Suc (w_seq s)) \<noteq> ob_betId r"
    proof
      fix r assume "r \<in> set (db_outbox (w_db s))"
      with True obtain b where "find_bet (ob_betId r) (w_db s) = Some b"
        by (auto simp: loose_def loose_row_def)
      from find_bet_id [OF this] created(3) show "env_gen E (Suc (w_seq s)) \<noteq> ob_betId r"
        by (auto simp: placement_clash_def)
    qed
    have "unique_rows (w_db s')"
      using u created(3) old
      by (auto simp: created(4) unique_rows_def placement_clash_def new_bet_def new_debit_def ob_key_def)
    moreover have "loose_row E (w_db s') r" if "r \<in> set (db_outbox (w_db s))" for r
      using loose_row_keeps [OF k _ refl] True that by (simp add: loose_def)
    moreover have "loose_row E (w_db s') ?n"
    proof -
      have "\<exists>b. find_bet (env_gen E (Suc (w_seq s))) (w_db s') = Some b"
        by (rule find_bet_ex) (simp add: created(4) new_bet_def)
      with E show ?thesis by (simp add: loose_row_def new_debit_def ids_ok_def)
    qed
    ultimately have "loose E (w_db s')" by (simp add: loose_def created(4))
    with k show ?thesis by (simp add: db_write_def created(5))
  qed
qed

lemma credit_row_loose:
  assumes l: "loose E d" and b: "holds_bet d bet"
    and c: "create_outbox n (update_bet (bet_id bet) (settle_bet_row st payout now note)
              (set_leg_outcomes outs d)) = Inr d'"
    and n: "ob_betId n = bet_id bet" "ob_transactionCode n \<noteq> []" "ob_payload n = Some p"
      "st_transactionCode p = ob_transactionCode n" "st_userCode p = bet_username bet"
      "credit_text (env_dec E) bet (st_amount p)"
  shows "keeps d d'" and "loose E d'"
proof -
  let ?d2 = "update_bet (bet_id bet) (settle_bet_row st payout now note) (set_leg_outcomes outs d)"
  note c' = create_outbox_InrD [OF c]
  have terms: "bet_terms (settle_bet_row st payout now note b) = bet_terms b" for b
    by (simp add: settle_bet_row_def bet_terms_def)
  have "legs_of j d' = legs_of j (set_leg_outcomes outs d)" for j using c'(2) by (simp add: legs_of_def)
  then show k: "keeps d d'"
    by (intro keeps_bet [where i = "bet_id bet" and f = "settle_bet_row st payout now note"])
       (use c' terms in \<open>auto simp: update_bet_def\<close>)
  have key: "ob_key n \<notin> ob_key ` set (db_outbox d)"
    using c by (auto simp: create_outbox_def ob_key_def split: if_splits)
  have u: "unique_rows d'"
    using l c'(1-5) key bet_ids_update [OF terms]
    by (simp add: loose_def unique_rows_def)
  have "loose_row E d' r" if "r \<in> set (db_outbox d)" for r
    using loose_row_keeps [OF k _ refl] l that by (simp add: loose_def)
  moreover have "loose_row E d' n"
  proof -
    from holds_bet_keeps [OF k b] obtain b' where b': "find_bet (bet_id bet) d' = Some b'"
      "bet_terms b' = bet_terms bet" by (auto simp: holds_bet_def)
    from bet_terms_fields [OF b'(2)] b'(1) n show ?thesis by (simp add: loose_row_def credit_text_def)
  qed
  ultimately show "loose E d'" using u c'(3) by (simp add: loose_def)
qed

lemma db_write_credit:
  assumes j: "holds_bet (w_db s) bet" and w: "w_wallet s' = w_wallet s"
    and c: "create_outbox n (update_bet (bet_id bet) (settle_bet_row st payout now note)
              (set_leg_outcomes outs (w_db s))) = Inr d'"
    and d': "db_bets (w_db s') = db_bets d'" "db_legs (w_db s') = db_legs d'" "db_outbox (w_db s') = db_outbox d'"
    and n: "n = new_settlement_row oid bet type code batch t now" "code \<noteq> []"
    and t: "tx_transactionCode t = code" "tx_userCode t = bet_username bet"
      "credit_text (env_dec E) bet (tx_amount t)"
  shows "db_write E s s'"
proof (cases "loose E (w_db s)")
  case True
  have n': "ob_betId n = bet_id bet" "ob_transactionCode n \<noteq> []"
    "ob_payload n = Some (serializeWalletTransaction t)"
    "st_transactionCode (serializeWalletTransaction t) = ob_transactionCode n"
    "st_userCode (serializeWalletTransaction t) = bet_username bet"
    "credit_text (env_dec E) bet (st_amount (serializeWalletTransaction t))"
    using n t by (simp_all add: new_settlement_row_def serializeWalletTransaction_def)
  have "db_write E (s\<lparr>w_db := d'\<rparr>) s'"
    by (rule db_write_outbox) (use w d' in simp_all)
  moreover from credit_row_loose [OF True j c n'] have "db_write E s (s\<lparr>w_db := d'\<rparr>)"
    by (simp add: db_write_def)
  ultimately show ?thesis by (rule db_write_trans [rotated])
qed (simp add: db_write_def w)

lemma credit_text_payout:
  "credit_text L b ''0''"
  "credit_text L b (dl_show L (payoutForResult (bet_stake b) (bet_potentialPayout b) st))"
  by (simp_all add: credit_text_def payoutForResult_def)

lemma db_write_persist:
  assumes "job_ok E (w_db s) (Settle_write en)" and p: "persist_one E en batchId s = (res, s')"
  shows "db_write E s s'"
  using p
proof (cases rule: persist_one_cases)
  case (failed e)
  then show ?thesis by (simp add: db_write_def)
next
  case (persisted t d3)
  note tf = buildSettlementTransaction_fields [OF persisted(2)]
  show ?thesis
    by (rule db_write_credit [OF _ persisted(5,3) _ _ _ refl _ tf(4,1)])
       (use assms(1) persisted(4) tf(5) credit_text_payout in
        \<open>simp_all add: settlementTransactionCode_def uuid_shape_nonempty\<close>)
qed

lemma void_write_cases:
  assumes "void_write E g i reason staff bet legs t s = (res, s')"
  shows "w_db s' = w_db s \<and> w_wallet s' = w_wallet s \<or>
    (\<exists>d3. create_outbox (new_settlement_row (env_gen E (w_seq s)) bet WALLET_OUTBOX_STAFF_VOID
             (staffVoidTransactionCode E (bet_id bet)) None t (w_now s))
           (update_bet (bet_id bet) (settle_bet_row Bet_VOID (bet_stake bet) (w_now s)
               (Some (''Voided by staff: '' @ reason)))
             (set_leg_outcomes (map (\<lambda>l. (l, Leg_VOID)) legs) (w_db s))) = Inr d3 \<and>
         w_wallet s' = w_wallet s \<and> db_bets (w_db s') = db_bets d3 \<and>
         db_legs (w_db s') = db_legs d3 \<and> db_outbox (w_db s') = db_outbox d3)"
  using assms by (auto simp: void_write_def Let_def split: sum.splits)

lemma db_write_void:
  assumes j: "job_ok E (w_db s) (Void_write g i reason staff bet legs t)"
    and v: "void_write E g i reason staff bet legs t s = (res, s')"
  shows "db_write E s s'"
  using void_write_cases [OF v]
proof (elim disjE exE conjE)
  assume "w_db s' = w_db s" "w_wallet s' = w_wallet s"
  then show ?thesis by (simp add: db_write_def)
next
  fix d3
  assume c: "create_outbox (new_settlement_row (env_gen E (w_seq s)) bet WALLET_OUTBOX_STAFF_VOID
             (staffVoidTransactionCode E (bet_id bet)) None t (w_now s))
           (update_bet (bet_id bet) (settle_bet_row Bet_VOID (bet_stake bet) (w_now s)
               (Some (''Voided by staff: '' @ reason)))
             (set_leg_outcomes (map (\<lambda>l. (l, Leg_VOID)) legs) (w_db s))) = Inr d3"
    and f: "w_wallet s' = w_wallet s" "db_bets (w_db s') = db_bets d3" "db_legs (w_db s') = db_legs d3"
      "db_outbox (w_db s') = db_outbox d3"
  show ?thesis
    by (rule db_write_credit [OF _ f(1) c f(2-4) refl])
       (use j in \<open>simp_all add: credit_text_def staffVoidTransactionCode_def uuid_shape_nonempty\<close>)
qed

subsection \<open>Steps\<close>

text \<open>
  From ledger \<open>g\<close> and database \<open>d\<close> to \<open>g'\<close> and \<open>d'\<close>, with no condition on the progress of bets:
  what is recorded stays recorded, and the wallet applies only what rows describe.
\<close>

definition flows :: "env \<Rightarrow> (string \<Rightarrow> rat \<Rightarrow> rat) \<Rightarrow> ledger \<Rightarrow> db \<Rightarrow> ledger \<Rightarrow> db \<Rightarrow> bool" where
  "flows E credit g d g' d' \<longleftrightarrow>
     keeps d d' \<and> loose E d' \<and>
     (\<exists>ts. g' = foldl (apply_tx credit) g ts \<and> (\<forall>t \<in> set ts. records E d' t))"

lemma flowsI:
  assumes "keeps d d'" and "loose E d'" and "g' = foldl (apply_tx c) g ts" and "\<forall>t \<in> set ts. records E d' t"
  shows "flows E c g d g' d'"
  using assms unfolding flows_def by blast

lemma flows_same: "keeps d d' \<Longrightarrow> loose E d' \<Longrightarrow> flows E c g d g d'"
  by (rule flowsI [where ts = "[]"]) simp_all

lemma flows_write:
  "db_write E s s' \<Longrightarrow> loose E (w_db s) \<Longrightarrow> flows E c (v (w_wallet s)) (w_db s) (v (w_wallet s')) (w_db s')"
  by (simp add: db_write_def flows_same)

lemma flows_trans:
  assumes "flows E c g d g1 d1" and "flows E c g1 d1 g2 d2"
  shows "flows E c g d g2 d2"
proof -
  from assms(1) obtain ts where ts: "g1 = foldl (apply_tx c) g ts" "\<forall>t \<in> set ts. records E d1 t"
    by (auto simp: flows_def)
  from assms(2) obtain us where us: "g2 = foldl (apply_tx c) g1 us" "\<forall>t \<in> set us. records E d2 t"
    by (auto simp: flows_def)
  have k: "keeps d d1" "keeps d1 d2" "loose E d2" using assms by (simp_all add: flows_def)
  from ts(2) us(2) records_keeps [OF k(2)] have "\<forall>t \<in> set (ts @ us). records E d2 t" by auto
  with keeps_trans [OF k(1,2)] k(3) ts(1) us(1) show ?thesis
    by (intro flowsI [where ts = "ts @ us"]) simp_all
qed

lemma debit_read_job:
  assumes r: "debit_read E i s = (x, s')" and l: "loose E (w_db s)"
  shows "s' = s \<and> (\<forall>b r t. x = Inr (b, r, t) \<longrightarrow> records E (w_db s) t)"
proof (cases "find_bet i (w_db s)")
  case None
  with r show ?thesis by (auto simp: debit_read_def)
next
  case b: (Some b)
  show ?thesis
  proof (cases "find_outbox i WALLET_OUTBOX_DEBIT (w_db s)")
    case None
    with r b show ?thesis by (auto simp: debit_read_def split: if_splits)
  next
    case (Some ob)
    from l Some have ob: "ob \<in> set (db_outbox (w_db s))" "ob_betId ob = i" "ob_type ob = WALLET_OUTBOX_DEBIT"
      by (auto simp: loose_def find_outbox_row)
    with l have "ob_transactionCode ob \<noteq> []" by (simp add: loose_def loose_row_def)
    with r b Some have "s' = s \<and> (\<forall>b' r t. x = Inr (b', r, t) \<longrightarrow>
        buildBetDebitTransaction E b (legs_of i (w_db s)) (ob_transactionCode ob) = Inr t)"
      by (auto simp: debit_read_def ensure_code_def split: if_splits sum.splits)
    moreover have "records E (w_db s) t"
      if "buildBetDebitTransaction E b (legs_of i (w_db s)) (ob_transactionCode ob) = Inr t" for t
      using that ob b by (auto simp: records_def row_tx_def intro!: bexI [of _ ob])
    ultimately show ?thesis by blast
  qed
qed

lemma void_read_job:
  assumes r: "void_read E g i reason s = Inr (bet, legs, t)" and l: "loose E (w_db s)"
  shows "job_ok E (w_db s) (Void_write g i reason staff bet legs t)"
proof -
  from r obtain out p now where b: "find_group_bet g i (w_db s) = Some bet"
    and t: "buildSettlementTransaction E bet legs Bet_VOID (bet_stake bet)
             (staffVoidTransactionCode E (bet_id bet)) (w_now s) = Inr t"
    by (auto simp: void_read_def Let_def split: option.splits if_splits sum.splits)
  from find_group_bet_find [OF b] l have "holds_bet (w_db s) bet"
    by (auto simp: holds_bet_def loose_def)
  with buildSettlementTransaction_fields [OF t] show ?thesis by simp
qed

lemma records_row:
  "e \<in> set (db_outbox d) \<Longrightarrow> ob_type e \<noteq> WALLET_OUTBOX_DEBIT \<Longrightarrow> records E d (payload_tx e)"
  by (rule records_entry) (simp add: credit_entry_def)

context wallet_ledger begin

lemma begins_flows:
  assumes b: "begins E port s j s'" and l: "loose E (w_db s)"
  shows "flows E credit (view (w_wallet s)) (w_db s) (view (w_wallet s')) (w_db s')" and "job_ok E (w_db s') j"
proof -
  note same = flows_same [OF keeps_refl l]
  have "flows E credit (view (w_wallet s)) (w_db s) (view (w_wallet s')) (w_db s') \<and> job_ok E (w_db s') j"
    using b
  proof (cases rule: begins.cases)
    case (debit i b r t)
    from debit_read_job [OF this(2) l] same show ?thesis by (simp add: debit(1))
  next
    case (place user key ids stake q)
    from place(3) obtain ans w' where g: "wp_getBalance port (uc_username user) (uc_casinoGroupId user) (w_wallet s) = (ans, w')"
      and s': "s' = s\<lparr>w_wallet := w'\<rparr>"
      by (auto simp: place_read_def Let_def split: sum.splits prod.splits if_splits)
    with same balance_effect [OF g] show ?thesis by (simp add: place(1))
  next
    case (grade i en)
    from gradeBet_SomeD [OF grade(3)] same show ?thesis
      by (auto simp: grade(1,2) open_entry_def holds_bet_def)
  next
    case (void g i reason bet legs t staff)
    from void_read_job [OF void(3) l] same show ?thesis by (simp add: void(1,2))
  next
    case (deliver e)
    from records_row [OF deliver(3)] deliver(4) same show ?thesis
      by (simp add: deliver(1,2) outbox_due_def)
  next
    case (flush g b es)
    then obtain b0 anchor where es: "es = batch_entries g b0 s" and st: "batch_state E anchor es s = (b, s')"
      by (auto simp: flush_read_def Let_def split: list.splits prod.splits)
    note fr = batch_state_frame [OF st]
    have "db_write E s s'" by (rule db_write_outbox) (use fr in simp_all)
    note flows_write [OF this l, of credit view]
    moreover have "job_ok E (w_db s') (Flush_call g b es)"
      using records_entry [OF batch_entry_credit [OF _ fr(3)]] es by simp
    ultimately show ?thesis by (simp add: flush(1))
  qed
  then show "flows E credit (view (w_wallet s)) (w_db s) (view (w_wallet s')) (w_db s')" and "job_ok E (w_db s') j"
    by simp_all
qed

lemma flows_call:
  assumes l: "loose E d" and r: "\<forall>t \<in> set ts. records E d t"
    and g: "\<exists>n. g' = foldl (apply_tx credit) g (take n ts)"
  shows "flows E credit g d g' d"
proof -
  from g obtain n where "g' = foldl (apply_tx credit) g (take n ts)" by blast
  then show ?thesis
    by (rule flowsI [OF keeps_refl l]) (use r in \<open>auto dest: in_set_takeD\<close>)
qed

lemma post_take:
  "wp_postTransaction port t w = (ans, w') \<Longrightarrow> \<exists>n. view w' = foldl (apply_tx credit) (view w) (take n [t])"
  using post_effect [of t w ans w'] by (metis foldl_Cons foldl_Nil take0 take_Suc_Cons)

lemma advance_flows:
  assumes a: "advance E port batchId j s = (oj, s')" and l: "loose E (w_db s)" and j: "job_ok E (w_db s) j"
    and E: "ids_ok E"
  shows "flows E credit (view (w_wallet s)) (w_db s) (view (w_wallet s')) (w_db s')"
    and "oj = Some j' \<Longrightarrow> job_ok E (w_db s') j'"
proof -
  note wr = flows_write [OF _ l]
  have "flows E credit (view (w_wallet s)) (w_db s) (view (w_wallet s')) (w_db s') \<and>
      (oj = Some j' \<longrightarrow> job_ok E (w_db s') j')"
  proof (cases j)
    case (Debit_call i b r t)
    obtain ans w' where p: "wp_postTransaction port t (w_wallet s) = (ans, w')" by fastforce
    have "flows E credit (view (w_wallet s)) (w_db s) (view w') (w_db s)"
      by (rule flows_call [OF l _ post_take [OF p]]) (use j Debit_call in simp)
    with a Debit_call p show ?thesis by auto
  next
    case (Deliver_call e)
    obtain ans w' where p: "wp_postTransaction port (payload_tx e) (w_wallet s) = (ans, w')" by fastforce
    have "flows E credit (view (w_wallet s)) (w_db s) (view w') (w_db s)"
      by (rule flows_call [OF l _ post_take [OF p]]) (use j Deliver_call in simp)
    with a Deliver_call p show ?thesis by auto
  next
    case (Flush_call g b es)
    obtain ans w' where p: "wp_postTransactionBatch port g b (map payload_tx es) (w_wallet s) = (ans, w')" by fastforce
    have "flows E credit (view (w_wallet s)) (w_db s) (view w') (w_db s)"
      by (rule flows_call [OF l _ batch_effect [OF p]]) (use j Flush_call in simp)
    with a Flush_call p show ?thesis by auto
  next
    case (Debit_write i b r ans)
    with a wr [OF db_write_debit, where v = view] show ?thesis by auto
  next
    case (Place_write user key q)
    with a have c: "create_bet E user key q s = (fst (create_bet E user key q s), s')" and n: "oj = None" by auto
    from wr [OF db_write_create [OF E c]] n show ?thesis by simp
  next
    case (Settle_write en)
    with a have c: "persist_one E en batchId s = (fst (persist_one E en batchId s), s')" and n: "oj = None" by auto
    from wr [OF db_write_persist [OF j [unfolded Settle_write] c]] n show ?thesis by simp
  next
    case (Void_write g i reason staff bet legs t)
    with a have c: "void_write E g i reason staff bet legs t s =
        (fst (void_write E g i reason staff bet legs t s), s')" and n: "oj = None" by auto
    from wr [OF db_write_void [OF j [unfolded Void_write] c]] n show ?thesis by simp
  next
    case (Deliver_write e ans)
    with a wr [OF db_write_deliver, where v = view] show ?thesis by auto
  next
    case (Flush_write b es ans)
    with a wr [OF db_write_flush, where v = view] show ?thesis by auto
  qed
  then show "flows E credit (view (w_wallet s)) (w_db s) (view (w_wallet s')) (w_db s')"
    and "oj = Some j' \<Longrightarrow> job_ok E (w_db s') j'" by simp_all
qed

lemma istep_flows:
  assumes st: "istep E port s js s' js'" and E: "ids_ok E"
    and l: "loose E (w_db s)" and js: "\<forall>j \<in> set js. job_ok E (w_db s) j"
  shows "flows E credit (view (w_wallet s)) (w_db s) (view (w_wallet s')) (w_db s')"
    and "\<forall>j \<in> set js'. job_ok E (w_db s') j"
proof -
  let ?flows = "flows E credit (view (w_wallet s)) (w_db s) (view (w_wallet s')) (w_db s')"
  have kept: "job_ok E (w_db s') j" if "?flows" "j \<in> set js" for j
    using that js job_ok_keeps by (auto simp: flows_def)
  have "?flows \<and> (\<forall>j \<in> set js'. job_ok E (w_db s') j)"
    using st
  proof (cases rule: istep.cases)
    case (begin_job j)
    from begins_flows [OF begin_job(2) l] kept begin_job(1) show ?thesis by simp
  next
    case (next_piece batchId j j' xs ys)
    then have "job_ok E (w_db s) j" using js by simp
    from advance_flows [OF next_piece(3) l this E] kept next_piece(1,2) show ?thesis by auto
  next
    case (last_piece batchId j xs ys)
    then have "job_ok E (w_db s) j" using js by simp
    from advance_flows(1) [OF last_piece(3) l this E] kept last_piece(1,2) show ?thesis by auto
  next
    case (lost xs j ys)
    with js flows_same [OF keeps_refl l] show ?thesis by simp
  next
    case (no_debit i res)
    from debit_read_job [OF no_debit(2) l] js flows_same [OF keeps_refl l] show ?thesis
      by (simp add: no_debit(1))
  next
    case (balance u g ans w')
    with js flows_same [OF keeps_refl l] balance_effect [OF balance(3)] show ?thesis by simp
  next
    case catalogue
    note w = db_write_catalogue [OF catalogue(2,3)]
    from flows_write [OF w l, of credit view] kept catalogue(1) show ?thesis by simp
  qed
  then show "flows E credit (view (w_wallet s)) (w_db s) (view (w_wallet s')) (w_db s')"
    and "\<forall>j \<in> set js'. job_ok E (w_db s') j" by simp_all
qed

lemma ireach_flows:
  assumes R: "ireach E port s0 js0 s js" and E: "ids_ok E"
    and l: "loose E (w_db s0)" and js: "\<forall>j \<in> set js0. job_ok E (w_db s0) j"
  shows "flows E credit (view (w_wallet s0)) (w_db s0) (view (w_wallet s)) (w_db s) \<and>
    (\<forall>j \<in> set js. job_ok E (w_db s) j)"
  using R
proof (induction rule: ireach.induct)
  case istart
  with js flows_same [OF keeps_refl l] show ?case by simp
next
  case (imore s js s' js')
  then have l': "loose E (w_db s)" by (simp add: flows_def)
  note step = istep_flows [OF imore.hyps(2) E l' conjunct2 [OF imore.IH]]
  from flows_trans [OF conjunct1 [OF imore.IH] step(1)] step(2) show ?case by simp
qed

end

subsection \<open>The ledger of overlapping runs\<close>

text \<open>The amount of a row: the stake of its bet, or what its own transaction carries.\<close>

definition row_amount :: "env \<Rightarrow> db \<Rightarrow> outbox_row \<Rightarrow> rat" where
  "row_amount E d r =
     (if ob_type r = WALLET_OUTBOX_DEBIT
      then (case find_bet (ob_betId r) d of None \<Rightarrow> 0 | Some b \<Rightarrow> - bet_stake b)
      else (case dl_parse (env_dec E) (tx_amount (payload_tx r)) of None \<Rightarrow> 0 | Some x \<Rightarrow> x))"

lemma credit_text_value:
  assumes "dec_lib_ok L" and "credit_text L b a" and "exact20 (bet_stake b)" and "exact20 (bet_potentialPayout b)"
  shows "\<exists>x \<in> {0, bet_stake b, bet_potentialPayout b}. dl_parse L a = Some x"
proof -
  note ok = dec_lib_okD [OF assms(1)]
  have "exact20 0" by simp
  with ok(1) ok(11) assms(2-4) show ?thesis by (auto simp: credit_text_def)
qed

lemma loose_row_tx:
  assumes l: "loose_row E d r" and b: "find_bet (ob_betId r) d = Some b" and L: "dec_lib_ok (env_dec E)"
    and ex: "exact20 (bet_stake b)" "0 \<le> bet_stake b" "exact20 (bet_potentialPayout b)"
  shows "ob_type r = WALLET_OUTBOX_DEBIT \<Longrightarrow> row_amount E d r = - bet_stake b"
    and "ob_type r \<noteq> WALLET_OUTBOX_DEBIT \<Longrightarrow> row_amount E d r \<in> {0, bet_stake b, bet_potentialPayout b}"
    and "row_tx E d r = Inr t \<Longrightarrow> tx_transactionCode t = ob_transactionCode r \<and>
      tx_userCode t = row_owner d r \<and> dl_parse (env_dec E) (tx_amount t) = Some (row_amount E d r)"
proof -
  show "row_amount E d r = - bet_stake b" if "ob_type r = WALLET_OUTBOX_DEBIT"
    using that b by (simp add: row_amount_def)
  have credit: "tx_transactionCode (payload_tx r) = ob_transactionCode r \<and>
      tx_userCode (payload_tx r) = bet_username b \<and>
      row_amount E d r \<in> {0, bet_stake b, bet_potentialPayout b} \<and>
      dl_parse (env_dec E) (tx_amount (payload_tx r)) = Some (row_amount E d r)"
    if ty: "ob_type r \<noteq> WALLET_OUTBOX_DEBIT"
  proof -
    from l b ty obtain p where p: "ob_payload r = Some p" "st_transactionCode p = ob_transactionCode r"
      "st_userCode p = bet_username b" "credit_text (env_dec E) b (st_amount p)"
      by (auto simp: loose_row_def)
    from credit_text_value [OF L p(4) ex(1,3)] p(1-3) ty show ?thesis
      by (auto simp: row_amount_def payload_tx_def deserializeWalletTransaction_def)
  qed
  then show "row_amount E d r \<in> {0, bet_stake b, bet_potentialPayout b}" if "ob_type r \<noteq> WALLET_OUTBOX_DEBIT"
    using that by blast
  show "tx_transactionCode t = ob_transactionCode r \<and> tx_userCode t = row_owner d r \<and>
      dl_parse (env_dec E) (tx_amount t) = Some (row_amount E d r)" if t: "row_tx E d r = Inr t"
  proof (cases "ob_type r = WALLET_OUTBOX_DEBIT")
    case True
    with t b have "buildBetDebitTransaction E b (legs_of (ob_betId r) d) (ob_transactionCode r) = Inr t"
      by (simp add: row_tx_def)
    from buildBetDebitTransaction_fields [OF this] True b dec_lib_okD(2) [OF L ex(1,2)]
    show ?thesis by (simp add: row_owner_def row_amount_def)
  next
    case False
    with t credit b show ?thesis by (simp add: row_tx_def row_owner_def)
  qed
qed

lemma empty_book_loose: "empty_book s \<Longrightarrow> loose E (w_db s)"
  by (simp add: empty_book_def loose_def unique_rows_def)

lemma exact_bet:
  "amounts_exact d \<Longrightarrow> find_bet i d = Some b \<Longrightarrow>
   exact20 (bet_stake b) \<and> 0 \<le> bet_stake b \<and> exact20 (bet_potentialPayout b)"
  using find_bet_id by (fastforce simp: amounts_exact_def)

context wallet_ledger begin

lemma interleaved_loose:
  assumes "ireach E port s0 [] s js" and "ids_ok E" and "empty_book s0"
  shows "loose E (w_db s)"
  using ireach_flows [OF assms(1,2) empty_book_loose [OF assms(3)]] by (simp add: flows_def)

lemma interleaved_equation:
  assumes R: "ireach E port s0 [] s js" and E: "ids_ok E" and L: "dec_lib_ok (env_dec E)"
    and init: "empty_book s0" "snd (view (w_wallet s0)) = {}"
    and C: "credit_adds E credit" and X: "amounts_exact (w_db s)"
  shows "fst (view (w_wallet s)) u = fst (view (w_wallet s0)) u +
    (\<Sum>r\<leftarrow>filter (\<lambda>r. ob_transactionCode r \<in> snd (view (w_wallet s)) \<and> row_owner (w_db s) r = u)
        (db_outbox (w_db s)). row_amount E (w_db s) r)"
proof -
  note l = interleaved_loose [OF R E init(1)]
  obtain ts where ts: "view (w_wallet s) = foldl (apply_tx credit) (view (w_wallet s0)) ts"
    "\<forall>t \<in> set ts. records E (w_db s) t"
    using ireach_flows [OF R E empty_book_loose [OF init(1)]] by (auto simp: flows_def)
  show ?thesis
  proof (rule ledger_sum [OF ts init(2)])
    show "distinct (map ob_transactionCode (db_outbox (w_db s)))"
      using l by (simp add: loose_def unique_rows_def)
  next
    fix r t assume r: "r \<in> set (db_outbox (w_db s))" and t: "row_tx E (w_db s) r = Inr t"
    from l r have lr: "loose_row E (w_db s) r" by (simp add: loose_def)
    then obtain b where b: "find_bet (ob_betId r) (w_db s) = Some b" by (auto simp: loose_row_def)
    from exact_bet [OF X b] have ex: "exact20 (bet_stake b)" "0 \<le> bet_stake b" "exact20 (bet_potentialPayout b)"
      by simp_all
    from loose_row_tx(3) [OF lr b L ex t] C
    show "tx_transactionCode t = ob_transactionCode r \<and> tx_userCode t = row_owner (w_db s) r \<and>
      (\<forall>x. credit (tx_amount t) x = x + row_amount E (w_db s) r)"
      by (auto simp: credit_adds_def)
  qed
qed

lemma interleaved_amounts:
  assumes R: "ireach E port s0 [] s js" and E: "ids_ok E" and L: "dec_lib_ok (env_dec E)"
    and init: "empty_book s0" and X: "amounts_exact (w_db s)" and r: "r \<in> set (db_outbox (w_db s))"
  shows "\<exists>b. find_bet (ob_betId r) (w_db s) = Some b \<and>
    (if ob_type r = WALLET_OUTBOX_DEBIT then row_amount E (w_db s) r = - bet_stake b
     else row_amount E (w_db s) r \<in> {0, bet_stake b, bet_potentialPayout b})"
proof -
  from interleaved_loose [OF R E init] r have lr: "loose_row E (w_db s) r" by (simp add: loose_def)
  then obtain b where b: "find_bet (ob_betId r) (w_db s) = Some b" by (auto simp: loose_row_def)
  from exact_bet [OF X b] have ex: "exact20 (bet_stake b)" "0 \<le> bet_stake b" "exact20 (bet_potentialPayout b)"
    by simp_all
  from loose_row_tx(1,2) [OF lr b L ex] b show ?thesis by simp
qed

end

end
