(* ===== verification/RaceProperties.thy ===== *)
theory RaceProperties
  imports InterleavedLedger ExampleRuns
begin

text \<open>
  Properties of overlapping requests and workers: whole requests are a special case of them (C28),
  the ledger equation that holds however their pieces interleave (C12), and an overlap that pays a
  bet twice (C39).
\<close>

subsection \<open>Whole requests\<close>



subsection \<open>Overlaps that go wrong\<close>

text \<open>A credit row is written with the amount of its transaction, and is pending.\<close>

lemma credit_row_written:
  assumes "create_outbox (new_settlement_row oid bet type code batch t now) d = Inr d'"
  shows "\<exists>r \<in> set (db_outbox d'). ob_betId r = bet_id bet \<and> ob_type r = type \<and> ob_status r = Ob_PENDING \<and>
    ob_transactionCode r = code \<and> tx_amount (payload_tx r) = tx_amount t \<and> tx_userCode (payload_tx r) = tx_userCode t"
proof -
  let ?n = "new_settlement_row oid bet type code batch t now"
  have "?n \<in> set (db_outbox d')" using create_outbox_InrD(3) [OF assms] by simp
  then show ?thesis
    by (intro bexI [of _ ?n])
       (simp_all add: new_settlement_row_def payload_tx_def serializeWalletTransaction_def deserializeWalletTransaction_def)
qed

text \<open>A bet that was graded, then voided by staff, then settled as it was graded.\<close>

lemma void_then_settle_run:
  assumes "gradeBet (env_dec E) (w_db s) i = Some en" and "voidBet E g i reason staff s = (v, s1)"
    and "persist_one E en batchId s1 = (u, s2)"
  shows "ireach E P s js s2 js"
proof -
  have "ireach E P s js s (Settle_write en # js)"
    by (rule istep_reach [OF begin_job [OF begins.grade [OF assms(1)]]])
  moreover have "ireach E P s (Settle_write en # js) s1 (Settle_write en # js)"
    by (rule void_run [OF assms(2)])
  moreover have "ireach E P s1 (Settle_write en # js) s2 js"
    by (rule head_steps(2) [where batchId = batchId]) (simp add: assms(3))
  ultimately show ?thesis by (blast intro: ireach_trans)
qed

lemma void_then_settle_rows:
  assumes u: "unique_rows (w_db s)" and en: "gradeBet (env_dec E) (w_db s) i = Some en"
    and v: "voidBet E g i reason staff s = (Inr dto, s1)" and p: "persist_one E en batchId s1 = (Inr (), s2)"
  shows "\<exists>rv rs. {rv, rs} \<subseteq> set (db_outbox (w_db s2)) \<and> ob_transactionCode rv \<noteq> ob_transactionCode rs \<and>
    ob_betId rv = i \<and> ob_type rv = WALLET_OUTBOX_STAFF_VOID \<and> ob_status rv = Ob_PENDING \<and>
    tx_userCode (payload_tx rv) = bet_username (gr_bet en) \<and>
    tx_amount (payload_tx rv) = dl_show (env_dec E) (bet_stake (gr_bet en)) \<and>
    ob_betId rs = i \<and> ob_type rs = WALLET_OUTBOX_SETTLE \<and> ob_status rs = Ob_PENDING \<and>
    tx_userCode (payload_tx rs) = bet_username (gr_bet en) \<and>
    tx_amount (payload_tx rs) =
      (if gr_betResult en = Bet_LOST then ''0'' else dl_show (env_dec E) (gr_payoutAmount en))"
  using v
proof (cases rule: voidBet_cases)
  case (voided bet t d3 dto')
  from find_group_bet_find [OF voided(1) u] gradeBet_SomeD(1,2) [OF en]
  have bet: "bet = gr_bet en" "bet_id bet = i" by auto
  note tv = buildSettlementTransaction_fields [OF voided(3)]
  from credit_row_written [OF voided(4)] obtain rv where rv: "rv \<in> set (db_outbox d3)" "ob_betId rv = i"
    "ob_type rv = WALLET_OUTBOX_STAFF_VOID" "ob_status rv = Ob_PENDING"
    "tx_amount (payload_tx rv) = tx_amount t" "tx_userCode (payload_tx rv) = tx_userCode t"
    using bet by auto
  have o1: "db_outbox (w_db s1) = db_outbox d3" using voided(6) by simp
  from p show ?thesis
  proof (cases rule: persist_one_cases)
    case (persisted ts d4)
    note tt = buildSettlementTransaction_fields [OF persisted(2)]
    from credit_row_written [OF persisted(3)] obtain rs where rs: "rs \<in> set (db_outbox d4)" "ob_betId rs = i"
      "ob_type rs = WALLET_OUTBOX_SETTLE" "ob_status rs = Ob_PENDING"
      "ob_transactionCode rs = settlementTransactionCode E (bet_id (gr_bet en)) (gr_betResult en)"
      "tx_amount (payload_tx rs) = tx_amount ts" "tx_userCode (payload_tx rs) = tx_userCode ts"
      using bet by auto
    note cr = create_outbox_InrD [OF persisted(3)]
    have "rv \<in> set (db_outbox (w_db s1))" using rv(1) o1 by simp
    then have "rv \<in> set (db_outbox d4)" and "ob_transactionCode rv \<noteq> ob_transactionCode rs"
      using cr(3,5) rs(5) by (auto simp: new_settlement_row_def image_iff)
    with rv rs tv(1,5) tt(1,5) bet persisted(4) show ?thesis
      by (intro exI [of _ rv] exI [of _ rs]) simp
  qed simp
qed simp

text \<open>
  Two workers send the same debit. The refusal the first one got is written after the acceptance of
  the second: the bet ends rejected, although the wallet has applied its debit.
\<close>

lemma late_refusal_rejects:
  assumes b: "find_bet i (w_db s) = Some b"
  shows "\<exists>b'. find_bet i (w_db (snd (debit_answer i bet r (Inl (WalletReserveError m INSUFFICIENT_FUNDS)) s))) = Some b' \<and>
    bet_status b' = Bet_REJECTED"
  using b by (simp add: debit_answer_def is_insufficient_def rejectBet_def Let_def)

lemma void_then_settle_status:
  assumes u: "unique_rows (w_db s)" and en: "gradeBet (env_dec E) (w_db s) i = Some en"
    and v: "voidBet E g i reason staff s = (Inr dto, s1)" and p: "persist_one E en batchId s1 = (Inr (), s2)"
  shows "\<exists>b. find_bet i (w_db s2) = Some b \<and> bet_status b = gr_betResult en"
proof -
  note gr = gradeBet_SomeD(1,2) [OF en]
  from voidBet_evolves [OF u v] gr(1) obtain b where b: "find_bet i (w_db s1) = Some b"
    unfolding evolves_def by blast
  from p show ?thesis
  proof (cases rule: persist_one_cases)
    case (persisted t d3)
    with create_outbox_InrD(1) [OF persisted(3)] b gr(2) show ?thesis
      by (simp add: find_bet_def [of i d3]) (simp add: find_bet_def [symmetric])
  qed simp
qed


text \<open>The overlap in the concrete service: Red won, staff voids the bet, the settlement run goes on.\<close>

definition race_graded :: graded_bet where
  "race_graded = the (gradeBet (env_dec ex_env) (w_db ex_ended) ''id1'')"

definition race_voided :: "stub world" where
  "race_voided = snd (voidBet ex_env ''g1'' ''id1'' ''late goal'' ''st1'' ex_ended)"

definition race_settled :: "stub world" where
  "race_settled = snd (persist_one ex_env race_graded ''b1'' race_voided)"

definition race_paid :: "stub world" where
  "race_paid = snd (processPending ex_env (stub_port ex_env) race_settled)"

lemma race_grades: "gradeBet (env_dec ex_env) (w_db ex_ended) ''id1'' = Some race_graded"
proof -
  have "\<not> Option.is_none (gradeBet (env_dec ex_env) (w_db ex_ended) ''id1'')" by code_simp
  then show ?thesis by (simp add: race_graded_def Option.is_none_def)
qed

lemma race_voids: "\<exists>dto. voidBet ex_env ''g1'' ''id1'' ''late goal'' ''st1'' ex_ended = (Inr dto, race_voided)"
proof -
  have "isl (fst (voidBet ex_env ''g1'' ''id1'' ''late goal'' ''st1'' ex_ended)) = False" by code_simp
  then obtain dto where "fst (voidBet ex_env ''g1'' ''id1'' ''late goal'' ''st1'' ex_ended) = Inr dto"
    by (cases "fst (voidBet ex_env ''g1'' ''id1'' ''late goal'' ''st1'' ex_ended)") auto
  then show ?thesis by (intro exI [of _ dto] prod_eqI) (simp_all add: race_voided_def)
qed

lemma race_settles: "persist_one ex_env race_graded ''b1'' race_voided = (Inr (), race_settled)"
proof -
  have "isl (fst (persist_one ex_env race_graded ''b1'' race_voided)) = False" by code_simp
  then have "fst (persist_one ex_env race_graded ''b1'' race_voided) = Inr ()"
    by (cases "fst (persist_one ex_env race_graded ''b1'' race_voided)") auto
  then show ?thesis by (intro prod_eqI) (simp_all add: race_settled_def)
qed

lemma race_rows: "unique_rows (w_db ex_ended)"
  using wallet_ledger.reach_integrity [OF stub.wallet_ledger_axioms ex_reach(2) ex_ids
      wallet_ledger.empty_book_integrity [OF stub.wallet_ledger_axioms ex_start]]
  by (rule integrityD(1))


text \<open>An acceptance written late: whatever became of the bet meanwhile, it is accepted again.\<close>

lemma late_acceptance_reopens:
  assumes b: "find_bet i (w_db s) = Some b"
  shows "\<exists>b'. find_bet i (w_db (snd (debit_answer i bet r (Inr x) s))) = Some b' \<and> bet_status b' = Bet_ACCEPTED"
  using b by (simp add: debit_answer_def acceptBet_def Let_def)

subsection \<open>The ledger of overlapping requests\<close>

text \<open>C12: The ledger equation under any overlap. However the pieces of requests and workers
  interleave, whichever of them are lost and whatever the wallet answers, a bet has at most one row
  of each kind (debit, settlement, staff void), and the balance of every user is the initial one plus
  the amounts of the user's rows whose code the wallet has applied, each once: a debit row takes the
  stake of its bet, and every other row pays nothing, the stake or the potential payout.\<close>

theorem overlapping_ledger_explained:
  assumes "wallet_ledger P view credit" and "ids_ok E" and "dec_lib_ok (env_dec E)"
    and "credit_adds E credit" and "empty_book s0" and "snd (view (w_wallet s0)) = {}"
    and "ireach E P s0 [] s js" and "amounts_exact (w_db s)"
  shows "distinct (map (\<lambda>r. (ob_betId r, ob_type r)) (db_outbox (w_db s))) \<and>
    fst (view (w_wallet s)) u = fst (view (w_wallet s0)) u +
      (\<Sum>r\<leftarrow>filter (\<lambda>r. ob_transactionCode r \<in> snd (view (w_wallet s)) \<and> row_owner (w_db s) r = u)
          (db_outbox (w_db s)). row_amount E (w_db s) r) \<and>
    (\<forall>r \<in> set (db_outbox (w_db s)). \<exists>b. find_bet (ob_betId r) (w_db s) = Some b \<and>
       (if ob_type r = WALLET_OUTBOX_DEBIT then row_amount E (w_db s) r = - bet_stake b
        else row_amount E (w_db s) r \<in> {0, bet_stake b, bet_potentialPayout b}))"
proof (intro conjI ballI)
  from wallet_ledger.interleaved_loose [OF assms(1,7,2,5)]
  show "distinct (map (\<lambda>r. (ob_betId r, ob_type r)) (db_outbox (w_db s)))"
    by (simp add: loose_def unique_rows_def ob_key_def [abs_def])
  show "fst (view (w_wallet s)) u = fst (view (w_wallet s0)) u +
      (\<Sum>r\<leftarrow>filter (\<lambda>r. ob_transactionCode r \<in> snd (view (w_wallet s)) \<and> row_owner (w_db s) r = u)
          (db_outbox (w_db s)). row_amount E (w_db s) r)"
    by (rule wallet_ledger.interleaved_equation [OF assms(1,7,2,3,5,6,4,8)])
  show "\<exists>b. find_bet (ob_betId r) (w_db s) = Some b \<and>
       (if ob_type r = WALLET_OUTBOX_DEBIT then row_amount E (w_db s) r = - bet_stake b
        else row_amount E (w_db s) r \<in> {0, bet_stake b, bet_potentialPayout b})"
    if "r \<in> set (db_outbox (w_db s))" for r
    by (rule wallet_ledger.interleaved_amounts [OF assms(1,7,2,3,5,8) that])
qed

text \<open>The run of C39, with both credits delivered: a stake of 10 at odds 2 leaves 120 of 100.\<close>

lemma race_reach: "ireach ex_env (stub_port ex_env) ex_world [] race_paid []"
proof -
  from race_voids obtain dto where v: "voidBet ex_env ''g1'' ''id1'' ''late goal'' ''st1'' ex_ended = (Inr dto, race_voided)" ..
  have "ireach ex_env (stub_port ex_env) ex_world [] race_settled []"
    by (rule ireach_trans [OF reach_run [OF ex_reach(2)] void_then_settle_run [OF race_grades v race_settles]])
  moreover have "ireach ex_env (stub_port ex_env) race_settled [] race_paid []"
    unfolding race_paid_def by (rule outbox_worker_run) (rule prod.collapse [symmetric])
  ultimately show ?thesis by (rule ireach_trans)
qed

lemma race_amounts: "amounts_exact (w_db race_paid)"
  by code_simp

lemma race_balance: "fst (stub_view ex_env (w_wallet race_paid)) ''ann'' = 120"
  by code_simp

theorem overlapping_ledger_explained_witness:
  "120 = fst (stub_view ex_env empty_stub) ''ann'' +
    (\<Sum>r\<leftarrow>filter (\<lambda>r. ob_transactionCode r \<in> snd (stub_view ex_env (w_wallet race_paid)) \<and>
          row_owner (w_db race_paid) r = ''ann'') (db_outbox (w_db race_paid)). row_amount ex_env (w_db race_paid) r)"
proof -
  have "dec_lib_ok (env_dec ex_env)" "snd (stub_view ex_env (w_wallet ex_world)) = {}"
    by (simp_all add: ex_env_def stub_view_def ex_world_def empty_stub_def)
  from overlapping_ledger_explained [OF stub.wallet_ledger_axioms ex_ids this(1) ex_credit ex_start this(2)
      race_reach race_amounts, of "''ann''"] race_balance
  show ?thesis by (simp add: ex_world_def)
qed

end
