(* ===== verification/BettingProperties.thy ===== *)
theory BettingProperties
  imports BetIntegrity Example
begin

text \<open>
  What a placement promises: which requests are accepted, the limits an accepted quote keeps, and
  that repeating a request changes nothing but the delivery of its debit.
\<close>

subsection \<open>Which requests are accepted\<close>

text \<open>
  A catalogue without dangling references, as the foreign keys of the schema keep it, and with
  distinct selection ids, as the primary key keeps them.
\<close>

definition catalogue_whole :: "db \<Rightarrow> bool" where
  "catalogue_whole d \<longleftrightarrow> distinct (map sl_id (db_selections d)) \<and>
     (\<forall>x \<in> set (db_selections d). load_selection d x \<noteq> None)"

definition selected :: "db \<Rightarrow> string list \<Rightarrow> selection_row list" where
  "selected d ids = row_filter (\<lambda>x. sl_id x \<in> set ids) (db_selections d)"

text \<open>The rule a request is accepted by.\<close>

definition placeable :: "env \<Rightarrow> string \<Rightarrow> string list \<Rightarrow> rat \<Rightarrow> db \<Rightarrow> bool" where
  "placeable E g ids stake d \<longleftrightarrow>
     distinct ids \<and>
     (\<forall>i \<in> set ids. \<exists>x \<in> set (db_selections d). sl_id x = i \<and>
        (\<exists>c. load_selection d x = Some c \<and> backable d g c)) \<and>
     (\<exists>minStake maxStake maxPayout.
        dl_parse (env_dec E) (env_BET_MIN_STAKE E) = Some minStake \<and>
        dl_parse (env_dec E) (env_BET_MAX_STAKE E) = Some maxStake \<and>
        dl_parse (env_dec E) (env_BET_MAX_PAYOUT E) = Some maxPayout \<and>
        minStake \<le> stake \<and> stake \<le> maxStake \<and>
        potentialPayout (env_dec E) stake
          (combinedOddsFromPrices (env_dec E) (map sl_price (selected d ids))) \<le> maxPayout)"

lemma load_selection_id: "load_selection d x = Some c \<Longrightarrow> sc_selection c = x"
  by (auto simp: load_selection_def split: Option.bind_splits)

lemma all_backable_legs:
  "(\<exists>legs. validate_legs L d g cs = Inr legs) \<longleftrightarrow> (\<forall>c \<in> set cs. backable d g c)"
proof (induction cs)
  case (Cons c cs)
  then show ?case using validate_leg_Inr_iff [of L d g c]
    by (cases "validate_leg L d g c") (auto split: sum.splits)
qed simp

lemma map_filter_total: "(\<forall>x \<in> set xs. f x \<noteq> None) \<Longrightarrow> List.map_filter f xs = map (the \<circ> f) xs"
  by (induction xs) (auto simp: List.map_filter_simps)

lemma read_whole:
  assumes "catalogue_whole d"
  shows "read_selections d ids = map (the \<circ> load_selection d) (selected d ids)"
  unfolding read_selections_def selected_def
  by (rule map_filter_total) (use assms in \<open>auto simp: catalogue_whole_def\<close>)

lemma selected_ids:
  assumes "catalogue_whole d" and "distinct ids"
  shows "length (selected d ids) = length ids \<longleftrightarrow> set ids \<subseteq> sl_id ` set (db_selections d)"
proof -
  have d: "distinct (map sl_id (selected d ids))"
    using assms(1) by (simp add: catalogue_whole_def selected_def row_filter_def distinct_map_filter)
  have s: "sl_id ` set (selected d ids) = set ids \<inter> sl_id ` set (db_selections d)"
    by (auto simp: selected_def)
  have "length (selected d ids) = card (set ids \<inter> sl_id ` set (db_selections d))"
    using distinct_card [OF d] s by simp
  then show ?thesis
    using card_subset_eq [of "set ids" "set ids \<inter> sl_id ` set (db_selections d)"]
      distinct_card [OF assms(2)]
    by (auto simp: Int_absorb2)
qed

lemma validated_prices:
  assumes "validate_legs L d g cs = Inr legs"
  shows "map vl_price legs = map (sl_price \<circ> sc_selection) cs"
  using validate_legs_Inr [OF assms] by (induction rule: list_all2_induct) (auto simp: validate_leg_fields)

text \<open>C7: Which requests are accepted. Over a catalogue without dangling references, a request is
  quoted exactly when its selections are distinct, each exists, is open in an open market of an
  event that is scheduled or live in a league the tenant offers, the stake lies within the
  configured bounds, and the potential payout does not exceed the configured maximum.\<close>

theorem placement_accepted_iff:
  assumes w: "catalogue_whole d" and p: "dl_parse (env_dec E) raw = Some stake"
  shows "(\<exists>q. validatePlacement E g ids raw d = Inr q) \<longleftrightarrow> placeable E g ids stake d"
proof
  assume "\<exists>q. validatePlacement E g ids raw d = Inr q"
  then obtain q where "validatePlacement E g ids raw d = Inr q" by blast
  then show "placeable E g ids stake d"
  proof (cases rule: validatePlacement_InrD)
    case (1 minStake maxStake maxPayout)
    have present: "set ids \<subseteq> sl_id ` set (db_selections d)"
      using selected_ids [OF w 1(1)] 1(9) read_whole [OF w, of ids] by simp
    have bk: "\<forall>c \<in> set (read_selections d ids). backable d g c"
      using validate_legs_backable [OF 1(10)] .
    have "\<exists>x \<in> set (db_selections d). sl_id x = i \<and> (\<exists>c. load_selection d x = Some c \<and> backable d g c)"
      if i: "i \<in> set ids" for i
    proof -
      from present i obtain x where x: "x \<in> set (db_selections d)" "sl_id x = i" by auto
      with w obtain c where c: "load_selection d x = Some c" by (auto simp: catalogue_whole_def)
      from x i have "x \<in> set (selected d ids)" by (simp add: selected_def)
      with bk c read_whole [OF w, of ids] have "backable d g c" by force
      with x c show ?thesis by blast
    qed
    moreover have "map vl_price (q_legs q) = map sl_price (selected d ids)"
      using validated_prices [OF 1(10)] read_whole [OF w, of ids] w
      by (auto simp: catalogue_whole_def selected_def load_selection_id)
    ultimately show ?thesis using 1 p unfolding placeable_def by auto
  qed
next
  assume ok: "placeable E g ids stake d"
  then obtain minStake maxStake maxPayout where lim:
      "dl_parse (env_dec E) (env_BET_MIN_STAKE E) = Some minStake"
      "dl_parse (env_dec E) (env_BET_MAX_STAKE E) = Some maxStake"
      "dl_parse (env_dec E) (env_BET_MAX_PAYOUT E) = Some maxPayout"
      "minStake \<le> stake" "stake \<le> maxStake"
      "potentialPayout (env_dec E) stake
         (combinedOddsFromPrices (env_dec E) (map sl_price (selected d ids))) \<le> maxPayout"
    and di: "distinct ids"
    and sel: "\<And>i. i \<in> set ids \<Longrightarrow> \<exists>x \<in> set (db_selections d). sl_id x = i \<and>
        (\<exists>c. load_selection d x = Some c \<and> backable d g c)"
    unfolding placeable_def by blast
  from sel have "set ids \<subseteq> sl_id ` set (db_selections d)" by force
  with selected_ids [OF w di] read_whole [OF w, of ids]
  have len: "length (read_selections d ids) = length ids" by simp
  have uniq: "x = y" if "x \<in> set (db_selections d)" "y \<in> set (db_selections d)" "sl_id x = sl_id y" for x y
    using w that by (auto simp: catalogue_whole_def distinct_map inj_on_def)
  have "\<forall>c \<in> set (read_selections d ids). backable d g c"
  proof
    fix c assume "c \<in> set (read_selections d ids)"
    then obtain x where x: "x \<in> set (db_selections d)" "sl_id x \<in> set ids" "c = the (load_selection d x)"
      using read_whole [OF w, of ids] by (auto simp: selected_def)
    with sel [OF x(2)] uniq [of x] show "backable d g c" by force
  qed
  then obtain legs where legs: "validate_legs (env_dec E) d g (read_selections d ids) = Inr legs"
    using all_backable_legs [of "env_dec E" d g "read_selections d ids"] by blast
  have prices: "map vl_price legs = map sl_price (selected d ids)"
    using validated_prices [OF legs] read_whole [OF w, of ids] w
    by (auto simp: catalogue_whole_def selected_def load_selection_id)
  have r: "remdups ids = ids" using di by (simp add: distinct_remdups_id)
  show "\<exists>q. validatePlacement E g ids raw d = Inr q"
    using lim p len legs prices
    by (auto simp: validatePlacement_def parse_decimal_def Let_def r)
qed

lemma ex_quote:
  "\<not> isl (validatePlacement ex_env ''g1'' [''x1''] ''10.00'' (w_db ex_world))"
  "dl_parse (env_dec ex_env) ''10.00'' = Some 10"
  "catalogue_whole (w_db ex_world)"
  by code_simp+

lemma not_isl_ex: "\<not> isl x \<Longrightarrow> \<exists>q. x = Inr q"
  by (cases x) simp_all

theorem placement_accepted_iff_witness:
  "placeable ex_env ''g1'' [''x1''] 10 (w_db ex_world)"
  by (rule placement_accepted_iff [OF ex_quote(3) ex_quote(2), THEN iffD1]) (rule not_isl_ex [OF ex_quote(1)])

subsection \<open>The limits of a quote\<close>

text \<open>C8: The bounds of a quote. An accepted quote has one leg per requested selection, a stake
  within the configured bounds, combined odds of at least 1 and a potential payout between the
  stake and the configured maximum, when every price of the catalogue is at least 1 and the stake
  has two decimals.\<close>

theorem quote_bounds:
  assumes L: "dec_lib_ok (env_dec E)" and q: "validatePlacement E g ids raw d = Inr q"
    and prices: "\<forall>x \<in> set (db_selections d). 1 \<le> sl_price x"
    and stake: "exact20 (q_stake q)" "places 2 (q_stake q)" "0 \<le> q_stake q"
  shows "length (q_legs q) = length ids \<and> 1 \<le> q_combinedOdds q \<and>
    q_stake q \<le> q_potentialPayout q \<and>
    dl_parse (env_dec E) raw = Some (q_stake q) \<and>
    (\<exists>minStake maxStake maxPayout.
       dl_parse (env_dec E) (env_BET_MIN_STAKE E) = Some minStake \<and> minStake \<le> q_stake q \<and>
       dl_parse (env_dec E) (env_BET_MAX_STAKE E) = Some maxStake \<and> q_stake q \<le> maxStake \<and>
       dl_parse (env_dec E) (env_BET_MAX_PAYOUT E) = Some maxPayout \<and> q_potentialPayout q \<le> maxPayout)"
  using q
proof (cases rule: validatePlacement_InrD)
  case (1 minStake maxStake maxPayout)
  have in_cat: "sc_selection c \<in> set (db_selections d)" if "c \<in> set (read_selections d ids)" for c
    using that by (auto simp: read_selections_def List.map_filter_def load_selection_id)
  have "\<forall>p \<in> set (map vl_price (q_legs q)). 1 \<le> p"
    using validated_prices [OF 1(10)] in_cat prices by auto
  then have odds: "1 \<le> q_combinedOdds q" using combinedOdds_ge_one [OF L] 1(11) by simp
  with potentialPayout_ge_stake [OF L stake odds] validate_legs_length [OF 1(10)] 1
  show ?thesis by auto
qed

definition ex_quote_value :: bet_quote where
  "ex_quote_value = projr (validatePlacement ex_env ''g1'' [''x1''] ''10.00'' (w_db ex_world))"

theorem quote_bounds_witness:
  "1 \<le> q_combinedOdds ex_quote_value \<and> q_stake ex_quote_value \<le> q_potentialPayout ex_quote_value"
proof -
  have q: "validatePlacement ex_env ''g1'' [''x1''] ''10.00'' (w_db ex_world) = Inr ex_quote_value"
    using ex_quote(1) by (simp add: ex_quote_value_def)
  have stake: "q_stake ex_quote_value = 10" by code_simp
  have prices: "\<forall>x \<in> set (db_selections (w_db ex_world)). 1 \<le> sl_price x" by code_simp
  have L: "dec_lib_ok (env_dec ex_env)" by (simp add: ex_env_def)
  have x: "exact20 (q_stake ex_quote_value)" "places 2 (q_stake ex_quote_value)" "0 \<le> q_stake ex_quote_value"
    by (code_simp, code_simp, code_simp)
  from quote_bounds [OF L q prices x] show ?thesis by blast
qed

subsection \<open>Repeating a request\<close>

text \<open>The identities of the rows of a database that bets are made of.\<close>

definition bet_keys :: "db \<Rightarrow> string list \<times> string list \<times> string list" where
  "bet_keys d = (map bet_id (db_bets d), map leg_id (db_legs d), map ob_id (db_outbox d))"

lemma bet_keys_updates [simp]:
  "(\<And>b. bet_id (f b) = bet_id b) \<Longrightarrow> bet_keys (update_bet i f d) = bet_keys d"
  "(\<And>r. ob_id (h r) = ob_id r) \<Longrightarrow> bet_keys (update_outbox j h d) = bet_keys d"
  by (simp_all add: bet_keys_def update_bet_def update_outbox_def upd_by_def map_row_update)

lemma processSingleDebit_keys:
  "processSingleDebit E P i s = (r, s') \<Longrightarrow> bet_keys (w_db s') = bet_keys (w_db s)"
  by (auto simp: processSingleDebit_def ensure_code_def acceptBet_def rejectBet_def scheduleRetry_def Let_def
      split: option.splits if_splits sum.splits prod.splits)

text \<open>C9: A request repeated with the same idempotency key creates no bet, leg or outbox row,
  whatever its selections and stake; once the debit of the bet has been answered, it changes
  nothing at all and returns the bet.\<close>

theorem repeated_placement_idempotent:
  assumes "find_by_key user key (w_db s) = Some b"
    and "placeBet E P user key ids stake s = (res, s')"
  shows "bet_keys (w_db s') = bet_keys (w_db s) \<and>
    (bet_status b \<noteq> Bet_PENDING \<longrightarrow>
       s' = s \<and> res = Inr (toBetDto (env_dec E) b (legs_of (bet_id b) (w_db s))))"
proof (cases "bet_status b = Bet_PENDING")
  case False
  with assms show ?thesis by (auto simp: placeBet_def finish_placement_def)
next
  case True
  obtain r s1 where d: "processSingleDebit E P (bet_id b) s = (r, s1)" by fastforce
  with True assms have "s' = s1"
    by (auto simp: placeBet_def finish_placement_def attemptWalletDebit_def split: sum.splits if_splits)
  with processSingleDebit_keys [OF d] True show ?thesis by simp
qed

theorem repeated_placement_idempotent_witness:
  "bet_keys (w_db (snd (placeBet ex_env (stub_port ex_env) ex_user ''k1'' [''x2''] ''99.00'' ex_accepted))) =
     bet_keys (w_db ex_accepted)"
proof -
  have f: "map_option bet_id (find_by_key ex_user ''k1'' (w_db ex_accepted)) \<noteq> None" by code_simp
  then obtain b where b: "find_by_key ex_user ''k1'' (w_db ex_accepted) = Some b" by auto
  obtain r s' where p: "placeBet ex_env (stub_port ex_env) ex_user ''k1'' [''x2''] ''99.00'' ex_accepted = (r, s')"
    by fastforce
  from repeated_placement_idempotent [OF b p] p show ?thesis by simp
qed

subsection \<open>Reading bets\<close>

text \<open>The rows a list of answers was made from.\<close>

definition shows_only :: "dec_lib \<Rightarrow> db \<Rightarrow> (bet_row \<Rightarrow> bool) \<Rightarrow> bet_dto \<Rightarrow> bool" where
  "shows_only L d P dto \<longleftrightarrow>
     (\<exists>b \<in> set (db_bets d). P b \<and> dto = toBetDto L b (legs_of (bet_id b) d))"

lemma take_rows_set: "set (take_rows n xs) \<subseteq> set xs"
  by (auto simp: take_rows_def dest: in_set_takeD in_set_dropD)



subsection \<open>The terms of a bet\<close>

lemma load_event_find: "load_event d i = Some x \<Longrightarrow> find_event i d = Some (ec_event x)"
  by (auto simp: load_event_def split: Option.bind_splits)

lemma load_selection_fields:
  assumes "load_selection d x = Some c"
  shows "find_market (sl_marketId x) d = Some (sc_market c)" "find_event (mk_eventId (sc_market c)) d = Some (sc_event c)"
  using assms load_event_find by (auto simp: load_selection_def split: Option.bind_splits)

lemma find_market_id: "find_market i d = Some m \<Longrightarrow> mk_id m = i"
  unfolding find_market_def by (auto dest: keyed_rows.get_key [OF keyed_rows_by])

lemma validated_from:
  "validate_legs L d g cs = Inr legs \<Longrightarrow> l \<in> set legs \<Longrightarrow> \<exists>c \<in> set cs. validate_leg L d g c = Inr l"
  by (induction cs arbitrary: legs) (auto split: sum.splits)


text \<open>A bet on the total of 2.5; later the catalogue's line has moved to 4.5.\<close>

definition ex_total_leg :: validated_leg where
  "ex_total_leg = hd (q_legs (projr (validatePlacement ex_env ''g1'' [''x3''] ''10.00'' (w_db ex_world))))"

definition ex_total_row :: "leg_row result" where
  "ex_total_row = legSnapshotCreateData exact_lib (vl_snapshot ex_total_leg) (new_leg ex_total_leg 0 ''id3'' ''id1'')"

definition ex_moved :: db where
  "ex_moved = (w_db ex_world)\<lparr>db_markets := [ex_market ''m2'' TOTAL Mk_SETTLED (Some (9/2))]\<rparr>"

lemma ex_total_facts:
  "\<not> isl (validatePlacement ex_env ''g1'' [''x3''] ''10.00'' (w_db ex_world))"
  "q_legs (projr (validatePlacement ex_env ''g1'' [''x3''] ''10.00'' (w_db ex_world))) \<noteq> []"
  "\<not> isl ex_total_row"
  "loadLegContext exact_lib ex_moved (projr ex_total_row) \<noteq> None"
  "map mk_line (map the [find_market (vl_marketId ex_total_leg) (w_db ex_world)]) = [Some (5/2)]"
  by code_simp+


subsection \<open>The arithmetic of a quote\<close>

lemma foldl_mul_exact:
  assumes L: "dec_lib_ok L"
  shows "(\<And>n. n \<le> length ps \<Longrightarrow> exact20 (prod_list (take n ps))) \<Longrightarrow> foldl (\<lambda>acc p. dl_mul L acc p) 1 ps = prod_list ps"
proof (induction ps rule: rev_induct)
  case (snoc p ps)
  have "exact20 (prod_list (take n ps))" if "n \<le> length ps" for n
    using snoc.prems [of n] that by simp
  with snoc.IH have ih: "foldl (\<lambda>acc p. dl_mul L acc p) 1 ps = prod_list ps" by blast
  have "exact20 (prod_list ps * p)" using snoc.prems [of "length (ps @ [p])"] by simp
  with ih show ?case by (simp add: rounds_exactly_eq [OF dec_lib_okD(7) [OF L]])
qed simp

text \<open>C31: The arithmetic of a quote is that of exact numbers. As long as the running product of the
  prices and the product with the stake fit the 20 digits of the decimal library, the combined odds
  are the product of the prices rounded half up to three decimals, and the potential payout is the
  stake times these odds rounded down to cents; so the payout is at most, and less than a cent
  below, the exact value.\<close>

theorem quote_arithmetic_exact:
  assumes L: "dec_lib_ok (env_dec E)" and q: "validatePlacement E g ids raw d = Inr q"
    and prices: "\<And>n. n \<le> length (q_legs q) \<Longrightarrow> exact20 (prod_list (take n (map vl_price (q_legs q))))"
    and pos: "0 \<le> prod_list (map vl_price (q_legs q))" "0 \<le> q_stake q"
    and fits: "exact20 (q_stake q * q_combinedOdds q)"
  shows "q_combinedOdds q = half_up_dp 3 (prod_list (map vl_price (q_legs q))) \<and>
    q_potentialPayout q = floor_dp 2 (q_stake q * q_combinedOdds q) \<and>
    q_potentialPayout q \<le> q_stake q * q_combinedOdds q \<and>
    q_stake q * q_combinedOdds q < q_potentialPayout q + 1 / 100"
  using q
proof (cases rule: validatePlacement_InrD)
  case (1 a b c)
  have "foldl (\<lambda>acc p. dl_mul (env_dec E) acc p) 1 (map vl_price (q_legs q)) = prod_list (map vl_price (q_legs q))"
    by (rule foldl_mul_exact [OF L]) (use prices in simp)
  with 1(11) pos(1) have odds: "q_combinedOdds q = half_up_dp 3 (prod_list (map vl_price (q_legs q)))"
    by (simp add: combinedOddsFromPrices_def dec_lib_okD(6) [OF L])
  have "0 \<le> q_combinedOdds q"
    using half_up_dp_ge [OF _ pos(1), of 3] odds by (simp add: places_def)
  with 1(12) potentialPayout_floor [OF L fits pos(2)]
  have "q_potentialPayout q = floor_dp 2 (q_stake q * q_combinedOdds q)" by simp
  with odds floor_dp_bounds(1) [where n = 2 and x = "q_stake q * q_combinedOdds q"] floor_dp_bounds(2) [where n = 2 and x = "q_stake q * q_combinedOdds q"] show ?thesis by simp
qed

theorem quote_arithmetic_exact_witness:
  "q_combinedOdds ex_quote_value = half_up_dp 3 (prod_list (map vl_price (q_legs ex_quote_value)))"
proof -
  have q: "validatePlacement ex_env ''g1'' [''x1''] ''10.00'' (w_db ex_world) = Inr ex_quote_value"
    using ex_quote(1) by (simp add: ex_quote_value_def)
  have L: "dec_lib_ok (env_dec ex_env)" by (simp add: ex_env_def)
  have v: "map vl_price (q_legs ex_quote_value) = [2]" "0 \<le> q_stake ex_quote_value"
    "exact20 (q_stake ex_quote_value * q_combinedOdds ex_quote_value)"
    by (code_simp, code_simp, code_simp)
  have "exact20 1" "exact20 2" by (code_simp, code_simp)
  then have "exact20 (prod_list (take n [2]))" for n by (cases n) simp_all
  with quote_arithmetic_exact [OF L q] v show ?thesis by simp
qed

end
