(* ===== verification/SettlementProperties.thy ===== *)
theory SettlementProperties
  imports Operations Example
begin

text \<open>
  What grading and settlement promise: the two sides of a two-way market are graded opposite, a
  match result has one winner, a bet is graded exactly when all its legs can be, and a settlement
  run settles every gradable bet it reads.
\<close>

subsection \<open>Two-way markets\<close>

text \<open>
  Two selections of one market that are each other's opposite: over and under, the home and the
  away side of a handicap, yes and no.
\<close>

definition two_sides :: "leg_input \<Rightarrow> leg_input \<Rightarrow> bool" where
  "two_sides i j \<longleftrightarrow>
     j = i\<lparr>li_selectionName := li_selectionName j\<rparr> \<and>
     (let a = to_lower (li_selectionName i); b = to_lower (li_selectionName j);
          home = to_lower (li_homeTeamName i); away = to_lower (li_awayTeamName i) in
      case li_marketType i of
        TOTAL \<Rightarrow> str_includes a ''over'' \<and> \<not> str_includes b ''over'' \<and> str_includes b ''under''
      | HANDICAP \<Rightarrow> str_includes a home \<and> \<not> str_includes b home \<and> str_includes b away
      | BOTH_TEAMS_SCORE \<Rightarrow> str_includes a ''yes'' \<and> \<not> str_includes b ''yes'' \<and> str_includes b ''no''
      | _ \<Rightarrow> False)"

lemma two_sides_fields:
  assumes "two_sides i j"
  shows "li_marketType j = li_marketType i" "li_marketStatus j = li_marketStatus i"
    "li_marketLine j = li_marketLine i" "li_homeTeamName j = li_homeTeamName i"
    "li_awayTeamName j = li_awayTeamName i" "li_homeScore j = li_homeScore i"
    "li_awayScore j = li_awayScore i"
  using assms by (simp_all add: two_sides_def) (cases i; cases j; simp)+

lemma total_leg_opposite:
  assumes "two_sides i j" and "li_marketType i = TOTAL"
  shows "total_leg j h a = map_option opposite (total_leg i h a)"
proof (cases "js_number_nullable (li_marketLine i)")
  case None
  with two_sides_fields(3) [OF assms(1)] show ?thesis by (simp add: total_leg_def)
next
  case (Some line)
  moreover have "grade_margin (line - of_int (h + a)) = opposite (grade_margin (of_int (h + a) - line))"
    using grade_margin_uminus [of "of_int (h + a) - line"] by simp
  ultimately show ?thesis
    using assms two_sides_fields(3) [OF assms(1)]
    by (simp add: two_sides_def Let_def total_over total_under)
qed

lemma handicap_leg_opposite:
  assumes "two_sides i j" and "li_marketType i = HANDICAP"
  shows "handicap_leg j h a = map_option opposite (handicap_leg i h a)"
proof (cases "js_number_nullable (li_marketLine i)")
  case None
  with two_sides_fields(3) [OF assms(1)] show ?thesis by (simp add: handicap_leg_def)
next
  case (Some line)
  moreover have "grade_margin (of_int a - (of_int h + line)) =
      opposite (grade_margin (of_int h + line - of_int a))"
    using grade_margin_uminus [of "of_int h + line - of_int a"] by simp
  ultimately show ?thesis
    using assms two_sides_fields(3,4,5) [OF assms(1)]
    by (simp add: two_sides_def Let_def handicap_home handicap_away)
qed

text \<open>C11: The two sides of a two-way market (over and under, home and away handicap, yes and no)
  are graded opposite at every score and every market status: one wins when the other loses, a void
  or a push is a void for both, and one side is gradable exactly when the other is.\<close>

theorem two_way_sides_opposite:
  assumes "two_sides i j"
  shows "evaluate_leg j = map_option opposite (evaluate_leg i)"
proof -
  note f = two_sides_fields [OF assms]
  show ?thesis
  proof (cases "li_marketStatus i = Mk_VOID \<or> li_homeScore i = None \<or> li_awayScore i = None")
    case True
    then show ?thesis by (cases "li_marketStatus i = Mk_VOID") (auto simp: f evaluate_leg_def split: option.splits)
  next
    case False
    then obtain h a where s: "li_marketStatus i \<noteq> Mk_VOID" "li_homeScore i = Some h" "li_awayScore i = Some a"
      by auto
    note ev = evaluate_leg_scored [OF s] evaluate_leg_scored [of j, unfolded f, OF s]
    from assms consider "li_marketType i = TOTAL" | "li_marketType i = HANDICAP"
      | "li_marketType i = BOTH_TEAMS_SCORE"
      by (cases "li_marketType i") (auto simp: two_sides_def Let_def)
    then show ?thesis
    proof cases
      case 1
      with ev total_leg_opposite [OF assms 1] show ?thesis by simp
    next
      case 2
      with ev handicap_leg_opposite [OF assms 2] show ?thesis by simp
    next
      case 3
      with ev assms show ?thesis by (simp add: two_sides_def bothTeamsScore_def Let_def)
    qed
  qed
qed

definition ex_leg :: "market_type \<Rightarrow> string option \<Rightarrow> string \<Rightarrow> leg_input" where
  "ex_leg mt line name = \<lparr> li_marketType = mt, li_marketStatus = Mk_SETTLED, li_marketLine = line,
     li_selectionName = name, li_homeTeamName = ''Red'', li_awayTeamName = ''Blue'',
     li_homeScore = Some 2, li_awayScore = Some 1 \<rparr>"

lemma evaluate_red:
  "evaluate_leg (ex_leg HANDICAP (Some ''-1.5'') ''Red -1.5'') = Some LOST"
  by code_simp

theorem two_way_sides_opposite_witness:
  "evaluate_leg (ex_leg HANDICAP (Some ''-1.5'') ''Blue +1.5'') = Some WON \<and>
   evaluate_leg (ex_leg HANDICAP (Some ''-1.5'') ''Red -1.5'') = Some LOST"
proof -
  have "two_sides (ex_leg HANDICAP (Some ''-1.5'') ''Red -1.5'') (ex_leg HANDICAP (Some ''-1.5'') ''Blue +1.5'')"
    by code_simp
  from two_way_sides_opposite [OF this]
  show ?thesis by (metis (no_types, lifting) evaluate_red option.simps(9) opposite.simps(2))
qed

subsection \<open>Match results\<close>

definition grade_name :: "leg_input \<Rightarrow> int \<Rightarrow> int \<Rightarrow> string \<Rightarrow> leg_result" where
  "grade_name i h a n = matchResult (i\<lparr>li_selectionName := n\<rparr>) h a"

text \<open>A match-result market has exactly one winner at every score. Of the selections Draw, the
  home team and the away team, one is graded won and the others lost, and a selection named like
  none of them loses, when the two team names differ and neither reads as a draw.\<close>

theorem match_result_one_winner:
  assumes "distinct (result_names i)" and "''x'' \<notin> set (result_names i)"
  shows "count_list (map (grade_name i h a)
           [''Draw'', li_homeTeamName i, li_awayTeamName i]) WON = 1 \<and>
         count_list (map (grade_name i h a)
           [''Draw'', li_homeTeamName i, li_awayTeamName i]) LOST = 2 \<and>
         (to_lower (trim n) \<notin> insert ''x'' (set (result_names i)) \<longrightarrow> grade_name i h a n = LOST)"
proof -
  have "to_lower (trim ''Draw'') = ''draw''" by code_simp
  with assms show ?thesis
    by (cases h a rule: linorder_cases)
       (auto simp: grade_name_def matchResult_def result_names_def Let_def)
qed

theorem match_result_one_winner_witness:
  "count_list (map (grade_name (ex_leg MATCH_RESULT None []) 2 1) [''Draw'', ''Red'', ''Blue'']) WON = 1"
proof -
  have "distinct (result_names (ex_leg MATCH_RESULT None []))"
    "''x'' \<notin> set (result_names (ex_leg MATCH_RESULT None []))"
    by code_simp+
  from match_result_one_winner [OF this, of 2 1 "[]"] show ?thesis by (simp add: ex_leg_def)
qed

subsection \<open>Grading a bet\<close>

text \<open>The rule a bet is graded by: its legs' contexts, and their verdicts.\<close>

definition leg_verdict :: "dec_lib \<Rightarrow> db \<Rightarrow> leg_row \<Rightarrow> leg_result option" where
  "leg_verdict L d leg =
     Option.bind (loadLegContext L d leg)
       (\<lambda>c. if lc_eventStatus c = Ev_ENDED \<and> li_marketStatus (lc_input c) \<in> {Mk_SETTLED, Mk_VOID}
            then evaluate_leg (lc_input c) else None)"

lemma all_some_None: "all_some xs = None \<longleftrightarrow> None \<in> set xs"
  by (induction xs rule: all_some.induct) auto

lemma all_some_verdicts:
  "(case all_some (map (loadLegContext L d) legs) of None \<Rightarrow> None
    | Some contexts \<Rightarrow> if \<exists>c \<in> set contexts. \<not> leg_settleable c then None
        else all_some (map (\<lambda>c. evaluate_leg (lc_input c)) contexts)) =
   all_some (map (leg_verdict L d) legs)"
proof (induction legs)
  case (Cons leg legs)
  show ?case
  proof (cases "loadLegContext L d leg")
    case (Some c)
    show ?thesis
    proof (cases "leg_settleable c \<and> evaluate_leg (lc_input c) \<noteq> None")
      case True
      then obtain v where "evaluate_leg (lc_input c) = Some v" by auto
      with True Some Cons show ?thesis
        by (auto simp: leg_verdict_def leg_settleable_def split: option.splits if_splits)
    next
      case False
      then have "leg_verdict L d leg = None"
        using Some by (auto simp: leg_verdict_def leg_settleable_def)
      with False Some show ?thesis
        by (cases "evaluate_leg (lc_input c)") (auto split: option.splits)
    qed
  qed (simp add: leg_verdict_def)
qed simp

text \<open>C13: When and how a bet is graded. A bet is graded exactly when it is accepted and every leg
  has a verdict, that is, its event has ended, its market is settled or void, and the score and
  line grade it. It is void as soon as one leg is void, won when all legs won, and lost otherwise,
  and pays the potential payout, the stake back, or nothing.\<close>

theorem gradeBet_rule:
  "gradeBet L d i = Some g \<longleftrightarrow>
     (\<exists>bet verdicts. find_bet i d = Some bet \<and> bet_status bet = Bet_ACCEPTED \<and>
        map (leg_verdict L d) (sort_legs (legs_of i d)) = map Some verdicts \<and>
        g = (let result = (if VOID \<in> set verdicts then Bet_VOID
                           else if set verdicts \<subseteq> {WON} then Bet_WON else Bet_LOST) in
          \<lparr>gr_bet = bet, gr_legs = sort_legs (legs_of i d), gr_legResults = verdicts,
           gr_betResult = result,
           gr_payoutAmount = (case result of Bet_WON \<Rightarrow> bet_potentialPayout bet
             | Bet_VOID \<Rightarrow> bet_stake bet | _ \<Rightarrow> 0)\<rparr>))"
proof -
  have agg: "aggregateBetResult vs = (if VOID \<in> set vs then Bet_VOID
      else if set vs \<subseteq> {WON} then Bet_WON else Bet_LOST)" for vs
    by (auto simp: aggregateBetResult_def) (metis leg_result.exhaust)+
  have pay: "payoutForResult st po r = (case r of Bet_WON \<Rightarrow> po | Bet_VOID \<Rightarrow> st | _ \<Rightarrow> 0)" for st po r
    by (cases r) (simp_all add: payoutForResult_def)
  have red: "gradeBet L d i =
    (case find_bet i d of None \<Rightarrow> None
     | Some bet \<Rightarrow> if bet_status bet \<noteq> Bet_ACCEPTED then None
       else map_option (\<lambda>vs. \<lparr>gr_bet = bet, gr_legs = sort_legs (legs_of i d), gr_legResults = vs,
              gr_betResult = aggregateBetResult vs,
              gr_payoutAmount = payoutForResult (bet_stake bet) (bet_potentialPayout bet) (aggregateBetResult vs)\<rparr>)
            (all_some (map (leg_verdict L d) (sort_legs (legs_of i d)))))"
    unfolding all_some_verdicts [symmetric]
    by (simp add: gradeBet_def Let_def split: option.splits)
  show ?thesis
    unfolding red agg pay
    by (auto simp: all_some_iff Let_def split: option.splits)
qed

subsection \<open>A settlement run\<close>

text \<open>
  Room for the credit rows of some bets: the ids still to be drawn and the bets' transaction codes
  are distinct and unused, and the bets have no settlement row.
\<close>

definition room_for :: "env \<Rightarrow> db \<Rightarrow> nat \<Rightarrow> string set \<Rightarrow> bool" where
  "room_for E d n ids \<longleftrightarrow>
     inj_on (env_gen E) {n..} \<and> (\<forall>k \<ge> n. env_gen E k \<notin> ob_id ` set (db_outbox d)) \<and>
     (\<forall>i \<in> ids. \<forall>j \<in> ids. \<forall>r r'. settlementTransactionCode E i r = settlementTransactionCode E j r' \<longrightarrow> i = j) \<and>
     (\<forall>i \<in> ids. \<forall>r. settlementTransactionCode E i r \<notin> ob_transactionCode ` set (db_outbox d)) \<and>
     (\<forall>x \<in> set (db_outbox d). ob_betId x \<in> ids \<longrightarrow> ob_type x \<noteq> WALLET_OUTBOX_SETTLE)"

lemma room_for_seq: "room_for E d n ids \<Longrightarrow> n \<le> m \<Longrightarrow> room_for E d m ids"
  unfolding room_for_def by (meson atLeast_subset_iff inj_on_subset le_trans)

text \<open>One credit row added for one of the bets.\<close>

lemma room_for_insert:
  assumes room: "room_for E d n ids" "i \<in> ids"
    and d': "db_outbox d' = db_outbox d @ [row]"
    and row: "ob_id row = env_gen E n" "ob_betId row = i" "ob_transactionCode row = settlementTransactionCode E i r"
  shows "room_for E d' (n + 1) (ids - {i})"
proof -
  note old = room_for_seq [OF room(1) le_add1, unfolded room_for_def]
  have inj: "inj_on (env_gen E) {n..}" using room(1) by (simp add: room_for_def)
  have gen: "env_gen E k \<noteq> env_gen E n" if "n + 1 \<le> k" for k
    using inj_onD [OF inj, of k n] that by auto
  have code: "settlementTransactionCode E j r' \<noteq> settlementTransactionCode E i r" if "j \<in> ids - {i}" for j r'
    using room that unfolding room_for_def by blast
  have out: "set (db_outbox d') = insert row (set (db_outbox d))" by (simp add: d')
  show ?thesis
    unfolding room_for_def out
  proof (intro conjI)
    show "\<forall>k\<ge>n + 1. env_gen E k \<notin> ob_id ` insert row (set (db_outbox d))"
      using old [of 1] gen row(1) by simp
    show "\<forall>j\<in>ids - {i}. \<forall>r'. settlementTransactionCode E j r' \<notin>
        ob_transactionCode ` insert row (set (db_outbox d))"
      using old [of 1] code row(3) by simp
    show "\<forall>x\<in>insert row (set (db_outbox d)). ob_betId x \<in> ids - {i} \<longrightarrow> ob_type x \<noteq> WALLET_OUTBOX_SETTLE"
      using old [of 1] row(2) by simp
    show "\<forall>k\<in>ids - {i}. \<forall>j\<in>ids - {i}. \<forall>r r'.
        settlementTransactionCode E k r = settlementTransactionCode E j r' \<longrightarrow> k = j"
      using old [of 1] by (metis DiffD1)
  qed (use old [of 1] in simp)
qed

lemma persist_one_settles:
  assumes room: "room_for E (w_db s) (w_seq s) ids" "bet_id (gr_bet en) \<in> ids"
    and en: "open_entry (w_db s) en" "gr_legs en \<noteq> []"
    and p: "persist_one E en b s = (res, s')"
  shows "res = Inr () \<and> w_seq s' = w_seq s + 1 \<and>
    room_for E (w_db s') (w_seq s') (ids - {bet_id (gr_bet en)}) \<and>
    find_bet (bet_id (gr_bet en)) (w_db s') =
      Some (settle_bet_row (gr_betResult en) (gr_payoutAmount en) (w_now s) None (gr_bet en))"
proof -
  let ?code = "settlementTransactionCode E (bet_id (gr_bet en)) (gr_betResult en)"
  obtain t where t: "buildSettlementTransaction E (gr_bet en) (gr_legs en) (gr_betResult en)
      (gr_payoutAmount en) ?code (w_now s) = Inr t"
    using buildSettlementTransaction_total [OF en(2)] by blast
  define row where "row = new_settlement_row (env_gen E (w_seq s)) (gr_bet en) WALLET_OUTBOX_SETTLE
      ?code (Some b) t (w_now s)"
  have f: "ob_id row = env_gen E (w_seq s)" "ob_betId row = bet_id (gr_bet en)"
    "ob_type row = WALLET_OUTBOX_SETTLE" "ob_transactionCode row = ?code"
    by (simp_all add: row_def new_settlement_row_def)
  define d2 where "d2 = update_bet (bet_id (gr_bet en))
      (settle_bet_row (gr_betResult en) (gr_payoutAmount en) (w_now s) None)
      (set_leg_outcomes (zip (gr_legs en) (map toLegOutcome (gr_legResults en))) (w_db s))"
  have o: "db_outbox d2 = db_outbox (w_db s)" by (simp add: d2_def)
  have fresh: "env_gen E (w_seq s) \<notin> ob_id ` set (db_outbox (w_db s))"
    "?code \<notin> ob_transactionCode ` set (db_outbox (w_db s))"
    "\<forall>x \<in> set (db_outbox (w_db s)). \<not> (ob_betId x = bet_id (gr_bet en) \<and> ob_type x = WALLET_OUTBOX_SETTLE)"
    using room by (auto simp: room_for_def)
  then have c: "create_outbox row d2 = Inr (d2\<lparr>db_outbox := db_outbox (w_db s) @ [row]\<rparr>)"
    by (force simp: create_outbox_def f o row_insert_def)
  with p t have s': "res = Inr ()" "s' = s\<lparr>w_db := d2\<lparr>db_outbox := db_outbox (w_db s) @ [row]\<rparr>, w_seq := w_seq s + 1\<rparr>"
    by (simp_all add: persist_one_def Let_def row_def d2_def)
  have fb: "find_bet (bet_id (gr_bet en)) d2 =
      Some (settle_bet_row (gr_betResult en) (gr_payoutAmount en) (w_now s) None (gr_bet en))"
    using en(1) by (simp add: d2_def open_entry_def)
  have "room_for E (w_db s') (w_seq s') (ids - {bet_id (gr_bet en)})"
    using room_for_insert [OF room, of "w_db s'" row] f by (simp add: s'(2))
  with fb s' show ?thesis by (simp add: find_bet_def)
qed

text \<open>The bet row a graded entry leaves.\<close>

definition settled_row :: "graded_bet \<Rightarrow> int \<Rightarrow> bet_row" where
  "settled_row en now = settle_bet_row (gr_betResult en) (gr_payoutAmount en) now None (gr_bet en)"

lemma batch_for_seq: "batch_for E g batches s = (b, batches', s') \<Longrightarrow> w_seq s \<le> w_seq s'"
  by (auto simp: batch_for_def Let_def split: option.splits)

lemma persist_all_settles:
  assumes "room_for E (w_db s) (w_seq s) ids"
    and "\<And>en. en \<in> set graded \<Longrightarrow> bet_id (gr_bet en) \<in> ids \<and> open_entry (w_db s) en \<and>
        gr_legs en \<noteq> [] \<and> is_final_result (gr_betResult en)"
    and "distinct (map (\<lambda>en. bet_id (gr_bet en)) graded)"
    and "persist_all E batches graded s = (res, s')"
  shows "res = Inr () \<and> w_now s' = w_now s \<and>
    (\<forall>i. i \<notin> (\<lambda>en. bet_id (gr_bet en)) ` set graded \<longrightarrow> find_bet i (w_db s') = find_bet i (w_db s)) \<and>
    (\<forall>en \<in> set graded. find_bet (bet_id (gr_bet en)) (w_db s') = Some (settled_row en (w_now s)))"
  using assms
proof (induction graded arbitrary: batches s ids)
  case (Cons en rest)
  note en = Cons.prems(2) [of en, simplified]
  obtain b batches' s1 where bf: "batch_for E (bet_casinoGroupId (gr_bet en)) batches s = (b, batches', s1)"
    by (cases "batch_for E (bet_casinoGroupId (gr_bet en)) batches s") auto
  note fr1 = batch_for_frame [OF bf]
  obtain r s2 where p1: "persist_one E en b s1 = (r, s2)" by (cases "persist_one E en b s1")
  note fr2 = persist_one_frame [OF p1]
  have room1: "room_for E (w_db s1) (w_seq s1) ids"
    using room_for_seq [OF Cons.prems(1) batch_for_seq [OF bf]] fr1(1) by simp
  have s2: "r = Inr ()" "room_for E (w_db s2) (w_seq s2) (ids - {bet_id (gr_bet en)})"
    "find_bet (bet_id (gr_bet en)) (w_db s2) = Some (settled_row en (w_now s))"
    using persist_one_settles [OF room1 _ _ _ p1] en fr1 unfolding settled_row_def by metis+
  have other: "bet_id (gr_bet en') \<noteq> bet_id (gr_bet en)" if "en' \<in> set rest" for en'
    using Cons.prems(3) that by (fastforce simp: image_iff)
  have rest: "bet_id (gr_bet en') \<in> ids - {bet_id (gr_bet en)} \<and> open_entry (w_db s2) en' \<and>
      gr_legs en' \<noteq> [] \<and> is_final_result (gr_betResult en')" if "en' \<in> set rest" for en'
    using Cons.prems(2) [of en'] other [OF that] fr2(3) fr1(1) that by (simp add: open_entry_def)
  have "persist_all E batches' rest s2 = (res, s')"
    using Cons.prems(4) en bf p1 s2(1) by simp
  from Cons.IH [OF s2(2) rest _ this] Cons.prems(3) fr1 fr2 s2(3)
  show ?case by auto
qed simp

lemma flush_bets [simp]:
  "db_bets (w_db (snd (flushSettlementBatchForGroup E P g s))) = db_bets (w_db s)"
  by (simp add: flushSettlementBatchForGroup_def Let_def split: list.split option.split prod.split sum.split)

lemma flush_groups_bets: "db_bets (w_db (snd (flush_groups E P gs s))) = db_bets (w_db s)"
proof (induction gs arbitrary: s)
  case (Cons g gs)
  obtain b s1 where f: "flushSettlementBatchForGroup E P g s = (b, s1)" by fastforce
  with Cons [of s1] flush_bets [of E P g s] show ?case by (auto split: prod.split)
qed simp

lemma flushSettlementBatches_bets:
  "find_bet i (w_db (snd (flushSettlementBatches E P s))) = find_bet i (w_db s)"
  by (simp add: flushSettlementBatches_def find_bet_def flush_groups_bets Let_def)

text \<open>The bets a run reads: the 50 oldest accepted ones.\<close>

definition oldest_accepted :: "db \<Rightarrow> bet_row list" where
  "oldest_accepted d =
     take BATCH_SIZE (order_asc bet_createdAt (row_filter (\<lambda>b. bet_status b = Bet_ACCEPTED) (db_bets d)))"

text \<open>C14: A settlement run settles every gradable bet among the 50 oldest accepted bets: it
  returns their number, and afterwards each has its graded status, payout and time, whatever the
  wallet answers, and every other bet is as before, provided every bet has a leg and the ids and
  codes still to be drawn are new.\<close>

theorem settleBatch_settles_gradable:
  assumes U: "unique_rows (w_db s)"
    and legs: "\<forall>b \<in> set (oldest_accepted (w_db s)). legs_of (bet_id b) (w_db s) \<noteq> []"
    and room: "room_for E (w_db s) (w_seq s) (bet_id ` set (oldest_accepted (w_db s)))"
  shows "\<exists>s'. settleBatch E P s =
      (Inr (length (filter (\<lambda>b. gradeBet (env_dec E) (w_db s) (bet_id b) \<noteq> None) (oldest_accepted (w_db s)))), s') \<and>
    (\<forall>b \<in> set (oldest_accepted (w_db s)). \<forall>g. gradeBet (env_dec E) (w_db s) (bet_id b) = Some g \<longrightarrow>
       find_bet (bet_id b) (w_db s') = Some (settled_row g (w_now s))) \<and>
    (\<forall>i. i \<notin> bet_id ` set (oldest_accepted (w_db s)) \<or> gradeBet (env_dec E) (w_db s) i = None \<longrightarrow>
       find_bet i (w_db s') = find_bet i (w_db s))"
proof -
  let ?grade = "\<lambda>b. gradeBet (env_dec E) (w_db s) (bet_id b)"
  let ?bets = "oldest_accepted (w_db s)"
  let ?graded = "List.map_filter ?grade ?bets"
  have mem: "g \<in> set ?graded \<longleftrightarrow> (\<exists>b \<in> set ?bets. ?grade b = Some g)" for g
    by (force simp: List.map_filter_def)
  have len: "length ?graded = length (filter (\<lambda>b. ?grade b \<noteq> None) ?bets)"
    by (simp add: List.map_filter_def)
  have "distinct (map bet_id ?bets)"
    using U unfolding oldest_accepted_def unique_rows_def by (blast intro: distinct_order_filter_take)
  note d = distinct_graded [OF this, of "env_dec E" "w_db s"]
  obtain r s1 where p: "persist_all E Map.empty ?graded s = (r, s1)" by fastforce
  have ok: "bet_id (gr_bet en) \<in> bet_id ` set ?bets \<and> open_entry (w_db s) en \<and> gr_legs en \<noteq> [] \<and>
      is_final_result (gr_betResult en)" if "en \<in> set ?graded" for en
  proof -
    from that obtain b where b: "b \<in> set ?bets" "?grade b = Some en" by (auto simp: mem)
    have "set (sort_legs (legs_of (bet_id b) (w_db s))) = set (legs_of (bet_id b) (w_db s))"
      by (simp add: sort_legs_def)
    with legs b(1) have "sort_legs (legs_of (bet_id b) (w_db s)) \<noteq> []" by fastforce
    with gradeBet_SomeD [OF b(2)] b(1) show ?thesis by auto
  qed
  note settles = persist_all_settles [OF room ok d p]
  define s' where "s' = (if ?graded = [] then s else snd (flushSettlementBatches E P s1))"
  have run: "settleBatch E P s = (Inr (length ?graded), s')"
    using p settles by (simp add: settleBatch_def oldest_accepted_def [symmetric] applySettlements_def
        persistGradedSettlements_def s'_def Let_def)
  have fb: "find_bet i (w_db s') = find_bet i (w_db s1)" for i
    using p by (cases "?graded = []") (simp_all add: s'_def flushSettlementBatches_bets)
  have "find_bet (bet_id b) (w_db s') = Some (settled_row g (w_now s))"
    if "b \<in> set ?bets" "?grade b = Some g" for b g
    using settles fb gradeBet_SomeD(2) [OF that(2)] that mem [of g] by auto
  moreover have "find_bet i (w_db s') = find_bet i (w_db s)"
    if "i \<notin> bet_id ` set ?bets \<or> gradeBet (env_dec E) (w_db s) i = None" for i
  proof -
    have "i \<notin> (\<lambda>en. bet_id (gr_bet en)) ` set ?graded"
    proof
      assume "i \<in> (\<lambda>en. bet_id (gr_bet en)) ` set ?graded"
      then obtain b en where "b \<in> set ?bets" "?grade b = Some en" "i = bet_id (gr_bet en)"
        by (auto simp: mem)
      with gradeBet_SomeD(2) [of "env_dec E" "w_db s" "bet_id b" en] that show False by auto
    qed
    with settles fb show ?thesis by simp
  qed
  ultimately show ?thesis using run len by auto
qed

lemma ex_gradable_facts:
  "map bet_id (oldest_accepted (w_db ex_gradable)) = [''id1'']"
  "legs_of ''id1'' (w_db ex_gradable) \<noteq> []" "unique_rows (w_db ex_gradable)"
  "map_option gr_betResult (gradeBet (env_dec ex_env) (w_db ex_gradable) ''id1'') = Some Bet_WON"
  by code_simp+

lemma ex_room: "room_for ex_env (w_db ex_gradable) (w_seq ex_gradable) {''id1''}"
proof -
  have out: "db_outbox (w_db ex_gradable) = [ex_debit Ob_COMPLETED]" and seq: "w_seq ex_gradable = 4"
    by (simp_all add: ex_gradable_def ex_book_def)
  have "nat_of_digits (drop 2 ''id2'') = 2" by code_simp
  then have "env_gen ex_env k \<noteq> ''id2''" if "4 \<le> k" for k
    using that ex_gen_ne [of k "''id2''"] by auto
  moreover have "settlementTransactionCode ex_env ''id1'' r \<noteq> ''id0''" for r
    by (simp add: settlementTransactionCode_def uuid_shape_def)
  ultimately show ?thesis
    by (simp add: room_for_def out seq ex_gen_inj ex_debit_def)
qed

theorem settleBatch_settles_gradable_witness:
  "\<exists>s' b. settleBatch ex_env (stub_port ex_env) ex_gradable = (Inr 1, s') \<and>
     find_bet ''id1'' (w_db s') = Some b \<and> bet_status b = Bet_WON"
proof -
  note f = ex_gradable_facts
  have ids: "bet_id ` set (oldest_accepted (w_db ex_gradable)) = {''id1''}"
    using arg_cong [OF f(1), of set] by simp
  then have one: "\<And>b. b \<in> set (oldest_accepted (w_db ex_gradable)) \<Longrightarrow> bet_id b = ''id1''" by auto
  from f(4) obtain g where g: "gradeBet (env_dec ex_env) (w_db ex_gradable) ''id1'' = Some g"
    "gr_betResult g = Bet_WON" by auto
  from f(1) obtain b where b: "oldest_accepted (w_db ex_gradable) = [b]" "bet_id b = ''id1''" by auto
  obtain s' where "settleBatch ex_env (stub_port ex_env) ex_gradable = (Inr 1, s')"
    "find_bet ''id1'' (w_db s') = Some (settled_row g (w_now ex_gradable))"
    using settleBatch_settles_gradable [OF f(3), of ex_env "stub_port ex_env"] f(2) ex_room ids g b by auto
  then show ?thesis using g(2) by (simp add: settled_row_def)
qed

text \<open>
  What a run does not reach: when none of the 50 oldest accepted bets is gradable it changes
  nothing, so the younger ones wait however long they have been gradable.
\<close>

lemma settleBatch_blocked:
  assumes "\<forall>b \<in> set (oldest_accepted (w_db s)). gradeBet (env_dec E) (w_db s) (bet_id b) = None"
  shows "settleBatch E P s = (Inr 0, s)"
proof -
  have "List.map_filter (\<lambda>b. gradeBet (env_dec E) (w_db s) (bet_id b)) (oldest_accepted (w_db s)) = []"
    using assms by (auto simp: List.map_filter_def filter_empty_conv)
  then show ?thesis by (simp add: settleBatch_def oldest_accepted_def [symmetric])
qed

subsection \<open>The staff void\<close>

lemma set_outcomes_same:
  "db_legs (set_leg_outcomes (map (\<lambda>l. (l, out)) ls) d) =
     map (\<lambda>l. if leg_id l \<in> leg_id ` set ls then l\<lparr>leg_outcome := out\<rparr> else l) (db_legs d)"
proof -
  have "db_legs (foldl (\<lambda>d (leg, out). update_leg (leg_id leg) (\<lambda>l. l\<lparr>leg_outcome := out\<rparr>) d) d (map (\<lambda>l. (l, out)) ls)) =
     map (\<lambda>l. if leg_id l \<in> leg_id ` set ls then l\<lparr>leg_outcome := out\<rparr> else l) (db_legs d)" for ls d
    by (induction ls arbitrary: d) (auto simp: update_leg_def upd_by_def row_update_def)
  then show ?thesis by (simp add: set_leg_outcomes_def)
qed

text \<open>C30: A staff void refunds the stake, or changes nothing. A void that is refused leaves the
  database as it was; one that succeeds finds an accepted bet of the tenant, marks it and its legs
  void with the stake as payout, leaves every other bet alone, and adds exactly one pending refund
  of the stake to the player and one audit entry naming the staff member.\<close>

theorem staff_void_refunds_or_nothing:
  assumes U: "unique_rows (w_db s)" and v: "voidBet E g i reason staff s = (res, s')"
  shows "isl res \<and> w_db s' = w_db s \<or>
    \<not> isl res \<and> (\<exists>bet r p a. find_bet i (w_db s) = Some bet \<and> bet_casinoGroupId bet = g \<and> bet_status bet = Bet_ACCEPTED \<and>
      db_bets (w_db s') = map (\<lambda>b. if bet_id b = i then b\<lparr>bet_status := Bet_VOID, bet_payoutAmount := Some (bet_stake bet),
          bet_settledAt := Some (w_now s), bet_settlementNote := Some (''Voided by staff: '' @ reason)\<rparr> else b)
        (db_bets (w_db s)) \<and>
      db_legs (w_db s') = map (\<lambda>l. if leg_betId l = i then l\<lparr>leg_outcome := Leg_VOID\<rparr> else l) (db_legs (w_db s)) \<and>
      db_outbox (w_db s') = db_outbox (w_db s) @ [r] \<and> ob_betId r = i \<and> ob_type r = WALLET_OUTBOX_STAFF_VOID \<and>
      ob_status r = Ob_PENDING \<and> ob_payload r = Some p \<and> st_userCode p = bet_username bet \<and>
      st_amount p = dl_show (env_dec E) (bet_stake bet) \<and> st_isCanceled p \<and>
      db_audit (w_db s') = db_audit (w_db s) @ [a] \<and> au_action a = ''bets.voided'' \<and> au_actorId a = Some staff)"
  using v
proof (cases rule: voidBet_cases)
  case (refused e)
  then show ?thesis by simp
next
  case (voided bet t d3 dto)
  note fb = find_group_bet_find [OF voided(1) U]
  note co = create_outbox_InrD [OF voided(4)]
  note tx = buildSettlementTransaction_fields [OF voided(3)]
  let ?row = "new_settlement_row (env_gen E (w_seq s)) bet WALLET_OUTBOX_STAFF_VOID
      (staffVoidTransactionCode E (bet_id bet)) None t (w_now s)"
  have "leg_id l \<in> leg_id ` set (legs_of i (w_db s)) \<longleftrightarrow> leg_betId l = i" if "l \<in> set (db_legs (w_db s))" for l
    using U that by (auto simp: unique_rows_def distinct_map legs_of_def inj_on_def)
  then have legs: "db_legs (w_db s') = map (\<lambda>l. if leg_betId l = i then l\<lparr>leg_outcome := Leg_VOID\<rparr> else l) (db_legs (w_db s))"
    using fb by (simp add: voided(6) co(2) set_outcomes_same cong: map_cong)
  have bets: "db_bets (w_db s') = map (\<lambda>b. if bet_id b = i then b\<lparr>bet_status := Bet_VOID, bet_payoutAmount := Some (bet_stake bet),
          bet_settledAt := Some (w_now s), bet_settlementNote := Some (''Voided by staff: '' @ reason)\<rparr> else b)
        (db_bets (w_db s))"
    using fb by (simp add: voided(6) co(1) update_bet_map settle_bet_row_def)
  obtain a where a: "db_audit (w_db s') = db_audit d3 @ [a]" "au_action a = ''bets.voided''" "au_actorId a = Some staff"
    using staff_audit_log [of staff g "''bets.voided''" "''Bet''" i "Some [(''status'', outcome_text (bet_status bet))]"
        "Some [(''status'', outcome_text Bet_VOID)]" "Some reason" "s\<lparr>w_db := d3, w_seq := w_seq s + 1\<rparr>"]
    unfolding voided(6) by auto
  have audit: "db_audit d3 = db_audit (w_db s)"
  proof -
    have "db_audit (set_leg_outcomes os d) = db_audit d" for os d
      by (induction os arbitrary: d) (auto simp: set_leg_outcomes_def update_leg_def)
    with voided(4) show ?thesis by (auto simp: create_outbox_def update_bet_def split: if_splits)
  qed
  have row: "db_outbox (w_db s') = db_outbox (w_db s) @ [?row]" by (simp add: voided(6) co(3))
  have "ob_betId ?row = i \<and> ob_type ?row = WALLET_OUTBOX_STAFF_VOID \<and> ob_status ?row = Ob_PENDING \<and>
      ob_payload ?row = Some (serializeWalletTransaction t)" using fb by (simp add: new_settlement_row_def)
  moreover have "st_userCode (serializeWalletTransaction t) = bet_username bet \<and>
      st_amount (serializeWalletTransaction t) = dl_show (env_dec E) (bet_stake bet) \<and>
      st_isCanceled (serializeWalletTransaction t)"
    using tx by (simp add: serializeWalletTransaction_def)
  ultimately show ?thesis using voided(2,5) fb legs bets a audit row by auto
qed

theorem staff_void_refunds_or_nothing_witness:
  "\<exists>r. db_outbox (w_db (snd (voidBet ex_env ''g1'' ''id1'' ''goodwill'' ''st1'' ex_accepted))) = [ex_debit Ob_COMPLETED, r] \<and>
     ob_type r = WALLET_OUTBOX_STAFF_VOID"
proof -
  have out: "db_outbox (w_db ex_accepted) = [ex_debit Ob_COMPLETED]" by (simp add: ex_accepted_def ex_book_def)
  have f: "unique_rows (w_db ex_accepted)" "\<not> isl (fst (voidBet ex_env ''g1'' ''id1'' ''goodwill'' ''st1'' ex_accepted))"
    by (code_simp, code_simp)
  obtain r s' where v: "voidBet ex_env ''g1'' ''id1'' ''goodwill'' ''st1'' ex_accepted = (r, s')" by fastforce
  from staff_void_refunds_or_nothing [OF f(1) v] f(2) v out show ?thesis by auto
qed

end
