(* ===== verification/CircuitBreaker.thy ===== *)
theory CircuitBreaker
  imports Prelude
begin

text \<open>
  \<open>shared/resilience/circuit-breaker.ts\<close>: a consecutive-failure circuit breaker around a
  fallible call. The guarded call is any function from the outer state to a result and a new
  state; the clock is read before the call (\<open>now\<close>) and when a failure is recorded (\<open>later\<close>).
\<close>

datatype circuit_state = Closed | Open | HalfOpen

record breaker =
  cb_state :: circuit_state
  cb_failures :: nat
  cb_openedAt :: int

record breaker_options =
  cb_failureThreshold :: nat
  cb_cooldownMs :: int

definition new_breaker :: breaker where
  "new_breaker = \<lparr>cb_state = Closed, cb_failures = 0, cb_openedAt = 0\<rparr>"

definition cb_onSuccess :: "breaker \<Rightarrow> breaker" where
  "cb_onSuccess b = b\<lparr>cb_failures := 0, cb_state := Closed\<rparr>"

definition cb_onFailure :: "breaker_options \<Rightarrow> int \<Rightarrow> breaker \<Rightarrow> breaker" where
  "cb_onFailure opt now b =
     (let b1 = b\<lparr>cb_failures := cb_failures b + 1\<rparr> in
      if cb_state b1 = HalfOpen \<or> cb_failures b1 \<ge> cb_failureThreshold opt
      then b1\<lparr>cb_state := Open, cb_openedAt := now\<rparr>
      else b1)"

definition circuit_open_error :: api_error where
  "circuit_open_error = PlainError ''Circuit is open''"

definition cb_execute ::
  "breaker_options \<Rightarrow> int \<Rightarrow> int \<Rightarrow> ('s \<Rightarrow> 'a result \<times> 's) \<Rightarrow> breaker \<Rightarrow> 's
     \<Rightarrow> 'a result \<times> breaker \<times> 's" where
  "cb_execute opt now later fn b s =
     (if cb_state b = Open \<and> now - cb_openedAt b < cb_cooldownMs opt
      then (Inl circuit_open_error, b, s)
      else
        let b1 = (if cb_state b = Open then b\<lparr>cb_state := HalfOpen\<rparr> else b) in
        case fn s of
          (Inr result, s') \<Rightarrow> (Inr result, cb_onSuccess b1, s')
        | (Inl e, s') \<Rightarrow> (Inl e, cb_onFailure opt later b1, s'))"

text \<open>
  The invariant: between calls the breaker is closed with fewer failures than the threshold,
  or open. \<open>HalfOpen\<close> exists only while a trial call runs.
\<close>

definition breaker_inv :: "breaker_options \<Rightarrow> breaker \<Rightarrow> bool" where
  "breaker_inv opt b \<longleftrightarrow>
     (cb_state b = Closed \<and> cb_failures b < cb_failureThreshold opt) \<or>
     (cb_state b = Open \<and> 0 < cb_failures b)"

lemma breaker_inv_new: "0 < cb_failureThreshold opt \<Longrightarrow> breaker_inv opt new_breaker"
  by (simp add: breaker_inv_def new_breaker_def)

lemma breaker_inv_execute:
  assumes "0 < cb_failureThreshold opt" and "breaker_inv opt b"
    and "cb_execute opt now later fn b s = (r, b', s')"
  shows "breaker_inv opt b'"
  using assms
  by (auto simp: cb_execute_def breaker_inv_def cb_onSuccess_def cb_onFailure_def Let_def
      split: if_splits prod.splits sum.splits)

text \<open>The outcomes of one guarded call.\<close>

lemma cb_execute_blocked:
  assumes "cb_state b = Open" and "now - cb_openedAt b < cb_cooldownMs opt"
  shows "cb_execute opt now later fn b s = (Inl circuit_open_error, b, s)"
  using assms by (simp add: cb_execute_def)

lemma cb_execute_success:
  assumes "cb_state b = Open \<Longrightarrow> cb_cooldownMs opt \<le> now - cb_openedAt b"
    and "fn s = (Inr x, s')"
  shows "cb_execute opt now later fn b s =
    (Inr x, b\<lparr>cb_failures := 0, cb_state := Closed\<rparr>, s')"
  using assms by (auto simp: cb_execute_def cb_onSuccess_def Let_def)

lemma cb_execute_failure:
  assumes "cb_state b = Open \<Longrightarrow> cb_cooldownMs opt \<le> now - cb_openedAt b"
    and "fn s = (Inl e, s')"
  shows "cb_execute opt now later fn b s =
    (Inl e,
     cb_onFailure opt later (if cb_state b = Open then b\<lparr>cb_state := HalfOpen\<rparr> else b), s')"
  using assms by (auto simp: cb_execute_def Let_def)

text \<open>
  A run of the breaker over a list of calls, each with the clock at its start and end and the
  outcome the upstream would give (\<open>True\<close>: it succeeds); the result says which calls reached
  the upstream.
\<close>

fun cb_run :: "breaker_options \<Rightarrow> (int \<times> int \<times> bool) list \<Rightarrow> breaker \<Rightarrow> bool list \<times> breaker" where
  "cb_run opt [] b = ([], b)"
| "cb_run opt ((now, later, up) # calls) b =
     (case cb_execute opt now later
        (\<lambda>reached. (if up then Inr () else Inl (PlainError ''upstream''), True)) b False of
        (r, b', reached) \<Rightarrow>
          (case cb_run opt calls b' of (rs, b'') \<Rightarrow> (reached # rs, b'')))"

lemma cb_failures_open:
  assumes "cb_state b = Closed" and "cb_failures b + length calls \<ge> cb_failureThreshold opt"
    and "cb_failures b < cb_failureThreshold opt"
    and "\<forall>(now, later, up) \<in> set calls. \<not> up"
    and "length calls + cb_failures b = cb_failureThreshold opt"
  shows "cb_state (snd (cb_run opt calls b)) = Open \<and>
         fst (cb_run opt calls b) = replicate (length calls) True"
  using assms
proof (induction calls arbitrary: b)
  case Nil
  then show ?case by simp
next
  case (Cons c calls)
  obtain now later up where c: "c = (now, later, up)" by (cases c)
  with Cons.prems have up: "\<not> up" by simp
  let ?b1 = "cb_onFailure opt later b"
  have step: "cb_execute opt now later
      (\<lambda>reached. (if up then Inr () else Inl (PlainError ''upstream''), True)) b False =
      (Inl (PlainError ''upstream''), ?b1, True)"
    using Cons.prems(1) up by (simp add: cb_execute_def)
  show ?case
  proof (cases "calls = []")
    case True
    with Cons.prems step c show ?thesis by (simp add: cb_onFailure_def Let_def)
  next
    case False
    then have "cb_failures b + 1 < cb_failureThreshold opt" using Cons.prems(5) by (cases calls) auto
    then have b1: "cb_state ?b1 = Closed" "cb_failures ?b1 = cb_failures b + 1"
      using Cons.prems(1) by (auto simp: cb_onFailure_def Let_def)
    with Cons.IH [of ?b1] Cons.prems \<open>cb_failures b + 1 < _\<close>
    have "cb_state (snd (cb_run opt calls ?b1)) = Open \<and>
        fst (cb_run opt calls ?b1) = replicate (length calls) True" by simp
    with c step show ?thesis by (auto split: prod.splits)
  qed
qed

end
