(* ===== verification/CasinoGroups.thy ===== *)
theory CasinoGroups
  imports Redis WalletCode
begin

text \<open>
  \<open>modules/casino-groups/casino-groups.service.ts\<close>, \<open>casino-group.guard.ts\<close> and
  \<open>modules/wallet/wallet-auth.util.ts\<close>: resolving the tenant of a request through a short-lived
  cache, the credentials and the wallet settings of a tenant, and the authorization header of
  its wallet. Decryption of the stored secret (\<open>CryptoService\<close>) is an argument.
\<close>

subsection \<open>Wallet addresses and credentials\<close>

definition strip_slashes :: "string \<Rightarrow> string" where
  "strip_slashes s = rev (dropWhile (\<lambda>c. c = CHR ''/'') (rev s))"

definition normalizeWalletApiUrl :: "string \<Rightarrow> string" where
  "normalizeWalletApiUrl url = strip_slashes (trim url)"

text \<open>\<open>Buffer.toString('base64')\<close>: six bits per character, padded with \<open>=\<close>.\<close>

definition base64_alphabet :: string where
  "base64_alphabet =
     ''ABCDEFGHIJKLMNOPQRSTUVWXYZabcdefghijklmnopqrstuvwxyz0123456789+/''"

definition base64_char :: "nat \<Rightarrow> char" where
  "base64_char n = base64_alphabet ! n"

fun base64 :: "nat list \<Rightarrow> string" where
  "base64 [] = []"
| "base64 [a] = [base64_char (a div 4), base64_char (a mod 4 * 16), CHR ''='', CHR ''='']"
| "base64 [a, b] =
     [base64_char (a div 4), base64_char (a mod 4 * 16 + b div 16), base64_char (b mod 16 * 4), CHR ''='']"
| "base64 (a # b # c # rest) =
     [base64_char (a div 4), base64_char (a mod 4 * 16 + b div 16),
      base64_char (b mod 16 * 4 + c div 64), base64_char (c mod 64)] @ base64 rest"

definition merchantBasicAuthHeader :: "string \<Rightarrow> string \<Rightarrow> string" where
  "merchantBasicAuthHeader merchantId sportsSecret =
     ''Basic '' @ base64 (map char_code (merchantId @ '':'' @ sportsSecret))"

record merchant_wallet_config =
  mw_apiUrl :: string
  mw_merchantId :: string
  mw_sportsSecret :: string
  mw_currency :: string

text \<open>Opening the sealed secret may throw.\<close>

definition getWalletConfig ::
  "(string \<Rightarrow> string result) \<Rightarrow> string \<Rightarrow> db \<Rightarrow> merchant_wallet_config option result" where
  "getWalletConfig decrypt casinoGroupId d =
     (case row_find (\<lambda>g. cg_id g = casinoGroupId \<and> cg_status g = Cg_ACTIVE) (db_groups d) of
        None \<Rightarrow> Inr None
      | Some row \<Rightarrow>
          if \<not> truthy (map_option trim (cg_walletApiUrl row)) \<or> \<not> truthy (cg_merchantId row) \<or>
             \<not> truthy (cg_sportsSecret row) then Inr None
          else (case decrypt (the (cg_sportsSecret row)) of
             Inl e \<Rightarrow> Inl e
           | Inr secret \<Rightarrow> Inr (Some \<lparr>
               mw_apiUrl = normalizeWalletApiUrl (the (cg_walletApiUrl row)),
               mw_merchantId = the (cg_merchantId row),
               mw_sportsSecret = secret,
               mw_currency = cg_defaultCurrency row\<rparr>)))"

definition group_ctx :: "group_row \<Rightarrow> casino_group_ctx" where
  "group_ctx g = \<lparr>cc_id = cg_id g, cc_slug = cg_slug g, cc_name = cg_name g,
     cc_defaultCurrency = cg_defaultCurrency g, cc_timezone = cg_timezone g\<rparr>"

definition getMerchantCredentials ::
  "(string \<Rightarrow> string result) \<Rightarrow> string \<Rightarrow> db \<Rightarrow> (casino_group_ctx \<times> string) option result" where
  "getMerchantCredentials decrypt merchantId d =
     (case row_find (\<lambda>g. cg_merchantId g = Some merchantId \<and> cg_status g = Cg_ACTIVE) (db_groups d) of
        None \<Rightarrow> Inr None
      | Some row \<Rightarrow>
          if \<not> truthy (cg_sportsSecret row) then Inr None
          else (case decrypt (the (cg_sportsSecret row)) of
             Inl e \<Rightarrow> Inl e
           | Inr secret \<Rightarrow> Inr (Some (group_ctx row, secret))))"

subsection \<open>Resolving the tenant of a request\<close>

definition CACHE_PREFIX :: string where
  "CACHE_PREFIX = ''casino-group:slug:''"

definition CACHE_ID_PREFIX :: string where
  "CACHE_ID_PREFIX = ''casino-group:id:''"

definition CACHE_TTL_SECONDS :: int where
  "CACHE_TTL_SECONDS = 60"

text \<open>A failing command and a text that is no group read as no entry; a failing write is ignored.\<close>

definition readCache :: "'r redis_port \<Rightarrow> string \<Rightarrow> int \<Rightarrow> 'r \<Rightarrow> casino_group_ctx option" where
  "readCache R key now r =
     (case rp_get R key now r of Inr (Some (GroupJson grp)) \<Rightarrow> Some grp | _ \<Rightarrow> None)"

definition writeCache :: "'r redis_port \<Rightarrow> string \<Rightarrow> casino_group_ctx \<Rightarrow> int \<Rightarrow> 'r \<Rightarrow> 'r" where
  "writeCache R key grp now r = snd (rp_setEx R key (GroupJson grp) CACHE_TTL_SECONDS now r)"

definition resolve_active ::
  "'r redis_port \<Rightarrow> string \<Rightarrow> (group_row \<Rightarrow> bool) \<Rightarrow> db \<Rightarrow> int \<Rightarrow> 'r \<Rightarrow> casino_group_ctx option \<times> 'r" where
  "resolve_active R key matches d now r =
     (case readCache R key now r of
        Some cached \<Rightarrow> (Some cached, r)
      | None \<Rightarrow>
          (case row_find (\<lambda>g. matches g \<and> cg_status g = Cg_ACTIVE) (db_groups d) of
             None \<Rightarrow> (None, r)
           | Some row \<Rightarrow> (Some (group_ctx row), writeCache R key (group_ctx row) now r)))"

definition resolveActiveBySlug ::
  "'r redis_port \<Rightarrow> string \<Rightarrow> db \<Rightarrow> int \<Rightarrow> 'r \<Rightarrow> casino_group_ctx option \<times> 'r" where
  "resolveActiveBySlug R slug = resolve_active R (CACHE_PREFIX @ slug) (\<lambda>g. cg_slug g = slug)"

definition resolveActiveById ::
  "'r redis_port \<Rightarrow> string \<Rightarrow> db \<Rightarrow> int \<Rightarrow> 'r \<Rightarrow> casino_group_ctx option \<times> 'r" where
  "resolveActiveById R i = resolve_active R (CACHE_ID_PREFIX @ i) (\<lambda>g. cg_id g = i)"

definition invalidate :: "'r redis_port \<Rightarrow> casino_group_ctx \<Rightarrow> 'r \<Rightarrow> unit result \<times> 'r" where
  "invalidate R grp r =
     rp_del R [CACHE_PREFIX @ cc_slug grp, CACHE_ID_PREFIX @ cc_id grp] r"

text \<open>The guard of the tenant header; a repeated header counts with its first value.\<close>

definition CASINO_GROUP_HEADER :: string where
  "CASINO_GROUP_HEADER = ''x-casino-group''"

definition CasinoGroupGuard ::
  "'r redis_port \<Rightarrow> string list \<Rightarrow> db \<Rightarrow> int \<Rightarrow> 'r \<Rightarrow> casino_group_ctx result \<times> 'r" where
  "CasinoGroupGuard R header d now r =
     (case header of
        [] \<Rightarrow> (Inl (BadRequest (''Missing '' @ CASINO_GROUP_HEADER @ '' header'')), r)
      | slug # _ \<Rightarrow>
          if slug = [] then (Inl (BadRequest (''Missing '' @ CASINO_GROUP_HEADER @ '' header'')), r)
          else (case resolveActiveBySlug R slug d now r of
                  (None, r') \<Rightarrow> (Inl (Forbidden ''Unknown or inactive casino group''), r')
                | (Some grp, r') \<Rightarrow> (Inr grp, r')))"

text \<open>
  The cache is sound when every live entry is the context of an active group that some database
  of the last minute held. Resolving keeps it so, and answers only with such groups.
\<close>

definition active_in :: "db \<Rightarrow> casino_group_ctx \<Rightarrow> bool" where
  "active_in d c \<longleftrightarrow> (\<exists>g \<in> set (db_groups d). cg_status g = Cg_ACTIVE \<and> group_ctx g = c)"

text \<open>\<open>hist t\<close> is the database at time \<open>t\<close>.\<close>

definition cache_sound :: "(int \<Rightarrow> db) \<Rightarrow> redis_view \<Rightarrow> bool" where
  "cache_sound hist m \<longleftrightarrow>
     (\<forall>k c e. m k = Some (GroupJson c, e) \<longrightarrow> active_in (hist (e - CACHE_TTL_SECONDS * 1000)) c)"

lemma readCache_active:
  assumes "redis_ok R view" and "cache_sound hist (view r)" and "readCache R k now r = Some c"
  shows "\<exists>t > now - 60000. active_in (hist t) c"
proof -
  from assms(3) have "rp_get R k now r = Inr (Some (GroupJson c))"
    by (auto simp: readCache_def split: sum.splits option.splits redis_value.splits)
  with redis_okD(1) [OF assms(1)] have "live_value (view r) k now = Some (GroupJson c)" by metis
  then obtain e where e: "view r k = Some (GroupJson c, e)" "now < e"
    by (auto simp: live_value_def split: option.splits if_splits)
  with assms(2) have "active_in (hist (e - 60000)) c"
    unfolding cache_sound_def CACHE_TTL_SECONDS_def by fastforce
  with e(2) show ?thesis by (intro exI [of _ "e - 60000"]) simp
qed

lemma writeCache_sound:
  assumes "redis_ok R view" and "cache_sound hist (view r)" and "active_in (hist now) c"
  shows "cache_sound hist (view (writeCache R k c now r))"
proof -
  obtain x r' where w: "rp_setEx R k (GroupJson c) CACHE_TTL_SECONDS now r = (x, r')" by fastforce
  with assms(1) have "view r' = (view r)(k \<mapsto> (GroupJson c, now + CACHE_TTL_SECONDS * 1000)) \<or> view r' = view r"
    unfolding redis_ok_def by blast
  with w assms(2,3) show ?thesis by (auto simp: writeCache_def cache_sound_def split: if_splits)
qed

lemma resolve_active_sound:
  assumes "redis_ok R view" and "cache_sound hist (view r)"
    and "resolve_active R k P (hist now) now r = (x, r')"
  shows "cache_sound hist (view r') \<and> (\<forall>c. x = Some c \<longrightarrow> (\<exists>t > now - 60000. active_in (hist t) c))"
proof (cases "readCache R k now r")
  case (Some c)
  with assms readCache_active [OF assms(1,2) Some] show ?thesis by (auto simp: resolve_active_def)
next
  case None
  show ?thesis
  proof (cases "row_find (\<lambda>g. P g \<and> cg_status g = Cg_ACTIVE) (db_groups (hist now))")
    case None
    with \<open>readCache R k now r = None\<close> assms show ?thesis by (simp add: resolve_active_def)
  next
    case (Some g)
    with row_find_SomeD [OF Some] have "active_in (hist now) (group_ctx g)"
      by (auto simp: active_in_def)
    with Some \<open>readCache R k now r = None\<close> assms writeCache_sound [OF assms(1,2)] show ?thesis
      by (auto simp: resolve_active_def intro!: exI [of _ now])
  qed
qed

end
