(* ===== verification/WalletHttp.thy ===== *)
theory WalletHttp
  imports WalletPort CircuitBreaker CasinoGroups
begin

text \<open>
  \<open>modules/wallet/wallet.client.ts\<close> and \<open>wallet.service.ts\<close>: the wallet port over the merchant's
  HTTP interface, behind the circuit breaker. The HTTP client and the merchant's server are one
  parameter, a server with a state; \<open>Date.now()\<close> is read off that state. A JSON body is read by
  its three fields; a body that is no such object (an HTML error page) reads as one without
  fields. Rendering the request body as JSON is not modelled.

  \<open>merchant_ok\<close> is what the client relies on; with it, the client provides \<open>wallet_ledger\<close>.
\<close>

subsection \<open>The merchant's interface\<close>

datatype json_scalar = JStr string | JNum string   \<comment> \<open>a number by its text\<close>

record merchant_data =
  md_success :: bool
  md_message :: "json_scalar option"
  md_errorCode :: "int option"

text \<open>\<open>Http_fail\<close>: an Axios error with the status and a non-empty body, if there was a response.\<close>

datatype http_reply =
    Http_ok merchant_data
  | Http_fail "nat option" "merchant_data option"
  | Http_other string

record 'h merchant_http =
  mh_clock :: "'h \<Rightarrow> int"
  mh_balance :: "string \<Rightarrow> string \<Rightarrow> string \<Rightarrow> 'h \<Rightarrow> http_reply \<times> 'h"
  mh_transaction :: "string \<Rightarrow> string \<Rightarrow> merchant_body \<Rightarrow> 'h \<Rightarrow> http_reply \<times> 'h"
  mh_batch :: "string \<Rightarrow> string \<Rightarrow> string \<Rightarrow> merchant_body list \<Rightarrow> 'h \<Rightarrow> http_reply \<times> 'h"

record 'h http_wallet =
  hw_server :: 'h
  hw_breaker :: breaker

definition wallet_breaker :: breaker_options where
  "wallet_breaker = \<lparr>cb_failureThreshold = 5, cb_cooldownMs = 10000\<rparr>"

subsection \<open>Reading an answer\<close>

definition accepted :: "merchant_data \<Rightarrow> bool" where
  "accepted data \<longleftrightarrow> md_success data \<and> md_errorCode data = Some 0"

definition scalar_text :: "json_scalar \<Rightarrow> string" where
  "scalar_text x = (case x of JStr t \<Rightarrow> t | JNum t \<Rightarrow> t)"

definition isDuplicateTransaction :: "merchant_data \<Rightarrow> bool" where
  "isDuplicateTransaction data \<longleftrightarrow>
     md_errorCode data \<noteq> Some 0 \<and>
     str_includes (to_upper (case md_message data of None \<Rightarrow> [] | Some m \<Rightarrow> scalar_text m)) ''DUPLICATE''"

definition is_debit :: "wallet_tx \<Rightarrow> bool" where
  "is_debit request \<longleftrightarrow> (case parse_float (tx_amount request) of None \<Rightarrow> False | Some amount \<Rightarrow> amount < 0)"

definition parseTransactionResponse :: "merchant_data \<Rightarrow> wallet_tx \<Rightarrow> string result" where
  "parseTransactionResponse data request =
     (if accepted data then
        Inr (case md_message data of
               Some (JStr m) \<Rightarrow> if m \<noteq> [] then m else tx_transactionCode request
             | _ \<Rightarrow> tx_transactionCode request)
      else if isDuplicateTransaction data then Inr (tx_transactionCode request)
      else if is_debit request then Inl (WalletReserveError ''Insufficient balance'' INSUFFICIENT_FUNDS)
      else Inl (WalletReserveError ''Wallet transaction rejected'' UNAVAILABLE))"

definition unavailable :: api_error where
  "unavailable = WalletReserveError ''Wallet service unavailable'' UNAVAILABLE"

definition http_error_text :: "http_reply \<Rightarrow> string" where
  "http_error_text reply = (case reply of Http_other m \<Rightarrow> m | _ \<Rightarrow> ''Request failed'')"

text \<open>
  One call through the breaker: the result, the answer of the server if it was reached, and the
  next state.
\<close>

definition guarded_call ::
  "'h merchant_http \<Rightarrow> ('h \<Rightarrow> http_reply \<times> 'h) \<Rightarrow> (merchant_data \<Rightarrow> 'a result) \<Rightarrow> 'h http_wallet \<Rightarrow>
   'a result \<times> http_reply option \<times> 'h http_wallet" where
  "guarded_call S call parse w =
     (let fn = (\<lambda>(h, seen). case call h of (reply, h') \<Rightarrow>
            ((case reply of Http_ok data \<Rightarrow> parse data | _ \<Rightarrow> Inl (PlainError (http_error_text reply))),
             (h', Some reply)));
          start = (hw_server w, None);
          later = mh_clock S (fst (snd (fn start))) in
      case cb_execute wallet_breaker (mh_clock S (hw_server w)) later fn (hw_breaker w) start of
        (r, b, (h, reply)) \<Rightarrow> (r, reply, w\<lparr>hw_server := h, hw_breaker := b\<rparr>))"

subsection \<open>The three calls\<close>

definition requireWalletConfig :: "merchant_wallet_config option \<Rightarrow> merchant_wallet_config result" where
  "requireWalletConfig config =
     (case config of
        None \<Rightarrow> Inl (WalletReserveError ''Merchant wallet API not configured'' UNAVAILABLE)
      | Some c \<Rightarrow> Inr c)"

definition authHeaders :: "merchant_wallet_config \<Rightarrow> string" where
  "authHeaders c = merchantBasicAuthHeader (mw_merchantId c) (mw_sportsSecret c)"

definition http_getBalance ::
  "(string \<Rightarrow> merchant_wallet_config option) \<Rightarrow> 'h merchant_http \<Rightarrow> string \<Rightarrow> string \<Rightarrow> 'h http_wallet \<Rightarrow>
   (string \<times> string) result \<times> 'h http_wallet" where
  "http_getBalance config S userCode casinoGroupId w =
     (case requireWalletConfig (config casinoGroupId) of
        Inl e \<Rightarrow> (Inl e, w)
      | Inr c \<Rightarrow>
      (case guarded_call S (mh_balance S (mw_apiUrl c @ ''/balance'') (authHeaders c) userCode)
              (\<lambda>data. if \<not> accepted data then
                  Inl (WalletReserveError ''Wallet balance lookup rejected'' UNAVAILABLE)
                else Inr (case md_message data of None \<Rightarrow> ''undefined'' | Some m \<Rightarrow> scalar_text m,
                          mw_currency c)) w of
         (Inr x, _, w') \<Rightarrow> (Inr x, w')
       | (Inl e, _, w') \<Rightarrow> (if is_reserve_error e then Inl e else Inl unavailable, w')))"

text \<open>What a failed call becomes: an answer with a body is read like a successful one.\<close>

definition transaction_failure :: "http_reply option \<Rightarrow> wallet_tx \<Rightarrow> string result" where
  "transaction_failure reply request =
     (case reply of
        Some (Http_fail status data) \<Rightarrow>
          (case data of
             Some body \<Rightarrow> parseTransactionResponse body request
           | None \<Rightarrow>
               if status = Some 402 \<or> status = Some 409 \<or> status = Some 400
               then Inl (WalletReserveError ''Insufficient balance'' INSUFFICIENT_FUNDS)
               else Inl unavailable)
      | _ \<Rightarrow> Inl unavailable)"

definition http_postTransaction ::
  "(string \<Rightarrow> merchant_wallet_config option) \<Rightarrow> 'h merchant_http \<Rightarrow> wallet_tx \<Rightarrow> 'h http_wallet \<Rightarrow>
   string result \<times> 'h http_wallet" where
  "http_postTransaction config S request w =
     (case requireWalletConfig (config (tx_casinoGroupId request)) of
        Inl e \<Rightarrow> (Inl e, w)
      | Inr c \<Rightarrow>
      (case guarded_call S
              (mh_transaction S (mw_apiUrl c @ ''/transaction'') (authHeaders c) (toMerchantTransactionBody request))
              (\<lambda>data. parseTransactionResponse data request) w of
         (Inr x, _, w') \<Rightarrow> (Inr x, w')
       | (Inl e, reply, w') \<Rightarrow>
           (if is_reserve_error e then Inl e else transaction_failure reply request, w')))"

definition batch_failure :: "http_reply option \<Rightarrow> string \<Rightarrow> string result" where
  "batch_failure reply batchId =
     (case reply of
        Some (Http_fail status (Some body)) \<Rightarrow>
          if accepted body \<or> isDuplicateTransaction body then Inr batchId else Inl unavailable
      | _ \<Rightarrow> Inl unavailable)"

definition http_postTransactionBatch ::
  "(string \<Rightarrow> merchant_wallet_config option) \<Rightarrow> 'h merchant_http \<Rightarrow> string \<Rightarrow> string \<Rightarrow> wallet_tx list \<Rightarrow>
   'h http_wallet \<Rightarrow> string result \<times> 'h http_wallet" where
  "http_postTransactionBatch config S casinoGroupId batchId transactions w =
     (if transactions = [] then (Inr batchId, w)
      else case requireWalletConfig (config casinoGroupId) of
        Inl e \<Rightarrow> (Inl e, w)
      | Inr c \<Rightarrow>
      (case guarded_call S
              (mh_batch S (mw_apiUrl c @ ''/batch-transactions'') (authHeaders c) batchId
                (map toMerchantTransactionBody transactions))
              (\<lambda>data. if accepted data \<or> isDuplicateTransaction data then Inr batchId
                else Inl (WalletReserveError ''Wallet batch settlement rejected'' UNAVAILABLE)) w of
         (Inr x, _, w') \<Rightarrow> (Inr x, w')
       | (Inl e, reply, w') \<Rightarrow> (if is_reserve_error e then Inl e else batch_failure reply batchId, w')))"

definition http_port ::
  "(string \<Rightarrow> merchant_wallet_config option) \<Rightarrow> 'h merchant_http \<Rightarrow> 'h http_wallet wallet_port" where
  "http_port config S = \<lparr> wp_getBalance = http_getBalance config S,
     wp_postTransaction = http_postTransaction config S,
     wp_postTransactionBatch = http_postTransactionBatch config S \<rparr>"

text \<open>\<open>WalletService.getBalance\<close>: the player's balance, with wallet errors as 503.\<close>

definition WalletService_getBalance ::
  "'w wallet_port \<Rightarrow> string \<Rightarrow> string \<Rightarrow> 'w \<Rightarrow> (string \<times> string) result \<times> 'w" where
  "WalletService_getBalance P username casinoGroupId w =
     (case wp_getBalance P username casinoGroupId w of
        (Inl (WalletReserveError m c), w') \<Rightarrow> (Inl (ServiceUnavailable m), w')
      | (r, w') \<Rightarrow> (r, w'))"

subsection \<open>What the client relies on\<close>

text \<open>How the client reads an answer to one transaction.\<close>

definition reply_data :: "http_reply \<Rightarrow> merchant_data option" where
  "reply_data reply =
     (case reply of Http_ok data \<Rightarrow> Some data | Http_fail status data \<Rightarrow> data | Http_other m \<Rightarrow> None)"

definition says_done :: "http_reply \<Rightarrow> bool" where
  "says_done reply \<longleftrightarrow>
     (case reply_data reply of None \<Rightarrow> False | Some data \<Rightarrow> accepted data \<or> isDuplicateTransaction data)"

definition says_refused :: "http_reply \<Rightarrow> bool" where
  "says_refused reply \<longleftrightarrow>
     (case reply_data reply of
        Some data \<Rightarrow> \<not> accepted data \<and> \<not> isDuplicateTransaction data
      | None \<Rightarrow> (\<exists>st \<in> {400, 402, 409}. reply = Http_fail (Some st) None))"

text \<open>
  The merchant applies a transaction at most once per code; one it accepts or calls a duplicate
  has been applied; one it answers otherwise with a body, or with one of the statuses 400, 402 and
  409, has not. A batch it accepts or calls a duplicate has been applied as a whole.
\<close>

definition merchant_ok ::
  "'h merchant_http \<Rightarrow> ('h \<Rightarrow> ledger) \<Rightarrow> (string \<Rightarrow> rat \<Rightarrow> rat) \<Rightarrow> bool" where
  "merchant_ok S hview credit \<longleftrightarrow>
     (\<forall>url auth u h reply h'. mh_balance S url auth u h = (reply, h') \<longrightarrow> hview h' = hview h) \<and>
     (\<forall>url auth t h reply h'. mh_transaction S url auth (toMerchantTransactionBody t) h = (reply, h') \<longrightarrow>
        (hview h' = hview h \<or> hview h' = apply_tx credit (hview h) t) \<and>
        (says_done reply \<longrightarrow> hview h' = apply_tx credit (hview h) t) \<and>
        (says_refused reply \<longrightarrow> hview h' = hview h \<and> tx_transactionCode t \<notin> snd (hview h))) \<and>
     (\<forall>url auth b ts h reply h'. mh_batch S url auth b (map toMerchantTransactionBody ts) h = (reply, h') \<longrightarrow>
        (\<exists>n. hview h' = foldl (apply_tx credit) (hview h) (take n ts)) \<and>
        (says_done reply \<longrightarrow> hview h' = foldl (apply_tx credit) (hview h) ts))"

lemma merchant_okD:
  assumes "merchant_ok S hview credit"
  shows "mh_balance S url auth u h = (reply, h') \<Longrightarrow> hview h' = hview h"
    and "mh_transaction S url auth (toMerchantTransactionBody t) h = (reply, h') \<Longrightarrow>
      hview h' = hview h \<or> hview h' = apply_tx credit (hview h) t"
    and "mh_transaction S url auth (toMerchantTransactionBody t) h = (reply, h') \<Longrightarrow> says_done reply \<Longrightarrow>
      hview h' = apply_tx credit (hview h) t"
    and "mh_transaction S url auth (toMerchantTransactionBody t) h = (reply, h') \<Longrightarrow> says_refused reply \<Longrightarrow>
      hview h' = hview h \<and> tx_transactionCode t \<notin> snd (hview h)"
    and "mh_batch S url auth b (map toMerchantTransactionBody ts) h = (reply, h') \<Longrightarrow>
      \<exists>n. hview h' = foldl (apply_tx credit) (hview h) (take n ts)"
    and "mh_batch S url auth b (map toMerchantTransactionBody ts) h = (reply, h') \<Longrightarrow> says_done reply \<Longrightarrow>
      hview h' = foldl (apply_tx credit) (hview h) ts"
  using assms unfolding merchant_ok_def by metis+

text \<open>A guarded call reaches the server at most once.\<close>

lemma guarded_call_cases:
  assumes "guarded_call S call parse w = (r, reply, w')"
  obtains "reply = None" "hw_server w' = hw_server w" "r = Inl circuit_open_error"
  | x where "reply = Some x" "call (hw_server w) = (x, hw_server w')"
      "r = (case x of Http_ok data \<Rightarrow> parse data | _ \<Rightarrow> Inl (PlainError (http_error_text x)))"
proof -
  obtain x h' where c: "call (hw_server w) = (x, h')" by fastforce
  show thesis
  proof (cases "cb_state (hw_breaker w) = Open \<and>
      mh_clock S (hw_server w) - cb_openedAt (hw_breaker w) < cb_cooldownMs wallet_breaker")
    case True
    with assms that(1) show thesis by (simp add: guarded_call_def cb_execute_def c)
  next
    case False
    then show thesis
      using assms that(2) [of x]
      by (auto simp: guarded_call_def cb_execute_def c Let_def split: sum.splits)
  qed
qed

lemma parse_cases:
  "parseTransactionResponse data t = Inr x \<Longrightarrow> accepted data \<or> isDuplicateTransaction data"
  "parseTransactionResponse data t = Inl (WalletReserveError m INSUFFICIENT_FUNDS) \<Longrightarrow>
     \<not> accepted data \<and> \<not> isDuplicateTransaction data"
  "parseTransactionResponse data t = Inl e \<Longrightarrow> is_reserve_error e"
  by (auto simp: parseTransactionResponse_def split: if_splits)

lemma http_post_cases:
  assumes "http_postTransaction config S t w = (r, w')"
  obtains "hw_server w' = hw_server w" "\<exists>m. r = Inl (WalletReserveError m UNAVAILABLE)"
  | url auth x where
      "mh_transaction S url auth (toMerchantTransactionBody t) (hw_server w) = (x, hw_server w')"
      "\<And>i. r = Inr i \<Longrightarrow> says_done x"
      "\<And>m. r = Inl (WalletReserveError m INSUFFICIENT_FUNDS) \<Longrightarrow> says_refused x"
proof (cases "config (tx_casinoGroupId t)")
  case None
  with assms that(1) show thesis by (auto simp: http_postTransaction_def requireWalletConfig_def)
next
  case (Some c)
  let ?call = "mh_transaction S (mw_apiUrl c @ ''/transaction'') (authHeaders c) (toMerchantTransactionBody t)"
  obtain r1 reply w1 where g: "guarded_call S ?call (\<lambda>data. parseTransactionResponse data t) w = (r1, reply, w1)"
    by (rule prod_cases3)
  have w1: "w1 = w'" and r: "r = (case r1 of Inr i \<Rightarrow> Inr i
      | Inl e \<Rightarrow> if is_reserve_error e then Inl e else transaction_failure reply t)"
    using assms Some g by (auto simp: http_postTransaction_def requireWalletConfig_def split: sum.splits)
  from g show thesis
  proof (cases rule: guarded_call_cases)
    case 1
    with r w1 that(1) show thesis
      by (simp add: circuit_open_error_def transaction_failure_def unavailable_def)
  next
    case (2 x)
    note call = 2(2) [unfolded w1]
    show thesis
    proof (rule that(2) [OF call])
      fix i assume "r = Inr i"
      with r 2 show "says_done x"
        by (auto simp: says_done_def reply_data_def transaction_failure_def unavailable_def
            dest: parse_cases parse_cases [OF sym] split: sum.splits http_reply.splits option.splits if_splits)
    next
      fix m assume "r = Inl (WalletReserveError m INSUFFICIENT_FUNDS)"
      with r 2 show "says_refused x"
        by (auto simp: says_refused_def reply_data_def transaction_failure_def unavailable_def
            dest: parse_cases parse_cases [OF sym] split: sum.splits http_reply.splits option.splits if_splits)
    qed
  qed
qed

lemma http_batch_cases:
  assumes "http_postTransactionBatch config S g b ts w = (r, w')"
  obtains "hw_server w' = hw_server w" "\<And>i. r = Inr i \<Longrightarrow> ts = []"
  | url auth x where
      "mh_batch S url auth b (map toMerchantTransactionBody ts) (hw_server w) = (x, hw_server w')"
      "\<And>i. r = Inr i \<Longrightarrow> says_done x"
proof (cases "ts = [] \<or> config g = None")
  case True
  with assms that(1) show thesis
    by (auto simp: http_postTransactionBatch_def requireWalletConfig_def split: if_splits)
next
  case False
  then obtain c where c: "ts \<noteq> []" "config g = Some c" by auto
  let ?call = "mh_batch S (mw_apiUrl c @ ''/batch-transactions'') (authHeaders c) b (map toMerchantTransactionBody ts)"
  obtain r1 reply w1 where gc: "guarded_call S ?call
      (\<lambda>data. if accepted data \<or> isDuplicateTransaction data then Inr b
        else Inl (WalletReserveError ''Wallet batch settlement rejected'' UNAVAILABLE)) w = (r1, reply, w1)"
    by (rule prod_cases3)
  have w1: "w1 = w'" and r: "r = (case r1 of Inr i \<Rightarrow> Inr i
      | Inl e \<Rightarrow> if is_reserve_error e then Inl e else batch_failure reply b)"
    using assms c gc by (auto simp: http_postTransactionBatch_def requireWalletConfig_def split: sum.splits)
  from gc show thesis
  proof (cases rule: guarded_call_cases)
    case 1
    with r w1 that(1) show thesis by (simp add: circuit_open_error_def batch_failure_def unavailable_def)
  next
    case (2 x)
    note call = 2(2) [unfolded w1]
    show thesis
    proof (rule that(2) [OF call])
      fix i assume "r = Inr i"
      with r 2 show "says_done x"
        by (auto simp: says_done_def reply_data_def batch_failure_def unavailable_def
            split: sum.splits http_reply.splits option.splits if_splits)
    qed
  qed
qed

lemma http_balance_server:
  assumes "http_getBalance config S u g w = (r, w')"
  shows "hw_server w' = hw_server w \<or>
    (\<exists>url auth x. mh_balance S url auth u (hw_server w) = (x, hw_server w'))"
proof (cases "config g")
  case None
  with assms show ?thesis by (simp add: http_getBalance_def requireWalletConfig_def)
next
  case (Some c)
  then obtain parse r1 reply where
    g: "guarded_call S (mh_balance S (mw_apiUrl c @ ''/balance'') (authHeaders c) u) parse w =
      (r1 :: (string \<times> string) result, reply, w')"
    using assms by (auto simp: http_getBalance_def requireWalletConfig_def split: sum.splits prod.splits)
  then show ?thesis by (cases rule: guarded_call_cases) auto
qed

text \<open>The client provides the wallet port's contract.\<close>

lemma http_wallet_ledger:
  assumes "merchant_ok S hview credit"
  shows "wallet_ledger (http_port config S) (\<lambda>w. hview (hw_server w)) credit"
proof (unfold_locales, goal_cases)
  case (1 t w r w')
  then have "http_postTransaction config S t w = (r, w')" by (simp add: http_port_def)
  then show ?case by (cases rule: http_post_cases) (auto dest: merchant_okD(2) [OF assms])
next
  case (2 t w x w')
  then have "http_postTransaction config S t w = (Inr x, w')" by (simp add: http_port_def)
  then show ?case by (cases rule: http_post_cases) (auto dest: merchant_okD(3) [OF assms])
next
  case (3 t w m w')
  then have "http_postTransaction config S t w = (Inl (WalletReserveError m INSUFFICIENT_FUNDS), w')"
    by (simp add: http_port_def)
  then show ?case by (cases rule: http_post_cases) (auto dest: merchant_okD(4) [OF assms])
next
  case (4 g b ts w r w')
  then have "http_postTransactionBatch config S g b ts w = (r, w')" by (simp add: http_port_def)
  then show ?case
  proof (cases rule: http_batch_cases)
    case 1
    then show ?thesis by (intro exI [of _ 0]) simp
  next
    case (2 url auth x)
    from merchant_okD(5) [OF assms 2(1)] show ?thesis .
  qed
next
  case (5 g b ts w x w')
  then have "http_postTransactionBatch config S g b ts w = (Inr x, w')" by (simp add: http_port_def)
  then show ?case by (cases rule: http_batch_cases) (auto dest: merchant_okD(6) [OF assms])
next
  case (6 u g w rb w')
  then have "http_getBalance config S u g w = (rb, w')" by (simp add: http_port_def)
  from http_balance_server [OF this] merchant_okD(1) [OF assms] show ?case by metis
qed

end
