(* ===== verification/WalletProperties.thy ===== *)
theory WalletProperties
  imports Operations Example WalletHttp
begin

text \<open>
  What the delivery of wallet calls promises: the HTTP client keeps the books of the service, the
  breaker spares a failing merchant, a failed delivery is tried again, the workers make progress.
\<close>

subsection \<open>A merchant\<close>

text \<open>
  A merchant that keeps the contract \<open>merchant_ok\<close>: a balance per user, a transaction applied
  once per code, a repeated code answered as a duplicate.
\<close>

definition amount_credit :: "string \<Rightarrow> rat \<Rightarrow> rat" where
  "amount_credit a b = b + (case parse_float a of None \<Rightarrow> 0 | Some x \<Rightarrow> x)"

definition apply_body :: "ledger \<Rightarrow> merchant_body \<Rightarrow> ledger" where
  "apply_body g m =
     (if mb_transactionCode m \<in> snd g then g
      else ((fst g)(mb_userCode m := fst g (mb_userCode m) + (case mb_amount m of None \<Rightarrow> 0 | Some x \<Rightarrow> x)),
            insert (mb_transactionCode m) (snd g)))"

lemma apply_body_tx: "apply_body g (toMerchantTransactionBody t) = apply_tx amount_credit g t"
  by (simp add: apply_body_def apply_tx_def toMerchantTransactionBody_def amount_credit_def)

definition ok_data :: merchant_data where
  "ok_data = \<lparr>md_success = True, md_message = None, md_errorCode = Some 0\<rparr>"

definition duplicate_data :: merchant_data where
  "duplicate_data = \<lparr>md_success = False, md_message = Some (JStr ''Duplicate transaction''), md_errorCode = Some 7\<rparr>"

definition ex_merchant :: "ledger merchant_http" where
  "ex_merchant = \<lparr> mh_clock = (\<lambda>h. 0), mh_balance = (\<lambda>url auth u h. (Http_ok ok_data, h)),
     mh_transaction = (\<lambda>url auth m h.
       if mb_transactionCode m \<in> snd h then (Http_fail (Some 409) (Some duplicate_data), h)
       else (Http_ok ok_data, apply_body h m)),
     mh_batch = (\<lambda>url auth b ms h. (Http_ok ok_data, foldl apply_body h ms)) \<rparr>"

lemma body_code [simp]: "mb_transactionCode (toMerchantTransactionBody t) = tx_transactionCode t"
  by (simp add: toMerchantTransactionBody_def)

lemma foldl_apply_body:
  "foldl apply_body g (map toMerchantTransactionBody ts) = foldl (apply_tx amount_credit) g ts"
  by (induction ts arbitrary: g) (simp_all add: apply_body_tx)

lemma data_read:
  "accepted ok_data" "\<not> accepted duplicate_data" "isDuplicateTransaction duplicate_data"
  by code_simp+

lemma ex_merchant_ok: "merchant_ok ex_merchant (\<lambda>h. h) amount_credit"
  unfolding merchant_ok_def
proof (intro conjI allI impI, goal_cases)
  case (2 url auth t h reply h')
  then show ?case by (auto simp: ex_merchant_def apply_body_tx split: if_splits)
next
  case (3 url auth t h reply h')
  then show ?case
    by (auto simp: ex_merchant_def apply_body_tx split: if_splits)
next
  case (4 url auth t h reply h')
  then show ?case
    by (auto simp: ex_merchant_def says_refused_def reply_data_def data_read split: if_splits)
next
  case (5 url auth t h reply h')
  then show ?case
    by (auto simp: ex_merchant_def says_refused_def reply_data_def data_read split: if_splits)
next
  case (6 url auth b ts h reply h')
  then show ?case
    by (intro exI [of _ "length ts"]) (simp add: ex_merchant_def foldl_apply_body)
qed (auto simp: ex_merchant_def foldl_apply_body)

text \<open>C15: The HTTP client refines the wallet the books rely on: over the merchant's HTTP interface
  and the circuit breaker, the bets, the outbox and the merchant's ledger agree in every state the
  service reaches, and each step changes the ledger only by transactions of outbox rows, each at
  most once, when the merchant applies a code once and answers truthfully.\<close>

theorem http_service_keeps_books:
  assumes M: "merchant_ok S hview credit" and E: "ids_ok E" and init: "empty_book s0"
    and R: "reach E (http_port config S) s0 s"
  shows "integrity E (snd (hview (hw_server (w_wallet s)))) (w_db s) \<and>
    (step E (http_port config S) s s' \<longrightarrow>
       moves E credit (hview (hw_server (w_wallet s))) (w_db s) (hview (hw_server (w_wallet s'))) (w_db s'))"
  using reachable_integrity [OF http_wallet_ledger [OF M] E init R]
    reachable_step_moves [OF http_wallet_ledger [OF M] E init R] by blast

definition ex_http_world :: "ledger http_wallet world" where
  "ex_http_world = \<lparr> w_db = ex_db (ex_event Ev_LIVE None None) Mk_OPEN,
     w_wallet = \<lparr> hw_server = (\<lambda>u. 100, {}), hw_breaker = new_breaker \<rparr>, w_now = 1000, w_seq = 0 \<rparr>"

definition ex_config :: "string \<Rightarrow> merchant_wallet_config option" where
  "ex_config g = Some \<lparr> mw_apiUrl = ''https://w'', mw_merchantId = ''m'', mw_sportsSecret = ''s'', mw_currency = ''USD'' \<rparr>"

theorem http_service_keeps_books_witness:
  "integrity ex_env (snd (hw_server (w_wallet (snd (BetsController_placeBet ex_env (http_port ex_config ex_merchant)
       ex_user (Some ''k1'') [''x1''] ''10.00'' ex_http_world)))))
     (w_db (snd (BetsController_placeBet ex_env (http_port ex_config ex_merchant)
       ex_user (Some ''k1'') [''x1''] ''10.00'' ex_http_world)))"
proof -
  have init: "empty_book ex_http_world" by (simp add: empty_book_def ex_http_world_def ex_db_def empty_db_def)
  have ids: "ids_ok ex_env" by (simp add: ids_ok_def ex_env_def)
  have "reach ex_env (http_port ex_config ex_merchant) ex_http_world
    (snd (BetsController_placeBet ex_env (http_port ex_config ex_merchant)
       ex_user (Some ''k1'') [''x1''] ''10.00'' ex_http_world))"
    by (rule reach.more [OF reach.start step.place]) (rule prod.collapse [symmetric])
  from http_service_keeps_books [OF ex_merchant_ok ids init this] show ?thesis by blast
qed

text \<open>
  The contract asks for truthful error bodies, and the client needs it: an error page of a gateway
  in front of the merchant, whose body has none of the answer's fields, is read as a refusal for
  lack of funds, although the merchant may have applied the debit.
\<close>

lemma error_page_read_as_refusal:
  assumes "config (tx_casinoGroupId t) = Some c" and "is_debit t" and "cb_state (hw_breaker w) = Closed"
    and "mh_transaction S (mw_apiUrl c @ ''/transaction'') (authHeaders c) (toMerchantTransactionBody t) (hw_server w)
      = (Http_fail (Some 502) (Some \<lparr>md_success = False, md_message = None, md_errorCode = None\<rparr>), h')"
  shows "fst (http_postTransaction config S t w) = Inl (WalletReserveError ''Insufficient balance'' INSUFFICIENT_FUNDS)"
  using assms
  by (simp add: http_postTransaction_def requireWalletConfig_def guarded_call_def cb_execute_def Let_def
      http_error_text_def transaction_failure_def parseTransactionResponse_def accepted_def
      isDuplicateTransaction_def to_upper_def)

subsection \<open>The breaker\<close>

lemma cb_run_append:
  "cb_run opt (xs @ ys) b =
     (case cb_run opt xs b of (rs, b1) \<Rightarrow> case cb_run opt ys b1 of (rs', b2) \<Rightarrow> (rs @ rs', b2))"
  by (induction opt xs b rule: cb_run.induct) (auto split: prod.splits)

lemma cb_run_blocked:
  "cb_state b = Open \<Longrightarrow> \<forall>(now, later, up) \<in> set calls. now - cb_openedAt b < cb_cooldownMs opt \<Longrightarrow>
   cb_run opt calls b = (replicate (length calls) False, b)"
  by (induction calls) (auto simp: cb_execute_def)

lemma cb_opened_at:
  assumes "cb_state b = Closed" "cb_failures b + length calls = cb_failureThreshold opt" "calls \<noteq> []"
    and "\<forall>(now, later, up) \<in> set calls. \<not> up"
  shows "cb_openedAt (snd (cb_run opt calls b)) = fst (snd (last calls))"
  using assms
proof (induction calls arbitrary: b)
  case (Cons c calls)
  obtain now later up where c: "c = (now, later, up)" by (cases c)
  with Cons.prems have up: "\<not> up" by simp
  have step: "cb_execute opt now later
      (\<lambda>reached. (if up then Inr () else Inl (PlainError ''upstream''), True)) b False =
      (Inl (PlainError ''upstream''), cb_onFailure opt later b, True)"
    using Cons.prems(1) up by (simp add: cb_execute_def)
  show ?case
  proof (cases "calls = []")
    case True
    with Cons.prems step c show ?thesis by (simp add: cb_onFailure_def Let_def)
  next
    case False
    then have "cb_failures b + 1 < cb_failureThreshold opt" using Cons.prems(2) by (cases calls) auto
    with Cons.prems(1,2,4) False Cons.IH [of "cb_onFailure opt later b"] c step show ?thesis
      by (auto simp: cb_onFailure_def Let_def split: prod.splits)
  qed
qed simp

lemma cb_onSuccess_new: "cb_onSuccess b = new_breaker\<lparr>cb_openedAt := cb_openedAt b\<rparr>"
  by (cases b) (simp add: cb_onSuccess_def new_breaker_def)

text \<open>C16: The breaker spares a failing merchant. After five failed calls in a row the merchant is
  not called again for ten seconds after the last failure; the next call is a trial, whose success
  closes the breaker and whose failure opens it for another ten seconds.\<close>

theorem breaker_spares_merchant:
  assumes fails: "length fails = 5" "\<forall>(now, later, up) \<in> set fails. \<not> up"
    and opened: "opened = fst (snd (last fails))"
    and early: "\<forall>(now, later, up) \<in> set blocked. now - opened < 10000"
    and due: "10000 \<le> t - opened"
  shows "fst (cb_run wallet_breaker (fails @ blocked @ [(t, t', up)]) new_breaker) =
      replicate 5 True @ replicate (length blocked) False @ [True] \<and>
    (let b = snd (cb_run wallet_breaker (fails @ blocked @ [(t, t', up)]) new_breaker) in
     if up then b = new_breaker\<lparr>cb_openedAt := opened\<rparr>
     else cb_state b = Open \<and> cb_openedAt b = t')"
proof -
  obtain rs b where r: "cb_run wallet_breaker fails new_breaker = (rs, b)" by fastforce
  have n: "cb_state new_breaker = Closed" "cb_failures new_breaker = 0"
    "cb_failureThreshold wallet_breaker = 5" "cb_cooldownMs wallet_breaker = 10000"
    by (simp_all add: new_breaker_def wallet_breaker_def)
  have o: "cb_state b = Open" "rs = replicate 5 True"
    using cb_failures_open [OF n(1), of wallet_breaker fails] n fails r by simp_all
  have at: "cb_openedAt b = opened"
    using cb_opened_at [OF n(1), of fails wallet_breaker] n fails r opened by force
  have bl: "cb_run wallet_breaker blocked b = (replicate (length blocked) False, b)"
    using cb_run_blocked [OF o(1)] early at n by simp
  show ?thesis
    using o at due n
    by (simp add: cb_run_append r bl cb_execute_def cb_onSuccess_new cb_onFailure_def Let_def)
qed

theorem breaker_spares_merchant_witness:
  "fst (cb_run wallet_breaker (replicate 5 (0, 7, False) @ [(9000, 9000, True)] @ [(10007, 10008, True)]) new_breaker) =
     replicate 5 True @ [False] @ [True]"
  using breaker_spares_merchant [of "replicate 5 (0, 7, False)" 7 "[(9000, 9000, True)]" 10007 10008 True] by simp

subsection \<open>Failed deliveries\<close>


text \<open>A wallet that is down.\<close>

definition down_port :: "'w wallet_port \<Rightarrow> 'w wallet_port" where
  "down_port P = P\<lparr>wp_postTransaction := (\<lambda>t w. (Inl (WalletReserveError ''Wallet service unavailable'' UNAVAILABLE), w))\<rparr>"

lemma ex_pending_facts:
  "map_option bet_status (find_bet ''id1'' (w_db ex_pending)) = Some Bet_PENDING"
  "legs_of ''id1'' (w_db ex_pending) \<noteq> []" "unique_rows (w_db ex_pending)"
  "isl (fst (processSingleDebit ex_env (down_port (stub_port ex_env)) ''id1'' ex_pending))"
  by code_simp+

lemma ex_pending_rows: "db_outbox (w_db ex_pending) = [ex_debit Ob_PENDING]" "db_bets (w_db ex_pending) = [ex_bet Bet_PENDING]"
  by (simp_all add: ex_pending_def ex_book_def)

lemma ex_pending_integrity: "integrity ex_env {} (w_db ex_pending)"
proof -
  have "find_bet ''id1'' (w_db ex_pending) = Some (ex_bet Bet_PENDING)" by (simp add: ex_pending_rows find_bet_def get_by_def ex_bet_def)
  then show ?thesis
    using ex_pending_facts(3)
    by (simp add: integrity_def one_credit_def row_agrees_def bet_covered_def ex_pending_rows ex_debit_def ex_bet_def
        debit_agrees_def is_settled_def)
qed


subsection \<open>The debit worker\<close>

text \<open>A wallet that accepts every transaction.\<close>

definition accepts_all :: "'w wallet_port \<Rightarrow> bool" where
  "accepts_all P \<longleftrightarrow> (\<forall>t w. \<not> isl (fst (wp_postTransaction P t w)))"

lemma accepted_debit:
  assumes I: "integrity E seen (w_db s)" and b: "find_bet i (w_db s) = Some b" "bet_status b = Bet_PENDING"
    and legs: "legs_of i (w_db s) \<noteq> []" and P: "accepts_all P"
    and p: "processSingleDebit E P i s = (res, s')"
  shows "\<not> isl res \<and> map_option bet_status (find_bet i (w_db s')) = Some Bet_ACCEPTED \<and>
    db_legs (w_db s') = db_legs (w_db s) \<and> (\<forall>j. j \<noteq> i \<longrightarrow> find_bet j (w_db s') = find_bet j (w_db s))"
  using I p
proof (cases rule: processSingleDebit_cases)
  case idle
  with b legs show ?thesis by auto
next
  case (posted b' r t ans w')
  obtain x where x: "ans = Inr x"
    using P posted(6) unfolding accepts_all_def by (metis fst_conv isl_def sumE)
  with posted(7) have s': "s' = acceptBet i x (ob_id r) (s\<lparr>w_wallet := w'\<rparr>)" "\<not> isl res"
    by (auto simp: debit_answer_def Let_def)
  have "find_bet j (w_db s') = (if j = i
      then map_option (\<lambda>b. b\<lparr>bet_status := Bet_ACCEPTED, bet_walletReservationId := Some x, bet_rejectionReason := None\<rparr>)
        (find_bet i (w_db s)) else find_bet j (w_db s))" for j
    by (cases "find_bet j (w_db s)") (auto simp: s'(1) acceptBet_def)
  moreover have "db_legs (w_db s') = db_legs (w_db s)" by (simp add: s'(1) acceptBet_def)
  ultimately show ?thesis using b(1) s'(2) by simp
qed

lemma legs_of_legs: "db_legs d' = db_legs d \<Longrightarrow> legs_of i d' = legs_of i d"
  by (simp add: legs_of_def)

text \<open>Bets whose debits the worker can post.\<close>

definition postable :: "db \<Rightarrow> string \<Rightarrow> bool" where
  "postable d i \<longleftrightarrow> map_option bet_status (find_bet i d) = Some Bet_PENDING \<and> legs_of i d \<noteq> []"

lemma debit_all_accepts:
  assumes W: "wallet_ledger P view credit" and P: "accepts_all P"
  shows "integrity E (snd (view (w_wallet s))) (w_db s) \<Longrightarrow> distinct ids \<Longrightarrow> \<forall>i \<in> set ids. postable (w_db s) i \<Longrightarrow>
    \<exists>s'. debit_all E P ids s = (length ids, s') \<and> integrity E (snd (view (w_wallet s'))) (w_db s') \<and>
      (\<forall>i \<in> set ids. map_option bet_status (find_bet i (w_db s')) = Some Bet_ACCEPTED) \<and>
      (\<forall>j. j \<notin> set ids \<longrightarrow> find_bet j (w_db s') = find_bet j (w_db s))"
proof (induction ids arbitrary: s)
  case (Cons i ids)
  obtain b where b: "find_bet i (w_db s) = Some b" "bet_status b = Bet_PENDING" "legs_of i (w_db s) \<noteq> []"
    using Cons.prems(3) by (auto simp: postable_def)
  obtain r s1 where p: "processSingleDebit E P i s = (r, s1)" by fastforce
  note a = accepted_debit [OF Cons.prems(1) b P p]
  have "\<forall>j \<in> set ids. postable (w_db s1) j"
  proof
    fix j assume j: "j \<in> set ids"
    then have "find_bet j (w_db s1) = find_bet j (w_db s)" using a Cons.prems(2) by auto
    moreover have "legs_of j (w_db s1) = legs_of j (w_db s)" using a by (intro legs_of_legs) simp
    ultimately show "postable (w_db s1) j" using Cons.prems(3) j by (simp add: postable_def)
  qed
  with Cons.IH [OF wallet_ledger.processSingleDebit_integrity [OF W Cons.prems(1) p]] Cons.prems(2)
  obtain s' where "debit_all E P ids s1 = (length ids, s')" "integrity E (snd (view (w_wallet s'))) (w_db s')"
    "\<forall>i \<in> set ids. map_option bet_status (find_bet i (w_db s')) = Some Bet_ACCEPTED"
    "\<forall>j. j \<notin> set ids \<longrightarrow> find_bet j (w_db s') = find_bet j (w_db s1)" by auto
  moreover from this(1) p a have "debit_all E P (i # ids) s = (length (i # ids), s')" by (cases r) simp_all
  moreover have "find_bet j (w_db s') = find_bet j (w_db s)" if "j \<notin> set (i # ids)" for j
    using that a calculation(4) by simp
  moreover have "map_option bet_status (find_bet i (w_db s')) = Some Bet_ACCEPTED"
    using Cons.prems(2) a calculation(4) by simp
  ultimately show ?case by (intro exI [of _ s']) simp
qed simp

text \<open>The debits a run of the worker reads: the 20 oldest due ones.\<close>

definition due_debits :: "'w world \<Rightarrow> outbox_row list" where
  "due_debits s = take DEBIT_BATCH_LIMIT (order_asc ob_createdAt
     (row_filter (outbox_due WALLET_OUTBOX_DEBIT (w_now s)) (db_outbox (w_db s))))"

lemma due_debit_row:
  assumes "r \<in> set (due_debits s)"
  shows "r \<in> set (db_outbox (w_db s))" "ob_type r = WALLET_OUTBOX_DEBIT" "ob_status r = Ob_PENDING"
proof -
  have "r \<in> set (order_asc ob_createdAt
      (row_filter (outbox_due WALLET_OUTBOX_DEBIT (w_now s)) (db_outbox (w_db s))))"
    using assms unfolding due_debits_def by (rule in_set_takeD)
  then show "r \<in> set (db_outbox (w_db s))" "ob_type r = WALLET_OUTBOX_DEBIT" "ob_status r = Ob_PENDING"
    by (simp_all add: outbox_due_def)
qed

lemma due_debits_distinct:
  assumes "unique_rows (w_db s)"
  shows "distinct (map ob_betId (due_debits s))"
proof -
  have "distinct (map ob_id (due_debits s))"
    using assms unfolding due_debits_def unique_rows_def by (blast intro: distinct_order_filter_take)
  moreover have "inj_on ob_betId (set (due_debits s))"
    by (rule inj_onI) (metis due_debit_row(1,2) unique_rowsD(2) [OF assms])
  ultimately show ?thesis by (simp add: distinct_map)
qed

text \<open>C18: The debit worker makes progress. A run against a wallet that accepts every transaction
  accepts the bet of each of the 20 oldest due debits and has its stake taken, and touches no other
  bet, whatever errors earlier attempts met.\<close>

theorem debit_worker_accepts:
  assumes W: "wallet_ledger P view credit" and P: "accepts_all P"
    and I: "integrity E (snd (view (w_wallet s))) (w_db s)"
    and legs: "\<forall>r \<in> set (due_debits s). legs_of (ob_betId r) (w_db s) \<noteq> []"
  shows "\<exists>s'. processPendingDebits E P DEBIT_BATCH_LIMIT s = (length (due_debits s), s') \<and>
    (\<forall>r \<in> set (due_debits s). ob_transactionCode r \<in> snd (view (w_wallet s')) \<and>
       map_option bet_status (find_bet (ob_betId r) (w_db s')) = Some Bet_ACCEPTED) \<and>
    (\<forall>i. i \<notin> ob_betId ` set (due_debits s) \<longrightarrow> find_bet i (w_db s') = find_bet i (w_db s))"
proof -
  have post: "postable (w_db s) (ob_betId r)" if r: "r \<in> set (due_debits s)" for r
    using integrityD(3) [OF I due_debit_row(1) [OF r]] due_debit_row(2,3) [OF r] legs r
    by (auto simp: postable_def row_agrees_def debit_agrees_def split: if_splits)
  obtain s' where s': "debit_all E P (map ob_betId (due_debits s)) s = (length (due_debits s), s')"
    "integrity E (snd (view (w_wallet s'))) (w_db s')"
    "\<forall>r \<in> set (due_debits s). map_option bet_status (find_bet (ob_betId r) (w_db s')) = Some Bet_ACCEPTED"
    "\<forall>j. j \<notin> ob_betId ` set (due_debits s) \<longrightarrow> find_bet j (w_db s') = find_bet j (w_db s)"
    using debit_all_accepts [OF W P I due_debits_distinct [OF integrityD(1) [OF I]]] post by auto
  have "ob_transactionCode r \<in> snd (view (w_wallet s'))" if r: "r \<in> set (due_debits s)" for r
  proof -
    obtain b' where b': "find_bet (ob_betId r) (w_db s') = Some b'" "bet_status b' = Bet_ACCEPTED"
      using s'(3) r by auto
    have "evolves (w_db s) (w_db s')"
      using wallet_ledger.debit_all_moves [OF W I s'(1)] by (simp add: moves_def)
    then obtain r' where r': "r' \<in> set (db_outbox (w_db s'))" "ob_core r = ob_core r'"
      using due_debit_row(1) [OF r] unfolding evolves_def by blast
    with integrityD(3) [OF s'(2) r'(1)] b' due_debit_row(2) [OF r] show ?thesis
      by (auto simp: row_agrees_def debit_agrees_def ob_core_def)
  qed
  with s' show ?thesis by (auto simp: processPendingDebits_def due_debits_def [symmetric])
qed

text \<open>The in-memory wallet made to accept every debit.\<close>

definition yes_port :: "ledger wallet_port" where
  "yes_port = \<lparr> wp_getBalance = (\<lambda>u g w. (Inr ([], []), w)),
     wp_postTransaction = (\<lambda>t w. (Inr (tx_transactionCode t), apply_tx amount_credit w t)),
     wp_postTransactionBatch = (\<lambda>g b ts w. (Inr b, foldl (apply_tx amount_credit) w ts)) \<rparr>"

lemma yes_ledger: "wallet_ledger yes_port (\<lambda>w. w) amount_credit"
proof (unfold_locales, goal_cases)
  case (4 g b ts w r w')
  then show ?case by (intro exI [of _ "length ts"]) (simp add: yes_port_def)
qed (auto simp: yes_port_def)

definition ex_waiting :: "ledger world" where
  "ex_waiting = \<lparr> w_db = w_db ex_pending, w_wallet = (\<lambda>u. 100, {}), w_now = 1000, w_seq = 4 \<rparr>"

theorem debit_worker_accepts_witness:
  "map_option bet_status (find_bet ''id1'' (w_db (snd (processPendingDebits ex_env yes_port DEBIT_BATCH_LIMIT ex_waiting))))
     = Some Bet_ACCEPTED"
proof -
  have a: "accepts_all yes_port" by (simp add: accepts_all_def yes_port_def)
  have I: "integrity ex_env (snd (w_wallet ex_waiting)) (w_db ex_waiting)"
    using ex_pending_integrity by (simp add: ex_waiting_def)
  have due: "map ob_betId (due_debits ex_waiting) = [''id1'']" by code_simp
  have legs: "\<forall>r \<in> set (due_debits ex_waiting). legs_of (ob_betId r) (w_db ex_waiting) \<noteq> []"
    using due ex_pending_facts(2) by (auto simp: ex_waiting_def)
  from debit_worker_accepts [OF yes_ledger a I legs] due show ?thesis by fastforce
qed

subsection \<open>Settlement batches\<close>

definition retried :: "api_error \<Rightarrow> int \<Rightarrow> outbox_row \<Rightarrow> outbox_row" where
  "retried e now r = r\<lparr>ob_attempts := ob_attempts r + 1, ob_lastError := Some (error_message e),
     ob_nextRetryAt := Some (now + int (retry_delay_seconds (ob_attempts r + 1)) * 1000)\<rparr>"

lemma retried_frame [simp]: "ob_id (retried e now r) = ob_id r" "ob_status (retried e now r) = ob_status r"
  by (simp_all add: retried_def)

lemma scheduleRetry_map:
  assumes "\<And>r. r \<in> set (db_outbox (w_db s)) \<Longrightarrow> ob_id r = i \<Longrightarrow> ob_attempts r = n"
  shows "db_outbox (w_db (scheduleRetry i n e s)) =
    map (\<lambda>r. if ob_id r = i then retried e (w_now s) r else r) (db_outbox (w_db s))"
  using assms by (auto simp: scheduleRetry_def Let_def update_outbox_map retried_def)

lemma retry_all_map:
  "(\<And>en r. en \<in> set es \<Longrightarrow> r \<in> set (db_outbox (w_db s)) \<Longrightarrow> ob_id r = ob_id en \<Longrightarrow> ob_attempts r = ob_attempts en) \<Longrightarrow>
   distinct (map ob_id es) \<Longrightarrow>
   db_outbox (w_db (retry_all e es s)) =
     map (\<lambda>r. if ob_id r \<in> ob_id ` set es then retried e (w_now s) r else r) (db_outbox (w_db s))"
proof (induction es arbitrary: s)
  case (Cons en es)
  let ?s1 = "scheduleRetry (ob_id en) (ob_attempts en) e s"
  have s1: "db_outbox (w_db ?s1) =
      map (\<lambda>r. if ob_id r = ob_id en then retried e (w_now s) r else r) (db_outbox (w_db s))"
    by (rule scheduleRetry_map) (rule Cons.prems(1), simp_all)
  have "db_outbox (w_db (retry_all e es ?s1)) =
      map (\<lambda>r. if ob_id r \<in> ob_id ` set es then retried e (w_now ?s1) r else r) (db_outbox (w_db ?s1))"
  proof (rule Cons.IH)
    fix en' r assume en': "en' \<in> set es" and r: "r \<in> set (db_outbox (w_db ?s1))" "ob_id r = ob_id en'"
    from en' have "ob_id en' \<in> ob_id ` set es" by simp
    with Cons.prems(2) have "ob_id en' \<noteq> ob_id en" by auto
    with r have "r \<in> set (db_outbox (w_db s))" unfolding s1 by (auto split: if_splits)
    with Cons.prems(1) [of en' r] en' r(2) show "ob_attempts r = ob_attempts en'" by simp
  qed (use Cons.prems(2) in simp)
  moreover have "ob_id en \<notin> ob_id ` set es" using Cons.prems(2) by simp
  ultimately show ?case by (auto simp: retry_all_def s1)
qed (simp add: retry_all_def)

text \<open>What a flush makes of the rows it sends as one batch.\<close>

definition in_batch :: "string \<Rightarrow> int \<Rightarrow> outbox_row \<Rightarrow> outbox_row \<Rightarrow> bool" where
  "in_batch g now anchor r \<longleftrightarrow> settle_due g now r \<and> ob_batchId r = ob_batchId anchor"

definition batch_row :: "string \<Rightarrow> string result \<Rightarrow> int \<Rightarrow> outbox_row \<Rightarrow> outbox_row" where
  "batch_row batch ans now r =
     (case ans of
        Inr x \<Rightarrow> r\<lparr>ob_status := Ob_COMPLETED, ob_batchId := Some batch, ob_lastError := None\<rparr>
      | Inl e \<Rightarrow> retried e now (r\<lparr>ob_batchId := Some batch\<rparr>))"

lemma order_asc_hd:
  assumes "order_asc k xs = a # as" and "x \<in> set xs"
  shows "k a \<le> k x"
proof -
  have "sorted (map k (order_asc k xs))" by (simp add: order_asc_def)
  moreover have "x \<in> set (a # as)" using assms by (metis set_order_asc)
  ultimately show ?thesis using assms(1) by auto
qed

lemma batch_entries_set: "set (batch_entries g (ob_batchId a) s) = {r \<in> set (db_outbox (w_db s)). in_batch g (w_now s) a r}"
  by (auto simp: batch_entries_def in_batch_def)

lemma batch_state_rows:
  assumes bs: "batch_state E anchor (batch_entries g (ob_batchId anchor) s) s = (b, s2)"
    and U: "unique_rows (w_db s)"
  shows "db_outbox (w_db s2) = map (\<lambda>r. if in_batch g (w_now s) anchor r then r\<lparr>ob_batchId := Some b\<rparr> else r)
      (db_outbox (w_db s))"
    and "r \<in> set (db_outbox (w_db s)) \<Longrightarrow>
      ob_id r \<in> ob_id ` set (batch_entries g (ob_batchId anchor) s) \<longleftrightarrow> in_batch g (w_now s) anchor r"
proof -
  have ids: "ob_id r \<in> ob_id ` set (batch_entries g (ob_batchId anchor) s) \<longleftrightarrow> in_batch g (w_now s) anchor r"
    if "r \<in> set (db_outbox (w_db s))" for r
    using that unique_rowsD(1) [OF U that] by (auto simp: batch_entries_set)
  from this [of r] show "r \<in> set (db_outbox (w_db s)) \<Longrightarrow>
      ob_id r \<in> ob_id ` set (batch_entries g (ob_batchId anchor) s) \<longleftrightarrow> in_batch g (w_now s) anchor r" .
  show "db_outbox (w_db s2) = map (\<lambda>r. if in_batch g (w_now s) anchor r then r\<lparr>ob_batchId := Some b\<rparr> else r)
      (db_outbox (w_db s))"
  proof (cases "ob_batchId anchor")
    case None
    with bs ids show ?thesis by (auto simp: batch_state_def update_outbox_in_map Let_def)
  next
    case (Some b')
    with bs have "s2 = s" "b' = b" by (simp_all add: batch_state_def)
    moreover have "(if in_batch g (w_now s) anchor r then r\<lparr>ob_batchId := Some b\<rparr> else r) = r" for r
      using Some \<open>b' = b\<close> by (cases r) (simp add: in_batch_def)
    ultimately show ?thesis by simp
  qed
qed

lemma flush_rows:
  assumes U: "unique_rows (w_db s)"
    and f: "flushSettlementBatchForGroup E P g s = (sent, s')"
    and due: "row_filter (settle_due g (w_now s)) (db_outbox (w_db s)) \<noteq> []"
  obtains anchor batch ans w' where "anchor \<in> set (db_outbox (w_db s))" "settle_due g (w_now s) anchor"
    "\<And>r. r \<in> set (db_outbox (w_db s)) \<Longrightarrow> settle_due g (w_now s) r \<Longrightarrow> ob_createdAt anchor \<le> ob_createdAt r"
    "wp_postTransactionBatch P g batch (map payload_tx (batch_entries g (ob_batchId anchor) s)) (w_wallet s) = (ans, w')"
    "w_wallet s' = w'" "sent \<longleftrightarrow> \<not> isl ans"
    "db_outbox (w_db s') = map (\<lambda>r. if in_batch g (w_now s) anchor r then batch_row batch ans (w_now s) r else r)
       (db_outbox (w_db s))"
  using f
proof (cases rule: flush_cases)
  case none
  with due show thesis by simp
next
  case (sent anchor rest b s2 x w')
  note fr = batch_state_frame [OF sent(2)] batch_state_rows [OF sent(2) U]
  have a: "anchor \<in> set (row_filter (settle_due g (w_now s)) (db_outbox (w_db s)))"
    by (metis sent(1) list.set_intros(1) set_order_asc)
  have "db_outbox (w_db s') = map (\<lambda>r. if in_batch g (w_now s) anchor r then batch_row b (Inr x) (w_now s) r else r)
      (db_outbox (w_db s))"
    using fr(8) by (auto simp: sent(5) update_outbox_in_map fr(7) batch_row_def)
  with that [OF _ _ _ sent(3) [unfolded fr(1)]] a order_asc_hd [OF sent(1)] sent(4,5) show thesis by auto
next
  case (failed anchor rest b s2 e w')
  note fr = batch_state_frame [OF failed(2)] batch_state_rows [OF failed(2) U]
  have a: "anchor \<in> set (row_filter (settle_due g (w_now s)) (db_outbox (w_db s)))"
    by (metis failed(1) list.set_intros(1) set_order_asc)
  let ?es = "batch_entries g (ob_batchId anchor) s"
  have "distinct (map ob_id ?es)"
    using U distinct_order_filter_take [of ob_id "db_outbox (w_db s)" "length (db_outbox (w_db s))"]
    by (simp add: batch_entries_def unique_rows_def order_asc_def row_filter_def distinct_map inj_on_def)
  moreover have "ob_attempts r = ob_attempts en"
    if en: "en \<in> set ?es" and r: "r \<in> set (db_outbox (w_db s2))" "ob_id r = ob_id en" for en r
  proof -
    from r(1) obtain r0 where r0: "r0 \<in> set (db_outbox (w_db s))" "ob_id r0 = ob_id r" "ob_attempts r0 = ob_attempts r"
      unfolding fr(7) by (auto split: if_splits)
    from batch_entries_rows [OF en] have "en \<in> set (db_outbox (w_db s))" by blast
    from unique_rowsD(1) [OF U r0(1) this] r0 r(2) show ?thesis by simp
  qed
  ultimately have "db_outbox (w_db s') =
      map (\<lambda>r. if ob_id r \<in> ob_id ` set ?es then retried e (w_now s2) r else r) (db_outbox (w_db s2))"
    using retry_all_map [of ?es "s2\<lparr>w_wallet := w'\<rparr>" e] by (simp add: failed(5))
  then have "db_outbox (w_db s') = map (\<lambda>r. if in_batch g (w_now s) anchor r then batch_row b (Inl e) (w_now s) r else r)
      (db_outbox (w_db s))"
    using fr(8) by (auto simp: fr(2,7) batch_row_def)
  with that [OF _ _ _ failed(3) [unfolded fr(1)]] a order_asc_hd [OF failed(1)] failed(4,5) show thesis by auto
qed

text \<open>C19: A settlement batch is delivered as a whole. A flush sends one batch, the due rows that
  share the batch of the oldest one; all of them are completed together when the wallet accepts, or
  all of them stay pending, one attempt older, when it does not; the other rows never change.\<close>

theorem settlement_batch_whole:
  assumes U: "unique_rows (w_db s)"
    and f: "flushSettlementBatchForGroup E P g s = (sent, s')"
    and due: "row_filter (settle_due g (w_now s)) (db_outbox (w_db s)) \<noteq> []"
  shows "\<exists>anchor batch ans w'.
    anchor \<in> set (db_outbox (w_db s)) \<and> settle_due g (w_now s) anchor \<and>
    (\<forall>r \<in> set (db_outbox (w_db s)). settle_due g (w_now s) r \<longrightarrow> ob_createdAt anchor \<le> ob_createdAt r) \<and>
    wp_postTransactionBatch P g batch (map payload_tx (batch_entries g (ob_batchId anchor) s)) (w_wallet s) = (ans, w') \<and>
    w_wallet s' = w' \<and> (sent \<longleftrightarrow> \<not> isl ans) \<and>
    db_outbox (w_db s') = map (\<lambda>r. if in_batch g (w_now s) anchor r
        then (case ans of
                Inr x \<Rightarrow> r\<lparr>ob_status := Ob_COMPLETED, ob_batchId := Some batch, ob_lastError := None\<rparr>
              | Inl e \<Rightarrow> retried e (w_now s) (r\<lparr>ob_batchId := Some batch\<rparr>))
        else r) (db_outbox (w_db s))"
proof -
  obtain anchor batch ans w' where "anchor \<in> set (db_outbox (w_db s))" "settle_due g (w_now s) anchor"
    "\<And>r. r \<in> set (db_outbox (w_db s)) \<Longrightarrow> settle_due g (w_now s) r \<Longrightarrow> ob_createdAt anchor \<le> ob_createdAt r"
    "wp_postTransactionBatch P g batch (map payload_tx (batch_entries g (ob_batchId anchor) s)) (w_wallet s) = (ans, w')"
    "w_wallet s' = w'" "sent \<longleftrightarrow> \<not> isl ans"
    "db_outbox (w_db s') = map (\<lambda>r. if in_batch g (w_now s) anchor r then batch_row batch ans (w_now s) r else r)
       (db_outbox (w_db s))"
    by (rule flush_rows [OF U f due]) blast
  then show ?thesis unfolding batch_row_def by blast
qed

text \<open>The outbox after a settlement: two payouts of the tenant, one of them in a batch of its own.\<close>

definition ex_credit :: "string \<Rightarrow> string \<Rightarrow> int \<Rightarrow> outbox_row" where
  "ex_credit i batch created = \<lparr> ob_id = i, ob_betId = ''b'' @ i, ob_casinoGroupId = ''g1'', ob_type = WALLET_OUTBOX_SETTLE,
     ob_transactionCode = ''c'' @ i, ob_batchId = Some batch, ob_payload = None, ob_status = Ob_PENDING,
     ob_attempts = 0, ob_lastError = None, ob_nextRetryAt = None, ob_createdAt = created \<rparr>"

definition ex_payouts :: "ledger world" where
  "ex_payouts = \<lparr> w_db = empty_db\<lparr>db_outbox := [ex_credit ''1'' ''x'' 7, ex_credit ''2'' ''y'' 3]\<rparr>,
     w_wallet = (\<lambda>u. 100, {}), w_now = 1000, w_seq = 4 \<rparr>"

lemma ex_payouts_facts:
  "unique_rows (w_db ex_payouts)"
  "row_filter (settle_due ''g1'' (w_now ex_payouts)) (db_outbox (w_db ex_payouts)) \<noteq> []"
  "length (row_filter (settle_due ''g1'' (w_now ex_payouts)) (db_outbox (w_db ex_payouts))) = 2"
  by code_simp+

theorem settlement_batch_whole_witness:
  "\<exists>anchor. settle_due ''g1'' (w_now ex_payouts) anchor \<and>
     length (db_outbox (w_db (snd (flushSettlementBatchForGroup ex_env yes_port ''g1'' ex_payouts)))) = 2"
proof -
  have two: "length (db_outbox (w_db ex_payouts)) = 2" by (simp add: ex_payouts_def)
  obtain sent s' where f: "flushSettlementBatchForGroup ex_env yes_port ''g1'' ex_payouts = (sent, s')" by fastforce
  with settlement_batch_whole [OF ex_payouts_facts(1) f ex_payouts_facts(2)] two show ?thesis by auto
qed

subsection \<open>Draining the outbox\<close>

definition accepts_batches :: "'w wallet_port \<Rightarrow> bool" where
  "accepts_batches P \<longleftrightarrow> (\<forall>g b ts w. \<not> isl (fst (wp_postTransactionBatch P g b ts w)))"

definition due_count :: "string \<Rightarrow> 'w world \<Rightarrow> nat" where
  "due_count g s = length (row_filter (settle_due g (w_now s)) (db_outbox (w_db s)))"

lemma length_filter_map_le:
  "(\<And>x. x \<in> set xs \<Longrightarrow> P (f x) \<Longrightarrow> P x) \<Longrightarrow> length (filter P (map f xs)) \<le> length (filter P xs)"
proof (induction xs)
  case (Cons x xs)
  then have "length (filter P (map f xs)) \<le> length (filter P xs)" by simp
  with Cons.prems [of x] show ?case by simp
qed simp

lemma length_filter_map_less:
  assumes "\<And>x. x \<in> set xs \<Longrightarrow> P (f x) \<Longrightarrow> P x" and "a \<in> set xs" "P a" "\<not> P (f a)"
  shows "length (filter P (map f xs)) < length (filter P xs)"
  using assms
proof (induction xs)
  case (Cons x xs)
  have le: "length (filter P (map f xs)) \<le> length (filter P xs)"
    by (rule length_filter_map_le) (simp add: Cons.prems(1))
  show ?case
  proof (cases "x = a")
    case True
    with le Cons.prems(3,4) show ?thesis by simp
  next
    case False
    with Cons.IH Cons.prems show ?thesis by auto
  qed
qed simp

lemma flush_progress:
  assumes A: "accepts_batches P" and U: "unique_rows (w_db s)" and due: "due_count g s \<noteq> 0"
  obtains s' where "flushSettlementBatchForGroup E P g s = (True, s')" "due_count g s' < due_count g s"
    "unique_rows (w_db s')"
proof -
  obtain sent s' where f: "flushSettlementBatchForGroup E P g s = (sent, s')" by fastforce
  have ne: "row_filter (settle_due g (w_now s)) (db_outbox (w_db s)) \<noteq> []"
    using due by (auto simp: due_count_def)
  obtain anchor batch ans w' where r: "anchor \<in> set (db_outbox (w_db s))" "settle_due g (w_now s) anchor"
    "wp_postTransactionBatch P g batch (map payload_tx (batch_entries g (ob_batchId anchor) s)) (w_wallet s) = (ans, w')"
    "sent \<longleftrightarrow> \<not> isl ans"
    "db_outbox (w_db s') = map (\<lambda>r. if in_batch g (w_now s) anchor r then batch_row batch ans (w_now s) r else r)
       (db_outbox (w_db s))"
    by (rule flush_rows [OF U f ne]) blast
  from A r(3) have nl: "\<not> isl ans" unfolding accepts_batches_def by (metis fst_conv)
  then obtain x where x: "ans = Inr x" by (cases ans) auto
  have now: "w_now s' = w_now s" using f by (cases rule: flush_cases) (auto dest: batch_state_frame(2))
  let ?f = "\<lambda>r. if in_batch g (w_now s) anchor r then batch_row batch ans (w_now s) r else r"
  have keep: "ob_id (?f r) = ob_id r" "ob_key (?f r) = ob_key r" "ob_transactionCode (?f r) = ob_transactionCode r" for r
    by (simp_all add: x batch_row_def ob_key_def)
  have "due_count g s' < due_count g s"
    unfolding due_count_def now row_filter_def r(5)
    by (rule length_filter_map_less [where a = anchor])
       (use r(1,2) in \<open>auto simp: x batch_row_def in_batch_def settle_due_def outbox_due_def split: if_splits\<close>)
  moreover have "db_bets (w_db s') = db_bets (w_db s)" "db_legs (w_db s') = db_legs (w_db s)"
    using f by (cases rule: flush_cases; auto dest: batch_state_frame(4,5))+
  then have "unique_rows (w_db s')"
    using U by (simp add: unique_rows_def r(5) comp_def keep)
  ultimately show thesis using that [of s'] f nl r(4) by simp
qed

lemma flush_loop_drains:
  assumes "accepts_batches P" and "unique_rows (w_db s)" and "due_count g s \<le> k"
  shows "\<exists>n s'. flush_loop k E P g s = (n, s') \<and> n \<le> due_count g s \<and> due_count g s' = 0"
  using assms(2,3)
proof (induction k arbitrary: s)
  case (Suc k)
  show ?case
  proof (cases "due_count g s = 0")
    case True
    then have "flushSettlementBatchForGroup E P g s = (False, s)"
      by (simp add: due_count_def flushSettlementBatchForGroup_def order_asc_def)
    with True show ?thesis by simp
  next
    case False
    from flush_progress [OF assms(1) Suc.prems(1) False, of E] obtain s1 where
      s1: "flushSettlementBatchForGroup E P g s = (True, s1)" "due_count g s1 < due_count g s" "unique_rows (w_db s1)"
      by blast
    with Suc.IH [OF s1(3)] Suc.prems(2) obtain n s' where
      "flush_loop k E P g s1 = (n, s')" "n \<le> due_count g s1" "due_count g s' = 0" by auto
    with s1 show ?thesis by auto
  qed
qed simp

text \<open>C20: The settlement flush of a tenant ends and drains the outbox. It sends at most 100
  batches, and against a wallet that accepts batches it leaves no due settlement of the tenant when
  at most 100 rows were due, sending no more batches than rows.\<close>

theorem flush_drains_outbox:
  shows "fst (flushSettlementBatchesForCasinoGroup E P g s) \<le> 100 \<and>
    (accepts_batches P \<and> unique_rows (w_db s) \<and> due_count g s \<le> 100 \<longrightarrow>
       fst (flushSettlementBatchesForCasinoGroup E P g s) \<le> due_count g s \<and>
       due_count g (snd (flushSettlementBatchesForCasinoGroup E P g s)) = 0)"
proof -
  have "fst (flush_loop k E P g s) \<le> k" for k
  proof (induction k arbitrary: s)
    case (Suc k)
    obtain sent s1 where f: "flushSettlementBatchForGroup E P g s = (sent, s1)" by fastforce
    from Suc [of s1] f show ?case by (cases sent) (auto split: prod.split)
  qed simp
  from this [of 100] show ?thesis
    using flush_loop_drains [of P s g 100 E]
    unfolding flushSettlementBatchesForCasinoGroup_def by auto
qed

theorem flush_drains_outbox_witness:
  "due_count ''g1'' (snd (flushSettlementBatchesForCasinoGroup ex_env yes_port ''g1'' ex_payouts)) = 0"
proof -
  have "accepts_batches yes_port" by (simp add: accepts_batches_def yes_port_def)
  moreover have "due_count ''g1'' ex_payouts \<le> 100" using ex_payouts_facts(3) by (simp add: due_count_def)
  ultimately show ?thesis using flush_drains_outbox ex_payouts_facts(1) by blast
qed

end
