(* ===== verification/FeedProperties.thy ===== *)
theory FeedProperties
  imports Operations BettingProperties IngestGuard
begin

text \<open>
  What the back office, the ingestion and the feed promise: none of their operations breaks the
  books, a final result makes the bets on it gradable, every open event is refreshed exactly once,
  a lock has one holder, a low quota pauses the feed, and a suspended market takes no bets.
\<close>

subsection \<open>The back office\<close>



subsection \<open>Final results\<close>

lemma close_rows:
  "db_events (w_db (closeMarketsForEndedEvent i s)) = db_events (w_db s)"
  "db_fixtures (w_db (closeMarketsForEndedEvent i s)) = db_fixtures (w_db s)"
  "db_markets (w_db (closeMarketsForEndedEvent i s)) =
     map (\<lambda>m. if mk_eventId m = i then m\<lparr>mk_status := Mk_SETTLED\<rparr> else m) (db_markets (w_db s))"
  by (simp_all add: closeMarketsForEndedEvent_def Let_def row_update_def)

lemma close_selections:
  "db_selections (w_db (closeMarketsForEndedEvent i s)) =
     map (\<lambda>x. if \<exists>m \<in> set (db_markets (w_db s)). mk_eventId m = i \<and> mk_id m = sl_marketId x
        then x\<lparr>sl_status := Sl_SETTLED\<rparr> else x) (db_selections (w_db s))"
proof -
  have ids: "map mk_id (filter (\<lambda>m. mk_eventId m = i)
      (map (\<lambda>m. if mk_eventId m = i then m\<lparr>mk_status := Mk_SETTLED\<rparr> else m) ms)) =
      map mk_id (filter (\<lambda>m. mk_eventId m = i) ms)" for ms
    by (induction ms) auto
  have "sl_marketId x \<in> set (map mk_id (filter (\<lambda>m. mk_eventId m = i) ms)) \<longleftrightarrow>
      (\<exists>m \<in> set ms. mk_eventId m = i \<and> mk_id m = sl_marketId x)" for x ms
    by (auto intro: rev_image_eqI)
  note member = this
  have closed: "sl_marketId x \<in> set (map mk_id (filter (\<lambda>m. mk_eventId m = i)
        (map (\<lambda>m. if mk_eventId m = i then m\<lparr>mk_status := Mk_SETTLED\<rparr> else m) ms))) \<longleftrightarrow>
      (\<exists>m \<in> set ms. mk_eventId m = i \<and> mk_id m = sl_marketId x)" for x ms
    by (simp only: ids member)
  show ?thesis
    by (simp add: closeMarketsForEndedEvent_def markets_of_def Let_def row_update_def row_filter_def closed
        del: filter_map map_map set_map)
qed

lemma get_by_map:
  "(\<And>r. key (f r) = key r) \<Longrightarrow> get_by key k (map f rs) = map_option f (get_by key k rs)"
  by (induction rs) (auto simp: get_by_def)

lemma loadLegContext_SomeD:
  assumes "loadLegContext L d leg = Some c"
  shows "\<exists>x m. find_event (leg_eventId leg) d = Some x \<and> find_market (leg_marketId leg) d = Some m \<and>
    lc_eventStatus c = ev_status x \<and> li_marketStatus (lc_input c) = mk_status m \<and>
    li_homeScore (lc_input c) = ev_homeScore x \<and> li_awayScore (lc_input c) = ev_awayScore x"
proof -
  obtain e m where em: "load_event d (leg_eventId leg) = Some e" "find_market (leg_marketId leg) d = Some m"
    using assms by (auto simp: loadLegContext_def split: option.splits)
  have "lc_eventStatus c = ev_status (ec_event e) \<and> li_marketStatus (lc_input c) = mk_status m \<and>
      li_homeScore (lc_input c) = ev_homeScore (ec_event e) \<and> li_awayScore (lc_input c) = ev_awayScore (ec_event e)"
    using assms em
    by (auto simp: loadLegContext_def buildLegSettlementInput_def Let_def split: option.splits bool.splits)
  with em load_event_find show ?thesis by blast
qed



subsection \<open>The requests for results\<close>

lemma chunks_concat: "0 < n \<Longrightarrow> concat (chunks n xs) = xs"
proof (induction n xs rule: chunks.induct)
  case (1 n xs)
  then show ?case by (subst chunks.simps) simp
qed

lemma chunks_bound: "c \<in> set (chunks n xs) \<Longrightarrow> 0 < length c \<and> length c \<le> n"
proof (induction n xs rule: chunks.induct)
  case (1 n xs)
  show ?case
  proof (cases "xs = [] \<or> n = 0")
    case True
    with 1(2) show ?thesis by (simp add: chunks.simps [of n xs])
  next
    case False
    with 1(2) have "c = take n xs \<or> c \<in> set (chunks n (drop n xs))" by (simp add: chunks.simps [of n xs])
    with False 1(1) show ?thesis by (cases xs) auto
  qed
qed

text \<open>The (sport, event) pairs of a list of requests, and those of the open events.\<close>

definition requested :: "(string \<times> string list) list \<Rightarrow> (string \<times> string) list" where
  "requested reqs = concat (map (\<lambda>(k, ids). map (Pair k) ids) reqs)"

definition asked_for :: "open_event list \<Rightarrow> (string \<times> string) set" where
  "asked_for rows = (\<lambda>r. (op_sportKey r, op_providerRef r)) ` set rows"

lemma requested_sport:
  assumes "0 < n"
  shows "requested (map (Pair k) (chunks n ids)) = map (Pair k) ids"
proof -
  have "requested (map (Pair k) cs) = map (Pair k) (concat cs)" for cs
    by (induction cs) (simp_all add: requested_def)
  then show ?thesis by (simp add: chunks_concat [OF assms])
qed

lemma requested_concat: "requested (concat rs) = concat (map requested rs)"
  by (induction rs) (simp_all add: requested_def)



subsection \<open>One ingestion at a time\<close>

text \<open>C24: The ingestion lock has one holder at a time. In any history of attempts by any number of
  instances, two successful attempts on the same lock are at least the first one's time to live
  apart, when the Redis server sets a key only if it is absent or expired.\<close>

theorem ingest_lock_exclusive:
  assumes R: "redis_ok R view" and ij: "i < j" "j < length as" and sorted: "sorted (map at_now as)"
    and won: "fst (run_attempts R as r) ! i = Inr True" "fst (run_attempts R as r) ! j = Inr True"
    and key: "at_key (as ! i) = at_key (as ! j)"
  shows "at_now (as ! i) + at_ttl (as ! i) * 1000 \<le> at_now (as ! j)"
  by (rule lock_exclusive [OF R ij sorted won key])

definition ex_attempts :: "attempt list" where
  "ex_attempts = map (\<lambda>(t, who). \<lparr>at_now = t, at_token = who, at_key = INGEST_CATALOG_LOCK_KEY,
     at_ttl = INGEST_CATALOG_LOCK_TTL_SECONDS\<rparr>) [(0, ''a''), (5000, ''b''), (3600000, ''b'')]"

theorem ingest_lock_exclusive_witness:
  "fst (run_attempts mem_redis ex_attempts Map.empty) = [Inr True, Inr False, Inr True] \<and>
   at_now (ex_attempts ! 0) + at_ttl (ex_attempts ! 0) * 1000 \<le> at_now (ex_attempts ! 2)"
proof -
  have run: "fst (run_attempts mem_redis ex_attempts Map.empty) = [Inr True, Inr False, Inr True]"
    by code_simp
  moreover have "length ex_attempts = 3" "sorted (map at_now ex_attempts)"
    "at_key (ex_attempts ! 0) = at_key (ex_attempts ! 2)"
    by code_simp+
  ultimately show ?thesis
    using ingest_lock_exclusive [OF mem_redis_ok, of 0 2 ex_attempts Map.empty] by simp
qed

subsection \<open>The pause of the feed\<close>

lemma js_number_show_int: "0 \<le> n \<Longrightarrow> js_number (show_int n) = Some (of_int n)"
proof -
  assume n: "0 \<le> n"
  have "plain_text (show_nat m)" for m
    using show_nat_digits [of m] show_nat_nonempty [of m] digit_not_space
    by (auto simp: plain_text_def)
  with n show ?thesis
    by (simp add: show_int_def js_number_plain parse_unsigned_int show_nat_digits)
qed

text \<open>The stored end of a pause is the time its key expires at.\<close>

definition pause_wf :: "redis_view \<Rightarrow> bool" where
  "pause_wf m \<longleftrightarrow> (\<forall>v e. m PAUSED_UNTIL_KEY = Some (v, e) \<longrightarrow>
     (\<exists>p. v = Plain p \<and> p \<noteq> [] \<and> js_number p = Some (of_int e)))"

lemma paused_while_live:
  assumes R: "redis_ok R view" and v: "view r PAUSED_UNTIL_KEY = Some (Plain p, e)"
    and p: "p \<noteq> []" "js_number p = Some (of_int e)" and t: "t < e"
  shows "fst (isPaused R t r) \<noteq> Inr False"
proof (cases "rp_get R PAUSED_UNTIL_KEY t r")
  case (Inr x)
  with redis_okD(1) [OF R Inr] v t have "x = Some (Plain p)" by (simp add: live_value_def)
  with Inr p t show ?thesis by (simp add: isPaused_def plain_text_of_def truthy_def)
qed (simp add: isPaused_def)

text \<open>C26: A low quota pauses the feed. Once an answer of the feed reports fewer remaining requests
  than the configured minimum, no check finds the feed unpaused until the configured minutes are
  over, and a pause already running longer is not shortened.\<close>

theorem low_quota_pauses_feed:
  assumes R: "redis_ok R view" and wf: "pause_wf (view r)"
    and low: "js_number text = Some remaining" "remaining < qc_REMAINING_MIN C"
    and rec: "recordQuotaHeaders C R (Some text) now r = (Inr u, r')"
    and pos: "0 \<le> now" "0 < qc_PAUSE_MINUTES C"
  shows "pause_wf (view r') \<and>
    (\<forall>t. t < now + qc_PAUSE_MINUTES C * 60000 \<longrightarrow> fst (isPaused R t r') \<noteq> Inr False) \<and>
    (\<forall>v e. view r PAUSED_UNTIL_KEY = Some (v, e) \<and> now < e \<longrightarrow>
       (\<exists>v' e'. view r' PAUSED_UNTIL_KEY = Some (v', e') \<and> e \<le> e'))"
proof -
  let ?until = "now + qc_PAUSE_MINUTES C * 60000"
  have run: "pauseForMinutes R (qc_PAUSE_MINUTES C) now r = (Inr u, r')"
    using rec low by (simp add: recordQuotaHeaders_def)
  then obtain x where x: "rp_get R PAUSED_UNTIL_KEY now r = Inr x"
    by (auto simp: pauseForMinutes_def Let_def split: sum.splits)
  note live = redis_okD(1) [OF R x]
  show ?thesis
  proof (cases "\<exists>p e. view r PAUSED_UNTIL_KEY = Some (Plain p, e) \<and> now < e \<and> ?until < e")
    case True
    then obtain p e where v: "view r PAUSED_UNTIL_KEY = Some (Plain p, e)" "now < e" "?until < e" by auto
    with wf have p: "p \<noteq> []" "js_number p = Some (of_int e)" by (auto simp: pause_wf_def)
    from v live have "x = Some (Plain p)" by (simp add: live_value_def)
    with run x p v(3) have "r' = r"
      by (simp add: pauseForMinutes_def plain_text_of_def truthy_def Let_def split: if_splits)
    with wf v paused_while_live [OF R v(1) p] show ?thesis by auto
  next
    case False
    have stored: "x = None \<or> (\<exists>p e. x = Some (Plain p) \<and> p \<noteq> [] \<and> js_number p = Some (of_int e) \<and>
        view r PAUSED_UNTIL_KEY = Some (Plain p, e) \<and> now < e)"
      using live wf by (fastforce simp: live_value_def pause_wf_def split: option.splits if_splits)
    have "rp_setEx R PAUSED_UNTIL_KEY (Plain (show_int ?until)) (qc_PAUSE_MINUTES C * 60) now r = (Inr u, r')"
      using run x stored False pos
      by (auto simp: pauseForMinutes_def plain_text_of_def truthy_def Let_def split: if_splits)
    from redis_okD(2) [OF R this]
    have v: "view r' PAUSED_UNTIL_KEY = Some (Plain (show_int ?until), ?until)" by simp
    have p: "show_int ?until \<noteq> []" "js_number (show_int ?until) = Some (of_int ?until)"
      using pos js_number_show_int [of ?until] by (simp_all add: show_int_def)
    have "e \<le> ?until" if "view r PAUSED_UNTIL_KEY = Some (v, e)" "now < e" for v e
      using False wf that by (fastforce simp: pause_wf_def)
    with v p paused_while_live [OF R v p] show ?thesis by (auto simp: pause_wf_def)
  qed
qed

theorem low_quota_pauses_feed_witness:
  "fst (isPaused mem_redis 600000
     (snd (recordQuotaHeaders \<lparr>qc_REMAINING_MIN = 50, qc_PAUSE_MINUTES = 30\<rparr> mem_redis (Some ''12'') 1000 Map.empty)))
   \<noteq> Inr False"
proof -
  let ?C = "\<lparr>qc_REMAINING_MIN = 50, qc_PAUSE_MINUTES = 30\<rparr>"
  have "js_number ''12'' = Some 12" by code_simp
  moreover obtain r' where "recordQuotaHeaders ?C mem_redis (Some ''12'') 1000 Map.empty = (Inr (), r')"
  proof -
    have "fst (recordQuotaHeaders ?C mem_redis (Some ''12'') 1000 Map.empty) = Inr ()" by code_simp
    then show thesis using that by (metis prod.collapse)
  qed
  moreover have "pause_wf (id Map.empty)" by (simp add: pause_wf_def)
  ultimately show ?thesis
    using low_quota_pauses_feed [OF mem_redis_ok, of Map.empty "''12''" 12 ?C 1000 "()"] by simp
qed

subsection \<open>Stopped markets\<close>

lemma quoted_legs_open:
  assumes "validatePlacement E g ids raw d = Inr q" and "l \<in> set (q_legs q)"
  shows "\<exists>m e. find_market (vl_marketId l) d = Some m \<and> mk_status m = Mk_OPEN \<and> vl_eventId l = mk_eventId m \<and>
    find_event (mk_eventId m) d = Some e \<and> ev_status e \<in> {Ev_SCHEDULED, Ev_LIVE}"
  using assms(1)
proof (cases rule: validatePlacement_InrD)
  case (1 a b c)
  obtain c where c: "c \<in> set (read_selections d ids)" "validate_leg (env_dec E) d g c = Inr l"
    using validated_from [OF 1(10) assms(2)] by blast
  from c(1) obtain x where "load_selection d x = Some c" by (auto simp: read_selections_def List.map_filter_def)
  note f = load_selection_fields [OF this]
  have "mk_id (sc_market c) = sl_marketId x"
    by (rule find_market_id [OF f(1)])
  moreover have "backable d g c" using validate_leg_Inr_iff c(2) by blast
  ultimately show ?thesis
    using f validate_leg_fields [OF c(2)] by (auto simp: backable_def)
qed

lemma find_market_status:
  fixes d d' :: db
  assumes "db_markets d' = map (\<lambda>m. if P m then m\<lparr>mk_status := st\<rparr> else m) (db_markets d)"
    and "find_market i d' = Some m" and "P m"
  shows "mk_status m = st"
proof -
  have "find_market i d' = map_option (\<lambda>m. if P m then m\<lparr>mk_status := st\<rparr> else m) (find_market i d)"
    unfolding find_market_def assms(1) by (rule get_by_map) simp
  with assms(2) obtain m0 where "m = (if P m0 then m0\<lparr>mk_status := st\<rparr> else m0)" by auto
  with assms(3) show ?thesis by (auto split: if_splits)
qed

text \<open>C27: A stopped market takes no bets. After a market is suspended, an event is suspended or the
  final result of an event is recorded, no tenant is quoted a bet with a leg on that market or
  event, whatever its other selections.\<close>

theorem stopped_markets_take_no_bets:
  assumes q: "validatePlacement E g' ids raw (w_db s') = Inr q"
  shows "(suspendMarket g i reason u s = (Inr x, s') \<longrightarrow> i \<notin> vl_marketId ` set (q_legs q)) \<and>
    (suspendEvent g i reason u s = (Inr y, s') \<longrightarrow> i \<notin> vl_eventId ` set (q_legs q)) \<and>
    (finalizeEventResult ref h a s = (Some i, s') \<longrightarrow> i \<notin> vl_eventId ` set (q_legs q))"
proof -
  note op = quoted_legs_open [OF q]
  have "i \<notin> vl_marketId ` set (q_legs q)" if s: "suspendMarket g i reason u s = (Inr x, s')"
  proof
    assume "i \<in> vl_marketId ` set (q_legs q)"
    then obtain l m where m: "find_market i (w_db s') = Some m" "mk_status m = Mk_OPEN" using op by blast
    have "db_markets (w_db s') = map (\<lambda>m. if mk_id m = i then m\<lparr>mk_status := Mk_SUSPENDED\<rparr> else m) (db_markets (w_db s))"
      using s by (auto simp: suspendMarket_def set_market_status_def row_update_def staff_audit_def audit_record_def Let_def
          split: sum.splits prod.splits if_splits)
    from find_market_status [OF this m(1)] m(2) find_market_id [OF m(1)] show False by simp
  qed
  moreover have "i \<notin> vl_eventId ` set (q_legs q)" if s: "suspendEvent g i reason u s = (Inr y, s')"
  proof
    assume "i \<in> vl_eventId ` set (q_legs q)"
    then obtain l where "l \<in> set (q_legs q)" "vl_eventId l = i" by auto
    with op [of l] obtain m where m: "find_market (vl_marketId l) (w_db s') = Some m" "mk_status m = Mk_OPEN"
      "mk_eventId m = i" by auto
    have "db_markets (w_db s') = map (\<lambda>m. if mk_eventId m = i then m\<lparr>mk_status := Mk_SUSPENDED\<rparr> else m) (db_markets (w_db s))"
      using s by (auto simp: suspendEvent_def set_market_status_def set_event_status_def row_update_def staff_audit_def
          audit_record_def Let_def split: sum.splits if_splits)
    from find_market_status [OF this m(1)] m show False by simp
  qed
  moreover have "i \<notin> vl_eventId ` set (q_legs q)" if f: "finalizeEventResult ref h a s = (Some i, s')"
  proof
    assume "i \<in> vl_eventId ` set (q_legs q)"
    then obtain l where "l \<in> set (q_legs q)" "vl_eventId l = i" by auto
    with op [of l] obtain m where m: "find_market (vl_marketId l) (w_db s') = Some m" "mk_status m = Mk_OPEN"
      "mk_eventId m = i" by auto
    have "db_markets (w_db s') = map (\<lambda>m. if mk_eventId m = i then m\<lparr>mk_status := Mk_SETTLED\<rparr> else m) (db_markets (w_db s))"
      using f by (auto simp: finalizeEventResult_def close_rows Let_def split: option.splits)
    from find_market_status [OF this m(1)] m show False by simp
  qed
  ultimately show ?thesis by blast
qed

theorem stopped_markets_take_no_bets_witness:
  "''m1'' \<notin> vl_marketId ` set (q_legs (projr (validatePlacement ex_env ''g1'' [''x3''] ''10.00''
     (w_db (snd (suspendMarket ''g1'' ''m1'' ''late news'' ''st1'' ex_world))))))"
proof -
  let ?s = "snd (suspendMarket ''g1'' ''m1'' ''late news'' ''st1'' ex_world)"
  have a: "\<not> isl (validatePlacement ex_env ''g1'' [''x3''] ''10.00'' (w_db ?s))" by code_simp
  have b: "\<not> isl (fst (suspendMarket ''g1'' ''m1'' ''late news'' ''st1'' ex_world))" by code_simp
  from a have q: "validatePlacement ex_env ''g1'' [''x3''] ''10.00'' (w_db ?s) =
      Inr (projr (validatePlacement ex_env ''g1'' [''x3''] ''10.00'' (w_db ?s)))" by simp
  from b have s: "suspendMarket ''g1'' ''m1'' ''late news'' ''st1'' ex_world =
      (Inr (projr (fst (suspendMarket ''g1'' ''m1'' ''late news'' ''st1'' ex_world))), ?s)"
    by (simp add: prod_eq_iff)
  from stopped_markets_take_no_bets [OF q] s show ?thesis by blast
qed

subsection \<open>Exposure\<close>

text \<open>The open bets on an event, one entry for each leg.\<close>

definition open_legs :: "db \<Rightarrow> bet_row list \<Rightarrow> (bet_row \<times> string) list" where
  "open_legs d bets = concat (map (\<lambda>b. map (\<lambda>l. (b, leg_eventId l)) (legs_of (bet_id b) d)) bets)"

definition bets_with_leg :: "db \<Rightarrow> bet_row list \<Rightarrow> string \<Rightarrow> bet_row list" where
  "bets_with_leg d bets e = map fst (filter (\<lambda>p. snd p = e) (open_legs d bets))"

definition row_for :: "dec_lib \<Rightarrow> bet_row list \<Rightarrow> string \<Rightarrow> event_exposure" where
  "row_for L bs e = \<lparr>xe_eventId = e, xe_betCount = length bs,
     xe_stake = foldl (dl_plus L) 0 (map bet_stake bs),
     xe_potentialPayout = foldl (dl_plus L) 0 (map bet_potentialPayout bs)\<rparr>"

lemma row_for_snoc: "row_for L (bs @ [b]) e =
    (row_for L bs e)\<lparr>xe_betCount := length bs + 1, xe_stake := dl_plus L (foldl (dl_plus L) 0 (map bet_stake bs)) (bet_stake b),
      xe_potentialPayout := dl_plus L (foldl (dl_plus L) 0 (map bet_potentialPayout bs)) (bet_potentialPayout b)\<rparr>"
  by (simp add: row_for_def)

text \<open>The table after some legs: a row per event, in order of first occurrence.\<close>

definition exposure_table :: "dec_lib \<Rightarrow> (bet_row \<times> string) list \<Rightarrow> event_exposure list" where
  "exposure_table L ps =
     map (\<lambda>e. row_for L (map fst (filter (\<lambda>p. snd p = e) ps)) e) (distinct_first (map snd ps))"

lemma distinct_first_snoc: "distinct_first (xs @ [x]) = (if x \<in> set xs then distinct_first xs else distinct_first xs @ [x])"
  by (simp add: distinct_first_def)

lemma add_leg_table:
  assumes "distinct es"
  shows "add_leg L b e (map (\<lambda>e'. row_for L (f e') e') es) =
    (if e \<in> set es then map (\<lambda>e'. row_for L (if e' = e then f e' @ [b] else f e') e') es
     else map (\<lambda>e'. row_for L (f e') e') es @ [row_for L [b] e])"
  using assms
proof (induction es)
  case (Cons x es)
  show ?case
  proof (cases "x = e")
    case True
    with Cons.prems have "map (\<lambda>e'. row_for L (if e' = e then f e' @ [b] else f e') e') es = map (\<lambda>e'. row_for L (f e') e') es"
      by auto
    with True show ?thesis by (simp add: row_for_def)
  next
    case False
    with Cons show ?thesis by (simp add: row_for_def)
  qed
qed (simp add: row_for_def)

lemma exposure_table_snoc: "exposure_table L (ps @ [(b, e)]) = add_leg L b e (exposure_table L ps)"
proof (cases "e \<in> set (map snd ps)")
  case True
  then show ?thesis
    using add_leg_table [of "distinct_first (map snd ps)" L b e "\<lambda>e. map fst (filter (\<lambda>p. snd p = e) ps)"]
    by (auto simp: exposure_table_def distinct_first_snoc intro!: map_cong)
next
  case False
  then have "filter (\<lambda>p. snd p = e) ps = []" by (auto simp: filter_empty_conv)
  with False show ?thesis
    using add_leg_table [of "distinct_first (map snd ps)" L b e "\<lambda>e. map fst (filter (\<lambda>p. snd p = e) ps)"]
    by (auto simp: exposure_table_def distinct_first_snoc intro!: map_cong)
qed

text \<open>The exposure per event. The one-pass accumulation of the trading desk equals the grouping
  of the open legs by event: one row for each event an open bet has a leg on, in order of first
  occurrence, with the number of legs on it and the decimal sums of their bets' stakes and
  potential payouts (a bet with two legs on one event counts twice).\<close>

theorem exposure_groups_by_event:
  "exposure_rows L d bets =
     map (\<lambda>e. \<lparr>xe_eventId = e, xe_betCount = length (bets_with_leg d bets e),
            xe_stake = foldl (dl_plus L) 0 (map bet_stake (bets_with_leg d bets e)),
            xe_potentialPayout = foldl (dl_plus L) 0 (map bet_potentialPayout (bets_with_leg d bets e))\<rparr>)
       (distinct_first (map snd (open_legs d bets)))"
proof -
  have legs: "foldl (\<lambda>rows leg. add_leg L b (leg_eventId leg) rows) (exposure_table L ps) ls =
      exposure_table L (ps @ map (\<lambda>l. (b, leg_eventId l)) ls)" for b ls ps
    by (induction ls arbitrary: ps) (simp_all add: exposure_table_snoc [symmetric])
  have "foldl (\<lambda>rows bet. foldl (\<lambda>rows leg. add_leg L bet (leg_eventId leg) rows) rows (legs_of (bet_id bet) d))
      (exposure_table L ps) bs = exposure_table L (ps @ open_legs d bs)" for bs ps
    by (induction bs arbitrary: ps) (simp_all add: legs open_legs_def)
  from this [of "[]" bets]
  show ?thesis by (simp add: exposure_rows_def exposure_table_def row_for_def bets_with_leg_def distinct_first_def)
qed

end
