(* ===== verification/MapperProperties.thy ===== *)
theory MapperProperties
  imports OddsMap Example
begin

text \<open>
  What the mapping of the feed promises the ingestion: a snapshot whose rows have distinct keys and
  refer only to rows of the same snapshot, and what it makes of a market's line.
\<close>

subsection \<open>Well-formed snapshots\<close>

definition snapshot_ok :: "provider_snapshot \<Rightarrow> bool" where
  "snapshot_ok p \<longleftrightarrow>
     distinct (map ns_key (ps_sports p)) \<and> distinct (map nl_key (ps_leagues p)) \<and>
     distinct (map nt_key (ps_teams p)) \<and> distinct (map nf_providerRef (ps_fixtures p)) \<and>
     distinct (map ne_providerRef (ps_events p)) \<and> distinct (map nm_providerRef (ps_markets p)) \<and>
     distinct (map nx_providerRef (ps_selections p)) \<and>
     nl_sportKey ` set (ps_leagues p) \<subseteq> ns_key ` set (ps_sports p) \<and>
     nt_sportKey ` set (ps_teams p) \<subseteq> ns_key ` set (ps_sports p) \<and>
     nf_leagueKey ` set (ps_fixtures p) \<subseteq> nl_key ` set (ps_leagues p) \<and>
     nf_homeTeamKey ` set (ps_fixtures p) \<subseteq> nt_key ` set (ps_teams p) \<and>
     nf_awayTeamKey ` set (ps_fixtures p) \<subseteq> nt_key ` set (ps_teams p) \<and>
     ne_fixtureProviderRef ` set (ps_events p) \<subseteq> nf_providerRef ` set (ps_fixtures p) \<and>
     nm_eventProviderRef ` set (ps_markets p) \<subseteq> ne_providerRef ` set (ps_events p) \<and>
     nx_marketProviderRef ` set (ps_selections p) \<subseteq> nm_providerRef ` set (ps_markets p)"

abbreviation keys :: "('k \<times> 'v) list \<Rightarrow> 'k set" where
  "keys m \<equiv> fst ` set m"

text \<open>A table whose entries are filed under their own keys and refer into a set of keys.\<close>

definition refers :: "('v \<Rightarrow> 'r) \<Rightarrow> ('k \<times> 'v) list \<Rightarrow> 'r set \<Rightarrow> bool" where
  "refers f m K \<longleftrightarrow> f ` snd ` set m \<subseteq> K"

definition mapper_ok :: "mapper \<Rightarrow> bool" where
  "mapper_ok m \<longleftrightarrow>
     js_keyed ns_key (mp_sports m) \<and> js_keyed nl_key (mp_leagues m) \<and> js_keyed nt_key (mp_teams m) \<and>
     js_keyed nf_providerRef (mp_fixtures m) \<and> js_keyed ne_providerRef (mp_events m) \<and>
     js_keyed nm_providerRef (mp_markets m) \<and> js_keyed nx_providerRef (mp_selections m) \<and>
     refers nl_sportKey (mp_leagues m) (keys (mp_sports m)) \<and>
     refers nt_sportKey (mp_teams m) (keys (mp_sports m)) \<and>
     refers nf_leagueKey (mp_fixtures m) (keys (mp_leagues m)) \<and>
     refers nf_homeTeamKey (mp_fixtures m) (keys (mp_teams m)) \<and>
     refers nf_awayTeamKey (mp_fixtures m) (keys (mp_teams m)) \<and>
     refers ne_fixtureProviderRef (mp_events m) (keys (mp_fixtures m)) \<and>
     refers nm_eventProviderRef (mp_markets m) (keys (mp_events m)) \<and>
     refers nx_marketProviderRef (mp_selections m) (keys (mp_markets m))"

lemma refers_set:
  assumes "refers f m K" and "f v \<in> K"
  shows "refers f (js_set k v m) K"
proof -
  have "snd ` set (js_set k v m) \<subseteq> insert v (snd ` set m)"
    by (force simp: js_set_def split: if_splits)
  with assms show ?thesis unfolding refers_def by blast
qed

lemma refers_insert [simp]: "refers f m K \<Longrightarrow> refers f m (insert k K)"
  by (auto simp: refers_def)

lemmas mapper_steps = js_keyed_set refers_set js_set_keys

text \<open>The tables only grow.\<close>

definition grows :: "mapper \<Rightarrow> mapper \<Rightarrow> bool" where
  "grows m m' \<longleftrightarrow> keys (mp_sports m) \<subseteq> keys (mp_sports m') \<and> keys (mp_leagues m) \<subseteq> keys (mp_leagues m') \<and>
     keys (mp_events m) \<subseteq> keys (mp_events m') \<and> keys (mp_markets m) \<subseteq> keys (mp_markets m')"

lemma grows_refl [simp]: "grows m m"
  by (simp add: grows_def)

lemma grows_trans: "grows a b \<Longrightarrow> grows b c \<Longrightarrow> grows a c"
  unfolding grows_def by (meson subset_trans)

lemma growsD:
  assumes "grows m m'"
  shows "k \<in> keys (mp_sports m) \<Longrightarrow> k \<in> keys (mp_sports m')"
    and "k \<in> keys (mp_leagues m) \<Longrightarrow> k \<in> keys (mp_leagues m')"
    and "k \<in> keys (mp_events m) \<Longrightarrow> k \<in> keys (mp_events m')"
    and "k \<in> keys (mp_markets m) \<Longrightarrow> k \<in> keys (mp_markets m')"
  using assms unfolding grows_def by (meson subsetD)+

text \<open>A step that keeps the mapper well formed while some keys are present, folded over a list.\<close>

lemma foldl_mapper:
  assumes "\<And>m x. mapper_ok m \<Longrightarrow> Q m \<Longrightarrow> mapper_ok (f m x) \<and> grows m (f m x)"
    and "\<And>m m'. Q m \<Longrightarrow> grows m m' \<Longrightarrow> Q m'" and "mapper_ok m" and "Q m"
  shows "mapper_ok (foldl f m xs) \<and> grows m (foldl f m xs)"
  using assms(3,4)
proof (induction xs arbitrary: m)
  case (Cons x xs)
  from assms(1) [OF Cons.prems] have s: "mapper_ok (f m x)" "grows m (f m x)" by auto
  note rest = Cons.IH [OF s(1) assms(2) [OF Cons.prems(2) s(2)]]
  from conjunct1 [OF rest] grows_trans [OF s(2) conjunct2 [OF rest]] show ?case by simp
qed simp

lemma add_outcome_ok:
  "mapper_ok m \<Longrightarrow> marketRef e b k \<in> keys (mp_markets m) \<Longrightarrow>
   mapper_ok (add_outcome nfkd ended e b k m x) \<and> grows m (add_outcome nfkd ended e b k m x)"
  by (simp add: mapper_ok_def add_outcome_def grows_def Let_def mapper_steps)

lemma add_market_ok:
  assumes "mapper_ok m" and "e \<in> keys (mp_events m)"
  shows "mapper_ok (add_market nfkd mks ended e b m x) \<and> grows m (add_market nfkd mks ended e b m x)"
proof (cases "om_key x \<in> set mks \<and> ODDS_API_MARKET_TYPE_MAP (om_key x) \<noteq> None")
  case False
  with assms show ?thesis by (auto simp: add_market_def)
next
  case True
  then obtain type where type: "om_key x \<in> set mks" "ODDS_API_MARKET_TYPE_MAP (om_key x) = Some type" by auto
  let ?ref = "marketRef e b (om_key x)"
  let ?m = "m\<lparr>mp_markets := js_set ?ref \<lparr>nm_providerRef = ?ref, nm_eventProviderRef = e, nm_type = type,
      nm_status = (if ended then Mk_SETTLED else Mk_OPEN), nm_line = marketLine x\<rparr> (mp_markets m)\<rparr>"
  have ok: "mapper_ok ?m" "grows m ?m" "?ref \<in> keys (mp_markets ?m)"
    using assms by (simp_all add: mapper_ok_def grows_def mapper_steps subset_insertI)
  have "mapper_ok (foldl (add_outcome nfkd ended e b (om_key x)) ?m os) \<and>
      grows ?m (foldl (add_outcome nfkd ended e b (om_key x)) ?m os)" for os
  proof (rule foldl_mapper [where Q = "\<lambda>m. ?ref \<in> keys (mp_markets m)", OF add_outcome_ok])
    fix m m' assume "?ref \<in> keys (mp_markets m)" "grows m m'"
    then show "?ref \<in> keys (mp_markets m')" by (metis growsD(4))
  qed (use ok in simp_all)
  note rest = this [of "om_outcomes x"]
  from conjunct1 [OF rest] grows_trans [OF ok(2) conjunct2 [OF rest]] show ?thesis
    by (simp add: add_market_def Let_def type)
qed

lemma add_team_ok:
  "mapper_ok m \<Longrightarrow> g \<in> keys (mp_sports m) \<Longrightarrow>
   mapper_ok (add_team nfkd k g t m) \<and> grows m (add_team nfkd k g t m) \<and>
   teamKey nfkd k t \<in> keys (mp_teams (add_team nfkd k g t m)) \<and>
   keys (mp_teams m) \<subseteq> keys (mp_teams (add_team nfkd k g t m))"
  by (simp add: mapper_ok_def add_team_def grows_def mapper_steps subset_insertI)

lemma add_game_ok:
  assumes ok: "mapper_ok m" and g: "g \<in> keys (mp_sports m)" and k: "k \<in> keys (mp_leagues m)"
  shows "mapper_ok (add_game nfkd now k g e h a t sc m) \<and> grows m (add_game nfkd now k g e h a t sc m) \<and>
    e \<in> keys (mp_events (add_game nfkd now k g e h a t sc m))"
proof -
  let ?m1 = "add_team nfkd k g h m" and ?m2 = "add_team nfkd k g a (add_team nfkd k g h m)"
  note s1 = add_team_ok [OF ok g, of nfkd k h]
  have g1: "g \<in> keys (mp_sports ?m1)" using growsD(1) s1 g by metis
  note s2 = add_team_ok [OF conjunct1 [OF s1] g1, of nfkd k a]
  have m2: "mapper_ok ?m2" "grows m ?m2" "k \<in> keys (mp_leagues ?m2)"
    "teamKey nfkd k h \<in> keys (mp_teams ?m2)" "teamKey nfkd k a \<in> keys (mp_teams ?m2)"
    using s1 s2 grows_trans [of m ?m1 ?m2] growsD(2) [of ?m1 ?m2 k] growsD(2) [of m ?m1 k] k
    by (simp_all, meson subsetD)
  let ?fx = "\<lambda>f. nf_leagueKey f = k \<and> nf_homeTeamKey f = teamKey nfkd k h \<and> nf_awayTeamKey f = teamKey nfkd k a \<and>
      nf_providerRef f = e"
  have step: "mapper_ok (?m2\<lparr>mp_fixtures := js_set e f (mp_fixtures ?m2), mp_events := js_set e v (mp_events ?m2)\<rparr>)"
    if "?fx f" "ne_providerRef v = e" "ne_fixtureProviderRef v = e" for f v
    using m2 that by (simp add: mapper_ok_def mapper_steps)
  show ?thesis
    using m2(2) by (simp add: add_game_def Let_def step grows_def mapper_steps subset_insertI2)
qed

lemma add_odds_event_ok:
  assumes ok: "mapper_ok m" and c: "sg_groupSportKey c \<in> keys (mp_sports m)" "k \<in> keys (mp_leagues m)"
  shows "mapper_ok (add_odds_event nfkd now mks k c scores m ev) \<and> grows m (add_odds_event nfkd now mks k c scores m ev)"
proof -
  let ?m1 = "add_game nfkd now k (sg_groupSportKey c) (oe_id ev) (oe_home_team ev) (oe_away_team ev)
      (oe_commence_time ev) (scores (oe_id ev)) m"
  note g = add_game_ok [OF ok c, of nfkd now "oe_id ev" "oe_home_team ev" "oe_away_team ev"
      "oe_commence_time ev" "scores (oe_id ev)"]
  have "mapper_ok (foldl (add_market nfkd mks ended (oe_id ev) b) ?m1 ms) \<and>
      grows ?m1 (foldl (add_market nfkd mks ended (oe_id ev) b) ?m1 ms)" for ended b ms
  proof (rule foldl_mapper [where Q = "\<lambda>m. oe_id ev \<in> keys (mp_events m)", OF add_market_ok])
    fix m m' assume "oe_id ev \<in> keys (mp_events m)" "grows m m'"
    then show "oe_id ev \<in> keys (mp_events m')" by (metis growsD(3))
  qed (use g in simp_all)
  then have "mapper_ok (foldl (add_market nfkd mks ended (oe_id ev) b) ?m1 ms) \<and>
      grows m (foldl (add_market nfkd mks ended (oe_id ev) b) ?m1 ms)" for ended b ms
    using g grows_trans by blast
  with g show ?thesis by (simp add: add_odds_event_def Let_def split: option.split)
qed

lemma add_score_ok:
  "mapper_ok m \<Longrightarrow> sg_groupSportKey c \<in> keys (mp_sports m) \<Longrightarrow> k \<in> keys (mp_leagues m) \<Longrightarrow>
   mapper_ok (add_score nfkd now k c ids m sc) \<and> grows m (add_score nfkd now k c ids m sc)"
  by (simp add: add_score_def add_game_ok)

lemma add_league_ok:
  "mapper_ok m \<Longrightarrow> nl_sportKey v \<in> keys (mp_sports m) \<Longrightarrow> nl_key v = k \<Longrightarrow>
   mapper_ok (m\<lparr>mp_leagues := js_set k v (mp_leagues m)\<rparr>) \<and>
   grows m (m\<lparr>mp_leagues := js_set k v (mp_leagues m)\<rparr>) \<and>
   k \<in> keys (mp_leagues (m\<lparr>mp_leagues := js_set k v (mp_leagues m)\<rparr>))"
  by (simp add: mapper_ok_def grows_def mapper_steps subset_insertI)

lemma map_sport_ok:
  assumes ok: "mapper_ok m"
  shows "mapper_ok (map_sport nfkd now i scores m k) \<and> grows m (map_sport nfkd now i scores m k)"
proof -
  define api where "api = map_of (rev (map (\<lambda>a. (os_key a, a)) (mi_apiSports i))) k"
  define c where "c = resolveSportConfig nfkd k api"
  define g where "g = sg_groupSportKey c"
  define m1 where "m1 = (if g \<in> keys (mp_sports m) then m
    else m\<lparr>mp_sports := js_set g \<lparr>ns_key = g, ns_name = (case api of None \<Rightarrow> g | Some a \<Rightarrow> os_group a), ns_slug = g\<rparr>
           (mp_sports m)\<rparr>)"
  define m2 where "m2 = m1\<lparr>mp_leagues := js_set k \<lparr>nl_key = k, nl_sportKey = g, nl_name = sg_leagueName c,
       nl_region = (if sg_regionName c = [] then None else Some (sg_regionName c))\<rparr> (mp_leagues m1)\<rparr>"
  have m1: "mapper_ok m1" "grows m m1" "g \<in> keys (mp_sports m1)"
    unfolding m1_def using ok by (simp_all add: mapper_ok_def grows_def mapper_steps subset_insertI)
  have l: "mapper_ok m2 \<and> grows m1 m2 \<and> k \<in> keys (mp_leagues m2)"
    unfolding m2_def
    by (rule add_league_ok [OF m1(1)]) (use m1(3) in simp_all)
  have m2: "mapper_ok m2" "grows m1 m2" "g \<in> keys (mp_sports m2)" "k \<in> keys (mp_leagues m2)"
    using l growsD(1) [OF conjunct1 [OF conjunct2 [OF l]] m1(3)] by simp_all
  have stay: "g \<in> keys (mp_sports m') \<and> k \<in> keys (mp_leagues m') \<Longrightarrow> grows m' m'' \<Longrightarrow>
      g \<in> keys (mp_sports m'') \<and> k \<in> keys (mp_leagues m'')" for m' m''
    using growsD(1) growsD(2) by blast
  let ?odds = "entries_of (mi_oddsBySport i) k"
  let ?m3 = "foldl (add_odds_event nfkd now (mi_marketKeys i) k c scores) m2 ?odds"
  have m3: "mapper_ok ?m3 \<and> grows m2 ?m3"
  proof (rule foldl_mapper [where Q = "\<lambda>m. g \<in> keys (mp_sports m) \<and> k \<in> keys (mp_leagues m)"])
    show "mapper_ok (add_odds_event nfkd now (mi_marketKeys i) k c scores m x) \<and>
        grows m (add_odds_event nfkd now (mi_marketKeys i) k c scores m x)"
      if "mapper_ok m" "g \<in> keys (mp_sports m) \<and> k \<in> keys (mp_leagues m)" for m x
      using that unfolding g_def by (intro add_odds_event_ok) simp_all
    show "g \<in> keys (mp_sports m'') \<and> k \<in> keys (mp_leagues m'')"
      if "g \<in> keys (mp_sports m') \<and> k \<in> keys (mp_leagues m')" "grows m' m''" for m' m''
      by (rule stay [OF that])
  qed (use m2 in simp_all)
  have q3: "g \<in> keys (mp_sports ?m3) \<and> k \<in> keys (mp_leagues ?m3)"
    by (rule stay [OF _ conjunct2 [OF m3]]) (use m2 in simp)
  let ?m4 = "foldl (add_score nfkd now k c (map oe_id ?odds)) ?m3 (entries_of (mi_scoresBySport i) k)"
  have m4: "mapper_ok ?m4 \<and> grows ?m3 ?m4"
  proof (rule foldl_mapper [where Q = "\<lambda>m. g \<in> keys (mp_sports m) \<and> k \<in> keys (mp_leagues m)"])
    show "mapper_ok (add_score nfkd now k c (map oe_id ?odds) m x) \<and>
        grows m (add_score nfkd now k c (map oe_id ?odds) m x)"
      if "mapper_ok m" "g \<in> keys (mp_sports m) \<and> k \<in> keys (mp_leagues m)" for m x
      using that unfolding g_def by (intro add_score_ok) simp_all
    show "g \<in> keys (mp_sports m'') \<and> k \<in> keys (mp_leagues m'')"
      if "g \<in> keys (mp_sports m') \<and> k \<in> keys (mp_leagues m')" "grows m' m''" for m' m''
      by (rule stay [OF that])
    show "mapper_ok ?m3" by (rule conjunct1 [OF m3])
    show "g \<in> keys (mp_sports ?m3) \<and> k \<in> keys (mp_leagues ?m3)" by (rule q3)
  qed
  have "grows m ?m4"
    by (rule grows_trans [OF m1(2) grows_trans [OF m2(2) grows_trans [OF conjunct2 [OF m3] conjunct2 [OF m4]]]])
  moreover have "map_sport nfkd now i scores m k = ?m4" by (simp only: map_sport_def Let_def m1_def m2_def g_def c_def api_def)
  ultimately show ?thesis using m4 by simp
qed

lemma mapper_snapshot_ok: "mapper_ok m \<Longrightarrow> snapshot_ok (mapper_snapshot m)"
proof -
  assume m: "mapper_ok m"
  have k: "key ` snd ` set t = fst ` set t \<and> distinct (map (key \<circ> snd) t)" if t: "js_keyed key t"
    for key :: "'v \<Rightarrow> 'k" and t
  proof -
    have e: "map (key \<circ> snd) t = map fst t" using js_keyed_values [OF t] by simp
    have "key ` snd ` set t = set (map (key \<circ> snd) t)" by (simp add: image_comp)
    also have "\<dots> = fst ` set t" by (simp only: e set_map)
    finally show ?thesis using t unfolding e by (simp add: js_keyed_def)
  qed
  from m show ?thesis
    by (simp add: mapper_ok_def snapshot_ok_def mapper_snapshot_def refers_def k)
qed

text \<open>C25: The feed mapping gives a well-formed snapshot. Whatever the feed answers, the mapped
  sports, leagues, teams, fixtures, events, markets and selections have distinct keys, and every
  reference between them is to a row of the same snapshot.\<close>

theorem mapped_snapshot_wellformed:
  "snapshot_ok (mapOddsApiToSnapshot nfkd now input)"
proof -
  have "mapper_ok empty_mapper" by (simp add: mapper_ok_def empty_mapper_def js_keyed_def refers_def)
  then have "mapper_ok (foldl (map_sport nfkd now input (scores_by_id input)) empty_mapper ks)" for ks
    using foldl_mapper [where Q = "\<lambda>_. True" and f = "map_sport nfkd now input (scores_by_id input)" and m = empty_mapper]
      map_sport_ok by blast
  then show ?thesis by (simp add: mapOddsApiToSnapshot_def mapper_snapshot_ok)
qed

text \<open>
  The line of a spread market is the point of its first outcome that has one. When the feed lists
  the away side first, that is the away side's handicap, while grading reads a line as the home
  side's: Red at -3.5 winning by two is graded won.
\<close>

lemma away_first_spread:
  "marketLine \<lparr>om_key = ''spreads'', om_outcomes =
     [\<lparr>oo_name = ''Blue'', oo_price = 2, oo_point = Some (7/2)\<rparr>,
      \<lparr>oo_name = ''Red'', oo_price = 2, oo_point = Some (-7/2)\<rparr>]\<rparr> = Some ''3.5''"
  "selectionLabel \<lparr>oo_name = ''Red'', oo_price = 2, oo_point = Some (-7/2)\<rparr> = ''Red -3.5''"
  "evaluate_leg \<lparr>li_marketType = HANDICAP, li_marketStatus = Mk_SETTLED, li_marketLine = Some ''3.5'',
     li_selectionName = ''Red -3.5'', li_homeTeamName = ''Red'', li_awayTeamName = ''Blue'',
     li_homeScore = Some 3, li_awayScore = Some 1\<rparr> = Some WON"
  by code_simp+

end
