(* ===== verification/StaffAccess.thy ===== *)
theory StaffAccess
  imports Text Schema
begin

text \<open>
  \<open>modules/backoffice/staff\<close>: the permissions of the staff roles (\<open>staff-permissions.ts\<close>), the
  scope checks (\<open>staff-scope.util.ts\<close>, \<open>staff-platform.util.ts\<close>, \<open>staff-scope.service.ts\<close>), the
  access tokens (\<open>staff-jwt.service.ts\<close>) and the guard of a staff route
  (\<open>staff-auth.guard.ts\<close>). The library that signs and verifies tokens is a parameter with a
  contract.
\<close>

subsection \<open>Roles and permissions\<close>

fun role_text :: "staff_role \<Rightarrow> string" where
  "role_text SUPER_ADMIN = ''SUPER_ADMIN''"
| "role_text PLATFORM_ADMIN = ''PLATFORM_ADMIN''"
| "role_text OPERATOR_ADMIN = ''OPERATOR_ADMIN''"
| "role_text TRADER = ''TRADER''"
| "role_text RISK_MANAGER = ''RISK_MANAGER''"
| "role_text CUSTOMER_SUPPORT = ''CUSTOMER_SUPPORT''"
| "role_text SETTLEMENT = ''SETTLEMENT''"
| "role_text FINANCE = ''FINANCE''"
| "role_text COMPLIANCE = ''COMPLIANCE''"

lemma role_text_eq [simp]: "role_text r = role_text r' \<longleftrightarrow> r = r'"
  by (cases r; cases r') simp_all

definition STAFF_PERMISSIONS :: "string list" where
  "STAFF_PERMISSIONS = [
     ''tenant.read'', ''tenant.update'', ''tenant.create'', ''product.leagues.read'',
     ''product.leagues.update'', ''staff.read'', ''staff.tenant_access.read'',
     ''staff.tenant_access.update'', ''staff.operator.read'', ''staff.operator.update'',
     ''trading.read'', ''trading.suspend'', ''trading.limits.read'', ''trading.limits.update'',
     ''bets.read'', ''bets.void'', ''settlement.read'', ''settlement.run'', ''analytics.read'',
     ''compliance.audit.read'']"

definition PLATFORM_OPS_PERMISSIONS :: "string list" where
  "PLATFORM_OPS_PERMISSIONS = [
     ''tenant.read'', ''tenant.create'', ''tenant.update'', ''product.leagues.read'',
     ''product.leagues.update'', ''trading.read'', ''trading.suspend'', ''trading.limits.read'',
     ''trading.limits.update'', ''bets.read'', ''bets.void'', ''settlement.read'',
     ''settlement.run'', ''analytics.read'', ''compliance.audit.read'', ''staff.operator.read'',
     ''staff.operator.update'']"

definition TENANT_OPERATOR_PERMISSIONS :: "string list" where
  "TENANT_OPERATOR_PERMISSIONS = filter (\<lambda>p.
     p \<noteq> ''tenant.create'' \<and> p \<noteq> ''staff.read'' \<and> p \<noteq> ''settlement.run'' \<and>
     p \<noteq> ''staff.tenant_access.read'' \<and> p \<noteq> ''staff.tenant_access.update'' \<and>
     p \<noteq> ''staff.operator.update'') STAFF_PERMISSIONS"

fun ROLE_PERMISSIONS :: "staff_role \<Rightarrow> string list" where
  "ROLE_PERMISSIONS SUPER_ADMIN = STAFF_PERMISSIONS"
| "ROLE_PERMISSIONS PLATFORM_ADMIN = PLATFORM_OPS_PERMISSIONS"
| "ROLE_PERMISSIONS OPERATOR_ADMIN = TENANT_OPERATOR_PERMISSIONS"
| "ROLE_PERMISSIONS TRADER =
     [''tenant.read'', ''product.leagues.read'', ''product.leagues.update'', ''trading.read'',
      ''trading.suspend'', ''trading.limits.read'', ''bets.read'', ''settlement.read'']"
| "ROLE_PERMISSIONS RISK_MANAGER =
     [''tenant.read'', ''product.leagues.read'', ''trading.read'', ''trading.limits.read'',
      ''trading.limits.update'', ''bets.read'', ''analytics.read'']"
| "ROLE_PERMISSIONS CUSTOMER_SUPPORT =
     [''tenant.read'', ''product.leagues.read'', ''bets.read'', ''bets.void'',
      ''compliance.audit.read'']"
| "ROLE_PERMISSIONS SETTLEMENT =
     [''tenant.read'', ''product.leagues.read'', ''bets.read'', ''settlement.read'',
      ''compliance.audit.read'']"
| "ROLE_PERMISSIONS FINANCE =
     [''tenant.read'', ''product.leagues.read'', ''bets.read'', ''analytics.read'',
      ''compliance.audit.read'']"
| "ROLE_PERMISSIONS COMPLIANCE = [''tenant.read'', ''compliance.audit.read'', ''bets.read'']"

definition PLATFORM_SCOPE_ROLES :: "staff_role list" where
  "PLATFORM_SCOPE_ROLES = [SUPER_ADMIN, PLATFORM_ADMIN]"

text \<open>A JavaScript \<open>Set\<close> keeps the order of the first insertions.\<close>

definition set_add :: "'a \<Rightarrow> 'a list \<Rightarrow> 'a list" where
  "set_add x xs = (if x \<in> set xs then xs else xs @ [x])"

definition permissionsForRoles :: "staff_role list \<Rightarrow> string list" where
  "permissionsForRoles roles =
     foldl (\<lambda>s role. foldl (\<lambda>s permission. set_add permission s) s (ROLE_PERMISSIONS role)) [] roles"

definition hasPermission :: "string list \<Rightarrow> string \<Rightarrow> bool" where
  "hasPermission permissions required \<longleftrightarrow> required \<in> set permissions"

text \<open>The roles of a token are texts; those of a staff row are of the enum.\<close>

definition hasStaffRole :: "string list \<Rightarrow> staff_role \<Rightarrow> bool" where
  "hasStaffRole roles role \<longleftrightarrow> role_text role \<in> set roles"

definition isPlatformScopeRole :: "string list \<Rightarrow> bool" where
  "isPlatformScopeRole roles \<longleftrightarrow> list_ex (\<lambda>role. role \<in> set (map role_text PLATFORM_SCOPE_ROLES)) roles"

lemma set_foldl_set_add: "set (foldl (\<lambda>s x. set_add x s) s xs) = set s \<union> set xs"
  by (induction xs arbitrary: s) (auto simp: set_add_def)

lemma distinct_foldl_set_add: "distinct s \<Longrightarrow> distinct (foldl (\<lambda>s x. set_add x s) s xs)"
  by (induction xs arbitrary: s) (auto simp: set_add_def)

lemma set_permissionsForRoles [simp]:
  "set (permissionsForRoles roles) = (\<Union>r \<in> set roles. set (ROLE_PERMISSIONS r))"
proof -
  have "set (foldl (\<lambda>s role. foldl (\<lambda>s permission. set_add permission s) s (ROLE_PERMISSIONS role)) s roles)
      = set s \<union> (\<Union>r \<in> set roles. set (ROLE_PERMISSIONS r))" for s
    by (induction roles arbitrary: s) (auto simp: set_foldl_set_add)
  then show ?thesis by (simp add: permissionsForRoles_def)
qed

lemma distinct_permissionsForRoles: "distinct (permissionsForRoles roles)"
proof -
  have "distinct s \<Longrightarrow> distinct (foldl (\<lambda>s role. foldl (\<lambda>s permission. set_add permission s) s
      (ROLE_PERMISSIONS role)) s roles)" for s :: "string list"
    by (induction roles arbitrary: s) (auto simp: distinct_foldl_set_add)
  then show ?thesis by (simp add: permissionsForRoles_def)
qed

lemma isPlatformScopeRole_iff:
  "isPlatformScopeRole roles \<longleftrightarrow> hasStaffRole roles SUPER_ADMIN \<or> hasStaffRole roles PLATFORM_ADMIN"
  by (auto simp: isPlatformScopeRole_def hasStaffRole_def PLATFORM_SCOPE_ROLES_def list_ex_iff)

subsection \<open>The staff member of a request\<close>

record staff_context =
  sx_staffUserId :: string
  sx_email :: string
  sx_casinoGroupId :: "string option"
  sx_roles :: "string list"
  sx_permissions :: "string list"

definition assertPlatformStaff :: "staff_context \<Rightarrow> unit result" where
  "assertPlatformStaff staff =
     (if truthy (sx_casinoGroupId staff) then
        Inl (Forbidden ''Only platform operators can perform this action'')
      else if \<not> isPlatformScopeRole (sx_roles staff) then
        Inl (Forbidden ''Requires SUPER_ADMIN or PLATFORM_ADMIN platform role'')
      else Inr ())"

definition assertSuperAdmin :: "staff_context \<Rightarrow> unit result" where
  "assertSuperAdmin staff =
     (case assertPlatformStaff staff of
        Inl e \<Rightarrow> Inl e
      | Inr _ \<Rightarrow>
          if \<not> hasStaffRole (sx_roles staff) SUPER_ADMIN then
            Inl (Forbidden ''Requires SUPER_ADMIN role'')
          else Inr ())"

definition assertTenantStaff :: "staff_context \<Rightarrow> unit result" where
  "assertTenantStaff staff =
     (if \<not> truthy (sx_casinoGroupId staff) then
        Inl (Forbidden ''This action is only available to tenant-scoped staff'')
      else Inr ())"

definition isPlatformStaff :: "staff_context \<Rightarrow> bool" where
  "isPlatformStaff staff \<longleftrightarrow> sx_casinoGroupId staff = None"

lemma assertPlatformStaff_iff:
  "assertPlatformStaff staff = Inr () \<longleftrightarrow>
     \<not> truthy (sx_casinoGroupId staff) \<and> isPlatformScopeRole (sx_roles staff)"
  by (simp add: assertPlatformStaff_def)

lemma assertSuperAdmin_iff:
  "assertSuperAdmin staff = Inr () \<longleftrightarrow>
     \<not> truthy (sx_casinoGroupId staff) \<and> hasStaffRole (sx_roles staff) SUPER_ADMIN"
  by (simp add: assertSuperAdmin_def assertPlatformStaff_def isPlatformScopeRole_iff)

subsection \<open>The tenants a staff member reaches\<close>

record tenant_item =
  ti_id :: string
  ti_slug :: string
  ti_name :: string
  ti_status :: group_status

definition tenant_item_of :: "group_row \<Rightarrow> tenant_item" where
  "tenant_item_of g = \<lparr>ti_id = cg_id g, ti_slug = cg_slug g, ti_name = cg_name g, ti_status = cg_status g\<rparr>"

definition find_group :: "string \<Rightarrow> db \<Rightarrow> group_row option" where
  "find_group i d = get_by cg_id i (db_groups d)"

definition find_grant :: "string \<Rightarrow> string \<Rightarrow> db \<Rightarrow> staff_access_row option" where
  "find_grant staffUserId casinoGroupId d =
     row_find (\<lambda>a. sa_staffUserId a = staffUserId \<and> sa_casinoGroupId a = casinoGroupId) (db_staffAccess d)"

text \<open>The collation of \<open>orderBy: { name: 'asc' }\<close> is the database's: a parameter, as a rank of names.\<close>

definition listAccessibleTenants :: "(string \<Rightarrow> int) \<Rightarrow> staff_context \<Rightarrow> db \<Rightarrow> tenant_item list" where
  "listAccessibleTenants rank staff d =
     (if truthy (sx_casinoGroupId staff) then
        (case find_group (the (sx_casinoGroupId staff)) d of None \<Rightarrow> [] | Some g \<Rightarrow> [tenant_item_of g])
      else if \<not> isPlatformScopeRole (sx_roles staff) then []
      else if hasStaffRole (sx_roles staff) SUPER_ADMIN then
        map tenant_item_of (order_asc (\<lambda>g. rank (cg_name g)) (db_groups d))
      else if hasStaffRole (sx_roles staff) PLATFORM_ADMIN then
        map tenant_item_of (order_asc (\<lambda>g. rank (cg_name g))
          (List.map_filter (\<lambda>a. find_group (sa_casinoGroupId a) d)
            (row_filter (\<lambda>a. sa_staffUserId a = sx_staffUserId staff) (db_staffAccess d))))
      else [])"

definition assertCasinoGroupAccess :: "staff_context \<Rightarrow> string \<Rightarrow> db \<Rightarrow> unit result" where
  "assertCasinoGroupAccess staff casinoGroupId d =
     (case find_group casinoGroupId d of
        None \<Rightarrow> Inl (NotFound ''Casino group not found'')
      | Some _ \<Rightarrow>
          if truthy (sx_casinoGroupId staff) then
            (if sx_casinoGroupId staff \<noteq> Some casinoGroupId then
               Inl (Forbidden ''Cannot access another casino group'')
             else Inr ())
          else if \<not> isPlatformScopeRole (sx_roles staff) then
            Inl (Forbidden ''Cannot access this casino group'')
          else if hasStaffRole (sx_roles staff) SUPER_ADMIN then Inr ()
          else if hasStaffRole (sx_roles staff) PLATFORM_ADMIN then
            (case find_grant (sx_staffUserId staff) casinoGroupId d of
               None \<Rightarrow> Inl (Forbidden ''You are not authorized to access this casino group'')
             | Some _ \<Rightarrow> Inr ())
          else Inl (Forbidden ''Cannot access this casino group''))"

definition resolveCasinoGroupId :: "staff_context \<Rightarrow> string option \<Rightarrow> db \<Rightarrow> string result" where
  "resolveCasinoGroupId staff requestedGroupId d =
     (if truthy (sx_casinoGroupId staff) then
        (if truthy requestedGroupId \<and> requestedGroupId \<noteq> sx_casinoGroupId staff then
           Inl (Forbidden ''Cannot access another casino group'')
         else Inr (the (sx_casinoGroupId staff)))
      else if \<not> truthy requestedGroupId then
        Inl (BadRequest ''Query parameter casinoGroupId is required for platform operators'')
      else
        (case assertCasinoGroupAccess staff (the requestedGroupId) d of
           Inl e \<Rightarrow> Inl e
         | Inr _ \<Rightarrow> Inr (the requestedGroupId)))"

text \<open>
  The specification of the scope: a member bound to a tenant reaches that tenant only, a super
  administrator every tenant, a platform administrator the tenants granted, anybody else none.
\<close>

definition may_reach :: "staff_context \<Rightarrow> db \<Rightarrow> string \<Rightarrow> bool" where
  "may_reach staff d g \<longleftrightarrow>
     (if truthy (sx_casinoGroupId staff) then sx_casinoGroupId staff = Some g
      else hasStaffRole (sx_roles staff) SUPER_ADMIN \<or>
        hasStaffRole (sx_roles staff) PLATFORM_ADMIN \<and> find_grant (sx_staffUserId staff) g d \<noteq> None)"

lemma assertCasinoGroupAccess_iff:
  "assertCasinoGroupAccess staff g d = Inr () \<longleftrightarrow> find_group g d \<noteq> None \<and> may_reach staff d g"
  by (auto simp: assertCasinoGroupAccess_def may_reach_def isPlatformScopeRole_iff split: option.split)

lemma resolveCasinoGroupId_reaches:
  "resolveCasinoGroupId staff req d = Inr g \<Longrightarrow> may_reach staff d g"
  using assertCasinoGroupAccess_iff [of staff "the req" d]
  by (auto simp: resolveCasinoGroupId_def may_reach_def truthy_def split: if_splits sum.splits option.splits)

subsection \<open>Tokens\<close>

text \<open>
  The claims of a token are a JSON object of texts, arrays of texts and nulls. \<open>jwt_verify\<close> is
  \<open>None\<close> when the library throws: a bad signature, an expired or a malformed token, or a payload
  that is no object (which every caller refuses with the same error). A lifetime is a text such
  as \<open>15m\<close>, its length a parameter of the contract; times are whole seconds, as in the tokens.
\<close>

datatype jval = JNull | JStr string | JArr "string list"

type_synonym claims = "(string \<times> jval) list"

record jwt_lib =
  jwt_sign :: "claims \<Rightarrow> string \<Rightarrow> string \<Rightarrow> int \<Rightarrow> string"
  jwt_verify :: "string \<Rightarrow> string \<Rightarrow> int \<Rightarrow> int \<Rightarrow> claims option"   \<comment> \<open>token, secret, tolerance, clock\<close>
  jwt_decode :: "string \<Rightarrow> claims option"

definition jwt_ok :: "jwt_lib \<Rightarrow> (string \<Rightarrow> int) \<Rightarrow> bool" where
  "jwt_ok J life \<longleftrightarrow>
     (\<forall>c k ttl t0. jwt_decode J (jwt_sign J c k ttl t0) = Some c) \<and>
     (\<forall>c k ttl t0 skew t. jwt_verify J (jwt_sign J c k ttl t0) k skew t =
        (if t div 1000 < t0 div 1000 + life ttl + skew then Some c else None)) \<and>
     (\<forall>token k skew t c. jwt_verify J token k skew t = Some c \<longrightarrow>
        (\<exists>ttl t0. token = jwt_sign J c k ttl t0 \<and> t div 1000 < t0 div 1000 + life ttl + skew))"

lemma jwt_okD:
  assumes "jwt_ok J life"
  shows "jwt_decode J (jwt_sign J c k ttl t0) = Some c"
    and "jwt_verify J (jwt_sign J c k ttl t0) k skew t =
      (if t div 1000 < t0 div 1000 + life ttl + skew then Some c else None)"
    and "jwt_verify J token k skew t = Some c \<Longrightarrow>
      \<exists>ttl t0. token = jwt_sign J c k ttl t0 \<and> t div 1000 < t0 div 1000 + life ttl + skew"
  using assms by (simp_all add: jwt_ok_def)

definition text_claim :: "claims \<Rightarrow> string \<Rightarrow> string option" where
  "text_claim c k = (case map_of c k of Some (JStr s) \<Rightarrow> Some s | _ \<Rightarrow> None)"

definition array_claim :: "claims \<Rightarrow> string \<Rightarrow> string list option" where
  "array_claim c k = (case map_of c k of Some (JArr xs) \<Rightarrow> Some xs | _ \<Rightarrow> None)"

text \<open>The tenant of a token is cast without a check: an array there acts as its text.\<close>

definition group_claim :: "claims \<Rightarrow> string option" where
  "group_claim c = (case map_of c ''casinoGroupId'' of
     Some (JStr s) \<Rightarrow> Some s | Some (JArr xs) \<Rightarrow> Some (join_with '','' xs) | _ \<Rightarrow> None)"

record staff_config =
  cf_STAFF_JWT_SECRET :: string
  cf_STAFF_ACCESS_TTL :: string
  cf_STAFF_REFRESH_TTL :: string

definition staff_claims :: "staff_row \<Rightarrow> claims" where
  "staff_claims user =
     [(''sub'', JStr (su_id user)), (''email'', JStr (su_email user)),
      (''casinoGroupId'', (case su_casinoGroupId user of None \<Rightarrow> JNull | Some g \<Rightarrow> JStr g)),
      (''roles'', JArr (map role_text (su_roles user))),
      (''permissions'', JArr (permissionsForRoles (su_roles user))),
      (''typ'', JStr ''staff'')]"

definition mintAccessToken :: "jwt_lib \<Rightarrow> staff_config \<Rightarrow> staff_row \<Rightarrow> int \<Rightarrow> string \<times> string" where
  "mintAccessToken J C user now =
     (jwt_sign J (staff_claims user) (cf_STAFF_JWT_SECRET C) (cf_STAFF_ACCESS_TTL C) now,
      cf_STAFF_ACCESS_TTL C)"

definition verifyAccessToken :: "jwt_lib \<Rightarrow> staff_config \<Rightarrow> string \<Rightarrow> int \<Rightarrow> staff_context result" where
  "verifyAccessToken J C token now =
     (case jwt_verify J token (cf_STAFF_JWT_SECRET C) 0 now of
        None \<Rightarrow> Inl (Unauthorized ''Invalid or expired staff session'')
      | Some payload \<Rightarrow>
          if text_claim payload ''typ'' \<noteq> Some ''staff'' then
            Inl (Unauthorized ''Invalid or expired staff session'')
          else
            (case (text_claim payload ''sub'', text_claim payload ''email'',
                array_claim payload ''roles'', array_claim payload ''permissions'') of
               (Some sub, Some email, Some roles, Some permissions) \<Rightarrow>
                 Inr \<lparr>sx_staffUserId = sub, sx_email = email, sx_casinoGroupId = group_claim payload,
                   sx_roles = roles, sx_permissions = permissions\<rparr>
             | _ \<Rightarrow> Inl (Unauthorized ''Invalid or expired staff session'')))"

definition context_of :: "staff_row \<Rightarrow> staff_context" where
  "context_of user = \<lparr>sx_staffUserId = su_id user, sx_email = su_email user,
     sx_casinoGroupId = su_casinoGroupId user, sx_roles = map role_text (su_roles user),
     sx_permissions = permissionsForRoles (su_roles user)\<rparr>"

lemma verify_minted:
  assumes "jwt_ok J life" and "t div 1000 < t0 div 1000 + life (cf_STAFF_ACCESS_TTL C)"
  shows "verifyAccessToken J C (fst (mintAccessToken J C user t0)) t = Inr (context_of user)"
proof -
  from assms have "jwt_verify J (fst (mintAccessToken J C user t0)) (cf_STAFF_JWT_SECRET C) 0 t
      = Some (staff_claims user)"
    by (simp add: jwt_okD(2) [OF assms(1)] mintAccessToken_def)
  then show ?thesis
    by (simp add: verifyAccessToken_def staff_claims_def text_claim_def array_claim_def group_claim_def
        context_of_def split: option.split)
qed

lemma verify_expired:
  assumes "jwt_ok J life" and "t0 div 1000 + life (cf_STAFF_ACCESS_TTL C) \<le> t div 1000"
  shows "verifyAccessToken J C (fst (mintAccessToken J C user t0)) t =
    Inl (Unauthorized ''Invalid or expired staff session'')"
  using assms(2) by (simp add: verifyAccessToken_def mintAccessToken_def jwt_okD(2) [OF assms(1)])

subsection \<open>The guard of a staff route\<close>

text \<open>\<open>header.split(' ')\<close>: the first two pieces.\<close>

definition bearerToken :: "string option \<Rightarrow> string option" where
  "bearerToken header =
     (if \<not> truthy header then None
      else let h = the header;
               scheme = takeWhile (\<lambda>c. c \<noteq> CHR '' '') h;
               rest = drop (length scheme + 1) h;
               token = takeWhile (\<lambda>c. c \<noteq> CHR '' '') rest
           in if to_lower scheme = ''bearer'' \<and> token \<noteq> [] then Some token else None)"

definition StaffAuthGuard ::
  "jwt_lib \<Rightarrow> staff_config \<Rightarrow> string option \<Rightarrow> string option \<Rightarrow> int \<Rightarrow> staff_context result" where
  "StaffAuthGuard J C header required now =
     (case bearerToken header of
        None \<Rightarrow> Inl (Unauthorized ''Staff authentication required'')
      | Some token \<Rightarrow>
          (case verifyAccessToken J C token now of
             Inl e \<Rightarrow> Inl e
           | Inr staff \<Rightarrow>
               (case required of
                  None \<Rightarrow> Inr staff
                | Some permission \<Rightarrow>
                    if \<not> hasPermission (sx_permissions staff) permission then
                      Inl (Forbidden (''Missing permission: '' @ permission))
                    else Inr staff)))"

lemma guard_permission:
  "StaffAuthGuard J C header (Some p) now = Inr staff \<Longrightarrow> hasPermission (sx_permissions staff) p"
  by (auto simp: StaffAuthGuard_def split: option.splits sum.splits if_splits)

end
