(* ===== verification/StaffAuth.thy ===== *)
theory StaffAuth
  imports StaffAccess AuditLog
begin

text \<open>
  \<open>modules/backoffice/staff/staff-auth.service.ts\<close> and \<open>staff-profile.controller.ts\<close>: login,
  refresh with rotation of the refresh token, logout and change of password. Password hashing
  (argon2), the random source and SHA-256 are parameters; each random draw and each salt is
  numbered by the world's supply of identifiers. The last part is the state machine of the
  sessions and the reason a refresh token that has died stays dead.
\<close>

record auth_lib =
  al_argon2_hash :: "string \<Rightarrow> nat \<Rightarrow> string"       \<comment> \<open>plain text, number of the salt\<close>
  al_argon2_verify :: "string \<Rightarrow> string \<Rightarrow> bool"    \<comment> \<open>hash, plain text\<close>
  al_random :: "nat \<Rightarrow> nat \<Rightarrow> string"               \<comment> \<open>\<open>randomBytes(n).toString('base64url')\<close>, number of the draw\<close>
  al_sha256_hex :: "string \<Rightarrow> string"

subsection \<open>Reads and writes\<close>

definition find_staff :: "string \<Rightarrow> db \<Rightarrow> staff_row option" where
  "find_staff i d = get_by su_id i (db_staff d)"

definition find_staff_email :: "string \<Rightarrow> db \<Rightarrow> staff_row option" where
  "find_staff_email email d = get_by su_email email (db_staff d)"

definition update_staff :: "string \<Rightarrow> (staff_row \<Rightarrow> staff_row) \<Rightarrow> db \<Rightarrow> db" where
  "update_staff i f d = d\<lparr>db_staff := upd_by su_id i f (db_staff d)\<rparr>"

definition find_session :: "string \<Rightarrow> db \<Rightarrow> staff_session_row option" where
  "find_session hash d = get_by ss_refreshTokenHash hash (db_staffSessions d)"

text \<open>\<open>staffSession.create\<close>, with the unique index on the hash.\<close>

definition create_session :: "staff_session_row \<Rightarrow> db \<Rightarrow> db result" where
  "create_session r d =
     (if find_session (ss_refreshTokenHash r) d \<noteq> None then Inl (PlainError ''Unique constraint failed'')
      else Inr (d\<lparr>db_staffSessions := row_insert r (db_staffSessions d)\<rparr>))"

definition delete_sessions :: "string \<Rightarrow> db \<Rightarrow> db" where
  "delete_sessions staffUserId d =
     d\<lparr>db_staffSessions := row_delete (\<lambda>r. ss_staffUserId r = staffUserId) (db_staffSessions d)\<rparr>"

interpretation staff: keyed_rows su_id "get_by su_id" "upd_by su_id" row_insert
  by (rule keyed_rows_by)

interpretation staff_email: keyed_rows su_email "get_by su_email" "upd_by su_email" row_insert
  by (rule keyed_rows_by)

interpretation sessions: keyed_rows ss_refreshTokenHash "get_by ss_refreshTokenHash"
    "upd_by ss_refreshTokenHash" row_insert
  by (rule keyed_rows_by)

lemma find_sessionD:
  "find_session h d = Some r \<Longrightarrow> r \<in> set (db_staffSessions d) \<and> ss_refreshTokenHash r = h"
  unfolding find_session_def by (drule sessions.get_key) simp

lemma find_session_None: "find_session h d = None \<longleftrightarrow> (\<forall>r \<in> set (db_staffSessions d). ss_refreshTokenHash r \<noteq> h)"
  by (simp add: find_session_def get_by_def row_find_None_iff)

lemma create_session_db:
  "create_session r d = Inr d' \<Longrightarrow> d' = d\<lparr>db_staffSessions := db_staffSessions d @ [r]\<rparr> \<and>
     (\<forall>x \<in> set (db_staffSessions d). ss_refreshTokenHash x \<noteq> ss_refreshTokenHash r)"
  by (auto simp: create_session_def row_insert_def find_session_None split: if_splits)

subsection \<open>Lifetimes\<close>

definition unit_ms :: "char \<Rightarrow> int option" where
  "unit_ms c =
     (if c = CHR ''s'' then Some 1000 else if c = CHR ''m'' then Some 60000
      else if c = CHR ''h'' then Some 3600000 else if c = CHR ''d'' then Some 86400000 else None)"

text \<open>\<open>/^(\d+)([smhd])$/\<close> on the trimmed text.\<close>

definition parseDurationMs :: "string \<Rightarrow> int result" where
  "parseDurationMs ttl =
     (let t = trim ttl; digits = takeWhile is_digit t; u = dropWhile is_digit t in
      case u of
        [c] \<Rightarrow>
          (case unit_ms c of
             Some ms \<Rightarrow>
               if digits = [] then Inl (Forbidden ''Invalid STAFF_REFRESH_TTL configuration'')
               else Inr (int (nat_of_digits digits) * ms)
           | None \<Rightarrow> Inl (Forbidden ''Invalid STAFF_REFRESH_TTL configuration''))
      | _ \<Rightarrow> Inl (Forbidden ''Invalid STAFF_REFRESH_TTL configuration''))"

subsection \<open>Sessions\<close>

record login_staff =
  ls_id :: string
  ls_email :: string
  ls_casinoGroupId :: "string option"
  ls_roles :: "string list"
  ls_permissions :: "string list"

record login_result =
  lr_accessToken :: string
  lr_expiresIn :: string
  lr_refreshToken :: string
  lr_refreshExpiresIn :: string
  lr_staff :: login_staff

definition hashRefreshToken :: "auth_lib \<Rightarrow> string \<Rightarrow> string" where
  "hashRefreshToken A token = al_sha256_hex A token"

text \<open>A fresh refresh token and its session row; a bad lifetime throws before the row is written.\<close>

definition open_session :: "env \<Rightarrow> auth_lib \<Rightarrow> staff_config \<Rightarrow> string \<Rightarrow> 'w world \<Rightarrow> string result \<times> 'w world" where
  "open_session E A C staffUserId s =
     (let refreshToken = al_random A 32 (w_seq s);
          s1 = s\<lparr>w_seq := w_seq s + 2\<rparr> in
      case parseDurationMs (cf_STAFF_REFRESH_TTL C) of
        Inl e \<Rightarrow> (Inl e, s1)
      | Inr ms \<Rightarrow>
          (case create_session \<lparr>ss_id = env_gen E (w_seq s + 1), ss_staffUserId = staffUserId,
                 ss_refreshTokenHash = hashRefreshToken A refreshToken,
                 ss_expiresAt = w_now s + ms, ss_revokedAt = None\<rparr> (w_db s1) of
             Inl e \<Rightarrow> (Inl e, s1)
           | Inr d \<Rightarrow> (Inr refreshToken, s1\<lparr>w_db := d\<rparr>)))"

text \<open>The answer of \<open>login\<close> and \<open>refresh\<close>: the access token is minted and read back.\<close>

definition session_answer ::
  "jwt_lib \<Rightarrow> staff_config \<Rightarrow> staff_row \<Rightarrow> string \<Rightarrow> 'w world \<Rightarrow> login_result result \<times> 'w world" where
  "session_answer J C user refreshToken s =
     (let (accessToken, expiresIn) = mintAccessToken J C user (w_now s) in
      case verifyAccessToken J C accessToken (w_now s) of
        Inl e \<Rightarrow> (Inl e, s)
      | Inr staff \<Rightarrow>
          (Inr \<lparr>lr_accessToken = accessToken, lr_expiresIn = expiresIn, lr_refreshToken = refreshToken,
             lr_refreshExpiresIn = cf_STAFF_REFRESH_TTL C,
             lr_staff = \<lparr>ls_id = su_id user, ls_email = su_email user,
               ls_casinoGroupId = su_casinoGroupId user, ls_roles = map role_text (su_roles user),
               ls_permissions = sx_permissions staff\<rparr>\<rparr>, s))"

definition staff_login ::
  "env \<Rightarrow> auth_lib \<Rightarrow> jwt_lib \<Rightarrow> staff_config \<Rightarrow> string \<Rightarrow> string \<Rightarrow> 'w world \<Rightarrow> login_result result \<times> 'w world" where
  "staff_login E A J C email password s =
     (case find_staff_email (trim (to_lower email)) (w_db s) of
        None \<Rightarrow> (Inl (Unauthorized ''Invalid credentials''), s)
      | Some user \<Rightarrow>
          if su_status user \<noteq> St_ACTIVE then (Inl (Unauthorized ''Invalid credentials''), s)
          else if \<not> al_argon2_verify A (su_passwordHash user) password then
            (Inl (Unauthorized ''Invalid credentials''), s)
          else and_then (open_session E A C (su_id user) s) (\<lambda>refreshToken s1.
            session_answer J C user refreshToken s1))"

definition staff_logout :: "auth_lib \<Rightarrow> string \<Rightarrow> 'w world \<Rightarrow> 'w world" where
  "staff_logout A refreshToken s =
     (let hash = hashRefreshToken A refreshToken in
      s\<lparr>w_db := (w_db s)\<lparr>db_staffSessions := row_update
        (\<lambda>r. ss_refreshTokenHash r = hash \<and> ss_revokedAt r = None)
        (\<lambda>r. r\<lparr>ss_revokedAt := Some (w_now s)\<rparr>) (db_staffSessions (w_db s))\<rparr>\<rparr>)"

text \<open>
  \<open>refresh\<close> in two parts, the reads with the checks and the writes: between the two another request
  may run. A session has a user (its foreign key); the lookup of none is refused like the rest.
\<close>

definition refresh_check ::
  "auth_lib \<Rightarrow> string \<Rightarrow> 'w world \<Rightarrow> (staff_session_row \<times> staff_row) result" where
  "refresh_check A refreshToken s =
     (case find_session (hashRefreshToken A refreshToken) (w_db s) of
        None \<Rightarrow> Inl (Unauthorized ''Invalid refresh token'')
      | Some session \<Rightarrow>
          (case find_staff (ss_staffUserId session) (w_db s) of
             None \<Rightarrow> Inl (Unauthorized ''Invalid refresh token'')
           | Some user \<Rightarrow>
               if ss_revokedAt session \<noteq> None \<or> ss_expiresAt session < w_now s \<or>
                  su_status user \<noteq> St_ACTIVE
               then Inl (Unauthorized ''Invalid refresh token'')
               else Inr (session, user)))"

definition revoke_session :: "string \<Rightarrow> 'w world \<Rightarrow> 'w world" where
  "revoke_session i s = s\<lparr>w_db := (w_db s)\<lparr>db_staffSessions := upd_by ss_id i
     (\<lambda>r. r\<lparr>ss_revokedAt := Some (w_now s)\<rparr>) (db_staffSessions (w_db s))\<rparr>\<rparr>"

definition refresh_commit ::
  "env \<Rightarrow> auth_lib \<Rightarrow> jwt_lib \<Rightarrow> staff_config \<Rightarrow> staff_session_row \<times> staff_row \<Rightarrow> 'w world \<Rightarrow>
   login_result result \<times> 'w world" where
  "refresh_commit E A J C found s =
     (let (session, user) = found in
      and_then (open_session E A C (su_id user) (revoke_session (ss_id session) s)) (\<lambda>newRefresh s1.
        session_answer J C user newRefresh s1))"

definition staff_refresh ::
  "env \<Rightarrow> auth_lib \<Rightarrow> jwt_lib \<Rightarrow> staff_config \<Rightarrow> string \<Rightarrow> 'w world \<Rightarrow> login_result result \<times> 'w world" where
  "staff_refresh E A J C refreshToken s =
     (case refresh_check A refreshToken s of
        Inl e \<Rightarrow> (Inl e, s)
      | Inr found \<Rightarrow> refresh_commit E A J C found s)"

definition changePassword ::
  "auth_lib \<Rightarrow> string \<Rightarrow> string \<Rightarrow> string \<Rightarrow> 'w world \<Rightarrow> unit result \<times> 'w world" where
  "changePassword A staffUserId currentPassword newPassword s =
     (case find_staff staffUserId (w_db s) of
        None \<Rightarrow> (Inl (Unauthorized ''Invalid credentials''), s)
      | Some user \<Rightarrow>
          if su_status user \<noteq> St_ACTIVE then (Inl (Unauthorized ''Invalid credentials''), s)
          else if \<not> al_argon2_verify A (su_passwordHash user) currentPassword then
            (Inl (Unauthorized ''Current password is incorrect''), s)
          else
            let passwordHash = al_argon2_hash A newPassword (w_seq s) in
            (Inr (), s\<lparr>w_seq := w_seq s + 1,
               w_db := delete_sessions staffUserId
                 (update_staff staffUserId (\<lambda>u. u\<lparr>su_passwordHash := passwordHash\<rparr>) (w_db s))\<rparr>))"

text \<open>The route \<open>PATCH backoffice/staff/me/password\<close>, audited on success.\<close>

definition profile_changePassword ::
  "auth_lib \<Rightarrow> staff_context \<Rightarrow> string \<Rightarrow> string \<Rightarrow> 'w world \<Rightarrow> unit result \<times> 'w world" where
  "profile_changePassword A staff currentPassword newPassword s =
     and_then (changePassword A (sx_staffUserId staff) currentPassword newPassword s) (\<lambda>_ s1.
       (Inr (), audit_record ''staff'' (Some (sx_staffUserId staff)) (sx_casinoGroupId staff)
          ''staff.password_changed'' ''StaffUser'' (Some (sx_staffUserId staff)) None None
          (Some ''Self-service password change'') s1))"

subsection \<open>Dead refresh tokens\<close>

text \<open>
  A hash is dead when no session that can still be refreshed carries it and it is none of the
  hashes of tokens still to be drawn.
\<close>

definition live_session :: "staff_session_row \<Rightarrow> bool" where
  "live_session r \<longleftrightarrow> ss_revokedAt r = None"

definition dead_hash :: "auth_lib \<Rightarrow> string \<Rightarrow> 'w world \<Rightarrow> bool" where
  "dead_hash A h s \<longleftrightarrow>
     (\<forall>r \<in> set (db_staffSessions (w_db s)). ss_refreshTokenHash r = h \<longrightarrow> \<not> live_session r) \<and>
     (\<forall>n \<ge> w_seq s. hashRefreshToken A (al_random A 32 n) \<noteq> h)"

text \<open>The sessions of a running service: ids and hashes are unique, and every hash was drawn.\<close>

definition drawn :: "auth_lib \<Rightarrow> nat \<Rightarrow> string \<Rightarrow> bool" where
  "drawn A m h \<longleftrightarrow> (\<exists>n < m. h = hashRefreshToken A (al_random A 32 n))"

definition sessions_ok :: "auth_lib \<Rightarrow> 'w world \<Rightarrow> bool" where
  "sessions_ok A s \<longleftrightarrow>
     distinct (map ss_refreshTokenHash (db_staffSessions (w_db s))) \<and>
     (\<forall>r \<in> set (db_staffSessions (w_db s)). drawn A (w_seq s) (ss_refreshTokenHash r))"

definition draws_differ :: "auth_lib \<Rightarrow> bool" where
  "draws_differ A \<longleftrightarrow> inj (\<lambda>n. hashRefreshToken A (al_random A 32 n))"

text \<open>What every step may do to the sessions: drop rows, revoke rows, add rows with fresh hashes.\<close>

definition session_step :: "auth_lib \<Rightarrow> 'w world \<Rightarrow> 'w world \<Rightarrow> bool" where
  "session_step A s s' \<longleftrightarrow> w_seq s \<le> w_seq s' \<and>
     (sessions_ok A s \<longrightarrow> sessions_ok A s') \<and>
     (\<forall>r' \<in> set (db_staffSessions (w_db s')). live_session r' \<longrightarrow>
        (\<exists>r \<in> set (db_staffSessions (w_db s)). live_session r \<and>
            ss_refreshTokenHash r = ss_refreshTokenHash r') \<or>
        (\<exists>n \<ge> w_seq s. n < w_seq s' \<and> ss_refreshTokenHash r' = hashRefreshToken A (al_random A 32 n)))"

lemma session_step_refl [simp]: "session_step A s s"
  by (auto simp: session_step_def)

lemma session_step_trans:
  assumes "session_step A s s1" and "session_step A s1 s2"
  shows "session_step A s s2"
  using assms unfolding session_step_def
  by (smt (verit, best) dual_order.trans order_less_le_trans)

lemma drawn_later: "drawn A m h \<Longrightarrow> m \<le> n \<Longrightarrow> drawn A n h"
  unfolding drawn_def by (elim exE conjE) (rule exI, erule conjI [OF order_less_le_trans], assumption+)

lemma session_step_map:
  assumes "db_staffSessions (w_db s') = map f (db_staffSessions (w_db s))" and "w_seq s \<le> w_seq s'"
    and "\<And>r. ss_refreshTokenHash (f r) = ss_refreshTokenHash r" and "\<And>r. live_session (f r) \<Longrightarrow> live_session r"
  shows "session_step A s s'"
proof -
  have "map ss_refreshTokenHash (map f rows) = map ss_refreshTokenHash rows" for rows
    using assms(3) by simp
  with drawn_later [OF _ assms(2)] assms(3) have "sessions_ok A s \<Longrightarrow> sessions_ok A s'"
    by (simp add: sessions_ok_def assms(1) del: map_map)
  with assms(2-4) show ?thesis
    unfolding session_step_def assms(1) by auto
qed

lemma session_step_same:
  assumes "db_staffSessions (w_db s') = db_staffSessions (w_db s)" and "w_seq s \<le> w_seq s'"
  shows "session_step A s s'"
  using assms by (intro session_step_map [where f = "\<lambda>r. r"]) simp_all

lemma session_step_update:
  assumes "db_staffSessions (w_db s') = row_update P f (db_staffSessions (w_db s))" and "w_seq s \<le> w_seq s'"
    and "\<And>r. ss_refreshTokenHash (f r) = ss_refreshTokenHash r" and "\<And>r. live_session (f r) \<Longrightarrow> live_session r"
  shows "session_step A s s'"
  using assms(2) by (rule session_step_map [OF assms(1) [unfolded row_update_def]])
    (auto simp: assms(3) split: if_splits dest: assms(4))

lemma session_step_filter:
  assumes "db_staffSessions (w_db s') = filter P (db_staffSessions (w_db s))" and "w_seq s \<le> w_seq s'"
  shows "session_step A s s'"
proof -
  have "sessions_ok A s \<Longrightarrow> sessions_ok A s'"
    using drawn_later [OF _ assms(2)] by (simp add: sessions_ok_def assms(1) distinct_map_filter)
  with assms(2) show ?thesis unfolding session_step_def assms(1) by auto
qed

lemma session_step_add:
  assumes "db_staffSessions (w_db s') = db_staffSessions (w_db s) @ [r]"
    and "ss_refreshTokenHash r = hashRefreshToken A (al_random A 32 n)" and "w_seq s \<le> n" and "n < w_seq s'"
    and "\<forall>x \<in> set (db_staffSessions (w_db s)). ss_refreshTokenHash x \<noteq> ss_refreshTokenHash r"
  shows "session_step A s s'"
proof -
  have le: "w_seq s \<le> w_seq s'" using assms(3,4) by simp
  have "drawn A (w_seq s') (ss_refreshTokenHash r)" using assms(2,4) by (auto simp: drawn_def)
  with drawn_later [OF _ le] assms(5) have "sessions_ok A s \<Longrightarrow> sessions_ok A s'"
    by (auto simp: sessions_ok_def assms(1))
  with le assms(2-4) show ?thesis unfolding session_step_def assms(1) by auto
qed

lemma dead_hash_step: "session_step A s s' \<Longrightarrow> dead_hash A h s \<Longrightarrow> dead_hash A h s'"
  unfolding session_step_def dead_hash_def by (metis order_trans)

lemma dead_hash_refused:
  assumes "dead_hash A (hashRefreshToken A t) s"
  shows "staff_refresh E A J C t s = (Inl (Unauthorized ''Invalid refresh token''), s)"
proof -
  have "refresh_check A t s = Inl (Unauthorized ''Invalid refresh token'')"
  proof (cases "find_session (hashRefreshToken A t) (w_db s)")
    case (Some r)
    with assms find_sessionD [OF Some] have "ss_revokedAt r \<noteq> None"
      by (auto simp: dead_hash_def live_session_def)
    with Some show ?thesis by (simp add: refresh_check_def split: option.split)
  qed (simp add: refresh_check_def)
  then show ?thesis by (simp add: staff_refresh_def)
qed

text \<open>The operations as session steps.\<close>

lemma open_session_step:
  assumes "open_session E A C u s = (r, s')"
  shows "session_step A s s'"
proof (cases r)
  case (Inl e)
  with assms show ?thesis
    by (auto simp: open_session_def Let_def split: sum.splits intro: session_step_same)
next
  case (Inr token)
  with assms obtain ms d where "parseDurationMs (cf_STAFF_REFRESH_TTL C) = Inr ms"
    and c: "create_session \<lparr>ss_id = env_gen E (w_seq s + 1), ss_staffUserId = u,
        ss_refreshTokenHash = hashRefreshToken A (al_random A 32 (w_seq s)),
        ss_expiresAt = w_now s + ms, ss_revokedAt = None\<rparr> (w_db s) = Inr d"
    and s': "s' = s\<lparr>w_seq := w_seq s + 2, w_db := d\<rparr>"
    by (auto simp: open_session_def Let_def split: sum.splits)
  from create_session_db [OF c] s' show ?thesis
    by (intro session_step_add [where n = "w_seq s"]) auto
qed

lemma session_answer_state [simp]: "snd (session_answer J C user t s) = s"
  by (simp add: session_answer_def split: prod.split sum.split)

lemma and_answer_step:
  assumes "open_session E A C u s = (r, s1)"
  shows "session_step A s (snd (and_then (r, s1) (\<lambda>t s2. session_answer J C user t s2)))"
  using open_session_step [OF assms] by (cases r) simp_all

lemma revoke_step: "session_step A s (revoke_session i s)"
  by (rule session_step_update [where P = "\<lambda>r. ss_id r = i" and f = "\<lambda>r. r\<lparr>ss_revokedAt := Some (w_now s)\<rparr>"])
    (simp_all add: revoke_session_def upd_by_def live_session_def)

lemma login_step: "session_step A s (snd (staff_login E A J C email password s))"
proof -
  have "session_step A s (snd (and_then (open_session E A C u s) (\<lambda>t s2. session_answer J C user t s2)))"
    for u user
    using and_answer_step by (cases "open_session E A C u s") simp
  then show ?thesis by (simp add: staff_login_def split: option.split)
qed

lemma logout_step: "session_step A s (staff_logout A t s)"
  by (rule session_step_update [where f = "\<lambda>r. r\<lparr>ss_revokedAt := Some (w_now s)\<rparr>"
        and P = "\<lambda>r. ss_refreshTokenHash r = hashRefreshToken A t \<and> ss_revokedAt r = None"])
    (simp_all add: staff_logout_def Let_def live_session_def)

lemma refresh_commit_step: "session_step A s (snd (refresh_commit E A J C found s))"
proof (cases found)
  case (Pair session user)
  obtain r s1 where o: "open_session E A C (su_id user) (revoke_session (ss_id session) s) = (r, s1)"
    by fastforce
  from session_step_trans [OF revoke_step and_answer_step [OF o]] o Pair show ?thesis
    by (simp add: refresh_commit_def)
qed

lemma refresh_step: "session_step A s (snd (staff_refresh E A J C t s))"
  by (simp add: staff_refresh_def refresh_commit_step split: sum.split)

lemma changePassword_step: "session_step A s (snd (changePassword A u p q s))"
  by (auto simp: changePassword_def Let_def delete_sessions_def update_staff_def row_delete_def
      split: option.split intro: session_step_filter)

text \<open>
  Four ways a token dies: it is used, it is handed in at logout, its owner's password changes, and
  its session runs with the owner's other sessions deleted (\<open>delete_sessions\<close>).
\<close>

lemma session_hash_drawn:
  assumes "sessions_ok A s" and "draws_differ A" and "r \<in> set (db_staffSessions (w_db s))" and "w_seq s \<le> n"
  shows "hashRefreshToken A (al_random A 32 n) \<noteq> ss_refreshTokenHash r"
proof -
  from assms(1,3) obtain m where "m < w_seq s" "ss_refreshTokenHash r = hashRefreshToken A (al_random A 32 m)"
    by (auto simp: sessions_ok_def drawn_def)
  with assms(2,4) show ?thesis by (auto simp: draws_differ_def dest: injD)
qed

lemma revoked_dead:
  assumes "sessions_ok A s" and "draws_differ A" and "find_session h (w_db s) = Some r"
  shows "dead_hash A h (revoke_session (ss_id r) s)"
proof -
  note r = find_sessionD [OF assms(3)]
  have one: "x = r" if "x \<in> set (db_staffSessions (w_db s))" "ss_refreshTokenHash x = h" for x
    using that r assms(1) by (auto simp: sessions_ok_def distinct_map dest: inj_onD)
  have "\<not> live_session x" if x: "x \<in> set (db_staffSessions (w_db (revoke_session (ss_id r) s)))"
      "ss_refreshTokenHash x = h" for x
  proof -
    from x(1) obtain y where y: "y \<in> set (db_staffSessions (w_db s))"
      "x = (if ss_id y = ss_id r then y\<lparr>ss_revokedAt := Some (w_now s)\<rparr> else y)"
      by (auto simp: revoke_session_def upd_by_def set_row_update)
    with x(2) have "ss_refreshTokenHash y = h" by (simp split: if_splits)
    with one y(1) have "y = r" by blast
    with y(2) show ?thesis by (simp add: live_session_def)
  qed
  moreover have "hashRefreshToken A (al_random A 32 n) \<noteq> h" if "w_seq s \<le> n" for n
    using session_hash_drawn [OF assms(1,2) conjunct1 [OF r] that] r by simp
  moreover have "w_seq (revoke_session (ss_id r) s) = w_seq s" by (simp add: revoke_session_def)
  ultimately show ?thesis by (simp add: dead_hash_def)
qed

lemma refresh_kills:
  assumes "sessions_ok A s" and "draws_differ A" and "staff_refresh E A J C t s = (Inr a, s')"
  shows "dead_hash A (hashRefreshToken A t) s'"
proof -
  from assms(3) obtain r user where c: "refresh_check A t s = Inr (r, user)"
    and w: "refresh_commit E A J C (r, user) s = (Inr a, s')"
    by (auto simp: staff_refresh_def split: sum.splits)
  from c have f: "find_session (hashRefreshToken A t) (w_db s) = Some r"
    by (auto simp: refresh_check_def split: option.splits if_splits)
  obtain x s1 where o: "open_session E A C (su_id user) (revoke_session (ss_id r) s) = (x, s1)"
    by fastforce
  with w have "and_then (x, s1) (\<lambda>t s2. session_answer J C user t s2) = (Inr a, s')"
    by (simp add: refresh_commit_def)
  with and_answer_step [OF o, of J user] have "session_step A (revoke_session (ss_id r) s) s'" by simp
  from dead_hash_step [OF this revoked_dead [OF assms(1,2) f]] show ?thesis .
qed

lemma deleted_dead:
  assumes "sessions_ok A s" and "draws_differ A"
    and "find_session h (w_db s) = Some r" and "ss_staffUserId r = u"
    and "db_staffSessions (w_db s') = row_delete (\<lambda>x. ss_staffUserId x = u) (db_staffSessions (w_db s))"
    and "w_seq s \<le> w_seq s'"
  shows "dead_hash A h s'"
proof -
  note r = find_sessionD [OF assms(3)]
  have "ss_refreshTokenHash x \<noteq> h" if "x \<in> set (db_staffSessions (w_db s'))" for x
    using that r assms(1,4,5) by (auto simp: sessions_ok_def distinct_map dest: inj_onD)
  moreover have "hashRefreshToken A (al_random A 32 n) \<noteq> h" if "w_seq s' \<le> n" for n
    using session_hash_drawn [OF assms(1,2), of r n] r that assms(6) by auto
  ultimately show ?thesis by (auto simp: dead_hash_def)
qed

lemma changePassword_kills:
  assumes "sessions_ok A s" and "draws_differ A" and "changePassword A u p q s = (Inr x, s')"
    and "find_session h (w_db s) = Some r" and "ss_staffUserId r = u"
  shows "dead_hash A h s'"
  using assms(3) by (intro deleted_dead [OF assms(1,2,4,5)])
    (auto simp: changePassword_def Let_def delete_sessions_def update_staff_def split: option.splits if_splits)

lemma logout_kills:
  assumes "sessions_ok A s" and "draws_differ A" and "find_session (hashRefreshToken A t) (w_db s) = Some r"
  shows "dead_hash A (hashRefreshToken A t) (staff_logout A t s)"
proof -
  have "hashRefreshToken A (al_random A 32 n) \<noteq> hashRefreshToken A t" if "w_seq s \<le> n" for n
    using session_hash_drawn [OF assms(1,2) _ that] find_sessionD [OF assms(3)] by metis
  then show ?thesis
    by (auto simp: dead_hash_def staff_logout_def Let_def set_row_update live_session_def split: if_splits)
qed

end
