(* ===== verification/StaffAdmin.thy ===== *)
theory StaffAdmin
  imports StaffAuth
begin

text \<open>
  \<open>modules/backoffice/staff/staff-admin.service.ts\<close> with the routes of
  \<open>staff-admin.controller.ts\<close>: the grants of the platform administrators and the operator accounts
  of a tenant. The columns \<open>createdAt\<close> and \<open>updatedAt\<close> are left out of the answers; the collation of
  the database is a parameter (\<open>rank\<close>); a generated password is a random draw, a salt another.
\<close>

subsection \<open>Rows\<close>

definition find_grants :: "string \<Rightarrow> db \<Rightarrow> staff_access_row list" where
  "find_grants staffUserId d = row_filter (\<lambda>a. sa_staffUserId a = staffUserId) (db_staffAccess d)"

definition granted_groups :: "string \<Rightarrow> db \<Rightarrow> group_row list" where
  "granted_groups staffUserId d =
     List.map_filter (\<lambda>a. find_group (sa_casinoGroupId a) d) (find_grants staffUserId d)"

text \<open>\<open>staffUser.create\<close> and \<open>staffUser.update\<close>, with the unique index on the e-mail (P2002).\<close>

definition create_staff :: "staff_row \<Rightarrow> db \<Rightarrow> db option" where
  "create_staff r d =
     (if find_staff_email (su_email r) d \<noteq> None then None
      else Some (d\<lparr>db_staff := row_insert r (db_staff d)\<rparr>))"

definition email_taken :: "string \<Rightarrow> string \<Rightarrow> db \<Rightarrow> bool" where
  "email_taken staffUserId email d \<longleftrightarrow>
     row_find (\<lambda>u. su_email u = email \<and> su_id u \<noteq> staffUserId) (db_staff d) \<noteq> None"

definition nonempty :: "string option \<Rightarrow> string option" where
  "nonempty x = (case x of None \<Rightarrow> None | Some t \<Rightarrow> if t = [] then None else Some t)"

subsection \<open>Platform administrators\<close>

record platform_admin =
  pa_id :: string
  pa_email :: string
  pa_roles :: "string list"
  pa_status :: staff_status
  pa_casinoGroups :: "tenant_item list"

definition listPlatformAdmins :: "(string \<Rightarrow> int) \<Rightarrow> db \<Rightarrow> platform_admin list" where
  "listPlatformAdmins rank d =
     map (\<lambda>u. \<lparr>pa_id = su_id u, pa_email = su_email u, pa_roles = map role_text (su_roles u),
          pa_status = su_status u,
          pa_casinoGroups = map tenant_item_of (order_asc (\<lambda>g. rank (cg_name g)) (granted_groups (su_id u) d))\<rparr>)
       (order_asc (\<lambda>u. rank (su_email u))
         (row_filter (\<lambda>u. su_casinoGroupId u = None \<and> su_status u = St_ACTIVE \<and>
            PLATFORM_ADMIN \<in> set (su_roles u)) (db_staff d)))"

definition set_grants :: "string \<Rightarrow> string list \<Rightarrow> db \<Rightarrow> db" where
  "set_grants staffUserId casinoGroupIds d =
     d\<lparr>db_staffAccess := row_delete (\<lambda>a. sa_staffUserId a = staffUserId) (db_staffAccess d) @
        map (\<lambda>g. \<lparr>sa_staffUserId = staffUserId, sa_casinoGroupId = g\<rparr>) casinoGroupIds\<rparr>"

definition setPlatformAdminTenantAccess ::
  "string \<Rightarrow> string list \<Rightarrow> string \<Rightarrow> 'w world \<Rightarrow> (string \<times> string \<times> tenant_item list) result \<times> 'w world" where
  "setPlatformAdminTenantAccess staffUserId casinoGroupIds actorStaffUserId s =
     (case find_staff staffUserId (w_db s) of
        None \<Rightarrow> (Inl (NotFound ''Staff user not found''), s)
      | Some user \<Rightarrow>
      if truthy (su_casinoGroupId user) then
        (Inl (BadRequest ''Tenant access grants apply only to platform-scoped PLATFORM_ADMIN users''), s)
      else if \<not> hasStaffRole (map role_text (su_roles user)) PLATFORM_ADMIN then
        (Inl (BadRequest ''Staff user must have PLATFORM_ADMIN role''), s)
      else if length (row_filter (\<lambda>g. cg_id g \<in> set casinoGroupIds) (db_groups (w_db s))) \<noteq> length casinoGroupIds then
        (Inl (NotFound ''One or more casino groups not found''), s)
      else
      let before = map sa_casinoGroupId (find_grants staffUserId (w_db s));
          s1 = s\<lparr>w_db := set_grants staffUserId casinoGroupIds (w_db s)\<rparr>;
          s2 = audit_record ''staff'' (Some actorStaffUserId) None ''staff.tenant_access.updated'' ''StaffUser''
            (Some staffUserId) (Some [(''casinoGroupIds'', join_with '','' before)])
            (Some [(''casinoGroupIds'', join_with '','' casinoGroupIds)])
            (Some (''Platform admin tenant access for '' @ su_email user)) s1 in
      (Inr (su_id user, su_email user, map tenant_item_of (granted_groups staffUserId (w_db s2))), s2))"

subsection \<open>Operator accounts of a tenant\<close>

record operator_item =
  op_id :: string
  op_email :: string
  op_roles :: "string list"
  op_status :: staff_status

definition operator_item_of :: "staff_row \<Rightarrow> operator_item" where
  "operator_item_of u = \<lparr>op_id = su_id u, op_email = su_email u, op_roles = map role_text (su_roles u),
     op_status = su_status u\<rparr>"

definition platform_access :: "staff_context \<Rightarrow> string \<Rightarrow> db \<Rightarrow> unit result" where
  "platform_access actor casinoGroupId d =
     (case assertPlatformStaff actor of
        Inl e \<Rightarrow> Inl e
      | Inr _ \<Rightarrow> assertCasinoGroupAccess actor casinoGroupId d)"

definition listOperatorAdmins ::
  "(string \<Rightarrow> int) \<Rightarrow> staff_context \<Rightarrow> string \<Rightarrow> db \<Rightarrow> operator_item list result" where
  "listOperatorAdmins rank actor casinoGroupId d =
     (case platform_access actor casinoGroupId d of
        Inl e \<Rightarrow> Inl e
      | Inr _ \<Rightarrow> Inr (map operator_item_of (order_asc (\<lambda>u. rank (su_email u))
          (row_filter (\<lambda>u. su_casinoGroupId u = Some casinoGroupId \<and> OPERATOR_ADMIN \<in> set (su_roles u) \<and>
             su_status u = St_ACTIVE) (db_staff d)))))"

record created_operator =
  co_account :: operator_item
  co_password :: string
  co_passwordAutoGenerated :: bool

text \<open>The password asked for, or a generated one; the second part says which.\<close>

definition chosen_password :: "auth_lib \<Rightarrow> string option \<Rightarrow> nat \<Rightarrow> string \<times> bool" where
  "chosen_password A password n =
     (case nonempty (map_option trim password) of
        Some p \<Rightarrow> (p, False)
      | None \<Rightarrow> (al_random A 9 n, True))"

definition createOperatorAdmin ::
  "env \<Rightarrow> auth_lib \<Rightarrow> staff_context \<Rightarrow> string \<Rightarrow> string \<Rightarrow> string option \<Rightarrow> 'w world \<Rightarrow>
   created_operator result \<times> 'w world" where
  "createOperatorAdmin E A actor casinoGroupId dtoEmail dtoPassword s =
     (case platform_access actor casinoGroupId (w_db s) of
        Inl e \<Rightarrow> (Inl e, s)
      | Inr _ \<Rightarrow>
      if find_group casinoGroupId (w_db s) = None then (Inl (NotFound ''Casino group not found''), s)
      else
      let email = to_lower (trim dtoEmail);
          (plain, generated) = chosen_password A dtoPassword (w_seq s);
          created = \<lparr>su_id = env_gen E (w_seq s + 2), su_email = email,
            su_passwordHash = al_argon2_hash A plain (w_seq s + 1), su_casinoGroupId = Some casinoGroupId,
            su_roles = [OPERATOR_ADMIN], su_status = St_ACTIVE\<rparr>;
          s1 = s\<lparr>w_seq := w_seq s + 3\<rparr> in
      (case create_staff created (w_db s) of
         None \<Rightarrow> (Inl (Conflict ''Email already in use''), s1)
       | Some d \<Rightarrow>
           (Inr \<lparr>co_account = operator_item_of created, co_password = plain, co_passwordAutoGenerated = generated\<rparr>,
            staff_audit (sx_staffUserId actor) casinoGroupId ''staff.operator_created'' ''StaffUser''
              (su_id created) None (Some [(''email'', email)])
              (Some ''Platform staff provisioned merchant operator account'') (s1\<lparr>w_db := d\<rparr>))))"

definition set_credentials :: "string option \<Rightarrow> string option \<Rightarrow> staff_row \<Rightarrow> staff_row" where
  "set_credentials email passwordHash u =
     u\<lparr>su_email := (case email of None \<Rightarrow> su_email u | Some e \<Rightarrow> e),
       su_passwordHash := (case passwordHash of None \<Rightarrow> su_passwordHash u | Some h \<Rightarrow> h)\<rparr>"

definition updateOperatorAdmin ::
  "auth_lib \<Rightarrow> staff_context \<Rightarrow> string \<Rightarrow> string \<Rightarrow> string option \<Rightarrow> string option \<Rightarrow> 'w world \<Rightarrow>
   operator_item result \<times> 'w world" where
  "updateOperatorAdmin A actor staffUserId casinoGroupId dtoEmail dtoPassword s =
     (case platform_access actor casinoGroupId (w_db s) of
        Inl e \<Rightarrow> (Inl e, s)
      | Inr _ \<Rightarrow>
      let email = nonempty (map_option (\<lambda>e. to_lower (trim e)) dtoEmail);
          password = nonempty (map_option trim dtoPassword) in
      if email = None \<and> password = None then
        (Inl (BadRequest ''Provide at least one of email or password to update''), s)
      else
      (case find_staff staffUserId (w_db s) of
         None \<Rightarrow> (Inl (NotFound ''Staff user not found''), s)
       | Some existing \<Rightarrow>
       if su_casinoGroupId existing \<noteq> Some casinoGroupId \<or>
          \<not> hasStaffRole (map role_text (su_roles existing)) OPERATOR_ADMIN then
         (Inl (NotFound ''Operator admin not found for this tenant''), s)
       else
       let passwordHash = map_option (\<lambda>p. al_argon2_hash A p (w_seq s)) password;
           s1 = s\<lparr>w_seq := w_seq s + 1\<rparr> in
       if email \<noteq> None \<and> email_taken staffUserId (the email) (w_db s) then
         (Inl (Conflict ''Email already in use''), s1)
       else
       let d1 = update_staff staffUserId (set_credentials email passwordHash) (w_db s);
           d2 = (if password \<noteq> None then delete_sessions staffUserId d1 else d1);
           s2 = staff_audit (sx_staffUserId actor) casinoGroupId ''staff.operator_updated'' ''StaffUser''
             staffUserId (Some [(''email'', su_email existing)])
             (Some [(''email'', (case email of None \<Rightarrow> su_email existing | Some e \<Rightarrow> e)),
                    (''passwordChanged'', bool_text (password \<noteq> None))])
             (Some ''Platform staff updated merchant operator credentials'') (s1\<lparr>w_db := d2\<rparr>) in
       (Inr (operator_item_of (set_credentials email passwordHash existing)), s2)))"

subsection \<open>Routes\<close>

text \<open>The two routes of the grants require a super administrator on top of the permission.\<close>

definition route_listPlatformAdmins ::
  "(string \<Rightarrow> int) \<Rightarrow> staff_context \<Rightarrow> db \<Rightarrow> platform_admin list result" where
  "route_listPlatformAdmins rank staff d =
     (case assertSuperAdmin staff of Inl e \<Rightarrow> Inl e | Inr _ \<Rightarrow> Inr (listPlatformAdmins rank d))"

definition route_setTenantAccess ::
  "staff_context \<Rightarrow> string \<Rightarrow> string list \<Rightarrow> 'w world \<Rightarrow> (string \<times> string \<times> tenant_item list) result \<times> 'w world" where
  "route_setTenantAccess staff staffUserId casinoGroupIds s =
     (case assertSuperAdmin staff of
        Inl e \<Rightarrow> (Inl e, s)
      | Inr _ \<Rightarrow> setPlatformAdminTenantAccess staffUserId casinoGroupIds (sx_staffUserId staff) s)"

subsection \<open>What the operations keep\<close>

lemma audit_staff_frame [simp, frame]:
  "db_staff (w_db (audit_record a b c d e f g h i s)) = db_staff (w_db s)"
  "db_staffSessions (w_db (audit_record a b c d e f g h i s)) = db_staffSessions (w_db s)"
  "db_staffAccess (w_db (audit_record a b c d e f g h i s)) = db_staffAccess (w_db s)"
  "db_groups (w_db (audit_record a b c d e f g h i s)) = db_groups (w_db s)"
  "db_groupLeagues (w_db (audit_record a b c d e f g h i s)) = db_groupLeagues (w_db s)"
  by (simp_all add: audit_record_def)

lemma platform_access_iff:
  "platform_access actor g d = Inr () \<longleftrightarrow> assertPlatformStaff actor = Inr () \<and>
     find_group g d \<noteq> None \<and> may_reach actor d g"
  by (cases "assertPlatformStaff actor") (simp_all add: platform_access_def assertCasinoGroupAccess_iff)

lemma grants_of_set_grants:
  "find_grant u g (set_grants v gs d) \<noteq> None \<longleftrightarrow> (if u = v then g \<in> set gs else find_grant u g d \<noteq> None)"
proof -
  let ?pairs = "\<lambda>rows. (\<lambda>a. (sa_staffUserId a, sa_casinoGroupId a)) ` set rows"
  have grant: "find_grant u g d' \<noteq> None \<longleftrightarrow> (u, g) \<in> ?pairs (db_staffAccess d')" for d'
    unfolding find_grant_def row_find_None_iff by blast
  have "?pairs (db_staffAccess (set_grants v gs d)) =
      ?pairs (row_delete (\<lambda>a. sa_staffUserId a = v) (db_staffAccess d)) \<union> Pair v ` set gs"
    by (simp add: set_grants_def image_Un image_image del: set_row_delete)
  then show ?thesis unfolding grant by auto
qed

lemma create_operator_step:
  "session_step A s (snd (createOperatorAdmin E A actor g e p s))"
  by (rule session_step_same)
    (auto simp: createOperatorAdmin_def Let_def create_staff_def staff_audit_def
      split: sum.split prod.split option.split)

lemma set_access_step: "session_step A s (snd (setPlatformAdminTenantAccess u gs actor s))"
  by (rule session_step_same)
    (auto simp: setPlatformAdminTenantAccess_def Let_def set_grants_def audit_record_def split: option.split)

lemma update_operator_step: "session_step A s (snd (updateOperatorAdmin A actor u g e p s))"
proof -
  have "\<exists>P. db_staffSessions (w_db (snd (updateOperatorAdmin A actor u g e p s))) =
      filter P (db_staffSessions (w_db s))"
  proof -
    have "\<exists>P. xs = filter P xs" for xs :: "staff_session_row list" by (rule exI [of _ "\<lambda>_. True"]) simp
    moreover have "\<exists>P. row_delete Q xs = filter P xs" for Q and xs :: "staff_session_row list"
      by (auto simp: row_delete_def)
    ultimately show ?thesis
      by (simp add: updateOperatorAdmin_def Let_def staff_audit_def delete_sessions_def update_staff_def
          split: sum.split option.split)
  qed
  then obtain P where "db_staffSessions (w_db (snd (updateOperatorAdmin A actor u g e p s))) =
      filter P (db_staffSessions (w_db s))" ..
  then show ?thesis
    by (rule session_step_filter)
      (simp add: updateOperatorAdmin_def Let_def staff_audit_def split: sum.split option.split)
qed

end
