(* ===== verification/Product.thy ===== *)
theory Product
  imports StaffAdmin OddsMap Ingestion
begin

text \<open>
  \<open>modules/backoffice/product/product.service.ts\<close>: the leagues a tenant offers, with the lock the
  platform staff set. The collation of the listing is a parameter (\<open>rank\<close>), \<open>configured\<close> is
  \<open>ODDS_API_SPORT_KEYS\<close>. The last part shows what holds a locked league back.
\<close>

subsection \<open>Listing\<close>

definition allowedCatalogLeagueKeys :: "string list \<Rightarrow> db \<Rightarrow> string list" where
  "allowedCatalogLeagueKeys configured d =
     resolveCatalogLeagueKeys configured (map lg_key (row_filter lg_active (db_leagues d)))"

record league_offering =
  lo_leagueId :: string
  lo_key :: string
  lo_name :: string
  lo_region :: "string option"
  lo_sportKey :: string
  lo_sportName :: string
  lo_enabled :: bool
  lo_platformLocked :: bool

text \<open>A league without a row of the tenant is shown as enabled and not locked.\<close>

definition offering_of :: "db \<Rightarrow> string \<Rightarrow> league_row \<times> sport_row \<Rightarrow> league_offering" where
  "offering_of d casinoGroupId ls =
     (let (league, sport) = ls; row = find_group_league casinoGroupId (lg_id league) d in
      \<lparr>lo_leagueId = lg_id league, lo_key = lg_key league, lo_name = lg_name league,
       lo_region = lg_region league, lo_sportKey = sp_key sport, lo_sportName = sp_name sport,
       lo_enabled = (case row of None \<Rightarrow> True | Some r \<Rightarrow> gl_enabled r),
       lo_platformLocked = (case row of None \<Rightarrow> False | Some r \<Rightarrow> gl_platformLocked r)\<rparr>)"

definition with_sport :: "db \<Rightarrow> league_row \<Rightarrow> (league_row \<times> sport_row) option" where
  "with_sport d league = map_option (Pair league) (find_sport (lg_sportId league) d)"

definition listLeagues ::
  "string list \<Rightarrow> (string \<Rightarrow> int) \<Rightarrow> string \<Rightarrow> db \<Rightarrow> league_offering list result" where
  "listLeagues configured rank casinoGroupId d =
     (if find_group casinoGroupId d = None then Inl (NotFound ''Casino group not found'')
      else
      let allowedKeys = allowedCatalogLeagueKeys configured d in
      if allowedKeys = [] then Inr []
      else
      let leagues = List.map_filter (with_sport d)
            (row_filter (\<lambda>l. lg_active l \<and> lg_key l \<in> set allowedKeys) (db_leagues d)) in
      Inr (map (offering_of d casinoGroupId)
        (order_asc (\<lambda>(l, sp). rank (sp_name sp)) (order_asc (\<lambda>(l, sp). rank (lg_name l)) leagues))))"

subsection \<open>Updating\<close>

definition write_offering :: "string \<Rightarrow> string \<Rightarrow> bool \<Rightarrow> bool \<Rightarrow> bool \<Rightarrow> db \<Rightarrow> db" where
  "write_offering g l enabled platformLocked operatorOnly d =
     (case find_group_league g l d of
        Some _ \<Rightarrow> d\<lparr>db_groupLeagues := upd_by (\<lambda>r. (gl_casinoGroupId r, gl_leagueId r)) (g, l)
          (\<lambda>r. if operatorOnly then r\<lparr>gl_enabled := enabled\<rparr>
               else r\<lparr>gl_enabled := enabled, gl_platformLocked := platformLocked\<rparr>) (db_groupLeagues d)\<rparr>
      | None \<Rightarrow> d\<lparr>db_groupLeagues := row_insert \<lparr>gl_casinoGroupId = g, gl_leagueId = l,
          gl_enabled = enabled, gl_platformLocked = platformLocked\<rparr> (db_groupLeagues d)\<rparr>)"

definition offering_fields :: "bool \<Rightarrow> bool \<Rightarrow> string \<Rightarrow> (string \<times> string) list" where
  "offering_fields enabled platformLocked leagueKey =
     [(''enabled'', bool_text enabled), (''platformLocked'', bool_text platformLocked),
      (''leagueKey'', leagueKey)]"

definition persistOffering ::
  "string \<Rightarrow> league_row \<Rightarrow> string \<Rightarrow> group_league_row option \<Rightarrow> bool \<Rightarrow> bool \<Rightarrow> bool \<Rightarrow> 'w world \<Rightarrow> 'w world" where
  "persistOffering g league staffUserId existing enabled platformLocked operatorOnly s =
     (let s1 = s\<lparr>w_db := write_offering g (lg_id league) enabled platformLocked operatorOnly (w_db s)\<rparr>;
          changed = (case existing of
             None \<Rightarrow> True
           | Some r \<Rightarrow> gl_enabled r \<noteq> enabled \<or> (\<not> operatorOnly \<and> gl_platformLocked r \<noteq> platformLocked)) in
      if changed then
        staff_audit staffUserId g ''product.league_offering_updated'' ''CasinoGroupLeague''
          (g @ '':'' @ lg_id league)
          (map_option (\<lambda>r. offering_fields (gl_enabled r) (gl_platformLocked r) (lg_key league)) existing)
          (Some (offering_fields enabled platformLocked (lg_key league))) None s1
      else s1)"

record offering_change =
  oc_leagueId :: string
  oc_enabled :: bool

definition update_offering ::
  "string list \<Rightarrow> string \<Rightarrow> staff_context \<Rightarrow> offering_change \<Rightarrow> 'w world \<Rightarrow> unit result \<times> 'w world" where
  "update_offering allowedKeys g staff item s =
     (case find_league (oc_leagueId item) (w_db s) of
        None \<Rightarrow> (Inl (NotFound (''League '' @ oc_leagueId item @ '' not found'')), s)
      | Some league \<Rightarrow>
      if lg_key league \<notin> set allowedKeys then
        (Inl (BadRequest (''League '' @ lg_key league @
           '' is outside the configured catalog ingest scope (ODDS_API_SPORT_KEYS)'')), s)
      else
      let existing = find_group_league g (oc_leagueId item) (w_db s);
          catalogActive = (lg_active league \<and>
            (case find_sport (lg_sportId league) (w_db s) of None \<Rightarrow> False | Some sp \<Rightarrow> sp_active sp));
          locked = (case existing of None \<Rightarrow> False | Some r \<Rightarrow> gl_platformLocked r) in
      if \<not> isPlatformStaff staff \<and> oc_enabled item \<and> locked then
        (Inl (BadRequest (lg_key league @
           '' was disabled by platform administrators and cannot be re-enabled'')), s)
      else if oc_enabled item \<and> \<not> catalogActive then
        (Inl (BadRequest (lg_key league @
           '' is disabled at the platform catalog level and cannot be enabled'')), s)
      else if \<not> isPlatformStaff staff then
        (Inr (), persistOffering g league (sx_staffUserId staff) existing (oc_enabled item) locked True s)
      else
        (Inr (), persistOffering g league (sx_staffUserId staff) existing (oc_enabled item)
           (\<not> oc_enabled item) False s))"

definition updateLeagues ::
  "string list \<Rightarrow> (string \<Rightarrow> int) \<Rightarrow> string \<Rightarrow> offering_change list \<Rightarrow> staff_context \<Rightarrow> 'w world \<Rightarrow>
   league_offering list result \<times> 'w world" where
  "updateLeagues configured rank g changes staff s =
     (if find_group g (w_db s) = None then (Inl (NotFound ''Casino group not found''), s)
      else
      let allowedKeys = allowedCatalogLeagueKeys configured (w_db s) in
      and_then (each (update_offering allowedKeys g staff) changes s) (\<lambda>_ s1.
        (listLeagues configured rank g (w_db s1), s1)))"

subsection \<open>The platform lock\<close>

interpretation offerings: keyed_rows "\<lambda>r. (gl_casinoGroupId r, gl_leagueId r)"
  "get_by (\<lambda>r. (gl_casinoGroupId r, gl_leagueId r))" "upd_by (\<lambda>r. (gl_casinoGroupId r, gl_leagueId r))" row_insert
  by (rule keyed_rows_by)

definition offering_key :: "group_league_row \<Rightarrow> string \<times> string" where
  "offering_key r = (gl_casinoGroupId r, gl_leagueId r)"

text \<open>A league the platform has taken off: every row of it is locked and disabled, and there is one.\<close>

definition held_back :: "string \<Rightarrow> string \<Rightarrow> db \<Rightarrow> bool" where
  "held_back g l d \<longleftrightarrow>
     find_group_league g l d \<noteq> None \<and>
     (\<forall>r \<in> set (db_groupLeagues d). offering_key r = (g, l) \<longrightarrow> gl_platformLocked r \<and> \<not> gl_enabled r)"

lemma held_back_not_offered: "held_back g l d \<Longrightarrow> \<not> league_offered d g l"
  by (auto simp: held_back_def league_offered_def offering_key_def)

lemma find_group_league_None:
  "find_group_league g l d = None \<longleftrightarrow> (\<forall>r \<in> set (db_groupLeagues d). offering_key r \<noteq> (g, l))"
  by (simp add: find_group_league_def get_by_def row_find_None_iff offering_key_def)

lemma held_back_iff:
  "held_back g l d \<longleftrightarrow> (\<exists>r \<in> set (db_groupLeagues d). offering_key r = (g, l)) \<and>
     (\<forall>r \<in> set (db_groupLeagues d). offering_key r = (g, l) \<longrightarrow> gl_platformLocked r \<and> \<not> gl_enabled r)"
  unfolding held_back_def find_group_league_None by blast

lemma held_back_locked:
  assumes "held_back g l d"
  obtains r where "find_group_league g l d = Some r" "gl_platformLocked r" "\<not> gl_enabled r"
proof -
  from assms obtain r where r: "find_group_league g l d = Some r" by (auto simp: held_back_def)
  then have "r \<in> set (db_groupLeagues d)" "offering_key r = (g, l)"
    unfolding find_group_league_def by (auto dest: offerings.get_key simp: offering_key_def)
  with assms r that show ?thesis by (auto simp: held_back_def)
qed

lemma held_back_map:
  assumes "held_back g l d" and "db_groupLeagues d' = map h (db_groupLeagues d)"
    and "\<And>r. offering_key (h r) = offering_key r"
    and "\<And>r. offering_key r = (g, l) \<Longrightarrow> gl_platformLocked r \<Longrightarrow> \<not> gl_enabled r \<Longrightarrow>
      gl_platformLocked (h r) \<and> \<not> gl_enabled (h r)"
  shows "held_back g l d'"
  using assms(1) unfolding held_back_iff assms(2) by (simp add: assms(3)) (blast dest: assms(4))

lemma held_back_write:
  assumes "held_back g l d" and "(g', l') = (g, l) \<Longrightarrow> operatorOnly \<and> \<not> enabled"
  shows "held_back g l (write_offering g' l' enabled locked operatorOnly d)"
proof (cases "find_group_league g' l' d")
  case None
  then have "set (db_groupLeagues (write_offering g' l' enabled locked operatorOnly d)) =
      insert \<lparr>gl_casinoGroupId = g', gl_leagueId = l', gl_enabled = enabled, gl_platformLocked = locked\<rparr>
        (set (db_groupLeagues d))"
    by (simp add: write_offering_def)
  moreover have "(g', l') \<noteq> (g, l)"
    using assms(1) None unfolding held_back_iff find_group_league_None by auto
  ultimately show ?thesis
    using assms(1) unfolding held_back_iff by (auto simp: offering_key_def)
next
  case (Some x)
  let ?f = "\<lambda>r. if operatorOnly then r\<lparr>gl_enabled := enabled\<rparr>
               else r\<lparr>gl_enabled := enabled, gl_platformLocked := locked\<rparr>"
  have "db_groupLeagues (write_offering g' l' enabled locked operatorOnly d) =
      map (\<lambda>r. if offering_key r = (g', l') then ?f r else r) (db_groupLeagues d)"
    using Some by (simp add: write_offering_def upd_by_def row_update_def offering_key_def)
  then show ?thesis
    by (rule held_back_map [OF assms(1)]) (use assms(2) in \<open>auto simp: offering_key_def\<close>)
qed

lemma held_back_audit [simp]: "held_back g l (w_db (staff_audit u g' a t i b f r s)) = held_back g l (w_db s)"
  by (simp add: held_back_def find_group_league_def staff_audit_def)

lemma held_back_persist:
  assumes "held_back g l (w_db s)" and "(g', lg_id league) = (g, l) \<Longrightarrow> operatorOnly \<and> \<not> enabled"
  shows "held_back g l (w_db (persistOffering g' league u existing enabled locked operatorOnly s))"
  using held_back_write [OF assms] by (simp add: persistOffering_def Let_def)

lemma find_league_id: "find_league i d = Some l \<Longrightarrow> lg_id l = i"
  unfolding find_league_def by (drule keyed_rows.get_key [OF keyed_rows_by]) simp

lemma held_back_item:
  assumes "held_back g l (w_db s)" and "\<not> isPlatformStaff staff"
  shows "held_back g l (w_db (snd (update_offering keys g' staff item s)))"
proof (cases "find_league (oc_leagueId item) (w_db s)")
  case None
  with assms show ?thesis by (simp add: update_offering_def)
next
  case (Some league)
  obtain r where r: "find_group_league g l (w_db s) = Some r" "gl_platformLocked r"
    using held_back_locked [OF assms(1)] by metis
  have off: "held_back g l (w_db (persistOffering g' league u existing False locked True s))"
    for u existing locked
    by (rule held_back_persist [OF assms(1)]) simp
  have other: "held_back g l (w_db (persistOffering g' league u existing enabled locked True s))"
    if "(g', oc_leagueId item) \<noteq> (g, l)" for u existing enabled locked
    by (rule held_back_persist [OF assms(1)]) (use that find_league_id [OF Some] in simp)
  show ?thesis
  proof (cases "(g', oc_leagueId item) = (g, l)")
    case True
    with assms r Some off show ?thesis by (simp add: update_offering_def Let_def)
  next
    case False
    with assms Some other show ?thesis by (simp add: update_offering_def Let_def)
  qed
qed

lemma held_back_update:
  assumes "held_back g l (w_db s)" and "\<not> isPlatformStaff staff"
  shows "held_back g l (w_db (snd (updateLeagues configured rank g' changes staff s)))"
proof -
  let ?each = "each (update_offering (allowedCatalogLeagueKeys configured (w_db s)) g' staff) changes s"
  have "held_back g l (w_db (snd ?each))"
    by (rule each_keeps [where Q = "\<lambda>s. held_back g l (w_db s)"]) (use assms held_back_item in auto)
  then have "held_back g l (w_db (snd (and_then ?each
      (\<lambda>_ s1. (listLeagues configured rank g' (w_db s1), s1)))))"
    by (rule and_then_keeps [where Q = "\<lambda>s. held_back g l (w_db s)"]) simp
  with assms(1) show ?thesis by (simp add: updateLeagues_def Let_def)
qed

text \<open>
  The nightly catalogue sync is another matter: for the two tenants it serves it enables every
  league of its list again, locked or not.
\<close>

lemma sync_lifts_platform_hold:
  assumes "find_group_league g (lg_id league) (w_db s) = Some r" and "gl_platformLocked r"
    and "isLeagueOffered (lg_key league) keys"
  shows "\<exists>r'. find_group_league g (lg_id league) (w_db (syncLeague slug g keys league s)) = Some r' \<and>
    gl_enabled r' \<and> gl_platformLocked r'"
proof -
  let ?d = "set_group_league g (lg_id league) True (w_db s)"
  have "find_group_league g (lg_id league) ?d = Some (r\<lparr>gl_enabled := True\<rparr>)"
    using assms(1) offerings.get_upd_same [of "\<lambda>r. r\<lparr>gl_enabled := True\<rparr>" "(g, lg_id league)" "db_groupLeagues (w_db s)"]
    by (simp add: set_group_league_def find_group_league_def)
  moreover have "db_groupLeagues (w_db (syncLeague slug g keys league s)) = db_groupLeagues ?d"
    using assms(3) by (simp add: syncLeague_def Let_def)
  ultimately show ?thesis
    using assms(2) by (intro exI [of _ "r\<lparr>gl_enabled := True\<rparr>"]) (simp add: find_group_league_def)
qed

end
