(* ===== verification/Crypto.thy ===== *)
theory Crypto
  imports CasinoGroups
begin

text \<open>
  \<open>shared/crypto/crypto.service.ts\<close>: secrets at rest, as a prefix and the base64 text of the vector,
  the authentication tag and the cipher text. The cipher (AES-256-GCM under the key of the process) and
  the random vectors are a parameter; bytes are numbers below 256. An opened secret reads as what
  was sealed.
\<close>

record crypto_lib =
  cy_randomBytes :: "nat \<Rightarrow> nat list"                              \<comment> \<open>the vector, by number of the draw\<close>
  cy_cipher :: "nat list \<Rightarrow> string \<Rightarrow> nat list \<times> nat list"        \<comment> \<open>vector, plain text; tag, cipher text\<close>
  cy_decipher :: "nat list \<Rightarrow> nat list \<Rightarrow> nat list \<Rightarrow> string option"   \<comment> \<open>vector, tag, cipher text\<close>

definition IV_LENGTH :: nat where
  "IV_LENGTH = 12"

definition ENC_PREFIX :: string where
  "ENC_PREFIX = ''enc:v1:''"

subsection \<open>Base64 read back\<close>

text \<open>\<open>Buffer.from(text, 'base64')\<close> on well-formed texts.\<close>

definition base64_value :: "char \<Rightarrow> nat" where
  "base64_value c = length (takeWhile (\<lambda>d. d \<noteq> c) base64_alphabet)"

fun unbase64 :: "string \<Rightarrow> nat list" where
  "unbase64 (a # b # c # d # rest) =
     (if c = CHR ''='' then [base64_value a * 4 + base64_value b div 16]
      else if d = CHR ''='' then
        [base64_value a * 4 + base64_value b div 16, base64_value b mod 16 * 16 + base64_value c div 4]
      else
        [base64_value a * 4 + base64_value b div 16, base64_value b mod 16 * 16 + base64_value c div 4,
         base64_value c mod 4 * 64 + base64_value d] @ unbase64 rest)"
| "unbase64 _ = []"

lemma base64_chars:
  "list_all (\<lambda>n. base64_value (base64_char n) = n \<and> base64_char n \<noteq> CHR ''='') [0..<64]"
  by code_simp

lemma base64_value_char [simp]: "n < 64 \<Longrightarrow> base64_value (base64_char n) = n"
  using base64_chars by (simp add: list_all_iff)

lemma base64_char_pad [simp]: "n < 64 \<Longrightarrow> base64_char n \<noteq> CHR ''=''"
  using base64_chars by (simp add: list_all_iff)

lemma unbase64_base64:
  assumes "\<forall>b \<in> set bytes. b < 256"
  shows "unbase64 (base64 bytes) = bytes"
  using assms
proof (induction bytes rule: base64.induct)
  case (2 a)
  then have "a div 4 < 64" "a mod 4 * 16 < 64" by auto
  then show ?case by simp
next
  case (3 a b)
  then have "a div 4 < 64" "a mod 4 * 16 + b div 16 < 64" "b mod 16 * 4 < 64" by auto
  moreover have "(a mod 4 * 16 + b div 16) div 16 = a mod 4" "(a mod 4 * 16 + b div 16) mod 16 = b div 16"
    using 3 by auto
  ultimately show ?case by simp
next
  case (4 a b c rest)
  then have "a div 4 < 64" "a mod 4 * 16 + b div 16 < 64" "b mod 16 * 4 + c div 64 < 64" "c mod 64 < 64" by auto
  moreover have "(a mod 4 * 16 + b div 16) div 16 = a mod 4" "(a mod 4 * 16 + b div 16) mod 16 = b div 16"
      "(b mod 16 * 4 + c div 64) div 4 = b mod 16" "(b mod 16 * 4 + c div 64) mod 4 = c div 64"
    using 4 by auto
  ultimately show ?case using 4 by simp
qed simp

subsection \<open>Sealing and opening\<close>

definition secret_encrypt :: "crypto_lib \<Rightarrow> string \<Rightarrow> nat \<Rightarrow> string" where
  "secret_encrypt Y plaintext n =
     (let iv = cy_randomBytes Y n; (tag, encrypted) = cy_cipher Y iv plaintext
      in ENC_PREFIX @ base64 (iv @ tag @ encrypted))"

definition secret_decrypt :: "crypto_lib \<Rightarrow> string \<Rightarrow> string result" where
  "secret_decrypt Y v =
     (if \<not> starts_with v ENC_PREFIX then
        Inl (PlainError ''Value is not encrypted with the expected scheme'')
      else
      let raw = unbase64 (drop (length ENC_PREFIX) v);
          iv = take IV_LENGTH raw;
          tag = take 16 (drop IV_LENGTH raw);
          encrypted = drop (IV_LENGTH + 16) raw in
      case cy_decipher Y iv tag encrypted of
        None \<Rightarrow> Inl (PlainError ''Unsupported state or unable to authenticate data'')
      | Some t \<Rightarrow> Inr t)"

definition isEncrypted :: "string \<Rightarrow> bool" where
  "isEncrypted v \<longleftrightarrow> starts_with v ENC_PREFIX"

text \<open>What the service relies on: the sizes of the parts, and that the key opens what it sealed.\<close>

definition crypto_ok :: "crypto_lib \<Rightarrow> bool" where
  "crypto_ok Y \<longleftrightarrow>
     (\<forall>n. length (cy_randomBytes Y n) = 12 \<and> (\<forall>b \<in> set (cy_randomBytes Y n). b < 256)) \<and>
     (\<forall>iv p tag enc. cy_cipher Y iv p = (tag, enc) \<longrightarrow>
        length tag = 16 \<and> (\<forall>b \<in> set tag. b < 256) \<and> (\<forall>b \<in> set enc. b < 256) \<and>
        cy_decipher Y iv tag enc = Some p)"

lemma secret_round_trip:
  assumes "crypto_ok Y"
  shows "secret_decrypt Y (secret_encrypt Y p n) = Inr p" and "isEncrypted (secret_encrypt Y p n)"
proof -
  obtain tag enc where c: "cy_cipher Y (cy_randomBytes Y n) p = (tag, enc)" by fastforce
  with assms have ok: "length (cy_randomBytes Y n) = 12" "length tag = 16"
      "cy_decipher Y (cy_randomBytes Y n) tag enc = Some p"
      "\<forall>b \<in> set (cy_randomBytes Y n @ tag @ enc). b < 256"
    by (auto simp: crypto_ok_def)
  have "starts_with (ENC_PREFIX @ t) ENC_PREFIX" for t
    by (induction t) (simp_all add: ENC_PREFIX_def)
  with c ok show "secret_decrypt Y (secret_encrypt Y p n) = Inr p" and "isEncrypted (secret_encrypt Y p n)"
    by (simp_all add: secret_encrypt_def secret_decrypt_def isEncrypted_def IV_LENGTH_def unbase64_base64)
qed

end
