(* ===== verification/TenantAdmin.thy ===== *)
theory TenantAdmin
  imports Product Crypto
begin

text \<open>
  The tenants: \<open>modules/backoffice/tenant/tenant.service.ts\<close> (settings, with the eviction of the
  tenant from the request cache) and \<open>modules/backoffice/merchants/merchants.service.ts\<close> (onboarding,
  one database transaction) with its utilities. \<open>createdAt\<close> and \<open>updatedAt\<close> are left out.
\<close>

subsection \<open>Settings of a tenant\<close>

record tenant_view =
  tv_id :: string
  tv_slug :: string
  tv_name :: string
  tv_defaultCurrency :: string
  tv_timezone :: string
  tv_status :: group_status
  tv_merchantId :: "string option"
  tv_walletApiUrl :: "string option"

definition tenant_view_of :: "group_row \<Rightarrow> tenant_view" where
  "tenant_view_of g = \<lparr>tv_id = cg_id g, tv_slug = cg_slug g, tv_name = cg_name g,
     tv_defaultCurrency = cg_defaultCurrency g, tv_timezone = cg_timezone g, tv_status = cg_status g,
     tv_merchantId = cg_merchantId g, tv_walletApiUrl = cg_walletApiUrl g\<rparr>"

definition find_tenant :: "string \<Rightarrow> db \<Rightarrow> group_row result" where
  "find_tenant casinoGroupId d =
     (case find_group casinoGroupId d of
        None \<Rightarrow> Inl (NotFound ''Casino group not found'')
      | Some g \<Rightarrow> Inr g)"

definition getTenant :: "string \<Rightarrow> db \<Rightarrow> tenant_view result" where
  "getTenant casinoGroupId d =
     (case find_tenant casinoGroupId d of Inl e \<Rightarrow> Inl e | Inr g \<Rightarrow> Inr (tenant_view_of g))"

text \<open>
  The request body: a field left out is \<open>None\<close>; the wallet address may be left out, \<open>null\<close> or a text.
\<close>

record patch_tenant =
  pt_name :: "string option"
  pt_defaultCurrency :: "string option"
  pt_timezone :: "string option"
  pt_status :: "group_status option"
  pt_walletApiUrl :: "string option option"

definition PatchTenantDto_ok :: "(string \<Rightarrow> bool) \<Rightarrow> patch_tenant \<Rightarrow> bool" where
  "PatchTenantDto_ok is_url p \<longleftrightarrow>
     (case pt_name p of None \<Rightarrow> True | Some t \<Rightarrow> 2 \<le> length t) \<and>
     (case pt_defaultCurrency p of None \<Rightarrow> True | Some t \<Rightarrow> 3 \<le> length t) \<and>
     (case pt_walletApiUrl p of Some (Some t) \<Rightarrow> t = [] \<or> is_url t | _ \<Rightarrow> True)"

definition set_or :: "'a option \<Rightarrow> 'a \<Rightarrow> 'a" where
  "set_or new old = (case new of None \<Rightarrow> old | Some x \<Rightarrow> x)"

definition wallet_url :: "string option \<Rightarrow> string option" where
  "wallet_url url = (if truthy url then Some (normalizeWalletApiUrl (the url)) else None)"

definition patch_group :: "patch_tenant \<Rightarrow> group_row \<Rightarrow> group_row" where
  "patch_group p g = g\<lparr>
     cg_name := set_or (pt_name p) (cg_name g),
     cg_defaultCurrency := set_or (pt_defaultCurrency p) (cg_defaultCurrency g),
     cg_timezone := set_or (pt_timezone p) (cg_timezone g),
     cg_status := set_or (pt_status p) (cg_status g),
     cg_walletApiUrl := set_or (map_option wallet_url (pt_walletApiUrl p)) (cg_walletApiUrl g)\<rparr>"

definition group_status_text :: "group_status \<Rightarrow> string" where
  "group_status_text st = (case st of Cg_ACTIVE \<Rightarrow> ''ACTIVE'' | Cg_DISABLED \<Rightarrow> ''DISABLED'')"

definition tenant_fields :: "group_row \<Rightarrow> (string \<times> string) list" where
  "tenant_fields g = [(''id'', cg_id g), (''slug'', cg_slug g), (''name'', cg_name g),
     (''defaultCurrency'', cg_defaultCurrency g), (''timezone'', cg_timezone g),
     (''status'', group_status_text (cg_status g)), (''merchantId'', null_text (cg_merchantId g)),
     (''walletApiUrl'', null_text (cg_walletApiUrl g))]"

text \<open>
  The tenant is written first, then evicted from the cache, then the change is audited: when the
  eviction throws, the change stays and is not audited.
\<close>

definition patchTenant ::
  "'r redis_port \<Rightarrow> string \<Rightarrow> patch_tenant \<Rightarrow> string \<Rightarrow> 'w world \<Rightarrow> 'r \<Rightarrow> tenant_view result \<times> 'w world \<times> 'r" where
  "patchTenant R casinoGroupId dto staffUserId s r =
     (case find_tenant casinoGroupId (w_db s) of
        Inl e \<Rightarrow> (Inl e, s, r)
      | Inr before \<Rightarrow>
      let updated = patch_group dto before;
          s1 = s\<lparr>w_db := (w_db s)\<lparr>db_groups :=
                 upd_by cg_id casinoGroupId (patch_group dto) (db_groups (w_db s))\<rparr>\<rparr> in
      case invalidate R (group_ctx updated) r of
        (Inl e, r1) \<Rightarrow> (Inl e, s1, r1)
      | (Inr _, r1) \<Rightarrow>
          (Inr (tenant_view_of updated),
           staff_audit staffUserId casinoGroupId ''tenant.updated'' ''CasinoGroup'' casinoGroupId
             (Some (tenant_fields before)) (Some (tenant_fields updated)) None s1, r1))"

subsection \<open>Onboarding a merchant\<close>

definition defaultMerchantIdFromSlug :: "string \<Rightarrow> string" where
  "defaultMerchantIdFromSlug slug =
     (let normalized = to_lower (trim slug) in if normalized \<noteq> [] then normalized @ ''-merchant'' else [])"

definition defaultOperatorEmail :: "string \<Rightarrow> string" where
  "defaultOperatorEmail slug = ''admin@'' @ to_lower (trim slug) @ ''.merchant.local''"

record merchant_dto =
  md_slug :: string
  md_name :: string
  md_merchantId :: "string option"
  md_defaultCurrency :: "string option"
  md_sportsSecret :: "string option"
  md_enabledLeagueKeys :: "string list option"
  md_operatorEmail :: "string option"
  md_operatorPassword :: "string option"
  md_walletApiUrl :: "string option"

definition is_lower :: "char \<Rightarrow> bool" where
  "is_lower c \<longleftrightarrow> 97 \<le> char_code c \<and> char_code c \<le> 122"

text \<open>\<open>/^[a-z][a-z0-9-]{1,48}$/\<close>, and the lengths of the other texts.\<close>

definition slug_ok :: "string \<Rightarrow> bool" where
  "slug_ok s = (case s of
     [] \<Rightarrow> False
   | c # rest \<Rightarrow> is_lower c \<and> 1 \<le> length rest \<and> length rest \<le> 48 \<and>
       list_all (\<lambda>c. is_lower c \<or> is_digit c \<or> c = CHR ''-'') rest)"

definition min_length :: "nat \<Rightarrow> string option \<Rightarrow> bool" where
  "min_length n x = (case x of None \<Rightarrow> True | Some t \<Rightarrow> n \<le> length t)"

definition CreateMerchantDto_ok :: "(string \<Rightarrow> bool) \<Rightarrow> (string \<Rightarrow> bool) \<Rightarrow> merchant_dto \<Rightarrow> bool" where
  "CreateMerchantDto_ok is_email is_url dto \<longleftrightarrow>
     slug_ok (md_slug dto) \<and> 2 \<le> length (md_name dto) \<and> min_length 3 (md_merchantId dto) \<and>
     min_length 16 (md_sportsSecret dto) \<and> min_length 8 (md_operatorPassword dto) \<and>
     (case md_operatorEmail dto of None \<Rightarrow> True | Some e \<Rightarrow> is_email e) \<and>
     (case md_walletApiUrl dto of None \<Rightarrow> True | Some u \<Rightarrow> is_url u)"

text \<open>The transaction: every write, or the constraint that was violated.\<close>

datatype unique_key = Key_group | Key_email

record onboarding =
  mo_group :: group_row
  mo_offered :: "string list"
  mo_policyId :: string
  mo_limitId :: string
  mo_grant :: "string option"      \<comment> \<open>the platform administrator who gets access\<close>
  mo_operator :: staff_row

definition group_taken :: "group_row \<Rightarrow> db \<Rightarrow> bool" where
  "group_taken g d \<longleftrightarrow> row_find (\<lambda>x. cg_slug x = cg_slug g \<or>
     cg_merchantId x \<noteq> None \<and> cg_merchantId x = cg_merchantId g) (db_groups d) \<noteq> None"

definition offer_leagues :: "string \<Rightarrow> string list \<Rightarrow> db \<Rightarrow> db" where
  "offer_leagues g offeredKeys d =
     foldl (\<lambda>d league. set_group_league g (lg_id league) (isLeagueOffered (lg_key league) offeredKeys) d)
       d (db_leagues d)"

definition global_limit :: "string \<Rightarrow> string \<Rightarrow> risk_limit_row" where
  "global_limit i g = \<lparr>rl_id = i, rl_casinoGroupId = g, rl_scope = ''GLOBAL'', rl_scopeRef = [],
     rl_minStake = None, rl_maxStake = None, rl_maxPayout = None\<rparr>"

definition onboard :: "onboarding \<Rightarrow> db \<Rightarrow> unique_key + db" where
  "onboard m d =
     (let grp = mo_group m; i = cg_id grp in
      if group_taken grp d then Inl Key_group
      else
      let d1 = d\<lparr>db_groups := row_insert grp (db_groups d)\<rparr>;
          d2 = offer_leagues i (mo_offered m) d1;
          d3 = d2\<lparr>db_offeringPolicies := row_insert \<lparr>opol_id = mo_policyId m, opol_casinoGroupId = i,
                 opol_enabledLeagueKeys = mo_offered m\<rparr> (db_offeringPolicies d2)\<rparr>;
          d4 = (if row_find (\<lambda>l. rl_casinoGroupId l = i \<and> rl_scope l = ''GLOBAL'' \<and> rl_scopeRef l = [])
                  (db_riskLimits d3) = None
                then d3\<lparr>db_riskLimits := row_insert (global_limit (mo_limitId m) i) (db_riskLimits d3)\<rparr> else d3);
          d5 = (case mo_grant m of
                  None \<Rightarrow> d4
                | Some u \<Rightarrow> if find_grant u i d4 = None
                    then d4\<lparr>db_staffAccess := row_insert \<lparr>sa_staffUserId = u, sa_casinoGroupId = i\<rparr> (db_staffAccess d4)\<rparr>
                    else d4) in
      case create_staff (mo_operator m) d5 of None \<Rightarrow> Inl Key_email | Some d6 \<Rightarrow> Inr d6)"

record merchant_created =
  mc_group :: tenant_view
  mc_sportsSecret :: string
  mc_enabledLeagueKeys :: "string list"
  mc_operatorEmail :: string
  mc_operatorPassword :: string
  mc_passwordAutoGenerated :: bool

text \<open>
  What one request draws, in order: the secret, the password, the salt, the vector of the cipher,
  and the ids of the group, the policy, the limits and the account.
\<close>

definition merchant_plan ::
  "env \<Rightarrow> auth_lib \<Rightarrow> crypto_lib \<Rightarrow> merchant_dto \<Rightarrow> staff_context \<Rightarrow> nat \<Rightarrow> onboarding \<times> merchant_created" where
  "merchant_plan E A Y dto staff n =
     (let merchantId = (case nonempty (map_option trim (md_merchantId dto)) of
            Some i \<Rightarrow> i | None \<Rightarrow> defaultMerchantIdFromSlug (md_slug dto));
          sportsSecretPlain = (case md_sportsSecret dto of Some t \<Rightarrow> t | None \<Rightarrow> al_random A 32 n);
          operatorEmail = to_lower (case nonempty (map_option trim (md_operatorEmail dto)) of
            Some e \<Rightarrow> e | None \<Rightarrow> defaultOperatorEmail (md_slug dto));
          (plain, generated) = chosen_password A (md_operatorPassword dto) (n + 1);
          offeredKeys = (case md_enabledLeagueKeys dto of
            Some ks \<Rightarrow> if ks = [] then [NBA_LEAGUE_KEY] else ks | None \<Rightarrow> [NBA_LEAGUE_KEY]);
          autoGrant = (sx_casinoGroupId staff = None \<and> hasStaffRole (sx_roles staff) PLATFORM_ADMIN \<and>
            \<not> hasStaffRole (sx_roles staff) SUPER_ADMIN);
          grp = \<lparr>cg_id = env_gen E (n + 4), cg_slug = md_slug dto, cg_name = md_name dto,
            cg_defaultCurrency = set_or (md_defaultCurrency dto) ''USD'', cg_timezone = ''UTC'',
            cg_status = Cg_ACTIVE, cg_merchantId = Some merchantId,
            cg_sportsSecret = Some (secret_encrypt Y sportsSecretPlain (n + 3)),
            cg_walletApiUrl = wallet_url (md_walletApiUrl dto)\<rparr> in
      (\<lparr>mo_group = grp, mo_offered = offeredKeys, mo_policyId = env_gen E (n + 5),
         mo_limitId = env_gen E (n + 6),
         mo_grant = (if autoGrant then Some (sx_staffUserId staff) else None),
         mo_operator = \<lparr>su_id = env_gen E (n + 7), su_email = operatorEmail,
           su_passwordHash = al_argon2_hash A plain (n + 2), su_casinoGroupId = Some (cg_id grp),
           su_roles = [OPERATOR_ADMIN], su_status = St_ACTIVE\<rparr>\<rparr>,
       \<lparr>mc_group = tenant_view_of grp, mc_sportsSecret = sportsSecretPlain,
         mc_enabledLeagueKeys = offeredKeys, mc_operatorEmail = operatorEmail,
         mc_operatorPassword = plain, mc_passwordAutoGenerated = generated\<rparr>))"

definition createMerchant ::
  "env \<Rightarrow> auth_lib \<Rightarrow> crypto_lib \<Rightarrow> merchant_dto \<Rightarrow> staff_context \<Rightarrow> 'w world \<Rightarrow>
   merchant_created result \<times> 'w world" where
  "createMerchant E A Y dto staff s =
     (let (plan, answer) = merchant_plan E A Y dto staff (w_seq s); s1 = s\<lparr>w_seq := w_seq s + 8\<rparr> in
      case onboard plan (w_db s) of
        Inl Key_email \<Rightarrow> (Inl (Conflict ''Operator email already exists''), s1)
      | Inl Key_group \<Rightarrow> (Inl (Conflict ''Slug or merchantId already exists''), s1)
      | Inr d \<Rightarrow>
          let grp = mo_group plan in
          (Inr answer,
           staff_audit (sx_staffUserId staff) (cg_id grp) ''tenant.merchant_created'' ''CasinoGroup'' (cg_id grp)
             None (Some [(''slug'', cg_slug grp), (''merchantId'', null_text (cg_merchantId grp)),
               (''walletApiUrl'', null_text (cg_walletApiUrl grp)),
               (''enabledLeagueKeys'', join_with '','' (mo_offered plan)),
               (''tenantAccessAutoGranted'', bool_text (mo_grant plan \<noteq> None)),
               (''operatorEmail'', su_email (mo_operator plan))])
             (Some ''Back office merchant onboarding'') (s1\<lparr>w_db := d\<rparr>)))"

text \<open>The route, for platform staff only.\<close>

definition route_createMerchant ::
  "env \<Rightarrow> auth_lib \<Rightarrow> crypto_lib \<Rightarrow> staff_context \<Rightarrow> merchant_dto \<Rightarrow> 'w world \<Rightarrow>
   merchant_created result \<times> 'w world" where
  "route_createMerchant E A Y staff dto s =
     (case assertPlatformStaff staff of
        Inl e \<Rightarrow> (Inl e, s)
      | Inr _ \<Rightarrow> createMerchant E A Y dto staff s)"

subsection \<open>What onboarding does\<close>

lemma set_group_league_get:
  "find_group_league g l (set_group_league g' l' e d) =
     (if (g', l') = (g, l) then
        Some (case find_group_league g l d of
          Some r \<Rightarrow> r\<lparr>gl_enabled := e\<rparr>
        | None \<Rightarrow> \<lparr>gl_casinoGroupId = g, gl_leagueId = l, gl_enabled = e, gl_platformLocked = False\<rparr>)
      else find_group_league g l d)"
  by (cases "find_group_league g' l' d")
    (auto simp: set_group_league_def find_group_league_def offerings.get_upd_law offerings.get_ins_law
      split: option.split)

lemma set_group_league_frame [simp, frame]:
  "db_leagues (set_group_league g l e d) = db_leagues d"
  "db_groups (set_group_league g l e d) = db_groups d"
  "db_staff (set_group_league g l e d) = db_staff d"
  "db_staffAccess (set_group_league g l e d) = db_staffAccess d"
  "db_staffSessions (set_group_league g l e d) = db_staffSessions d"
  by (simp_all add: set_group_league_def split: option.split)

text \<open>The offering of the new tenant, league by league; every other tenant's stays.\<close>

definition offer_all :: "string \<Rightarrow> string list \<Rightarrow> league_row list \<Rightarrow> db \<Rightarrow> db" where
  "offer_all g keys leagues d =
     foldl (\<lambda>d league. set_group_league g (lg_id league) (isLeagueOffered (lg_key league) keys) d) d leagues"

lemma offer_leagues_all: "offer_leagues g keys d = offer_all g keys (db_leagues d) d"
  by (simp add: offer_leagues_def offer_all_def)

lemma offer_all_frame [simp, frame]:
  "db_leagues (offer_all g keys ls d) = db_leagues d"
  "db_groups (offer_all g keys ls d) = db_groups d"
  "db_staff (offer_all g keys ls d) = db_staff d"
  "db_staffAccess (offer_all g keys ls d) = db_staffAccess d"
  "db_staffSessions (offer_all g keys ls d) = db_staffSessions d"
  by (induction ls arbitrary: d) (simp_all add: offer_all_def)

lemma offer_all_other:
  "g' \<noteq> g \<or> l \<notin> lg_id ` set ls \<Longrightarrow>
   find_group_league g' l (offer_all g keys ls d) = find_group_league g' l d"
  by (induction ls arbitrary: d) (auto simp: offer_all_def set_group_league_get)

lemma offer_all_get:
  assumes "distinct (map lg_id ls)" and "league \<in> set ls"
  shows "\<exists>r. find_group_league g (lg_id league) (offer_all g keys ls d) = Some r \<and>
    gl_enabled r = isLeagueOffered (lg_key league) keys"
  using assms
proof (induction ls arbitrary: d)
  case (Cons x xs)
  let ?d = "set_group_league g (lg_id x) (isLeagueOffered (lg_key x) keys) d"
  have step: "offer_all g keys (x # xs) d = offer_all g keys xs ?d" by (simp add: offer_all_def)
  show ?case
  proof (cases "league = x")
    case True
    with Cons.prems have "find_group_league g (lg_id league) (offer_all g keys xs ?d) = find_group_league g (lg_id x) ?d"
      by (simp add: offer_all_other)
    with True step show ?thesis by (simp add: set_group_league_get split: option.split)
  next
    case False
    with Cons step show ?thesis by simp
  qed
qed simp

text \<open>The rows of the database when the transaction goes through.\<close>

lemma onboard_rows:
  assumes "onboard m d = Inr d'"
  shows "db_groups d' = db_groups d @ [mo_group m]"
    and "db_staff d' = db_staff d @ [mo_operator m]"
    and "db_groupLeagues d' = db_groupLeagues (offer_all (cg_id (mo_group m)) (mo_offered m) (db_leagues d)
           (d\<lparr>db_groups := db_groups d @ [mo_group m]\<rparr>))"
    and "\<not> group_taken (mo_group m) d" and "find_staff_email (su_email (mo_operator m)) d = None"
    and "db_leagues d' = db_leagues d" and "db_staffSessions d' = db_staffSessions d"
  using assms
  by (auto simp: onboard_def Let_def create_staff_def offer_leagues_all row_insert_def find_staff_email_def
      split: if_splits option.splits)

lemma onboard_grant:
  assumes "onboard m d = Inr d'"
  shows "find_grant u g d' \<noteq> None \<longleftrightarrow>
    find_grant u g d \<noteq> None \<or> mo_grant m = Some u \<and> g = cg_id (mo_group m)"
proof -
  let ?i = "cg_id (mo_group m)"
  have "db_staffAccess d' = db_staffAccess d @
      (case mo_grant m of Some v \<Rightarrow>
         if find_grant v ?i d = None then [\<lparr>sa_staffUserId = v, sa_casinoGroupId = ?i\<rparr>] else [] | None \<Rightarrow> [])"
    using assms
    by (auto simp: onboard_def Let_def create_staff_def offer_leagues_all row_insert_def find_grant_def
        split: if_splits option.splits)
  then show ?thesis
    by (cases "mo_grant m") (auto simp: find_grant_def row_find_append split: option.splits if_splits)
qed

lemma createMerchant_cases:
  assumes "createMerchant E A Y dto staff s = (r, s')"
  obtains (failed) e where "r = Inl e" "w_db s' = w_db s"
  | (created) d' log where "onboard (fst (merchant_plan E A Y dto staff (w_seq s))) (w_db s) = Inr d'"
      "r = Inr (snd (merchant_plan E A Y dto staff (w_seq s)))"
      "w_db s' = d'\<lparr>db_audit := log\<rparr>"
proof (cases "onboard (fst (merchant_plan E A Y dto staff (w_seq s))) (w_db s)")
  case (Inl k)
  with assms failed show ?thesis
    by (cases k) (auto simp: createMerchant_def case_prod_beta Let_def)
next
  case (Inr d')
  with assms have "r = Inr (snd (merchant_plan E A Y dto staff (w_seq s)))"
    and "\<exists>log. w_db s' = d'\<lparr>db_audit := log\<rparr>"
    by (auto simp: createMerchant_def case_prod_beta Let_def staff_audit_def audit_record_def)
  with Inr created show ?thesis by blast
qed

lemma createMerchant_session_step: "session_step A s (snd (createMerchant E A' Y dto staff s))"
proof -
  obtain r s' where c: "createMerchant E A' Y dto staff s = (r, s')" by fastforce
  have seq: "w_seq s \<le> w_seq s'"
    using arg_cong [OF c, of "\<lambda>p. w_seq (snd p)"]
    by (simp add: createMerchant_def case_prod_beta Let_def split: sum.splits unique_key.splits)
  from c have "db_staffSessions (w_db s') = db_staffSessions (w_db s)"
  proof (cases rule: createMerchant_cases)
    case (created d' log)
    then show ?thesis using onboard_rows(7) [OF created(1)] by simp
  qed simp
  with seq c show ?thesis by (simp add: session_step_same)
qed

end
