(* ===== verification/Config.thy ===== *)
theory Config
  imports Text Schema
begin

text \<open>
  \<open>shared/config/env.validation.ts\<close>: the environment the process starts with, its defaults, the
  rules of the schema and the extra rules of production; and \<open>shared/cors/cors.config.ts\<close>. The
  schema library's \<open>Number(text)\<close> and URL check are parameters; a failed validation is the list of
  the variables (or the rules) that failed, without the library's wording.
\<close>

type_synonym raw_env = "string \<Rightarrow> string option"

subsection \<open>The kinds of variables\<close>

definition given :: "raw_env \<Rightarrow> string \<Rightarrow> string \<Rightarrow> string" where
  "given raw n d = (case raw n of None \<Rightarrow> d | Some v \<Rightarrow> v)"

definition one_of :: "string list \<Rightarrow> raw_env \<Rightarrow> string \<Rightarrow> string list" where
  "one_of vs raw n = (case raw n of None \<Rightarrow> [] | Some v \<Rightarrow> if v \<in> set vs then [] else [n])"

definition true_false :: "raw_env \<Rightarrow> string \<Rightarrow> string list" where
  "true_false = one_of [''true'', ''false'']"

definition flag :: "raw_env \<Rightarrow> string \<Rightarrow> string \<Rightarrow> bool" where
  "flag raw n d \<longleftrightarrow> given raw n d = ''true''"

definition long_enough :: "nat \<Rightarrow> raw_env \<Rightarrow> string \<Rightarrow> string list" where
  "long_enough k raw n = (case raw n of None \<Rightarrow> [] | Some v \<Rightarrow> if k \<le> length v then [] else [n])"

text \<open>\<open>z.coerce.number().int().min(lo).max(hi)\<close>, \<open>num\<close> being \<open>Number\<close> with \<open>None\<close> for NaN.\<close>

definition whole_in :: "int \<Rightarrow> int \<Rightarrow> (string \<Rightarrow> rat option) \<Rightarrow> raw_env \<Rightarrow> string \<Rightarrow> string list" where
  "whole_in lo hi num raw n =
     (case raw n of
        None \<Rightarrow> []
      | Some v \<Rightarrow>
          (case num v of
             None \<Rightarrow> [n]
           | Some x \<Rightarrow> if of_int \<lfloor>x\<rfloor> = x \<and> lo \<le> \<lfloor>x\<rfloor> \<and> \<lfloor>x\<rfloor> \<le> hi then [] else [n]))"

definition whole :: "int \<Rightarrow> (string \<Rightarrow> rat option) \<Rightarrow> raw_env \<Rightarrow> string \<Rightarrow> int" where
  "whole d num raw n = (case raw n of None \<Rightarrow> d | Some v \<Rightarrow> (case num v of None \<Rightarrow> d | Some x \<Rightarrow> \<lfloor>x\<rfloor>))"

text \<open>A required text with a prefix (an empty text has none of them).\<close>

definition with_prefix :: "string list \<Rightarrow> raw_env \<Rightarrow> string \<Rightarrow> string list" where
  "with_prefix ps raw n =
     (case raw n of None \<Rightarrow> [n] | Some v \<Rightarrow> if list_ex (starts_with v) ps then [] else [n])"

text \<open>\<open>split(',')\<close>, trimmed, without the empty pieces.\<close>

fun split_on :: "char \<Rightarrow> string \<Rightarrow> string list" where
  "split_on c [] = [[]]"
| "split_on c (x # xs) =
     (if x = c then [] # split_on c xs
      else case split_on c xs of [] \<Rightarrow> [[x]] | w # ws \<Rightarrow> (x # w) # ws)"

definition comma_list :: "string \<Rightarrow> string list" where
  "comma_list v = filter (\<lambda>t. t \<noteq> []) (map trim (split_on (CHR '','') v))"

text \<open>\<open>Number.parseInt(text, 10)\<close>: an optional sign and the leading digits; \<open>None\<close> is NaN.\<close>

definition js_parse_int :: "string \<Rightarrow> int option" where
  "js_parse_int text =
     (let t = dropWhile is_space text;
          neg = (t \<noteq> [] \<and> hd t = CHR ''-'');
          u = (if t \<noteq> [] \<and> (hd t = CHR ''-'' \<or> hd t = CHR ''+'') then tl t else t);
          digits = takeWhile is_digit u in
      if digits = [] then None
      else Some (if neg then - int (nat_of_digits digits) else int (nat_of_digits digits)))"

subsection \<open>The schema\<close>

definition DEV_SESSION_SECRET :: string where
  "DEV_SESSION_SECRET = ''dev-session-secret-change-me-please''"

definition DEV_ENCRYPTION_KEY :: string where
  "DEV_ENCRYPTION_KEY = ''dev-encryption-key-change-me-please''"

definition DEV_STAFF_JWT_SECRET :: string where
  "DEV_STAFF_JWT_SECRET = ''dev-staff-jwt-secret-change-me-please''"

definition issues_process :: "(string \<Rightarrow> rat option) \<Rightarrow> raw_env \<Rightarrow> string list" where
  "issues_process num raw =
     one_of [''development'', ''production'', ''test''] raw ''NODE_ENV'' @
     whole_in 1 65535 num raw ''PORT'' @
     with_prefix [''postgresql://'', ''postgres://''] raw ''DATABASE_URL'' @
     with_prefix [''redis://''] raw ''REDIS_URL'' @
     one_of [''fatal'', ''error'', ''warn'', ''info'', ''debug'', ''trace'', ''silent''] raw ''LOG_LEVEL'' @
     true_false raw ''METRICS_ENABLED''"

definition issues_auth :: "(string \<Rightarrow> rat option) \<Rightarrow> raw_env \<Rightarrow> string list" where
  "issues_auth num raw =
     long_enough 16 raw ''STAFF_JWT_SECRET'' @
     long_enough 1 raw ''STAFF_ACCESS_TTL'' @
     long_enough 1 raw ''STAFF_REFRESH_TTL'' @
     long_enough 16 raw ''SESSION_JWT_SECRET'' @
     long_enough 1 raw ''SESSION_TTL'' @
     long_enough 16 raw ''SECRET_ENCRYPTION_KEY'' @
     true_false raw ''AUTH_ALLOW_HEADER_FALLBACK'' @
     whole_in 0 300 num raw ''OPERATOR_JWT_CLOCK_SKEW''"

definition issues_betting :: "(string \<Rightarrow> rat option) \<Rightarrow> raw_env \<Rightarrow> string list" where
  "issues_betting num raw =
     one_of [''stub'', ''http''] raw ''WALLET_PROVIDER'' @
     whole_in 5 300 num raw ''WALLET_OUTBOX_POLL_SECONDS'' @
     true_false raw ''SETTLEMENT_ENABLED'' @
     whole_in 15 3600 num raw ''SETTLEMENT_POLL_SECONDS'' @
     whole_in 1 168 num raw ''SETTLEMENT_STALE_HOURS'' @
     true_false raw ''RESULTS_INGEST_ENABLED'' @
     whole_in 30 3600 num raw ''RESULTS_INGEST_POLL_SECONDS'' @
     whole_in 1 3 num raw ''ODDS_API_SCORES_DAYS_FROM'' @
     whole_in 1 1000 num raw ''REALTIME_SUBSCRIBE_MAX_PER_MINUTE''"

definition issues_feed :: "(string \<Rightarrow> bool) \<Rightarrow> raw_env \<Rightarrow> string list" where
  "issues_feed is_url raw =
     one_of [''mock'', ''odds-api''] raw ''FIXTURE_PROVIDER'' @
     (case raw ''ODDS_API_BASE_URL'' of None \<Rightarrow> [] | Some u \<Rightarrow> if is_url u then [] else [''ODDS_API_BASE_URL'']) @
     one_of [''decimal'', ''american''] raw ''ODDS_API_ODDS_FORMAT''"

definition issues_ingest :: "(string \<Rightarrow> rat option) \<Rightarrow> raw_env \<Rightarrow> string list" where
  "issues_ingest num raw =
     whole_in 0 120 num raw ''INGEST_LIVE_PRESTART_MINUTES'' @
     true_false raw ''INGEST_LIVE_ENABLED'' @
     whole_in 15 3600 num raw ''INGEST_LIVE_INTERVAL_SECONDS'' @
     whole_in 15 3600 num raw ''INGEST_LIVE_WATCH_INTERVAL_SECONDS'' @
     true_false raw ''INGEST_CATALOG_ENABLED'' @
     (case raw ''INGEST_CATALOG_CRON'' of
        None \<Rightarrow> []
      | Some c \<Rightarrow> if 9 \<le> length c \<and> length c \<le> 100 then [] else [''INGEST_CATALOG_CRON'']) @
     whole_in 0 10000 num raw ''INGEST_ODDS_API_REMAINING_MIN'' @
     whole_in 1 1440 num raw ''INGEST_ODDS_API_PAUSE_MINUTES''"

text \<open>What the services read of the validated environment.\<close>

record env_config =
  ec_NODE_ENV :: string
  ec_PORT :: int
  ec_DATABASE_URL :: string
  ec_REDIS_URL :: string
  ec_METRICS_ENABLED :: bool
  ec_STAFF_JWT_SECRET :: string
  ec_STAFF_ACCESS_TTL :: string
  ec_STAFF_REFRESH_TTL :: string
  ec_SESSION_JWT_SECRET :: string
  ec_SESSION_TTL :: string
  ec_SECRET_ENCRYPTION_KEY :: string
  ec_AUTH_ALLOW_HEADER_FALLBACK :: bool
  ec_OPERATOR_JWT_CLOCK_SKEW :: int
  ec_WALLET_PROVIDER :: string
  ec_WALLET_STUB_BALANCE :: string
  ec_BET_MIN_STAKE :: string
  ec_BET_MAX_STAKE :: string
  ec_BET_MAX_PAYOUT :: string
  ec_WALLET_OUTBOX_POLL_SECONDS :: int
  ec_SETTLEMENT_ENABLED :: bool
  ec_SETTLEMENT_POLL_SECONDS :: int
  ec_SETTLEMENT_STALE_HOURS :: int
  ec_RESULTS_INGEST_ENABLED :: bool
  ec_RESULTS_INGEST_POLL_SECONDS :: int
  ec_ODDS_API_SCORES_DAYS_FROM :: int
  ec_REALTIME_SUBSCRIBE_MAX_PER_MINUTE :: int
  ec_CORS_ORIGINS :: "string list"
  ec_FIXTURE_PROVIDER :: string
  ec_ODDS_API_KEY :: "string option"
  ec_ODDS_API_BASE_URL :: string
  ec_ODDS_API_SPORT_KEYS :: "string list"
  ec_ODDS_API_REGIONS :: string
  ec_ODDS_API_MARKETS :: "string list"
  ec_ODDS_API_ODDS_FORMAT :: string
  ec_INGEST_LIVE_PRESTART_MINUTES :: int
  ec_INGEST_LIVE_ENABLED :: bool
  ec_INGEST_LIVE_INTERVAL_SECONDS :: int
  ec_INGEST_LIVE_WATCH_INTERVAL_SECONDS :: int
  ec_INGEST_CATALOG_ENABLED :: bool
  ec_INGEST_CATALOG_CRON :: string
  ec_INGEST_ODDS_API_REMAINING_MIN :: int
  ec_INGEST_ODDS_API_PAUSE_MINUTES :: int

definition env_values :: "(string \<Rightarrow> rat option) \<Rightarrow> raw_env \<Rightarrow> env_config" where
  "env_values num raw = \<lparr>
     ec_NODE_ENV = given raw ''NODE_ENV'' ''development'',
     ec_PORT = whole 5003 num raw ''PORT'',
     ec_DATABASE_URL = given raw ''DATABASE_URL'' [],
     ec_REDIS_URL = given raw ''REDIS_URL'' [],
     ec_METRICS_ENABLED = flag raw ''METRICS_ENABLED'' ''true'',
     ec_STAFF_JWT_SECRET = given raw ''STAFF_JWT_SECRET'' DEV_STAFF_JWT_SECRET,
     ec_STAFF_ACCESS_TTL = given raw ''STAFF_ACCESS_TTL'' ''15m'',
     ec_STAFF_REFRESH_TTL = given raw ''STAFF_REFRESH_TTL'' ''7d'',
     ec_SESSION_JWT_SECRET = given raw ''SESSION_JWT_SECRET'' DEV_SESSION_SECRET,
     ec_SESSION_TTL = given raw ''SESSION_TTL'' ''30m'',
     ec_SECRET_ENCRYPTION_KEY = given raw ''SECRET_ENCRYPTION_KEY'' DEV_ENCRYPTION_KEY,
     ec_AUTH_ALLOW_HEADER_FALLBACK = flag raw ''AUTH_ALLOW_HEADER_FALLBACK'' ''true'',
     ec_OPERATOR_JWT_CLOCK_SKEW = whole 5 num raw ''OPERATOR_JWT_CLOCK_SKEW'',
     ec_WALLET_PROVIDER = given raw ''WALLET_PROVIDER'' ''stub'',
     ec_WALLET_STUB_BALANCE = given raw ''WALLET_STUB_BALANCE'' ''10000.00'',
     ec_BET_MIN_STAKE = given raw ''BET_MIN_STAKE'' ''1.00'',
     ec_BET_MAX_STAKE = given raw ''BET_MAX_STAKE'' ''10000.00'',
     ec_BET_MAX_PAYOUT = given raw ''BET_MAX_PAYOUT'' ''100000.00'',
     ec_WALLET_OUTBOX_POLL_SECONDS = whole 30 num raw ''WALLET_OUTBOX_POLL_SECONDS'',
     ec_SETTLEMENT_ENABLED = flag raw ''SETTLEMENT_ENABLED'' ''false'',
     ec_SETTLEMENT_POLL_SECONDS = whole 60 num raw ''SETTLEMENT_POLL_SECONDS'',
     ec_SETTLEMENT_STALE_HOURS = whole 6 num raw ''SETTLEMENT_STALE_HOURS'',
     ec_RESULTS_INGEST_ENABLED = flag raw ''RESULTS_INGEST_ENABLED'' ''false'',
     ec_RESULTS_INGEST_POLL_SECONDS = whole 120 num raw ''RESULTS_INGEST_POLL_SECONDS'',
     ec_ODDS_API_SCORES_DAYS_FROM = whole 3 num raw ''ODDS_API_SCORES_DAYS_FROM'',
     ec_REALTIME_SUBSCRIBE_MAX_PER_MINUTE = whole 60 num raw ''REALTIME_SUBSCRIBE_MAX_PER_MINUTE'',
     ec_CORS_ORIGINS = comma_list (given raw ''CORS_ORIGINS''
       ''http://localhost:5001,http://127.0.0.1:5001,http://localhost:5002,http://127.0.0.1:5002''),
     ec_FIXTURE_PROVIDER = given raw ''FIXTURE_PROVIDER'' ''mock'',
     ec_ODDS_API_KEY = raw ''ODDS_API_KEY'',
     ec_ODDS_API_BASE_URL = given raw ''ODDS_API_BASE_URL'' ''https://api.the-odds-api.com/v4'',
     ec_ODDS_API_SPORT_KEYS = comma_list (given raw ''ODDS_API_SPORT_KEYS''
       ''basketball,baseball,americanfootball,soccer''),
     ec_ODDS_API_REGIONS = given raw ''ODDS_API_REGIONS'' ''all'',
     ec_ODDS_API_MARKETS = comma_list (given raw ''ODDS_API_MARKETS'' ''h2h,spreads,totals''),
     ec_ODDS_API_ODDS_FORMAT = given raw ''ODDS_API_ODDS_FORMAT'' ''decimal'',
     ec_INGEST_LIVE_PRESTART_MINUTES = whole 0 num raw ''INGEST_LIVE_PRESTART_MINUTES'',
     ec_INGEST_LIVE_ENABLED = flag raw ''INGEST_LIVE_ENABLED'' ''false'',
     ec_INGEST_LIVE_INTERVAL_SECONDS = whole 60 num raw ''INGEST_LIVE_INTERVAL_SECONDS'',
     ec_INGEST_LIVE_WATCH_INTERVAL_SECONDS = whole 60 num raw ''INGEST_LIVE_WATCH_INTERVAL_SECONDS'',
     ec_INGEST_CATALOG_ENABLED = flag raw ''INGEST_CATALOG_ENABLED'' ''false'',
     ec_INGEST_CATALOG_CRON = given raw ''INGEST_CATALOG_CRON'' ''0 */6 * * *'',
     ec_INGEST_ODDS_API_REMAINING_MIN = whole 20 num raw ''INGEST_ODDS_API_REMAINING_MIN'',
     ec_INGEST_ODDS_API_PAUSE_MINUTES = whole 30 num raw ''INGEST_ODDS_API_PAUSE_MINUTES''\<rparr>"

text \<open>The extra rules of production.\<close>

definition production_problems :: "env_config \<Rightarrow> string list" where
  "production_problems env =
     (if ec_SESSION_JWT_SECRET env = DEV_SESSION_SECRET
      then [''SESSION_JWT_SECRET must be set (not the dev default)''] else []) @
     (if ec_SECRET_ENCRYPTION_KEY env = DEV_ENCRYPTION_KEY
      then [''SECRET_ENCRYPTION_KEY must be set (not the dev default)''] else []) @
     (if ec_STAFF_JWT_SECRET env = DEV_STAFF_JWT_SECRET
      then [''STAFF_JWT_SECRET must be set (not the dev default)''] else []) @
     (if ec_AUTH_ALLOW_HEADER_FALLBACK env
      then [''AUTH_ALLOW_HEADER_FALLBACK must be false in production''] else [])"

definition validateEnv ::
  "(string \<Rightarrow> rat option) \<Rightarrow> (string \<Rightarrow> bool) \<Rightarrow> raw_env \<Rightarrow> string list + env_config" where
  "validateEnv num is_url raw =
     (let issues = issues_process num raw @ issues_auth num raw @ issues_betting num raw @
            issues_feed is_url raw @ issues_ingest num raw in
      if issues \<noteq> [] then Inl issues
      else
      let env = env_values num raw in
      if ec_FIXTURE_PROVIDER env = ''odds-api'' \<and> ec_NODE_ENV env \<noteq> ''test'' \<and>
         \<not> truthy (map_option trim (ec_ODDS_API_KEY env)) then
        Inl [''ODDS_API_KEY is required when FIXTURE_PROVIDER=odds-api'']
      else if ec_NODE_ENV env = ''production'' \<and> production_problems env \<noteq> [] then
        Inl (production_problems env)
      else Inr env)"

subsection \<open>What a validated environment guarantees\<close>

lemma validateEnv_InrD:
  assumes "validateEnv num is_url raw = Inr env"
  shows "env = env_values num raw" and "issues_process num raw = []" and "issues_auth num raw = []"
    and "issues_betting num raw = []" and "issues_feed is_url raw = []" and "issues_ingest num raw = []"
    and "ec_NODE_ENV env = ''production'' \<Longrightarrow> production_problems env = []"
  using assms by (auto simp: validateEnv_def Let_def split: if_splits)

text \<open>No production service runs on a published secret or lets a header stand in for a login.\<close>

lemma production_is_closed:
  assumes "validateEnv num is_url raw = Inr env" and "ec_NODE_ENV env = ''production''"
  shows "ec_SESSION_JWT_SECRET env \<noteq> DEV_SESSION_SECRET \<and> ec_STAFF_JWT_SECRET env \<noteq> DEV_STAFF_JWT_SECRET \<and>
    ec_SECRET_ENCRYPTION_KEY env \<noteq> DEV_ENCRYPTION_KEY \<and> \<not> ec_AUTH_ALLOW_HEADER_FALLBACK env"
  using validateEnv_InrD(7) [OF assms(1,2)] by (simp add: production_problems_def split: if_splits)

lemma whole_in_range:
  assumes "whole_in lo hi num raw n = []" and "lo \<le> d" and "d \<le> hi"
  shows "lo \<le> whole d num raw n \<and> whole d num raw n \<le> hi"
  using assms by (auto simp: whole_in_def whole_def split: option.splits if_splits)

lemma long_enough_given:
  assumes "long_enough k raw n = []" and "k \<le> length d"
  shows "k \<le> length (given raw n d)"
  using assms by (auto simp: long_enough_def given_def split: option.splits if_splits)

lemma validated_bounds:
  assumes "validateEnv num is_url raw = Inr env"
  shows "16 \<le> length (ec_SESSION_JWT_SECRET env)" and "16 \<le> length (ec_STAFF_JWT_SECRET env)"
    and "0 \<le> ec_OPERATOR_JWT_CLOCK_SKEW env \<and> ec_OPERATOR_JWT_CLOCK_SKEW env \<le> 300"
    and "15 \<le> ec_INGEST_LIVE_INTERVAL_SECONDS env \<and> ec_INGEST_LIVE_INTERVAL_SECONDS env \<le> 3600"
    and "1 \<le> ec_REALTIME_SUBSCRIBE_MAX_PER_MINUTE env \<and> ec_REALTIME_SUBSCRIBE_MAX_PER_MINUTE env \<le> 1000"
    and "5 \<le> ec_WALLET_OUTBOX_POLL_SECONDS env \<and> ec_WALLET_OUTBOX_POLL_SECONDS env \<le> 300"
proof -
  note env = validateEnv_InrD(1) [OF assms]
  have "long_enough 16 raw ''SESSION_JWT_SECRET'' = []" "long_enough 16 raw ''STAFF_JWT_SECRET'' = []"
      "whole_in 0 300 num raw ''OPERATOR_JWT_CLOCK_SKEW'' = []"
    using validateEnv_InrD(3) [OF assms] by (simp_all add: issues_auth_def)
  then show "16 \<le> length (ec_SESSION_JWT_SECRET env)" and "16 \<le> length (ec_STAFF_JWT_SECRET env)"
    and "0 \<le> ec_OPERATOR_JWT_CLOCK_SKEW env \<and> ec_OPERATOR_JWT_CLOCK_SKEW env \<le> 300"
    by (simp_all add: env env_values_def long_enough_given whole_in_range DEV_SESSION_SECRET_def
        DEV_STAFF_JWT_SECRET_def)
  have "whole_in 15 3600 num raw ''INGEST_LIVE_INTERVAL_SECONDS'' = []"
    using validateEnv_InrD(6) [OF assms] by (simp add: issues_ingest_def)
  then show "15 \<le> ec_INGEST_LIVE_INTERVAL_SECONDS env \<and> ec_INGEST_LIVE_INTERVAL_SECONDS env \<le> 3600"
    by (simp add: env env_values_def whole_in_range)
  have "whole_in 1 1000 num raw ''REALTIME_SUBSCRIBE_MAX_PER_MINUTE'' = []"
      "whole_in 5 300 num raw ''WALLET_OUTBOX_POLL_SECONDS'' = []"
    using validateEnv_InrD(4) [OF assms] by (simp_all add: issues_betting_def)
  then show "1 \<le> ec_REALTIME_SUBSCRIBE_MAX_PER_MINUTE env \<and> ec_REALTIME_SUBSCRIBE_MAX_PER_MINUTE env \<le> 1000"
    and "5 \<le> ec_WALLET_OUTBOX_POLL_SECONDS env \<and> ec_WALLET_OUTBOX_POLL_SECONDS env \<le> 300"
    by (simp_all add: env env_values_def whole_in_range)
qed

subsection \<open>Cross-origin requests\<close>

definition DEFAULT_DEV_ORIGINS :: "string list" where
  "DEFAULT_DEV_ORIGINS = [''http://localhost:5001'', ''http://127.0.0.1:5001'', ''http://localhost:5002'',
     ''http://127.0.0.1:5002'']"

definition isDevelopmentEnv :: "raw_env \<Rightarrow> bool" where
  "isDevelopmentEnv raw \<longleftrightarrow> given raw ''NODE_ENV'' ''development'' = ''development''"

definition parseCorsOrigins :: "raw_env \<Rightarrow> string list" where
  "parseCorsOrigins raw =
     (if \<not> truthy (raw ''CORS_ORIGINS'') then DEFAULT_DEV_ORIGINS
      else comma_list (the (raw ''CORS_ORIGINS'')))"

definition isCorsEnabled :: "raw_env \<Rightarrow> bool" where
  "isCorsEnabled raw \<longleftrightarrow> isDevelopmentEnv raw \<or> truthy (map_option trim (raw ''CORS_ORIGINS''))"

record cors_options =
  co_origin :: "string list"
  co_allowedHeaders :: "string list"
  co_methods :: "string list"

definition httpCorsOptions :: "raw_env \<Rightarrow> cors_options option" where
  "httpCorsOptions raw =
     (if \<not> isCorsEnabled raw then None
      else Some \<lparr>co_origin = parseCorsOrigins raw,
        co_allowedHeaders = [''Authorization'', ''Content-Type'', ''X-Casino-Group'', ''Idempotency-Key''],
        co_methods = [''GET'', ''POST'', ''PUT'', ''PATCH'', ''DELETE'', ''OPTIONS'']\<rparr>)"

definition socketIoCorsOptions :: "raw_env \<Rightarrow> string list option" where
  "socketIoCorsOptions raw = (if \<not> isCorsEnabled raw then None else Some (parseCorsOrigins raw))"

text \<open>
  Outside development the local origins are never offered: either the variable names the origins
  or no other origin is let in.
\<close>

lemma cors_only_named_origins:
  assumes "\<not> isDevelopmentEnv raw" and "httpCorsOptions raw = Some o'"
  shows "\<exists>v. raw ''CORS_ORIGINS'' = Some v \<and> co_origin o' = comma_list v"
  using assms
  by (cases "raw ''CORS_ORIGINS''")
     (auto simp: httpCorsOptions_def isCorsEnabled_def parseCorsOrigins_def truthy_def trim_def split: if_splits)

end
