(* ===== verification/Reports.thy ===== *)
theory Reports
  imports StaffAdmin Settlement
begin

text \<open>
  The reports of the back office: the revenue of a tenant
  (\<open>modules/backoffice/analytics/analytics.service.ts\<close>), the audit log
  (\<open>modules/backoffice/compliance\<close>) and its CSV export (\<open>audit-export.util.ts\<close>), with the calendar
  date and the ISO text of an instant. The database sums exactly; \<open>localeCompare\<close> is a rank of
  texts, a parameter. The id column of an audit entry is a parameter too (the id of its \<open>n\<close>-th row).
\<close>

subsection \<open>Dates\<close>

definition ms_per_day :: int where
  "ms_per_day = 86400000"

text \<open>Year, month and day of a number of days since 1970-01-01 in the Gregorian calendar.\<close>

definition civil_from_days :: "int \<Rightarrow> int \<times> int \<times> int" where
  "civil_from_days z =
     (let z' = z + 719468;
          era = z' div 146097;
          doe = z' mod 146097;
          yoe = (doe - doe div 1460 + doe div 36524 - doe div 146096) div 365;
          doy = doe - (365 * yoe + yoe div 4 - yoe div 100);
          mp = (5 * doy + 2) div 153;
          dd = doy - (153 * mp + 2) div 5 + 1;
          mm = (if mp < 10 then mp + 3 else mp - 9)
      in (yoe + era * 400 + (if mm \<le> 2 then 1 else 0), mm, dd))"

definition pad :: "nat \<Rightarrow> int \<Rightarrow> string" where
  "pad n x = (let t = show_nat (nat x) in replicate (n - length t) (CHR ''0'') @ t)"

text \<open>\<open>toISOString\<close> for the years 0 to 9999, and its first ten characters.\<close>

definition iso_day :: "int \<Rightarrow> string" where
  "iso_day ms =
     (case civil_from_days (ms div ms_per_day) of
        (y, m, d) \<Rightarrow> pad 4 y @ ''-'' @ pad 2 m @ ''-'' @ pad 2 d)"

definition iso_text :: "int \<Rightarrow> string" where
  "iso_text ms =
     (let t = ms mod ms_per_day in
      iso_day ms @ ''T'' @ pad 2 (t div 3600000) @ '':'' @ pad 2 (t div 60000 mod 60) @ '':'' @
      pad 2 (t div 1000 mod 60) @ ''.'' @ pad 3 (t mod 1000) @ ''Z'')"

subsection \<open>Revenue\<close>

fun bet_status_text :: "bet_status \<Rightarrow> string" where
  "bet_status_text Bet_PENDING = ''PENDING''"
| "bet_status_text Bet_ACCEPTED = ''ACCEPTED''"
| "bet_status_text Bet_REJECTED = ''REJECTED''"
| "bet_status_text Bet_WON = ''WON''"
| "bet_status_text Bet_LOST = ''LOST''"
| "bet_status_text Bet_VOID = ''VOID''"

text \<open>\<open>groupBy\<close>: a row per status that occurs; the sum of a column without values is null.\<close>

record status_sums =
  sg_status :: bet_status
  sg_count :: nat
  sg_stake :: rat
  sg_payout :: "rat option"

definition sum_payouts :: "bet_row list \<Rightarrow> rat option" where
  "sum_payouts bets =
     (let vs = List.map_filter bet_payoutAmount bets in if vs = [] then None else Some (sum_list vs))"

definition status_rows :: "string \<Rightarrow> db \<Rightarrow> status_sums list" where
  "status_rows casinoGroupId d =
     (let bets = row_filter (\<lambda>b. bet_casinoGroupId b = casinoGroupId) (db_bets d) in
      map (\<lambda>st. let bs = row_filter (\<lambda>b. bet_status b = st) bets in
          \<lparr>sg_status = st, sg_count = length bs, sg_stake = sum_list (map bet_stake bs),
           sg_payout = sum_payouts bs\<rparr>)
        (remdups (map bet_status bets)))"

record revenue_summary =
  rs_byStatus :: "(string \<times> nat \<times> string \<times> string) list"
  rs_openCount :: nat
  rs_openStake :: string
  rs_settledStake :: string
  rs_payouts :: string
  rs_gross :: string

definition stake_or_0 :: "status_sums option \<Rightarrow> rat" where
  "stake_or_0 row = (case row of None \<Rightarrow> 0 | Some r \<Rightarrow> sg_stake r)"

definition payout_or_0 :: "status_sums option \<Rightarrow> rat" where
  "payout_or_0 row = (case row of None \<Rightarrow> 0 | Some r \<Rightarrow> (case sg_payout r of None \<Rightarrow> 0 | Some p \<Rightarrow> p))"

definition revenue_of :: "dec_lib \<Rightarrow> status_sums list \<Rightarrow> revenue_summary" where
  "revenue_of L bets =
     (let find = (\<lambda>st. row_find (\<lambda>r. sg_status r = st) bets);
          settledStake = foldl (\<lambda>t row. dl_plus L t (stake_or_0 row)) 0 [find Bet_WON, find Bet_LOST];
          payouts = foldl (\<lambda>t row. dl_plus L t (payout_or_0 row)) 0 [find Bet_WON, find Bet_VOID];
          ggr = dl_minus L settledStake payouts
      in \<lparr>rs_byStatus = map (\<lambda>r. (bet_status_text (sg_status r), sg_count r, decimalToString L (sg_stake r),
             (case sg_payout r of None \<Rightarrow> ''0'' | Some p \<Rightarrow> decimalToString L p))) bets,
          rs_openCount = (case find Bet_ACCEPTED of None \<Rightarrow> 0 | Some r \<Rightarrow> sg_count r),
          rs_openStake = (case find Bet_ACCEPTED of None \<Rightarrow> ''0'' | Some r \<Rightarrow> decimalToString L (sg_stake r)),
          rs_settledStake = decimalToString L settledStake,
          rs_payouts = decimalToString L payouts,
          rs_gross = decimalToString L ggr\<rparr>)"

definition analytics_summary :: "dec_lib \<Rightarrow> string \<Rightarrow> db \<Rightarrow> revenue_summary" where
  "analytics_summary L casinoGroupId d = revenue_of L (status_rows casinoGroupId d)"

text \<open>The daily revenue by sport.\<close>

record bucket =
  bk_date :: string
  bk_sportSlug :: string
  bk_sportName :: string
  bk_betCount :: nat
  bk_settledStake :: rat
  bk_payouts :: rat

definition clamp_days :: "int \<Rightarrow> int" where
  "clamp_days days = min (max days 1) 90"

definition since_day :: "int \<Rightarrow> int \<Rightarrow> int" where
  "since_day now days = (now div ms_per_day - (clamp_days days - 1)) * ms_per_day"

definition sport_of_event :: "db \<Rightarrow> string \<Rightarrow> sport_row option" where
  "sport_of_event d eventId =
     Option.bind (find_event eventId d) (\<lambda>e. Option.bind (find_fixture (ev_fixtureId e) d) (\<lambda>f.
     Option.bind (find_league (fx_leagueId f) d) (\<lambda>l. find_sport (lg_sportId l) d)))"

definition add_to_bucket :: "dec_lib \<Rightarrow> bet_row \<Rightarrow> bucket \<Rightarrow> bucket" where
  "add_to_bucket L bet row =
     row\<lparr>bk_betCount := bk_betCount row + 1,
         bk_settledStake := (if bet_status bet = Bet_WON \<or> bet_status bet = Bet_LOST
            then dl_plus L (bk_settledStake row) (bet_stake bet) else bk_settledStake row),
         bk_payouts := dl_plus L (bk_payouts row) (case bet_payoutAmount bet of None \<Rightarrow> 0 | Some p \<Rightarrow> p)\<rparr>"

text \<open>The key of a row is its date and sport; a new key comes last, as in a \<open>Map\<close>.\<close>

fun bucket_add :: "dec_lib \<Rightarrow> string \<Rightarrow> string \<Rightarrow> string \<Rightarrow> bet_row \<Rightarrow> bucket list \<Rightarrow> bucket list" where
  "bucket_add L date slug name bet [] =
     [add_to_bucket L bet \<lparr>bk_date = date, bk_sportSlug = slug, bk_sportName = name, bk_betCount = 0,
        bk_settledStake = 0, bk_payouts = 0\<rparr>]"
| "bucket_add L date slug name bet (row # rows) =
     (if bk_date row @ ''|'' @ bk_sportSlug row = date @ ''|'' @ slug then add_to_bucket L bet row # rows
      else row # bucket_add L date slug name bet rows)"

definition add_bet :: "dec_lib \<Rightarrow> db \<Rightarrow> bet_row \<Rightarrow> bucket list \<Rightarrow> bucket list" where
  "add_bet L d bet rows =
     (case bet_settledAt bet of
        None \<Rightarrow> rows
      | Some settledAt \<Rightarrow>
          let sport = (case sort_legs (legs_of (bet_id bet) d) of
                [] \<Rightarrow> None | leg # _ \<Rightarrow> sport_of_event d (leg_eventId leg)) in
          bucket_add L (iso_day settledAt)
            (case sport of None \<Rightarrow> ''unknown'' | Some sp \<Rightarrow> sp_slug sp)
            (case sport of None \<Rightarrow> ''Unknown'' | Some sp \<Rightarrow> sp_name sp) bet rows)"

record daily_row =
  dr_date :: string
  dr_sportSlug :: string
  dr_sportName :: string
  dr_betCount :: nat
  dr_settledStake :: string
  dr_payouts :: string
  dr_ggr :: string

record daily_report =
  dp_days :: int
  dp_since :: iso_date
  dp_rows :: "daily_row list"

definition daily_row_of :: "dec_lib \<Rightarrow> bucket \<Rightarrow> daily_row" where
  "daily_row_of L row =
     \<lparr>dr_date = bk_date row, dr_sportSlug = bk_sportSlug row, dr_sportName = bk_sportName row,
      dr_betCount = bk_betCount row, dr_settledStake = decimalToString L (bk_settledStake row),
      dr_payouts = decimalToString L (bk_payouts row),
      dr_ggr = decimalToString L (dl_minus L (bk_settledStake row) (bk_payouts row))\<rparr>"

definition settled_since :: "string \<Rightarrow> int \<Rightarrow> db \<Rightarrow> bet_row list" where
  "settled_since casinoGroupId since d =
     row_filter (\<lambda>b. bet_casinoGroupId b = casinoGroupId \<and>
       bet_status b \<in> {Bet_WON, Bet_LOST, Bet_VOID} \<and>
       (case bet_settledAt b of None \<Rightarrow> False | Some t \<Rightarrow> since \<le> t)) (db_bets d)"

definition dailyGgrBySport :: "dec_lib \<Rightarrow> (string \<Rightarrow> int) \<Rightarrow> string \<Rightarrow> int \<Rightarrow> int \<Rightarrow> db \<Rightarrow> daily_report" where
  "dailyGgrBySport L rank casinoGroupId days now d =
     (let since = since_day now days;
          buckets = foldl (\<lambda>rows bet. add_bet L d bet rows) [] (settled_since casinoGroupId since d)
      in \<lparr>dp_days = clamp_days days, dp_since = ISO since,
          dp_rows = order_desc (\<lambda>r. rank (dr_date r))
            (order_asc (\<lambda>r. rank (dr_sportSlug r)) (map (daily_row_of L) buckets))\<rparr>)"

subsection \<open>The audit log\<close>

record audit_query =
  aq_casinoGroupId :: "string option"
  aq_action :: "string option"
  aq_limit :: "int option"

record audit_dto =
  ad_id :: string
  ad_actorType :: string
  ad_actorId :: "string option"
  ad_casinoGroupId :: "string option"
  ad_action :: string
  ad_entityType :: string
  ad_entityId :: "string option"
  ad_before :: "(string \<times> string) list option"
  ad_after :: "(string \<times> string) list option"
  ad_reason :: "string option"
  ad_createdAt :: string

definition toAuditDto :: "string \<times> audit_row \<Rightarrow> audit_dto" where
  "toAuditDto p = (case p of (i, row) \<Rightarrow>
     \<lparr>ad_id = i, ad_actorType = au_actorType row, ad_actorId = au_actorId row,
      ad_casinoGroupId = au_casinoGroupId row, ad_action = au_action row,
      ad_entityType = au_entityType row, ad_entityId = au_entityId row, ad_before = au_before row,
      ad_after = au_after row, ad_reason = au_reason row, ad_createdAt = iso_text (au_createdAt row)\<rparr>)"

definition audit_where :: "string option \<Rightarrow> audit_query \<Rightarrow> audit_row \<Rightarrow> bool" where
  "audit_where casinoGroupId q row \<longleftrightarrow>
     (truthy (aq_casinoGroupId q) \<and> \<not> truthy casinoGroupId \<longrightarrow> au_casinoGroupId row = aq_casinoGroupId q) \<and>
     (truthy casinoGroupId \<longrightarrow> au_casinoGroupId row = casinoGroupId) \<and>
     (truthy (aq_action q) \<longrightarrow> str_includes (au_action row) (the (aq_action q)))"

definition read_audit ::
  "(nat \<Rightarrow> string) \<Rightarrow> int \<Rightarrow> string option \<Rightarrow> audit_query \<Rightarrow> db \<Rightarrow> audit_dto list" where
  "read_audit ids limit casinoGroupId q d =
     map toAuditDto (take (nat limit) (order_desc (\<lambda>(i, row). au_createdAt row)
       (row_filter (\<lambda>(i, row). audit_where casinoGroupId q row)
         (zip (map ids [0..<length (db_audit d)]) (db_audit d)))))"

definition searchAudit :: "(nat \<Rightarrow> string) \<Rightarrow> string option \<Rightarrow> audit_query \<Rightarrow> db \<Rightarrow> audit_dto list" where
  "searchAudit ids casinoGroupId q d =
     read_audit ids (min (case aq_limit q of None \<Rightarrow> 50 | Some n \<Rightarrow> n) 200) casinoGroupId q d"

definition exportAudit :: "(nat \<Rightarrow> string) \<Rightarrow> string option \<Rightarrow> audit_query \<Rightarrow> db \<Rightarrow> audit_dto list" where
  "exportAudit ids casinoGroupId q d =
     read_audit ids (min (case aq_limit q of None \<Rightarrow> 2000 | Some n \<Rightarrow> n) 5000) casinoGroupId q d"

text \<open>The tenant an audit request is about: only a super administrator may leave it out.\<close>

definition audit_group :: "staff_context \<Rightarrow> string option \<Rightarrow> db \<Rightarrow> string option result" where
  "audit_group staff requested d =
     (if truthy (sx_casinoGroupId staff) then Inr (sx_casinoGroupId staff)
      else if truthy requested then
        (case resolveCasinoGroupId staff requested d of Inl e \<Rightarrow> Inl e | Inr g \<Rightarrow> Inr (Some g))
      else if \<not> hasStaffRole (sx_roles staff) SUPER_ADMIN then
        Inl (BadRequest ''Query parameter casinoGroupId is required for platform operators'')
      else Inr None)"

definition audit_limit_ok :: "int option \<Rightarrow> bool" where
  "audit_limit_ok limit \<longleftrightarrow> (case limit of None \<Rightarrow> True | Some n \<Rightarrow> 1 \<le> n \<and> n \<le> 5000)"

text \<open>The route of a search: an absent limit is 50 by the request's default.\<close>

definition route_audit ::
  "(nat \<Rightarrow> string) \<Rightarrow> staff_context \<Rightarrow> audit_query \<Rightarrow> db \<Rightarrow> audit_dto list result" where
  "route_audit ids staff q d =
     (case audit_group staff (aq_casinoGroupId q) d of
        Inl e \<Rightarrow> Inl e
      | Inr g \<Rightarrow> Inr (searchAudit ids g \<lparr>aq_casinoGroupId = g, aq_action = aq_action q,
          aq_limit = Some (case aq_limit q of None \<Rightarrow> 50 | Some n \<Rightarrow> n)\<rparr> d))"

subsection \<open>The CSV export\<close>

definition needs_quotes :: "string \<Rightarrow> bool" where
  "needs_quotes v \<longleftrightarrow> list_ex (\<lambda>c. c = CHR 0x22 \<or> c = CHR '','' \<or> c = CHR 0x0A) v"

definition escapeCsv :: "string \<Rightarrow> string" where
  "escapeCsv v =
     (if needs_quotes v then [CHR 0x22] @ replace_char (CHR 0x22) [CHR 0x22, CHR 0x22] v @ [CHR 0x22] else v)"

definition csv_header :: "string list" where
  "csv_header = [''id'', ''createdAt'', ''actorType'', ''actorId'', ''casinoGroupId'', ''action'',
     ''entityType'', ''entityId'', ''reason'']"

definition or_empty :: "string option \<Rightarrow> string" where
  "or_empty x = (case x of None \<Rightarrow> [] | Some t \<Rightarrow> t)"

definition csv_cells :: "audit_dto \<Rightarrow> string list" where
  "csv_cells row = [ad_id row, ad_createdAt row, ad_actorType row, or_empty (ad_actorId row),
     or_empty (ad_casinoGroupId row), ad_action row, ad_entityType row, or_empty (ad_entityId row),
     or_empty (ad_reason row)]"

definition auditRowsToCsv :: "audit_dto list \<Rightarrow> string" where
  "auditRowsToCsv rows =
     join_with [CHR 0x0A] (join_with '','' csv_header #
       map (\<lambda>row. join_with '','' (map escapeCsv (csv_cells row))) rows)"

subsection \<open>The route of an export\<close>

text \<open>The request's default of 50 applies before the 2000 of the service.\<close>

datatype export_answer = Export_json nat "audit_dto list" | Export_csv string

definition route_exportAudit ::
  "(nat \<Rightarrow> string) \<Rightarrow> staff_context \<Rightarrow> audit_query \<Rightarrow> string option \<Rightarrow> db \<Rightarrow> export_answer result" where
  "route_exportAudit ids staff q format d =
     (case audit_group staff (aq_casinoGroupId q) d of
        Inl e \<Rightarrow> Inl e
      | Inr g \<Rightarrow>
          let rows = exportAudit ids g \<lparr>aq_casinoGroupId = g, aq_action = aq_action q,
                aq_limit = Some (case aq_limit q of None \<Rightarrow> 50 | Some n \<Rightarrow> n)\<rparr> d in
          Inr (if format = Some ''csv'' then Export_csv (auditRowsToCsv rows)
               else Export_json (length rows) rows))"

text \<open>A reader of such a text (RFC 4180 with line feeds).\<close>

datatype csv_mode = At_start | In_plain | In_quoted

fun read_csv :: "csv_mode \<Rightarrow> string \<Rightarrow> string list \<Rightarrow> string \<Rightarrow> string list list" where
  "read_csv m acc row [] = [rev (rev acc # row)]"
| "read_csv In_quoted acc row (c # s) =
     (if c \<noteq> CHR 0x22 then read_csv In_quoted (c # acc) row s
      else case s of
        [] \<Rightarrow> read_csv In_plain acc row []
      | x # s' \<Rightarrow> if x = CHR 0x22 then read_csv In_quoted (x # acc) row s' else read_csv In_plain acc row s)"
| "read_csv m acc row (c # s) =
     (if m = At_start \<and> c = CHR 0x22 then read_csv In_quoted [] row s
      else if c = CHR '','' then read_csv At_start [] (rev acc # row) s
      else if c = CHR 0x0A then rev (rev acc # row) # read_csv At_start [] [] s
      else read_csv In_plain (c # acc) row s)"

definition parse_csv :: "string \<Rightarrow> string list list" where
  "parse_csv s = read_csv At_start [] [] s"

text \<open>Where a cell may end.\<close>

definition ends_cell :: "string \<Rightarrow> bool" where
  "ends_cell s \<longleftrightarrow> (case s of [] \<Rightarrow> True | c # _ \<Rightarrow> c = CHR '','' \<or> c = CHR 0x0A)"

lemma read_end:
  "ends_cell rest \<Longrightarrow> read_csv At_start acc row rest = read_csv In_plain acc row rest"
  by (cases rest) (auto simp: ends_cell_def)

lemma read_plain:
  "\<not> needs_quotes v \<Longrightarrow> read_csv In_plain acc row (v @ rest) = read_csv In_plain (rev v @ acc) row rest"
  by (induction v arbitrary: acc) (auto simp: needs_quotes_def)

lemma read_quoted:
  "ends_cell rest \<Longrightarrow>
   read_csv In_quoted acc row (replace_char (CHR 0x22) [CHR 0x22, CHR 0x22] v @ CHR 0x22 # rest) =
     read_csv In_plain (rev v @ acc) row rest"
proof (induction v arbitrary: acc)
  case Nil
  then show ?case by (cases rest) (auto simp: replace_char_def ends_cell_def)
next
  case (Cons c v)
  then show ?case by (simp add: replace_char_def)
qed

lemma read_cell:
  assumes "ends_cell rest"
  shows "read_csv At_start [] row (escapeCsv v @ rest) = read_csv In_plain (rev v) row rest"
proof (cases "needs_quotes v")
  case True
  with read_quoted [OF assms, of "[]" row v] show ?thesis by (simp add: escapeCsv_def)
next
  case False
  then have "escapeCsv v = v" by (simp add: escapeCsv_def)
  moreover have "read_csv At_start [] row (v @ rest) = read_csv In_plain [] row (v @ rest)"
  proof (cases v)
    case Nil
    with read_end [OF assms] show ?thesis by simp
  next
    case (Cons c w)
    with False show ?thesis by (simp add: needs_quotes_def)
  qed
  ultimately show ?thesis using read_plain [OF False, of "[]" row rest] by simp
qed

lemma read_line:
  assumes "rest = [] \<or> hd rest = CHR 0x0A" and "cells \<noteq> []"
  shows "read_csv At_start [] row (join_with '','' (map escapeCsv cells) @ rest) =
    (rev row @ cells) # (case rest of [] \<Rightarrow> [] | _ # s \<Rightarrow> read_csv At_start [] [] s)"
  using assms(2)
proof (induction cells arbitrary: row rule: list_nonempty_induct)
  case (single x)
  from assms(1) have "ends_cell rest" by (cases rest) (auto simp: ends_cell_def)
  with assms(1) show ?case by (cases rest) (auto simp: read_cell [of "[]" row x, simplified] read_cell)
next
  case (cons x xs)
  then obtain y ys where xs: "xs = y # ys" by (cases xs) auto
  have "read_csv At_start [] row (escapeCsv x @ CHR '','' # join_with '','' (map escapeCsv xs) @ rest) =
      read_csv At_start [] (x # row) (join_with '','' (map escapeCsv xs) @ rest)"
    by (subst read_cell) (simp_all add: ends_cell_def)
  with cons.IH [of "x # row"] xs show ?case by simp
qed

lemma escape_header: "map escapeCsv csv_header = csv_header"
  by (simp add: csv_header_def escapeCsv_def needs_quotes_def)

lemma read_lines:
  assumes "\<forall>cells \<in> set rows. cells \<noteq> []" and "rows \<noteq> []"
  shows "read_csv At_start [] [] (join_with [CHR 0x0A] (map (\<lambda>cells. join_with '','' (map escapeCsv cells)) rows)) = rows"
  using assms(2,1)
proof (induction rows rule: list_nonempty_induct)
  case (single x)
  with read_line [of "[]" x "[]"] show ?case by simp
next
  case (cons x xs)
  then obtain y ys where xs: "xs = y # ys" by (cases xs) auto
  with cons read_line [of "CHR 0x0A # join_with [CHR 0x0A] (map (\<lambda>cells. join_with '','' (map escapeCsv cells)) xs)" x "[]"]
  show ?case by simp
qed

end
