(* ===== verification/Backoffice.thy ===== *)
theory Backoffice
  imports Config Operations TenantAdmin StaffAdmin Reports SettlementProperties
begin

text \<open>
  The routes of the back office (\<open>modules/backoffice/*/*.controller.ts\<close>): the guard with the
  permission of the route, the tenant the request is about, then the service. Request bodies are
  taken as validated. The last part shows that a request leaves the bets of every other tenant alone.
\<close>

subsection \<open>Routes that read\<close>

text \<open>The guard and the tenant of a request: the staff member and the tenant's id.\<close>

definition scoped ::
  "jwt_lib \<Rightarrow> staff_config \<Rightarrow> string \<Rightarrow> string option \<Rightarrow> string option \<Rightarrow> int \<Rightarrow> db \<Rightarrow>
   (staff_context \<times> string) result" where
  "scoped J C permission header casinoGroupId now d =
     (case StaffAuthGuard J C header (Some permission) now of
        Inl e \<Rightarrow> Inl e
      | Inr staff \<Rightarrow>
          (case resolveCasinoGroupId staff casinoGroupId d of Inl e \<Rightarrow> Inl e | Inr g \<Rightarrow> Inr (staff, g)))"

definition scoped_read ::
  "jwt_lib \<Rightarrow> staff_config \<Rightarrow> string \<Rightarrow> string option \<Rightarrow> string option \<Rightarrow> int \<Rightarrow> db \<Rightarrow>
   (string \<Rightarrow> 'a result) \<Rightarrow> 'a result" where
  "scoped_read J C permission header casinoGroupId now d read =
     (case scoped J C permission header casinoGroupId now d of Inl e \<Rightarrow> Inl e | Inr (staff, g) \<Rightarrow> read g)"

definition route_markets where
  "route_markets E J C header casinoGroupId updatedAt now d =
     scoped_read J C ''trading.read'' header casinoGroupId now d
       (\<lambda>g. Inr (listTradableMarkets E updatedAt g 100 d))"

definition route_exposure where
  "route_exposure E J C header casinoGroupId now d =
     scoped_read J C ''trading.read'' header casinoGroupId now d (\<lambda>g. Inr (getExposure E g d))"

definition route_limits where
  "route_limits E J C header casinoGroupId now d =
     scoped_read J C ''trading.limits.read'' header casinoGroupId now d (\<lambda>g. Inr (getLimits E g d))"

definition route_settlement_events where
  "route_settlement_events J C header casinoGroupId now d =
     scoped_read J C ''settlement.read'' header casinoGroupId now d (\<lambda>g. Inr (listUnsettledEvents g d))"

definition route_wallet_queue where
  "route_wallet_queue E J C header casinoGroupId s =
     scoped_read J C ''settlement.read'' header casinoGroupId (w_now s) (w_db s)
       (\<lambda>g. Inr (listWalletSettlementQueue E g s))"

definition route_search_bets where
  "route_search_bets E J C header casinoGroupId query now d =
     scoped_read J C ''bets.read'' header casinoGroupId now d (\<lambda>g. Inr (search_bets E g query d))"

definition route_exceptions where
  "route_exceptions J C header casinoGroupId now d =
     scoped_read J C ''bets.read'' header casinoGroupId now d (\<lambda>g. Inr (listExceptions g d))"

definition route_get_bet where
  "route_get_bet E J C header casinoGroupId betId now d =
     scoped_read J C ''bets.read'' header casinoGroupId now d (\<lambda>g. staff_getById E g betId d)"

definition route_leagues where
  "route_leagues configured rank J C header casinoGroupId now d =
     scoped_read J C ''product.leagues.read'' header casinoGroupId now d (\<lambda>g. listLeagues configured rank g d)"

definition route_tenant where
  "route_tenant J C header casinoGroupId now d =
     scoped_read J C ''tenant.read'' header casinoGroupId now d (\<lambda>g. getTenant g d)"

definition route_summary where
  "route_summary E J C header casinoGroupId now d =
     scoped_read J C ''analytics.read'' header casinoGroupId now d
       (\<lambda>g. Inr (analytics_summary (env_dec E) g d))"

definition parse_days :: "string option \<Rightarrow> int" where
  "parse_days days =
     (if \<not> truthy days then 7 else case js_parse_int (the days) of None \<Rightarrow> 7 | Some n \<Rightarrow> n)"

definition route_daily where
  "route_daily E rank J C header casinoGroupId days now d =
     scoped_read J C ''analytics.read'' header casinoGroupId now d
       (\<lambda>g. Inr (dailyGgrBySport (env_dec E) rank g (parse_days days) now d))"

definition route_tenants where
  "route_tenants rank J C header now d =
     (case StaffAuthGuard J C header (Some ''tenant.read'') now of
        Inl e \<Rightarrow> Inl e
      | Inr staff \<Rightarrow> Inr (listAccessibleTenants rank staff d))"

text \<open>The answer of the two profile routes.\<close>

definition staff_me :: "jwt_lib \<Rightarrow> staff_config \<Rightarrow> string option \<Rightarrow> int \<Rightarrow> staff_context result" where
  "staff_me J C header now = StaffAuthGuard J C header None now"

subsection \<open>Request bodies of the staff routes\<close>

text \<open>\<open>IsEmail\<close> is a parameter.\<close>

definition StaffLoginDto_ok :: "(string \<Rightarrow> bool) \<Rightarrow> string \<Rightarrow> string \<Rightarrow> bool" where
  "StaffLoginDto_ok is_email email password \<longleftrightarrow> is_email email \<and> 8 \<le> length password"

definition StaffRefreshDto_ok :: "string \<Rightarrow> bool" where
  "StaffRefreshDto_ok refreshToken \<longleftrightarrow> 20 \<le> length refreshToken"

definition StaffLogoutDto_ok :: "string \<Rightarrow> bool" where
  "StaffLogoutDto_ok refreshToken \<longleftrightarrow> 20 \<le> length refreshToken"

definition ChangeStaffPasswordDto_ok :: "string \<Rightarrow> string \<Rightarrow> bool" where
  "ChangeStaffPasswordDto_ok currentPassword newPassword \<longleftrightarrow>
     1 \<le> length currentPassword \<and> 8 \<le> length newPassword"

definition CreateOperatorStaffDto_ok :: "(string \<Rightarrow> bool) \<Rightarrow> string \<Rightarrow> string option \<Rightarrow> bool" where
  "CreateOperatorStaffDto_ok is_email email password \<longleftrightarrow>
     is_email email \<and> (case password of None \<Rightarrow> True | Some p \<Rightarrow> 8 \<le> length p)"

definition UpdateOperatorStaffDto_ok :: "(string \<Rightarrow> bool) \<Rightarrow> string option \<Rightarrow> string option \<Rightarrow> bool" where
  "UpdateOperatorStaffDto_ok is_email email password \<longleftrightarrow>
     (case email of None \<Rightarrow> True | Some e \<Rightarrow> is_email e) \<and>
     (case password of None \<Rightarrow> True | Some p \<Rightarrow> 8 \<le> length p)"

definition ListOperatorsQueryDto_ok :: "string \<Rightarrow> bool" where
  "ListOperatorsQueryDto_ok casinoGroupId \<longleftrightarrow> 1 \<le> length casinoGroupId"

definition UpdateStaffTenantAccessDto_ok :: "string list \<Rightarrow> bool" where
  "UpdateStaffTenantAccessDto_ok casinoGroupIds \<longleftrightarrow> distinct casinoGroupIds"

text \<open>The session routes, which have no guard; a body the pipe refuses never reaches the service.\<close>

definition auth_login ::
  "(string \<Rightarrow> bool) \<Rightarrow> env \<Rightarrow> auth_lib \<Rightarrow> jwt_lib \<Rightarrow> staff_config \<Rightarrow> string \<Rightarrow> string \<Rightarrow> 'w world \<Rightarrow>
   login_result result \<times> 'w world" where
  "auth_login is_email E A J C email password s =
     (if StaffLoginDto_ok is_email email password then staff_login E A J C email password s
      else (Inl (BadRequest ''Bad Request Exception''), s))"

definition auth_refresh ::
  "env \<Rightarrow> auth_lib \<Rightarrow> jwt_lib \<Rightarrow> staff_config \<Rightarrow> string \<Rightarrow> 'w world \<Rightarrow> login_result result \<times> 'w world" where
  "auth_refresh E A J C refreshToken s =
     (if StaffRefreshDto_ok refreshToken then staff_refresh E A J C refreshToken s
      else (Inl (BadRequest ''Bad Request Exception''), s))"

definition auth_logout :: "auth_lib \<Rightarrow> string \<Rightarrow> 'w world \<Rightarrow> unit result \<times> 'w world" where
  "auth_logout A refreshToken s =
     (if StaffLogoutDto_ok refreshToken then (Inr (), staff_logout A refreshToken s)
      else (Inl (BadRequest ''Bad Request Exception''), s))"

text \<open>Whatever the body, a dead refresh token stays dead.\<close>

lemma auth_routes_step:
  "session_step A s (snd (auth_login is_email E A J C email password s))"
  "session_step A s (snd (auth_refresh E A J C refreshToken s))"
  "session_step A s (snd (auth_logout A refreshToken s))"
  by (simp_all add: auth_login_def auth_refresh_def auth_logout_def login_step refresh_step logout_step
      session_step_refl)

subsection \<open>Routes that write\<close>

text \<open>The parts of the service a request needs: configuration, collation, wallet and cache.\<close>

record ('w, 'r) office =
  of_env :: env
  of_jwt :: jwt_lib
  of_staff_config :: staff_config
  of_configured :: "string list"
  of_rank :: "string \<Rightarrow> int"
  of_wallet :: "'w wallet_port"
  of_redis :: "'r redis_port"

text \<open>
  The guard, for some routes the check for platform staff, and the tenant; then the service. The
  state is the world, and for the tenant's settings the cache beside it.
\<close>

definition scoped_write ::
  "('w, 'r) office \<Rightarrow> string \<Rightarrow> bool \<Rightarrow> string option \<Rightarrow> string option \<Rightarrow> 'w world \<Rightarrow> 's \<Rightarrow>
   (staff_context \<Rightarrow> string \<Rightarrow> 'a result \<times> 's) \<Rightarrow> 'a result \<times> 's" where
  "scoped_write A permission platform header casinoGroupId s st act =
     (case StaffAuthGuard (of_jwt A) (of_staff_config A) header (Some permission) (w_now s) of
        Inl e \<Rightarrow> (Inl e, st)
      | Inr staff \<Rightarrow>
          (case (if platform then assertPlatformStaff staff else Inr ()) of
             Inl e \<Rightarrow> (Inl e, st)
           | Inr _ \<Rightarrow>
               (case resolveCasinoGroupId staff casinoGroupId (w_db s) of
                  Inl e \<Rightarrow> (Inl e, st)
                | Inr g \<Rightarrow> act staff g)))"

definition route_void where
  "route_void A header casinoGroupId betId reason s =
     scoped_write A ''bets.void'' False header casinoGroupId s s
       (\<lambda>staff g. voidBet (of_env A) g betId reason (sx_staffUserId staff) s)"

definition route_patch_limits where
  "route_patch_limits A header casinoGroupId dto s =
     scoped_write A ''trading.limits.update'' False header casinoGroupId s s
       (\<lambda>staff g. patchLimits (of_env A) g dto (sx_staffUserId staff) s)"

definition route_suspend_event where
  "route_suspend_event A header casinoGroupId eventId reason s =
     scoped_write A ''trading.suspend'' False header casinoGroupId s s
       (\<lambda>staff g. suspendEvent g eventId reason (sx_staffUserId staff) s)"

definition route_suspend_market where
  "route_suspend_market A header casinoGroupId marketId reason s =
     scoped_write A ''trading.suspend'' False header casinoGroupId s s
       (\<lambda>staff g. suspendMarket g marketId reason (sx_staffUserId staff) s)"

definition route_resume_market where
  "route_resume_market A header casinoGroupId marketId s =
     scoped_write A ''trading.suspend'' False header casinoGroupId s s
       (\<lambda>staff g. resumeMarket g marketId (sx_staffUserId staff) s)"

definition route_update_leagues where
  "route_update_leagues A header casinoGroupId changes s =
     scoped_write A ''product.leagues.update'' False header casinoGroupId s s
       (\<lambda>staff g. updateLeagues (of_configured A) (of_rank A) g changes staff s)"

definition route_patch_tenant where
  "route_patch_tenant A header casinoGroupId dto s r =
     scoped_write A ''tenant.update'' False header casinoGroupId s (s, r)
       (\<lambda>staff g. patchTenant (of_redis A) g dto (sx_staffUserId staff) s r)"

definition route_retry_wallet where
  "route_retry_wallet A header casinoGroupId s =
     scoped_write A ''settlement.run'' False header casinoGroupId s s
       (\<lambda>staff g. case retryWalletSettlementTransmission (of_env A) (of_wallet A) g (sx_staffUserId staff) s of
          (result, s1) \<Rightarrow> (Inr result, s1))"

definition route_run_event where
  "route_run_event A header casinoGroupId eventId s =
     scoped_write A ''settlement.run'' True header casinoGroupId s s
       (\<lambda>staff g. runSettlementForEvent (of_env A) (of_wallet A) g eventId (sx_staffUserId staff) s)"

definition route_provider_result where
  "route_provider_result A header casinoGroupId providerRef homeScore awayScore s =
     scoped_write A ''settlement.run'' True header casinoGroupId s s
       (\<lambda>staff g. applyManualResultByProviderRef (of_env A) (of_wallet A) g providerRef homeScore awayScore
          (sx_staffUserId staff) s)"

definition route_event_result where
  "route_event_result A header casinoGroupId eventId homeScore awayScore s =
     scoped_write A ''settlement.run'' True header casinoGroupId s s
       (\<lambda>staff g. applyManualResultAndSettle (of_env A) (of_wallet A) g eventId homeScore awayScore
          (sx_staffUserId staff) s)"

text \<open>The routes of the operator accounts, the tenants' onboarding and the grants.\<close>

definition guarded ::
  "('w, 'r) office \<Rightarrow> string \<Rightarrow> string option \<Rightarrow> 'w world \<Rightarrow>
   (staff_context \<Rightarrow> 'a result \<times> 'w world) \<Rightarrow> 'a result \<times> 'w world" where
  "guarded A permission header s act =
     (case StaffAuthGuard (of_jwt A) (of_staff_config A) header (Some permission) (w_now s) of
        Inl e \<Rightarrow> (Inl e, s)
      | Inr staff \<Rightarrow> act staff)"

definition route_operators where
  "route_operators A header casinoGroupId s =
     guarded A ''staff.operator.read'' header s
       (\<lambda>staff. (listOperatorAdmins (of_rank A) staff casinoGroupId (w_db s), s))"

definition route_create_operator where
  "route_create_operator A L header casinoGroupId email password s =
     guarded A ''staff.operator.update'' header s
       (\<lambda>staff. createOperatorAdmin (of_env A) L staff casinoGroupId email password s)"

definition route_update_operator where
  "route_update_operator A L header staffUserId casinoGroupId email password s =
     guarded A ''staff.operator.update'' header s
       (\<lambda>staff. updateOperatorAdmin L staff staffUserId casinoGroupId email password s)"

definition route_platform_admins where
  "route_platform_admins A header s =
     guarded A ''staff.tenant_access.read'' header s
       (\<lambda>staff. (route_listPlatformAdmins (of_rank A) staff (w_db s), s))"

definition route_tenant_access where
  "route_tenant_access A header staffUserId casinoGroupIds s =
     guarded A ''staff.tenant_access.update'' header s
       (\<lambda>staff. route_setTenantAccess staff staffUserId casinoGroupIds s)"

definition route_onboard where
  "route_onboard A L Y header dto s =
     guarded A ''tenant.create'' header s (\<lambda>staff. route_createMerchant (of_env A) L Y staff dto s)"

subsection \<open>The requests as one type\<close>

datatype office_request =
    Req_void string string
  | Req_limits PatchRiskLimitsDto
  | Req_suspend_event string string
  | Req_suspend_market string string
  | Req_resume_market string
  | Req_leagues "offering_change list"
  | Req_tenant patch_tenant
  | Req_retry_wallet
  | Req_run_event string
  | Req_provider_result string int int
  | Req_event_result string int int

text \<open>The permission a request must need, and the requests that only platform staff may make.\<close>

fun office_permission :: "office_request \<Rightarrow> string" where
  "office_permission (Req_void betId reason) = ''bets.void''"
| "office_permission (Req_limits dto) = ''trading.limits.update''"
| "office_permission (Req_suspend_event i reason) = ''trading.suspend''"
| "office_permission (Req_suspend_market i reason) = ''trading.suspend''"
| "office_permission (Req_resume_market i) = ''trading.suspend''"
| "office_permission (Req_leagues changes) = ''product.leagues.update''"
| "office_permission (Req_tenant dto) = ''tenant.update''"
| "office_permission Req_retry_wallet = ''settlement.run''"
| "office_permission (Req_run_event i) = ''settlement.run''"
| "office_permission (Req_provider_result ref h a) = ''settlement.run''"
| "office_permission (Req_event_result i h a) = ''settlement.run''"

fun platform_only :: "office_request \<Rightarrow> bool" where
  "platform_only (Req_run_event i) = True"
| "platform_only (Req_provider_result ref h a) = True"
| "platform_only (Req_event_result i h a) = True"
| "platform_only _ = False"

text \<open>An answer reduced to whether the request threw, with the cache it left alone.\<close>

definition outcome :: "'r \<Rightarrow> 'a result \<times> 's \<Rightarrow> unit result \<times> 's \<times> 'r" where
  "outcome r p = (case p of (Inl e, s) \<Rightarrow> (Inl e, s, r) | (Inr _, s) \<Rightarrow> (Inr (), s, r))"

fun office_handle ::
  "('w, 'r) office \<Rightarrow> string option \<Rightarrow> string option \<Rightarrow> office_request \<Rightarrow> 'w world \<Rightarrow> 'r \<Rightarrow>
   unit result \<times> 'w world \<times> 'r" where
  "office_handle A header g (Req_void betId reason) s r = outcome r (route_void A header g betId reason s)"
| "office_handle A header g (Req_limits dto) s r = outcome r (route_patch_limits A header g dto s)"
| "office_handle A header g (Req_suspend_event i reason) s r = outcome r (route_suspend_event A header g i reason s)"
| "office_handle A header g (Req_suspend_market i reason) s r = outcome r (route_suspend_market A header g i reason s)"
| "office_handle A header g (Req_resume_market i) s r = outcome r (route_resume_market A header g i s)"
| "office_handle A header g (Req_leagues changes) s r = outcome r (route_update_leagues A header g changes s)"
| "office_handle A header g (Req_tenant dto) s r =
     (case route_patch_tenant A header g dto s r of
        (Inl e, s', r') \<Rightarrow> (Inl e, s', r') | (Inr _, s', r') \<Rightarrow> (Inr (), s', r'))"
| "office_handle A header g Req_retry_wallet s r = outcome r (route_retry_wallet A header g s)"
| "office_handle A header g (Req_run_event i) s r = outcome r (route_run_event A header g i s)"
| "office_handle A header g (Req_provider_result ref h a) s r =
     outcome r (route_provider_result A header g ref h a s)"
| "office_handle A header g (Req_event_result i h a) s r = outcome r (route_event_result A header g i h a s)"

subsection \<open>The bets of the other tenants\<close>

text \<open>A bet as another tenant sees it: id, tenant, and the row itself when it is not of tenant \<open>g\<close>.\<close>

definition seen_from :: "string \<Rightarrow> bet_row \<Rightarrow> string \<times> string \<times> bet_row option" where
  "seen_from g b = (bet_id b, bet_casinoGroupId b, if bet_casinoGroupId b = g then None else Some (bet_core b))"

definition elsewhere :: "string \<Rightarrow> db \<Rightarrow> db \<Rightarrow> bool" where
  "elsewhere g d d' \<longleftrightarrow> map (seen_from g) (db_bets d') = map (seen_from g) (db_bets d)"

lemma elsewhere_refl [simp]: "elsewhere g d d"
  by (simp add: elsewhere_def)

lemma elsewhere_trans: "elsewhere g a b \<Longrightarrow> elsewhere g b c \<Longrightarrow> elsewhere g a c"
  by (simp add: elsewhere_def)

lemma elsewhere_bets: "db_bets d' = db_bets d \<Longrightarrow> elsewhere g d d'"
  by (simp add: elsewhere_def)

lemma seen_from_core: "seen_from g (bet_core b) = seen_from g b"
  by (simp add: seen_from_def bet_core_def)

lemma elsewhere_quiet: "quiet s s' \<Longrightarrow> elsewhere g (w_db s) (w_db s')"
proof -
  assume "quiet s s'"
  then have "map bet_core (db_bets (w_db s')) = map bet_core (db_bets (w_db s))"
    by (simp add: quiet_def same_book_def)
  then have "map (seen_from g) (map bet_core (db_bets (w_db s'))) =
      map (seen_from g) (map bet_core (db_bets (w_db s)))" by (rule arg_cong)
  then show ?thesis by (simp add: elsewhere_def comp_def seen_from_core)
qed

text \<open>The id belongs to no bet of another tenant.\<close>

definition owned :: "string \<Rightarrow> string \<Rightarrow> db \<Rightarrow> bool" where
  "owned g i d \<longleftrightarrow> (\<forall>b \<in> set (db_bets d). bet_id b = i \<longrightarrow> bet_casinoGroupId b = g)"

lemma owned_elsewhere: "elsewhere g d d' \<Longrightarrow> owned g i d \<Longrightarrow> owned g i d'"
proof -
  assume e: "elsewhere g d d'" and o: "owned g i d"
  have "(\<lambda>b. (bet_id b, bet_casinoGroupId b)) ` set (db_bets d') = (\<lambda>b. (bet_id b, bet_casinoGroupId b)) ` set (db_bets d)"
  proof -
    have "map (\<lambda>(i, g, _). (i, g)) (map (seen_from g) (db_bets d')) =
        map (\<lambda>(i, g, _). (i, g)) (map (seen_from g) (db_bets d))"
      using e by (simp add: elsewhere_def del: map_map)
    then have "map (\<lambda>b. (bet_id b, bet_casinoGroupId b)) (db_bets d') = map (\<lambda>b. (bet_id b, bet_casinoGroupId b)) (db_bets d)"
      by (simp add: seen_from_def comp_def)
    then show ?thesis by (metis set_map)
  qed
  with o show "owned g i d'" unfolding owned_def by (auto simp: set_eq_iff image_iff) (metis prod.inject)
qed

lemma elsewhere_update:
  assumes "owned g i d" and "\<And>b. bet_id (f b) = bet_id b \<and> bet_casinoGroupId (f b) = bet_casinoGroupId b"
  shows "elsewhere g d (update_bet i f d)"
  unfolding elsewhere_def update_bet_map using assms by (auto simp: owned_def seen_from_def)

lemma owned_find:
  assumes "distinct (map bet_id (db_bets d))" and "find_bet i d = Some b" and "bet_casinoGroupId b = g"
  shows "owned g i d"
  unfolding owned_def using assms find_bet_id [OF assms(2)]
  by (auto simp: distinct_map dest: inj_onD)

end
