(* ===== verification/OfficeScope.thy ===== *)
theory OfficeScope
  imports Backoffice
begin

text \<open>
  A back-office request for one tenant leaves the bets of every other tenant as they were: the void
  of a bet, the settlement of an event, the retransmission of payments, and the requests that do not
  touch bets at all.
\<close>

subsection \<open>Bets of one tenant\<close>

lemma elsewhere_ids: "elsewhere g d d' \<Longrightarrow> map bet_id (db_bets d') = map bet_id (db_bets d)"
proof -
  assume "elsewhere g d d'"
  then have "map fst (map (seen_from g) (db_bets d')) = map fst (map (seen_from g) (db_bets d))"
    by (simp add: elsewhere_def del: map_map)
  then show ?thesis by (simp add: seen_from_def comp_def)
qed

lemma elsewhere_settled:
  assumes "owned g i d" and "db_bets d' = db_bets (update_bet i (settle_bet_row st p now note) (set_leg_outcomes os d))"
  shows "elsewhere g d d'"
proof -
  have "owned g i (set_leg_outcomes os d)" using assms(1) by (simp add: owned_def)
  then have "elsewhere g (set_leg_outcomes os d) (update_bet i (settle_bet_row st p now note) (set_leg_outcomes os d))"
    by (rule elsewhere_update) (simp add: settle_bet_row_def)
  with assms(2) show ?thesis by (simp add: elsewhere_def)
qed

lemma owned_bet:
  assumes "distinct (map bet_id (db_bets d))" and "b \<in> set (db_bets d)" and "bet_casinoGroupId b = g"
  shows "owned g (bet_id b) d"
  using assms by (auto simp: owned_def distinct_map dest: inj_onD)

lemma voidBet_elsewhere:
  assumes "distinct (map bet_id (db_bets (w_db s)))"
  shows "elsewhere g (w_db s) (w_db (snd (voidBet E g i reason u s)))"
proof -
  obtain res s' where p: "voidBet E g i reason u s = (res, s')" by fastforce
  from p have "elsewhere g (w_db s) (w_db s')"
  proof (cases rule: voidBet_cases)
    case (refused e)
    then show ?thesis by simp
  next
    case (voided bet t d3 dto)
    have "bet \<in> set (db_bets (w_db s))" "bet_casinoGroupId bet = g"
      using voided(1) by (auto simp: find_group_bet_def dest!: row_find_SomeD)
    then have "owned g (bet_id bet) (w_db s)" using assms by (intro owned_bet)
    from elsewhere_settled [OF this create_outbox_InrD(1) [OF voided(4)]]
    have "elsewhere g (w_db s) d3" .
    with voided(6) show ?thesis by (simp add: staff_audit_def elsewhere_def)
  qed
  with p show ?thesis by simp
qed

lemma persist_one_elsewhere:
  assumes "owned g (bet_id (gr_bet en)) (w_db s)"
  shows "elsewhere g (w_db s) (w_db (snd (persist_one E en batch s)))"
proof -
  obtain res s' where p: "persist_one E en batch s = (res, s')" by fastforce
  from p have "elsewhere g (w_db s) (w_db s')"
  proof (cases rule: persist_one_cases)
    case (failed e)
    then show ?thesis by simp
  next
    case (persisted t d3)
    from elsewhere_settled [OF assms create_outbox_InrD(1) [OF persisted(3)]] persisted(4)
    show ?thesis by simp
  qed
  with p show ?thesis by simp
qed

lemma trySettleBet_elsewhere:
  assumes "owned g i (w_db s)"
  shows "elsewhere g (w_db s) (w_db (snd (trySettleBet E P i s)))"
proof (cases "gradeBet (env_dec E) (w_db s) i")
  case None
  then show ?thesis by (simp add: trySettleBet_def)
next
  case (Some en)
  have own: "owned g (bet_id (gr_bet en)) (w_db s)" and fin: "is_final_result (gr_betResult en)"
    using assms gradeBet_SomeD(2,4) [OF Some] by simp_all
  define s0 where "s0 = s\<lparr>w_seq := w_seq s + 1\<rparr>"
  obtain r s1 where p: "persist_one E en (env_gen E (w_seq s)) s0 = (r, s1)" by fastforce
  have "elsewhere g (w_db s) (w_db s1)"
    using persist_one_elsewhere [of g en s0 E] own p by (simp add: s0_def) (metis snd_conv)
  moreover have "elsewhere g (w_db s1) (w_db (snd (flushSettlementBatches E P s1)))"
    by (simp add: elsewhere_def flushSettlementBatches_def flush_groups_bets)
  ultimately show ?thesis
    using Some fin p elsewhere_trans
    by (cases r) (fastforce simp: trySettleBet_def applySettlements_def persistGradedSettlements_def batch_for_def
        Let_def s0_def)+
qed

lemma settle_each_elsewhere:
  assumes "\<And>i. i \<in> set is \<Longrightarrow> owned g i (w_db s)"
  shows "elsewhere g (w_db s) (w_db (snd (settle_each E P is s)))"
  using assms
proof (induction "is" arbitrary: s)
  case (Cons i rest)
  obtain r s1 where p: "trySettleBet E P i s = (r, s1)" by fastforce
  have e: "elsewhere g (w_db s) (w_db s1)"
    using trySettleBet_elsewhere [of g i s E P] Cons.prems p by simp
  have "owned g j (w_db s1)" if "j \<in> set rest" for j
    using that Cons.prems by (intro owned_elsewhere [OF e]) simp
  from elsewhere_trans [OF e Cons.IH [OF this]] e p show ?case
    by (cases r) (auto split: prod.split sum.split)
qed simp

lemma settleBetsForEvent_elsewhere:
  assumes "distinct (map bet_id (db_bets (w_db s)))"
  shows "elsewhere g (w_db s) (w_db (snd (settleBetsForEvent E P i g s)))"
proof -
  let ?ids = "map bet_id (order_asc bet_createdAt (open_bets_on (w_db s) g i))"
  have "owned g j (w_db s)" if "j \<in> set ?ids" for j
    using that assms by (auto simp: open_bets_on_def row_filter_def order_asc_def intro!: owned_bet)
  then have "elsewhere g (w_db s) (w_db (snd (settle_each E P ?ids s)))" by (rule settle_each_elsewhere)
  then show ?thesis by (auto simp: settleBetsForEvent_def Let_def split: prod.split sum.split)
qed

subsection \<open>Requests that leave every bet alone\<close>

lemma staff_audit_bets [simp]: "db_bets (w_db (staff_audit u g a t i b f r s)) = db_bets (w_db s)"
  by (simp add: staff_audit_def)

lemma flush_loop_bets: "db_bets (w_db (snd (flush_loop n E P g s))) = db_bets (w_db s)"
proof (induction n arbitrary: s)
  case (Suc n)
  obtain b s1 where f: "flushSettlementBatchForGroup E P g s = (b, s1)" by fastforce
  with Suc [of s1] flush_bets [of E P g s] show ?case by (cases b) (auto split: prod.split)
qed simp

lemma retry_bets: "db_bets (w_db (snd (retryWalletSettlementTransmission E P g u s))) = db_bets (w_db s)"
  using flush_loop_bets [of 100 E P g "s\<lparr>w_db := clear_backoff g (w_db s)\<rparr>"]
  by (auto simp: retryWalletSettlementTransmission_def Let_def flushSettlementBatchesForCasinoGroup_def
      clear_backoff_def split: prod.split)

lemma update_offering_bets: "db_bets (w_db (snd (update_offering keys g staff item s))) = db_bets (w_db s)"
  by (simp add: update_offering_def persistOffering_def write_offering_def Let_def split: option.split)

lemma updateLeagues_bets: "db_bets (w_db (snd (updateLeagues configured rank g changes staff s))) = db_bets (w_db s)"
proof -
  have "db_bets (w_db (snd (each (update_offering keys g staff) changes s))) = db_bets (w_db s)" for keys
    by (rule each_keeps [where Q = "\<lambda>s'. db_bets (w_db s') = db_bets (w_db s)"])
       (simp_all add: update_offering_bets)
  then have "db_bets (w_db (snd (and_then (each (update_offering keys g staff) changes s)
      (\<lambda>_ s1. (listLeagues configured rank g (w_db s1), s1))))) = db_bets (w_db s)" for keys
    by (rule and_then_keeps [where Q = "\<lambda>s'. db_bets (w_db s') = db_bets (w_db s)"]) simp
  then show ?thesis by (simp add: updateLeagues_def Let_def)
qed

lemma patchTenant_bets: "db_bets (w_db (fst (snd (patchTenant R g dto u s r)))) = db_bets (w_db s)"
  by (simp add: patchTenant_def Let_def split: sum.split prod.split)

subsection \<open>Settlement of an event by staff\<close>

lemma settle_then_audit_elsewhere:
  assumes "distinct (map bet_id (db_bets (w_db s)))"
  shows "elsewhere g (w_db s) (w_db (snd (and_then (settleBetsForEvent E P i g s)
    (\<lambda>result s2. (Inr (k result), audit_event_run u g i result reason s2)))))"
proof (rule and_then_keeps [where Q = "\<lambda>s'. elsewhere g (w_db s) (w_db s')"])
  show "elsewhere g (w_db s) (w_db (snd (settleBetsForEvent E P i g s)))"
    by (rule settleBetsForEvent_elsewhere [OF assms])
qed (simp add: elsewhere_def audit_event_run_def)

lemma runSettlementForEvent_elsewhere:
  "distinct (map bet_id (db_bets (w_db s))) \<Longrightarrow>
   elsewhere g (w_db s) (w_db (snd (runSettlementForEvent E P g i u s)))"
  by (auto simp: runSettlementForEvent_def settle_then_audit_elsewhere split: option.split)

lemma applyManualResultAndSettle_elsewhere:
  assumes "distinct (map bet_id (db_bets (w_db s)))"
  shows "elsewhere g (w_db s) (w_db (snd (applyManualResultAndSettle E P g i h a u s)))"
proof (cases "open_bets_on (w_db s) g i = [] \<or> find_event i (w_db s) = None")
  case True
  then show ?thesis by (auto simp: applyManualResultAndSettle_def split: option.split)
next
  case False
  then obtain e where e: "open_bets_on (w_db s) g i \<noteq> []" "find_event i (w_db s) = Some e" by auto
  obtain x s1 where f: "finalizeEventResult (ev_providerRef e) h a s = (x, s1)" by fastforce
  have q: "elsewhere g (w_db s) (w_db s1)"
    using elsewhere_quiet finalizeEventResult_quiet f by (metis snd_conv)
  show ?thesis
  proof (cases x)
    case None
    with e f q show ?thesis by (simp add: applyManualResultAndSettle_def)
  next
    case (Some j)
    have d: "distinct (map bet_id (db_bets (w_db s1)))" using assms elsewhere_ids [OF q] by simp
    define s2 where "s2 = staff_audit u g ''settlement.manual_result'' ''Event'' i None
               (Some [(''homeScore'', show_int h), (''awayScore'', show_int a),
                 (''providerRef'', ev_providerRef e)])
               (Some ''Staff entered final score for settlement'') s1"
    have b: "db_bets (w_db s2) = db_bets (w_db s1)" by (simp add: s2_def)
    have "elsewhere g (w_db s2) (w_db (snd (and_then (settleBetsForEvent E P i g s2)
        (\<lambda>result s3. (Inr (run_result i result),
           audit_event_run u g i result ''Settlement run after manual result'' s3)))))"
      using d b by (intro settle_then_audit_elsewhere) simp
    with q b elsewhere_trans Some e f show ?thesis
      by (fastforce simp: applyManualResultAndSettle_def Let_def s2_def elsewhere_def)
  qed
qed

lemma applyManualResultByProviderRef_elsewhere:
  "distinct (map bet_id (db_bets (w_db s))) \<Longrightarrow>
   elsewhere g (w_db s) (w_db (snd (applyManualResultByProviderRef E P g ref h a u s)))"
  by (auto simp: applyManualResultByProviderRef_def applyManualResultAndSettle_elsewhere split: option.split)

subsection \<open>Every request\<close>

text \<open>What a request that is let through has to show: the permission, and a tenant within reach.\<close>

definition in_scope ::
  "('w, 'r) office \<Rightarrow> string \<Rightarrow> bool \<Rightarrow> string option \<Rightarrow> 'w world \<Rightarrow> staff_context \<Rightarrow> string \<Rightarrow> bool" where
  "in_scope A permission platform header s staff g \<longleftrightarrow>
     StaffAuthGuard (of_jwt A) (of_staff_config A) header (Some permission) (w_now s) = Inr staff \<and>
     hasPermission (sx_permissions staff) permission \<and>
     (platform \<longrightarrow> assertPlatformStaff staff = Inr ()) \<and> may_reach staff (w_db s) g"

lemma scoped_write_cases:
  assumes "scoped_write A permission platform header wanted s st act = (x, st')"
  obtains (refused) e where "x = Inl e" "st' = st"
  | (allowed) staff g where "in_scope A permission platform header s staff g" "act staff g = (x, st')"
  using assms
  by (auto simp: scoped_write_def in_scope_def guard_permission dest: resolveCasinoGroupId_reaches
      split: sum.splits if_splits)

text \<open>The request was refused, or was in scope and touched the bets of its own tenant only.\<close>

definition contained ::
  "('w, 'r) office \<Rightarrow> string option \<Rightarrow> office_request \<Rightarrow> 'w world \<Rightarrow> 'r \<Rightarrow> unit result \<times> 'w world \<times> 'r \<Rightarrow> bool" where
  "contained A header req s r p \<longleftrightarrow>
     (\<exists>e. p = (Inl e, s, r)) \<or>
     (\<exists>staff g. in_scope A (office_permission req) (platform_only req) header s staff g \<and>
        elsewhere g (w_db s) (w_db (fst (snd p))))"

lemma outcome_contained:
  assumes "p = scoped_write A (office_permission req) (platform_only req) header wanted s s act"
    and "\<And>staff g. elsewhere g (w_db s) (w_db (snd (act staff g)))"
  shows "contained A header req s r (outcome r p)"
proof -
  obtain x s' where p: "p = (x, s')" by fastforce
  with assms(1) have "scoped_write A (office_permission req) (platform_only req) header wanted s s act = (x, s')"
    by simp
  then show ?thesis
  proof (cases rule: scoped_write_cases)
    case (refused e)
    with p show ?thesis by (simp add: contained_def outcome_def)
  next
    case (allowed staff g)
    with assms(2) [of g staff] p show ?thesis
      by (cases x) (auto simp: contained_def outcome_def)
  qed
qed

lemma patch_tenant_contained: "contained A header (Req_tenant dto) s r (office_handle A header wanted (Req_tenant dto) s r)"
proof -
  obtain x s' r' where p: "route_patch_tenant A header wanted dto s r = (x, s', r')" by (metis prod_cases3)
  then show ?thesis
    unfolding route_patch_tenant_def
  proof (cases rule: scoped_write_cases)
    case (refused e)
    with p show ?thesis by (simp add: contained_def)
  next
    case (allowed staff g)
    from allowed(2) have "elsewhere g (w_db s) (w_db s')"
      using patchTenant_bets [of "of_redis A" g dto "sx_staffUserId staff" s r] by (simp add: elsewhere_bets)
    with allowed(1) p show ?thesis by (cases x) (auto simp: contained_def)
  qed
qed

lemmas op_elsewhere =
  voidBet_elsewhere runSettlementForEvent_elsewhere applyManualResultAndSettle_elsewhere
  applyManualResultByProviderRef_elsewhere elsewhere_bets [OF retry_bets] elsewhere_bets [OF updateLeagues_bets]
  elsewhere_quiet [OF patchLimits_quiet] elsewhere_quiet [OF suspendEvent_quiet]
  elsewhere_quiet [OF suspendMarket_quiet] elsewhere_quiet [OF resumeMarket_quiet]

lemma office_handle_contained:
  assumes "distinct (map bet_id (db_bets (w_db s)))"
  shows "contained A header req s r (office_handle A header wanted req s r)"
proof (cases req)
  case (Req_tenant dto)
  then show ?thesis by (simp add: patch_tenant_contained del: office_handle.simps)
next
  case Req_retry_wallet
  have "contained A header Req_retry_wallet s r (outcome r (route_retry_wallet A header wanted s))"
    by (rule outcome_contained, simp add: route_retry_wallet_def case_prod_beta, simp add: op_elsewhere)
  with Req_retry_wallet show ?thesis by simp
qed (simp, rule outcome_contained,
     simp add: route_void_def route_patch_limits_def route_suspend_event_def route_suspend_market_def
       route_resume_market_def route_update_leagues_def route_run_event_def route_provider_result_def
       route_event_result_def,
     simp add: op_elsewhere assms)+

end
