(* ===== verification/PlayerAuth.thy ===== *)
theory PlayerAuth
  imports StaffAccess CasinoGroups Bets
begin

text \<open>
  \<open>modules/auth\<close>: the exchange of an operator's launch token for a session token
  (\<open>operator-token.verifier.ts\<close>, \<open>launch.controller.ts\<close>), the session tokens
  (\<open>session.service.ts\<close>) and the guard of the player routes (\<open>player-auth.guard.ts\<close>,
  \<open>current-user.decorator.ts\<close>). The token library is the parameter of \<open>StaffAccess\<close>.
\<close>

record auth_config =
  cf_SESSION_JWT_SECRET :: string
  cf_SESSION_TTL :: string
  cf_OPERATOR_JWT_CLOCK_SKEW :: int
  cf_AUTH_ALLOW_HEADER_FALLBACK :: bool

subsection \<open>Session tokens\<close>

definition session_claims :: "user_context \<Rightarrow> claims" where
  "session_claims user =
     [(''sub'', JStr (uc_userId user)), (''username'', JStr (uc_username user)),
      (''casinoGroupId'', JStr (uc_casinoGroupId user)), (''currency'', JStr (uc_currency user))]"

definition session_mint :: "jwt_lib \<Rightarrow> auth_config \<Rightarrow> user_context \<Rightarrow> int \<Rightarrow> string \<times> string" where
  "session_mint J C user now =
     (jwt_sign J (session_claims user) (cf_SESSION_JWT_SECRET C) (cf_SESSION_TTL C) now, cf_SESSION_TTL C)"

definition session_verify :: "jwt_lib \<Rightarrow> auth_config \<Rightarrow> string \<Rightarrow> int \<Rightarrow> user_context result" where
  "session_verify J C token now =
     (case jwt_verify J token (cf_SESSION_JWT_SECRET C) 0 now of
        None \<Rightarrow> Inl (Unauthorized ''Invalid or expired session'')
      | Some payload \<Rightarrow>
          (case (text_claim payload ''sub'', text_claim payload ''username'',
              text_claim payload ''casinoGroupId'', text_claim payload ''currency'') of
             (Some sub, Some username, Some casinoGroupId, Some currency) \<Rightarrow>
               Inr \<lparr>uc_casinoGroupId = casinoGroupId, uc_userId = sub, uc_username = username,
                 uc_currency = currency\<rparr>
           | _ \<Rightarrow> Inl (Unauthorized ''Invalid session claims'')))"

lemma session_verify_minted:
  assumes "jwt_ok J life" and "t div 1000 < t0 div 1000 + life (cf_SESSION_TTL C)"
  shows "session_verify J C (fst (session_mint J C user t0)) t = Inr user"
proof -
  from assms have "jwt_verify J (fst (session_mint J C user t0)) (cf_SESSION_JWT_SECRET C) 0 t
      = Some (session_claims user)"
    by (simp add: jwt_okD(2) [OF assms(1)] session_mint_def)
  then show ?thesis by (simp add: session_verify_def session_claims_def text_claim_def)
qed

lemma session_verify_claims:
  assumes "jwt_ok J life" and "session_verify J C token t = Inr user"
  shows "\<exists>c ttl t0. token = jwt_sign J c (cf_SESSION_JWT_SECRET C) ttl t0 \<and>
    t div 1000 < t0 div 1000 + life ttl \<and> text_claim c ''casinoGroupId'' = Some (uc_casinoGroupId user)"
proof -
  from assms(2) obtain c where c: "jwt_verify J token (cf_SESSION_JWT_SECRET C) 0 t = Some c"
    and g: "text_claim c ''casinoGroupId'' = Some (uc_casinoGroupId user)"
    by (auto simp: session_verify_def split: option.splits)
  from jwt_okD(3) [OF assms(1) c] obtain ttl t0 where "token = jwt_sign J c (cf_SESSION_JWT_SECRET C) ttl t0"
    "t div 1000 < t0 div 1000 + life ttl + 0"
    by blast
  with g show ?thesis by auto
qed

subsection \<open>Launch tokens\<close>

record verified_launch =
  vl_userId :: string
  vl_username :: string
  vl_merchantId :: string
  vl_group :: casino_group_ctx

text \<open>The merchant is read from the unverified payload; its secret then verifies the token. A secret
  that cannot be opened throws through.\<close>

definition verify_launch ::
  "jwt_lib \<Rightarrow> auth_config \<Rightarrow> (string \<Rightarrow> string result) \<Rightarrow> string \<Rightarrow> db \<Rightarrow> int \<Rightarrow> verified_launch result" where
  "verify_launch J C decrypt token d now =
     (case Option.bind (jwt_decode J token) (\<lambda>c. text_claim c ''merchantId'') of
        None \<Rightarrow> Inl (Unauthorized ''Invalid launch token'')
      | Some merchantId \<Rightarrow>
      if merchantId = [] then Inl (Unauthorized ''Invalid launch token'')
      else
      (case getMerchantCredentials decrypt merchantId d of
         Inl e \<Rightarrow> Inl e
       | Inr None \<Rightarrow> Inl (Unauthorized ''Invalid launch token'')
       | Inr (Some (grp, sportsSecret)) \<Rightarrow>
           (case jwt_verify J token sportsSecret (cf_OPERATOR_JWT_CLOCK_SKEW C) now of
              None \<Rightarrow> Inl (Unauthorized ''Invalid launch token'')
            | Some payload \<Rightarrow>
                (case (text_claim payload ''userId'', text_claim payload ''username'') of
                   (Some userId, Some username) \<Rightarrow>
                     Inr \<lparr>vl_userId = userId, vl_username = username, vl_merchantId = merchantId,
                       vl_group = grp\<rparr>
                 | _ \<Rightarrow> Inl (Unauthorized ''Invalid launch token'')))))"

record launch_response =
  la_sessionToken :: string
  la_expiresIn :: string
  la_user :: user_context
  la_casinoGroupSlug :: string

definition launch ::
  "jwt_lib \<Rightarrow> auth_config \<Rightarrow> (string \<Rightarrow> string result) \<Rightarrow> string option \<Rightarrow> db \<Rightarrow> int \<Rightarrow> launch_response result" where
  "launch J C decrypt token d now =
     (if \<not> truthy token then Inl (BadRequest ''Missing launch token'')
      else
      (case verify_launch J C decrypt (the token) d now of
         Inl e \<Rightarrow> Inl e
       | Inr v \<Rightarrow>
           let sessionUser = \<lparr>uc_casinoGroupId = cc_id (vl_group v), uc_userId = vl_userId v,
                 uc_username = vl_username v, uc_currency = cc_defaultCurrency (vl_group v)\<rparr>;
               (sessionToken, expiresIn) = session_mint J C sessionUser now in
           Inr \<lparr>la_sessionToken = sessionToken, la_expiresIn = expiresIn, la_user = sessionUser,
             la_casinoGroupSlug = cc_slug (vl_group v)\<rparr>))"

subsection \<open>The guard of a player route\<close>

text \<open>A request passes with its tenant, and with a player unless it came by the development header.\<close>

definition PlayerAuthGuard ::
  "jwt_lib \<Rightarrow> auth_config \<Rightarrow> 'r redis_port \<Rightarrow> string option \<Rightarrow> string list \<Rightarrow> db \<Rightarrow> int \<Rightarrow> 'r \<Rightarrow>
   (user_context option \<times> casino_group_ctx) result \<times> 'r" where
  "PlayerAuthGuard J C R authorization groupHeader d now r =
     (case bearerToken authorization of
        Some token \<Rightarrow>
          (case session_verify J C token now of
             Inl e \<Rightarrow> (Inl e, r)
           | Inr user \<Rightarrow>
               (case resolveActiveById R (uc_casinoGroupId user) d now r of
                  (None, r') \<Rightarrow> (Inl (Forbidden ''Unknown or inactive casino group''), r')
                | (Some grp, r') \<Rightarrow> (Inr (Some user, grp), r')))
      | None \<Rightarrow>
          if cf_AUTH_ALLOW_HEADER_FALLBACK C \<and> groupHeader \<noteq> [] \<and> hd groupHeader \<noteq> [] then
            (case resolveActiveBySlug R (hd groupHeader) d now r of
               (None, r') \<Rightarrow> (Inl (Forbidden ''Unknown or inactive casino group''), r')
             | (Some grp, r') \<Rightarrow> (Inr (None, grp), r'))
          else (Inl (Unauthorized ''Authentication required''), r))"

definition CurrentUser :: "user_context option \<Rightarrow> user_context result" where
  "CurrentUser user = (case user of None \<Rightarrow> Inl (Unauthorized ''Authentication required'') | Some u \<Rightarrow> Inr u)"

text \<open>
  A launch puts the player into the tenant whose secret signed the token, in that tenant's
  currency, whatever else the token claims.
\<close>

lemma launch_tenant:
  assumes "jwt_ok J life" and "launch J C decrypt (Some token) d now = Inr a"
  shows "\<exists>g c secret ttl t0. g \<in> set (db_groups d) \<and> cg_status g = Cg_ACTIVE \<and> truthy (cg_sportsSecret g) \<and>
    decrypt (the (cg_sportsSecret g)) = Inr secret \<and> token = jwt_sign J c secret ttl t0 \<and>
    text_claim c ''merchantId'' = cg_merchantId g \<and>
    uc_casinoGroupId (la_user a) = cg_id g \<and> uc_currency (la_user a) = cg_defaultCurrency g"
proof -
  from assms(2) obtain v where v: "verify_launch J C decrypt token d now = Inr v"
    and a: "uc_casinoGroupId (la_user a) = cc_id (vl_group v)"
      "uc_currency (la_user a) = cc_defaultCurrency (vl_group v)"
    by (auto simp: launch_def case_prod_beta Let_def split: if_splits sum.splits)
  from v obtain c0 m secret c where dec: "jwt_decode J token = Some c0" "text_claim c0 ''merchantId'' = Some m"
    and cred: "getMerchantCredentials decrypt m d = Inr (Some (vl_group v, secret))"
    and ver: "jwt_verify J token secret (cf_OPERATOR_JWT_CLOCK_SKEW C) now = Some c"
    by (auto simp: verify_launch_def Option.bind_eq_Some_conv split: option.splits sum.splits if_splits)
  from cred obtain g where g: "row_find (\<lambda>g. cg_merchantId g = Some m \<and> cg_status g = Cg_ACTIVE) (db_groups d) = Some g"
    and "truthy (cg_sportsSecret g)" "vl_group v = group_ctx g" "decrypt (the (cg_sportsSecret g)) = Inr secret"
    by (auto simp: getMerchantCredentials_def split: option.splits sum.splits if_splits)
  moreover from row_find_SomeD [OF g] have "g \<in> set (db_groups d)" "cg_merchantId g = Some m" "cg_status g = Cg_ACTIVE"
    by auto
  moreover from jwt_okD(3) [OF assms(1) ver] obtain ttl t0 where t: "token = jwt_sign J c secret ttl t0"
    by blast
  moreover from t dec(1) jwt_okD(1) [OF assms(1)] have "c0 = c" by simp
  ultimately show ?thesis
    using a dec(2) by (intro exI [of _ g] exI [of _ c] exI [of _ secret] exI [of _ ttl] exI [of _ t0]) (simp add: group_ctx_def)
qed

end
