(* ===== verification/ExampleAuth.thy ===== *)
theory ExampleAuth
  imports StaffAuth PlayerAuth Example
begin

text \<open>
  A concrete token library for the witnesses: a token is the netstring of its parts, so it can be
  read back, and it is accepted when it reads back as the token signed with the same secret.
\<close>

definition net :: "string \<Rightarrow> string" where
  "net s = show_nat (length s) @ '':'' @ s"

definition unnet :: "string \<Rightarrow> string \<times> string" where
  "unnet t =
     (let digits = takeWhile is_digit t; n = nat_of_digits digits; rest = drop (length digits + 1) t
      in (take n rest, drop n rest))"

lemma unnet_net [simp]: "unnet (net s @ rest) = (s, rest)"
proof -
  have "takeWhile is_digit (show_nat n @ CHR '':'' # t) = show_nat n" for n t
    using show_nat_digits [of n] by (subst takeWhile_append2) (simp_all add: is_digit_def char_code_def)
  then show ?thesis by (simp add: net_def unnet_def Let_def)
qed

fun net_list :: "string list \<Rightarrow> string" where
  "net_list [] = []"
| "net_list (x # xs) = net x @ net_list xs"

fun unnet_list :: "nat \<Rightarrow> string \<Rightarrow> string list \<times> string" where
  "unnet_list 0 t = ([], t)"
| "unnet_list (Suc n) t =
     (case unnet t of (x, t1) \<Rightarrow> case unnet_list n t1 of (xs, t2) \<Rightarrow> (x # xs, t2))"

lemma unnet_net_list [simp]: "unnet_list (length xs) (net_list xs @ rest) = (xs, rest)"
  by (induction xs) simp_all

text \<open>A claim as a list of texts: its name, the kind of its value, and the texts of the value.\<close>

fun claim_texts :: "string \<times> jval \<Rightarrow> string list" where
  "claim_texts (k, JNull) = [k, ''null'']"
| "claim_texts (k, JStr s) = [k, ''text'', s]"
| "claim_texts (k, JArr xs) = k # ''array'' # xs"

fun claim_of :: "string list \<Rightarrow> string \<times> jval" where
  "claim_of (k # kind # xs) =
     (k, if kind = ''null'' then JNull else if kind = ''text'' then JStr (concat xs) else JArr xs)"
| "claim_of _ = ([], JNull)"

lemma claim_of_texts [simp]: "claim_of (claim_texts c) = c"
  by (cases c rule: claim_texts.cases) simp_all

definition net_claim :: "string \<times> jval \<Rightarrow> string" where
  "net_claim c = net (show_nat (length (claim_texts c))) @ net_list (claim_texts c)"

definition unnet_claim :: "string \<Rightarrow> (string \<times> jval) \<times> string" where
  "unnet_claim t =
     (case unnet t of (n, t1) \<Rightarrow> case unnet_list (nat_of_digits n) t1 of (xs, t2) \<Rightarrow> (claim_of xs, t2))"

lemma unnet_claim [simp]: "unnet_claim (net_claim c @ rest) = (c, rest)"
  by (simp add: unnet_claim_def net_claim_def)

fun net_claims :: "claims \<Rightarrow> string" where
  "net_claims [] = []"
| "net_claims (c # cs) = net_claim c @ net_claims cs"

fun unnet_claims :: "nat \<Rightarrow> string \<Rightarrow> claims" where
  "unnet_claims 0 t = []"
| "unnet_claims (Suc n) t = (case unnet_claim t of (c, t1) \<Rightarrow> c # unnet_claims n t1)"

lemma unnet_net_claims [simp]: "unnet_claims (length cs) (net_claims cs) = cs"
  by (induction cs) simp_all

definition int_text :: "int \<Rightarrow> string" where
  "int_text n = (if n < 0 then ''-'' @ show_nat (nat (- n)) else show_nat (nat n))"

definition text_int :: "string \<Rightarrow> int" where
  "text_int t = (if t \<noteq> [] \<and> hd t = CHR ''-'' then - int (nat_of_digits (tl t)) else int (nat_of_digits t))"

lemma text_int_text [simp]: "text_int (int_text n) = n"
proof -
  have "hd (show_nat m) \<noteq> CHR ''-''" for m :: nat
  proof -
    have "is_digit (hd (show_nat m))" using show_nat_digits [of m] hd_in_set [of "show_nat m"] by simp
    then show ?thesis by (auto simp: is_digit_def char_code_def)
  qed
  then show ?thesis by (simp add: int_text_def text_int_def)
qed

definition ex_sign :: "claims \<Rightarrow> string \<Rightarrow> string \<Rightarrow> int \<Rightarrow> string" where
  "ex_sign c k ttl t0 =
     net_list [k, ttl, int_text t0, show_nat (length c)] @ net_claims c"

definition ex_read :: "string \<Rightarrow> string list \<times> claims" where
  "ex_read token =
     (case unnet_list 4 token of (head, t) \<Rightarrow> (head, unnet_claims (nat_of_digits (head ! 3)) t))"

lemma ex_read_sign [simp]: "ex_read (ex_sign c k ttl t0) = ([k, ttl, int_text t0, show_nat (length c)], c)"
  using unnet_net_list [of "[k, ttl, int_text t0, show_nat (length c)]" "net_claims c"]
  by (simp add: ex_read_def ex_sign_def eval_nat_numeral del: unnet_net_list)

text \<open>Every lifetime is a quarter of an hour.\<close>

definition ex_life :: "string \<Rightarrow> int" where
  "ex_life ttl = 900"

definition ex_verify :: "string \<Rightarrow> string \<Rightarrow> int \<Rightarrow> int \<Rightarrow> claims option" where
  "ex_verify token k skew t =
     (case ex_read token of (head, c) \<Rightarrow>
        if token = ex_sign c k (head ! 1) (text_int (head ! 2)) \<and>
           t div 1000 < text_int (head ! 2) div 1000 + ex_life (head ! 1) + skew
        then Some c else None)"

definition ex_jwt :: jwt_lib where
  "ex_jwt = \<lparr>jwt_sign = ex_sign, jwt_verify = ex_verify, jwt_decode = (\<lambda>token. Some (snd (ex_read token)))\<rparr>"

lemma ex_jwt_ok: "jwt_ok ex_jwt ex_life"
proof -
  have "ex_verify (ex_sign c k ttl t0) k skew t =
      (if t div 1000 < t0 div 1000 + ex_life ttl + skew then Some c else None)" for c k ttl t0 skew t
    by (simp add: ex_verify_def)
  moreover have "\<exists>ttl t0. token = ex_sign c k ttl t0 \<and> t div 1000 < t0 div 1000 + ex_life ttl + skew"
    if "ex_verify token k skew t = Some c" for token k skew t c
    using that by (auto simp: ex_verify_def split: prod.splits if_splits)
  ultimately show ?thesis by (simp add: jwt_ok_def ex_jwt_def)
qed

text \<open>
  Password hashing, random tokens and SHA-256: the \<open>n\<close>-th token is \<open>n\<close> times the same letter, so
  no two are equal.
\<close>

definition ex_auth :: auth_lib where
  "ex_auth = \<lparr>al_argon2_hash = (\<lambda>p n. ''h'' @ p), al_argon2_verify = (\<lambda>h p. h = ''h'' @ p),
     al_random = (\<lambda>k n. replicate n CHR ''r''), al_sha256_hex = (\<lambda>t. t)\<rparr>"

lemma ex_draws_differ: "draws_differ ex_auth"
  by (auto simp: draws_differ_def ex_auth_def hashRefreshToken_def inj_def dest: arg_cong [where f = length])

definition ex_staff_config :: staff_config where
  "ex_staff_config = \<lparr>cf_STAFF_JWT_SECRET = ''key'', cf_STAFF_ACCESS_TTL = ''15m'', cf_STAFF_REFRESH_TTL = ''30d''\<rparr>"

definition ex_staff :: staff_row where
  "ex_staff = \<lparr>su_id = ''o1'', su_email = ''op@site'', su_passwordHash = ''hsecret'', su_casinoGroupId = Some ''g1'',
     su_roles = [OPERATOR_ADMIN], su_status = St_ACTIVE\<rparr>"

text \<open>The accepted bet of the example, with a staff member who holds one session.\<close>

definition ex_session :: staff_session_row where
  "ex_session = \<lparr>ss_id = ''ss0'', ss_staffUserId = ''o1'', ss_refreshTokenHash = ''rrr'', ss_expiresAt = 5000,
     ss_revokedAt = None\<rparr>"

definition ex_office :: "stub world" where
  "ex_office = ex_accepted\<lparr>w_db := (w_db ex_accepted)\<lparr>db_staff := [ex_staff], db_staffSessions := [ex_session]\<rparr>\<rparr>"

end
