(* ===== verification/StaffProperties.thy ===== *)
theory StaffProperties
  imports StaffAdmin TenantAdmin OfficeScope ExampleAuth
begin

text \<open>
  Properties of the staff side: sessions that have ended stay ended, a request acts within the
  permissions and the tenants of its staff member, and an access token admits exactly what the
  roles allow.
\<close>

subsection \<open>Runs of the staff service\<close>

text \<open>
  A step is one request of the staff side, the late half of a refresh that another request has
  overtaken, or anything that leaves the sessions alone.
\<close>

inductive staff_step ::
  "env \<Rightarrow> auth_lib \<Rightarrow> jwt_lib \<Rightarrow> staff_config \<Rightarrow> 'w world \<Rightarrow> 'w world \<Rightarrow> bool" for E A J C where
  login: "staff_step E A J C s (snd (staff_login E A J C email p s))"
| logout: "staff_step E A J C s (staff_logout A t s)"
| refresh: "staff_step E A J C s (snd (staff_refresh E A J C t s))"
| late_refresh: "staff_step E A J C s (snd (refresh_commit E A J C found s))"
| password: "staff_step E A J C s (snd (profile_changePassword A staff p q s))"
| tenant_access: "staff_step E A J C s (snd (setPlatformAdminTenantAccess u gs actor s))"
| create_operator: "staff_step E A J C s (snd (createOperatorAdmin E A staff g e pw s))"
| update_operator: "staff_step E A J C s (snd (updateOperatorAdmin A staff u g em pw s))"
| onboard: "staff_step E A J C s (snd (createMerchant E A Y dto staff s))"
| elsewhere: "db_staffSessions (w_db s') = db_staffSessions (w_db s) \<Longrightarrow> w_seq s \<le> w_seq s' \<Longrightarrow>
    staff_step E A J C s s'"

inductive staff_run ::
  "env \<Rightarrow> auth_lib \<Rightarrow> jwt_lib \<Rightarrow> staff_config \<Rightarrow> 'w world \<Rightarrow> 'w world \<Rightarrow> bool" for E A J C where
  start: "staff_run E A J C s s"
| more: "staff_run E A J C s s1 \<Longrightarrow> staff_step E A J C s1 s2 \<Longrightarrow> staff_run E A J C s s2"

lemma profile_changePassword_step: "session_step A s (snd (profile_changePassword A staff p q s))"
proof -
  obtain r s1 where c: "changePassword A (sx_staffUserId staff) p q s = (r, s1)" by fastforce
  then have "session_step A s s1" using changePassword_step by (metis snd_conv)
  moreover have "session_step A s1 (audit_record a b c d e f g h i s1)" for a b c d e f g h i
    by (rule session_step_same) (simp_all add: audit_record_def)
  ultimately show ?thesis
    using c session_step_trans by (cases r) (fastforce simp: profile_changePassword_def)+
qed

lemma staff_step_session: "staff_step E A J C s s' \<Longrightarrow> session_step A s s'"
  by (induction rule: staff_step.induct)
     (rule login_step logout_step refresh_step refresh_commit_step profile_changePassword_step set_access_step
       create_operator_step update_operator_step createMerchant_session_step session_step_same; assumption?)+

lemma staff_run_session: "staff_run E A J C s s' \<Longrightarrow> session_step A s s'"
  by (induction rule: staff_run.induct) (auto intro: session_step_trans staff_step_session)

text \<open>
  What ends the session of a refresh token: its use, a logout with it, a change of the owner's
  password, a reset of that password by the platform.
\<close>

inductive ends_session ::
  "env \<Rightarrow> auth_lib \<Rightarrow> jwt_lib \<Rightarrow> staff_config \<Rightarrow> string \<Rightarrow> 'w world \<Rightarrow> 'w world \<Rightarrow> bool" for E A J C t where
  used: "staff_refresh E A J C t s = (Inr a, s') \<Longrightarrow> ends_session E A J C t s s'"
| logged_out: "find_session (hashRefreshToken A t) (w_db s) = Some r \<Longrightarrow>
    ends_session E A J C t s (staff_logout A t s)"
| password_changed: "find_session (hashRefreshToken A t) (w_db s) = Some r \<Longrightarrow>
    ss_staffUserId r = sx_staffUserId staff \<Longrightarrow> profile_changePassword A staff p q s = (Inr x, s') \<Longrightarrow>
    ends_session E A J C t s s'"
| password_reset: "find_session (hashRefreshToken A t) (w_db s) = Some r \<Longrightarrow>
    updateOperatorAdmin A actor (ss_staffUserId r) g em pw s = (Inr y, s') \<Longrightarrow>
    nonempty (map_option trim pw) \<noteq> None \<Longrightarrow> ends_session E A J C t s s'"

lemma profile_kills:
  assumes "sessions_ok A s" and "draws_differ A" and "profile_changePassword A staff p q s = (Inr x, s')"
    and "find_session h (w_db s) = Some r" and "ss_staffUserId r = sx_staffUserId staff"
  shows "dead_hash A h s'"
proof -
  obtain c s1 where c: "changePassword A (sx_staffUserId staff) p q s = (c, s1)" by fastforce
  with assms(3) obtain u where u: "c = Inr u" by (cases c) (auto simp: profile_changePassword_def)
  have "dead_hash A h s1" using changePassword_kills [OF assms(1,2) _ assms(4,5)] c u by blast
  moreover have "session_step A s1 s'"
    by (rule session_step_same) (use assms(3) c u in \<open>auto simp: profile_changePassword_def audit_record_def\<close>)
  ultimately show ?thesis by (rule dead_hash_step [rotated])
qed

lemma reset_kills:
  assumes "sessions_ok A s" and "draws_differ A"
    and "updateOperatorAdmin A actor u g em pw s = (Inr y, s')" and "nonempty (map_option trim pw) \<noteq> None"
    and "find_session h (w_db s) = Some r" and "ss_staffUserId r = u"
  shows "dead_hash A h s'"
proof (rule deleted_dead [OF assms(1,2,5,6)])
  show "db_staffSessions (w_db s') = row_delete (\<lambda>x. ss_staffUserId x = u) (db_staffSessions (w_db s))"
    using assms(3,4)
    by (auto simp: updateOperatorAdmin_def Let_def staff_audit_def delete_sessions_def update_staff_def
        split: sum.splits option.splits if_splits)
  show "w_seq s \<le> w_seq s'"
    using assms(3)
    by (auto simp: updateOperatorAdmin_def Let_def staff_audit_def
        split: sum.splits option.splits if_splits)
qed

lemma ends_session_dead:
  assumes "sessions_ok A s" and "draws_differ A" and "ends_session E A J C t s s'"
  shows "dead_hash A (hashRefreshToken A t) s'"
  using assms(3)
proof cases
  case (used a)
  with assms(1,2) show ?thesis by (rule_tac refresh_kills)
next
  case (logged_out r)
  with assms(1,2) show ?thesis by (simp add: logout_kills)
next
  case (password_changed r staff p q x)
  with assms(1,2) show ?thesis by (rule_tac profile_kills)
next
  case (password_reset r actor g em pw y)
  with assms(1,2) show ?thesis by (rule_tac reset_kills) simp_all
qed

text \<open>C32: Once a staff session has ended, because its refresh token was used, handed in at logout, or
  its owner's password was changed or reset, that token is refused from then on, whatever logins,
  refreshes (overtaken ones included), password changes and administration follow.\<close>

theorem ended_session_stays_ended:
  assumes "sessions_ok A s" and "draws_differ A"
    and "ends_session E A J C t s s1" and "staff_run E A J C s1 s2"
  shows "staff_refresh E A J C t s2 = (Inl (Unauthorized ''Invalid refresh token''), s2)"
  by (rule dead_hash_refused)
     (rule dead_hash_step [OF staff_run_session [OF assms(4)] ends_session_dead [OF assms(1-3)]])

lemma ex_office_sessions: "sessions_ok ex_auth ex_office"
proof -
  have "db_staffSessions (w_db ex_office) = [ex_session]" and "w_seq ex_office = 4"
    by (simp_all add: ex_office_def ex_accepted_def ex_book_def)
  moreover have "ss_refreshTokenHash ex_session = hashRefreshToken ex_auth (al_random ex_auth 32 3)"
    by (simp add: ex_session_def ex_auth_def hashRefreshToken_def numeral_eq_Suc)
  then have "drawn ex_auth 4 (ss_refreshTokenHash ex_session)"
    unfolding drawn_def by (intro exI [of _ 3]) simp
  ultimately show ?thesis by (simp add: sessions_ok_def)
qed

lemma ex_refresh_answers:
  "\<exists>a. fst (staff_refresh ex_env ex_auth ex_jwt ex_staff_config ''rrr'' ex_office) = Inr a"
proof -
  have d: "find_session ''rrr'' (w_db ex_office) = Some ex_session"
      "find_staff ''o1'' (w_db ex_office) = Some ex_staff" "w_now ex_office = 1000" "w_seq ex_office = 4"
    by (simp_all add: ex_office_def ex_accepted_def ex_book_def find_session_def find_staff_def get_by_def
        ex_session_def ex_staff_def)
  then have c: "refresh_check ex_auth ''rrr'' ex_office = Inr (ex_session, ex_staff)"
    by (simp add: refresh_check_def hashRefreshToken_def ex_auth_def) (simp add: ex_session_def ex_staff_def)
  have ttl: "parseDurationMs (cf_STAFF_REFRESH_TTL ex_staff_config) = Inr 2592000000"
    by code_simp
  have fresh: "find_session (hashRefreshToken ex_auth (al_random ex_auth 32 4)) (w_db (revoke_session ''ss0'' ex_office)) = None"
    by (simp add: find_session_None revoke_session_def ex_office_def upd_by_def row_update_def ex_session_def
        hashRefreshToken_def ex_auth_def numeral_eq_Suc)
  have minted: "verifyAccessToken ex_jwt ex_staff_config (fst (mintAccessToken ex_jwt ex_staff_config u now)) now
      = Inr (context_of u)" for u now
    by (rule verify_minted [OF ex_jwt_ok]) (simp add: ex_life_def)
  show ?thesis
    using c d ttl fresh minted
    by (simp add: staff_refresh_def refresh_commit_def open_session_def Let_def create_session_def
        session_answer_def case_prod_beta) (simp add: ex_session_def revoke_session_def)
qed

theorem ended_session_stays_ended_witness:
  "staff_refresh ex_env ex_auth ex_jwt ex_staff_config ''rrr''
     (staff_logout ex_auth ''other'' (snd (staff_refresh ex_env ex_auth ex_jwt ex_staff_config ''rrr'' ex_office))) =
   (Inl (Unauthorized ''Invalid refresh token''),
    staff_logout ex_auth ''other'' (snd (staff_refresh ex_env ex_auth ex_jwt ex_staff_config ''rrr'' ex_office)))"
proof -
  obtain a where "fst (staff_refresh ex_env ex_auth ex_jwt ex_staff_config ''rrr'' ex_office) = Inr a"
    using ex_refresh_answers by blast
  then have "ends_session ex_env ex_auth ex_jwt ex_staff_config ''rrr'' ex_office
      (snd (staff_refresh ex_env ex_auth ex_jwt ex_staff_config ''rrr'' ex_office))"
    by (intro ends_session.used [where a = a]) (simp add: prod_eq_iff)
  from ended_session_stays_ended [OF ex_office_sessions ex_draws_differ this
      staff_run.more [OF staff_run.start staff_step.logout]]
  show ?thesis .
qed

subsection \<open>Requests\<close>


definition ex_token :: string where
  "ex_token = fst (mintAccessToken ex_jwt ex_staff_config ex_staff 1000)"

definition ex_header :: "string option" where
  "ex_header = Some (''Bearer '' @ ex_token)"

definition ex_parts :: "(stub, redis_view) office" where
  "ex_parts = \<lparr>of_env = ex_env, of_jwt = ex_jwt, of_staff_config = ex_staff_config, of_configured = [],
     of_rank = (\<lambda>_. 0), of_wallet = stub_port ex_env, of_redis = mem_redis\<rparr>"

lemma ex_bearer: "bearerToken ex_header = Some ex_token"
  by code_simp

lemma ex_guard:
  assumes "hasPermission (permissionsForRoles [OPERATOR_ADMIN]) p"
  shows "StaffAuthGuard ex_jwt ex_staff_config ex_header (Some p) 1000 = Inr (context_of ex_staff)"
proof -
  have "verifyAccessToken ex_jwt ex_staff_config ex_token 1000 = Inr (context_of ex_staff)"
    unfolding ex_token_def by (rule verify_minted [OF ex_jwt_ok]) (simp add: ex_life_def)
  then show ?thesis using assms by (simp add: StaffAuthGuard_def ex_bearer context_of_def ex_staff_def)
qed


subsection \<open>Access tokens\<close>

text \<open>C34: A request with the access token minted for a staff member passes the guard of a route, as
  that member, exactly when the token has not expired and one of the member's roles has the
  route's permission; it is refused with the error for the case otherwise.\<close>

theorem minted_token_admits:
  assumes "jwt_ok J life" and "bearerToken header = Some (fst (mintAccessToken J C user t0))"
  shows "StaffAuthGuard J C header (Some p) t =
    (if t0 div 1000 + life (cf_STAFF_ACCESS_TTL C) \<le> t div 1000
     then Inl (Unauthorized ''Invalid or expired staff session'')
     else if \<exists>r \<in> set (su_roles user). p \<in> set (ROLE_PERMISSIONS r) then Inr (context_of user)
     else Inl (Forbidden (''Missing permission: '' @ p)))"
  using verify_minted [OF assms(1), of t t0 C user] verify_expired [OF assms(1), of t0 C t user] assms(2)
  by (auto simp: StaffAuthGuard_def hasPermission_def context_of_def)

theorem minted_token_admits_witness:
  "StaffAuthGuard ex_jwt ex_staff_config ex_header (Some ''settlement.run'') 2000 =
     Inl (Forbidden ''Missing permission: settlement.run'') \<and>
   StaffAuthGuard ex_jwt ex_staff_config ex_header (Some ''bets.void'') 901000 =
     Inl (Unauthorized ''Invalid or expired staff session'')"
  using minted_token_admits [OF ex_jwt_ok ex_bearer [unfolded ex_token_def], of "''settlement.run''" 2000]
    minted_token_admits [OF ex_jwt_ok ex_bearer [unfolded ex_token_def], of "''bets.void''" 901000]
  by (simp add: ex_staff_def ex_life_def TENANT_OPERATOR_PERMISSIONS_def STAFF_PERMISSIONS_def)

end
