(* ===== verification/TenantProperties.thy ===== *)
theory TenantProperties
  imports Product TenantAdmin PlayerAuth ExampleAuth
begin

text \<open>
  Properties of the tenants: the launch of a player into the tenant whose secret signed the token,
  a league the platform takes off, and a tenant that is disabled.
\<close>

subsection \<open>Launching a player\<close>

lemma launch_session:
  assumes "jwt_ok J life" and "launch J C decrypt token d now = Inr a"
    and "t div 1000 < now div 1000 + life (cf_SESSION_TTL C)"
  shows "session_verify J C (la_sessionToken a) t = Inr (la_user a)"
proof -
  from assms(2) obtain user where "la_user a = user" "la_sessionToken a = fst (session_mint J C user now)"
    by (auto simp: launch_def case_prod_beta Let_def split: if_splits sum.splits)
  with session_verify_minted [OF assms(1,3)] show ?thesis by simp
qed

text \<open>C35: A player who is launched lands in the active tenant whose secret signed the launch token and
  whose merchant id the token names, in that tenant's currency; and the session token handed out
  reads back as exactly that player for as long as it lives.\<close>

theorem launch_gives_tenant:
  assumes "jwt_ok J life" and "launch J C decrypt (Some token) d now = Inr a"
  shows "(\<exists>g c secret ttl t0. g \<in> set (db_groups d) \<and> cg_status g = Cg_ACTIVE \<and> truthy (cg_sportsSecret g) \<and>
      decrypt (the (cg_sportsSecret g)) = Inr secret \<and> token = jwt_sign J c secret ttl t0 \<and>
      text_claim c ''merchantId'' = cg_merchantId g \<and>
      uc_casinoGroupId (la_user a) = cg_id g \<and> uc_currency (la_user a) = cg_defaultCurrency g) \<and>
    (\<forall>t. t div 1000 < now div 1000 + life (cf_SESSION_TTL C) \<longrightarrow>
      session_verify J C (la_sessionToken a) t = Inr (la_user a))"
  using launch_tenant [OF assms] launch_session [OF assms] by blast

definition ex_group :: group_row where
  "ex_group = \<lparr>cg_id = ''g1'', cg_slug = ''casino'', cg_name = ''Casino'', cg_defaultCurrency = ''EUR'',
     cg_timezone = ''UTC'', cg_status = Cg_ACTIVE, cg_merchantId = Some ''m1'', cg_sportsSecret = Some ''sealed'',
     cg_walletApiUrl = Some ''https://wallet''\<rparr>"

definition ex_auth_config :: auth_config where
  "ex_auth_config = \<lparr>cf_SESSION_JWT_SECRET = ''session'', cf_SESSION_TTL = ''1h'', cf_OPERATOR_JWT_CLOCK_SKEW = 5,
     cf_AUTH_ALLOW_HEADER_FALLBACK = True\<rparr>"

definition ex_launch_token :: string where
  "ex_launch_token = ex_sign
     [(''userId'', JStr ''u1''), (''username'', JStr ''ann''), (''merchantId'', JStr ''m1'')] ''open'' ''1m'' 0"

definition ex_launched :: "launch_response result" where
  "ex_launched = launch ex_jwt ex_auth_config (\<lambda>_. Inr ''open'') (Some ex_launch_token)
     (empty_db\<lparr>db_groups := [ex_group]\<rparr>) 1000"

theorem launch_gives_tenant_witness:
  "\<exists>a. ex_launched = Inr a \<and> uc_casinoGroupId (la_user a) = ''g1'' \<and>
     session_verify ex_jwt ex_auth_config (la_sessionToken a) 2000 = Inr (la_user a)"
proof -
  have present: "ex_launch_token \<noteq> []" by (simp add: ex_launch_token_def ex_sign_def net_def)
  have cred: "getMerchantCredentials (\<lambda>_. Inr ''open'') ''m1'' (empty_db\<lparr>db_groups := [ex_group]\<rparr>) =
      Inr (Some (group_ctx ex_group, ''open''))"
    by (simp add: getMerchantCredentials_def row_find_def ex_group_def truthy_def)
  have "\<exists>v. verify_launch ex_jwt ex_auth_config (\<lambda>_. Inr ''open'') ex_launch_token
      (empty_db\<lparr>db_groups := [ex_group]\<rparr>) 1000 = Inr v"
    using cred by (simp add: verify_launch_def ex_launch_token_def ex_jwt_def ex_verify_def text_claim_def
        ex_auth_config_def ex_life_def)
  with present have "\<exists>a. ex_launched = Inr a"
    by (auto simp: ex_launched_def launch_def truthy_def case_prod_beta Let_def)
  then obtain a where a: "ex_launched = Inr a" ..
  note got = launch_gives_tenant [OF ex_jwt_ok a [unfolded ex_launched_def]]
  from got have "uc_casinoGroupId (la_user a) = ''g1''" by (auto simp: ex_group_def)
  moreover from got have "session_verify ex_jwt ex_auth_config (la_sessionToken a) 2000 = Inr (la_user a)"
    by (simp add: ex_life_def)
  ultimately show ?thesis using a by blast
qed

subsection \<open>The platform lock\<close>

lemma held_back_taken_off:
  "held_back g l (write_offering g l False True False d)"
proof (cases "find_group_league g l d")
  case None
  then show ?thesis
    unfolding held_back_iff using None [unfolded find_group_league_None]
    by (auto simp: write_offering_def offering_key_def)
next
  case (Some x)
  then have "x \<in> set (db_groupLeagues d)" "offering_key x = (g, l)"
    unfolding find_group_league_def by (auto dest: offerings.get_key simp: offering_key_def)
  moreover have "db_groupLeagues (write_offering g l False True False d) =
      map (\<lambda>r. if offering_key r = (g, l) then r\<lparr>gl_enabled := False, gl_platformLocked := True\<rparr> else r)
        (db_groupLeagues d)"
    using Some by (simp add: write_offering_def upd_by_def row_update_def offering_key_def)
  ultimately have "\<forall>r \<in> set (db_groupLeagues (write_offering g l False True False d)).
      offering_key r = (g, l) \<longrightarrow> gl_platformLocked r \<and> \<not> gl_enabled r"
    and "x\<lparr>gl_enabled := False, gl_platformLocked := True\<rparr> \<in>
      set (db_groupLeagues (write_offering g l False True False d))"
    by (auto simp: offering_key_def)
  moreover have "offering_key (x\<lparr>gl_enabled := False, gl_platformLocked := True\<rparr>) = (g, l)"
    using \<open>offering_key x = (g, l)\<close> by (simp add: offering_key_def)
  ultimately show ?thesis unfolding held_back_iff by blast
qed

lemma platform_takes_off:
  assumes "updateLeagues configured rank g [\<lparr>oc_leagueId = l, oc_enabled = False\<rparr>] admin s = (Inr x, s')"
    and "isPlatformStaff admin"
  shows "held_back g l (w_db s')"
proof -
  let ?item = "\<lparr>oc_leagueId = l, oc_enabled = False\<rparr>"
  let ?keys = "allowedCatalogLeagueKeys configured (w_db s)"
  obtain u s1 where i: "update_offering ?keys g admin ?item s = (u, s1)" by fastforce
  with assms(1) have ok: "u = Inr ()" "s' = s1"
    by (cases u; auto simp: updateLeagues_def Let_def split: if_splits)+
  from i ok(1) obtain league where "find_league l (w_db s) = Some league"
    and "s1 = persistOffering g league (sx_staffUserId admin) (find_group_league g l (w_db s)) False True False s"
    using assms(2) by (auto simp: update_offering_def Let_def split: option.splits if_splits)
  with held_back_taken_off [of g l "w_db s"] find_league_id ok(2) show ?thesis
    by (simp add: persistOffering_def Let_def)
qed

text \<open>The updates of tenants by their own staff, one after the other.\<close>

primrec tenant_updates ::
  "string list \<Rightarrow> (string \<Rightarrow> int) \<Rightarrow> (string \<times> staff_context \<times> offering_change list) list \<Rightarrow> 'w world \<Rightarrow> 'w world" where
  "tenant_updates configured rank [] s = s"
| "tenant_updates configured rank (req # reqs) s =
     tenant_updates configured rank reqs
       (snd (updateLeagues configured rank (fst req) (snd (snd req)) (fst (snd req)) s))"

lemma held_back_updates:
  assumes "held_back g l (w_db s)" and "\<forall>req \<in> set reqs. \<not> isPlatformStaff (fst (snd req))"
  shows "held_back g l (w_db (tenant_updates configured rank reqs s))"
  using assms by (induction reqs arbitrary: s) (simp_all add: held_back_update)

lemma held_back_not_quoted:
  assumes "held_back g l d" and "c \<in> set (read_selections d ids)" and "lg_id (sc_league c) = l"
  shows "validatePlacement E g ids raw d \<noteq> Inr q"
proof
  assume "validatePlacement E g ids raw d = Inr q"
  then show False
  proof (cases rule: validatePlacement_InrD)
    case (1 a b m)
    from validate_legs_backable [OF 1(10)] assms(2) have "backable d g c" by blast
    with assms(1,3) held_back_not_offered show False by (auto simp: backable_def)
  qed
qed

text \<open>C36: A league the platform takes off a tenant stays off. Whatever the tenant's own staff, or any
  other tenant's, then update, the league is held back, and no bet is quoted to the tenant's
  players that has a selection of that league in it.\<close>

theorem platform_lock_holds:
  assumes "updateLeagues configured rank g [\<lparr>oc_leagueId = l, oc_enabled = False\<rparr>] admin s = (Inr x, s1)"
    and "isPlatformStaff admin"
    and "\<forall>req \<in> set reqs. \<not> isPlatformStaff (fst (snd req))"
    and "d = w_db (tenant_updates configured rank reqs s1)"
    and "c \<in> set (read_selections d ids)" and "lg_id (sc_league c) = l"
  shows "held_back g l d \<and> validatePlacement E g ids raw d \<noteq> Inr q"
proof -
  have "held_back g l d"
    unfolding assms(4) by (rule held_back_updates [OF platform_takes_off [OF assms(1,2)] assms(3)])
  with held_back_not_quoted assms(5,6) show ?thesis by blast
qed

definition ex_tenant :: "stub world" where
  "ex_tenant = ex_world\<lparr>w_db := (w_db ex_world)\<lparr>db_groups := [ex_group]\<rparr>\<rparr>"

definition ex_admin :: staff_context where
  "ex_admin = \<lparr>sx_staffUserId = ''a1'', sx_email = ''root@site'', sx_casinoGroupId = None,
     sx_roles = [''SUPER_ADMIN''], sx_permissions = permissionsForRoles [SUPER_ADMIN]\<rparr>"

definition ex_off :: "stub world" where
  "ex_off = snd (updateLeagues [''epl''] (\<lambda>_. 0) ''g1'' [\<lparr>oc_leagueId = ''l1'', oc_enabled = False\<rparr>] ex_admin ex_tenant)"

definition ex_again :: "(string \<times> staff_context \<times> offering_change list) list" where
  "ex_again = [(''g1'', context_of ex_staff, [\<lparr>oc_leagueId = ''l1'', oc_enabled = True\<rparr>])]"

theorem platform_lock_holds_witness:
  "held_back ''g1'' ''l1'' (w_db (tenant_updates [''epl''] (\<lambda>_. 0) ex_again ex_off)) \<and>
   \<not> held_back ''g1'' ''l1'' (w_db ex_tenant)"
proof -
  let ?d = "w_db (tenant_updates [''epl''] (\<lambda>_. 0) ex_again ex_off)"
  let ?cs = "read_selections ?d [''x1'']"
  let ?off = "updateLeagues [''epl''] (\<lambda>_. 0) ''g1'' [\<lparr>oc_leagueId = ''l1'', oc_enabled = False\<rparr>] ex_admin ex_tenant"
  have "\<not> isl (fst ?off)" by code_simp
  then have off: "?off = (Inr (projr (fst ?off)), ex_off)" by (simp add: ex_off_def prod_eq_iff)
  have staff: "isPlatformStaff ex_admin" "\<forall>req \<in> set ex_again. \<not> isPlatformStaff (fst (snd req))"
    by (simp_all add: isPlatformStaff_def ex_admin_def ex_again_def context_of_def ex_staff_def)
  have "?cs \<noteq> [] \<and> lg_id (sc_league (hd ?cs)) = ''l1''" by code_simp
  then have c: "hd ?cs \<in> set ?cs" "lg_id (sc_league (hd ?cs)) = ''l1''" by simp_all
  have "\<not> held_back ''g1'' ''l1'' (w_db ex_tenant)"
    by (simp add: held_back_iff ex_tenant_def ex_world_def ex_db_def offering_key_def)
  with platform_lock_holds [OF off staff refl c] show ?thesis by blast
qed

subsection \<open>Disabling a tenant\<close>

lemma disabled_rows:
  assumes "patchTenant R g dto u s r = (Inr v, s', r')" and "pt_status dto = Some Cg_DISABLED"
  obtains before where "find_group g (w_db s) = Some before"
    and "db_groups (w_db s') = map (\<lambda>x. if cg_id x = g then patch_group dto x else x) (db_groups (w_db s))"
    and "invalidate R (group_ctx (patch_group dto before)) r = (Inr (), r')"
    and "v = tenant_view_of (patch_group dto before)"
  using assms
  by (auto simp: patchTenant_def find_tenant_def Let_def staff_audit_def upd_by_def row_update_def
      split: option.splits sum.splits prod.splits)

text \<open>No active row is left under a key that singles the tenant out.\<close>

lemma disabled_key:
  assumes "db_groups d' = map (\<lambda>x. if cg_id x = g then patch_group dto x else x) (db_groups d)"
    and "pt_status dto = Some Cg_DISABLED" and "\<And>x. K (patch_group dto x) \<longleftrightarrow> K x"
    and "\<And>x. x \<in> set (db_groups d) \<Longrightarrow> K x \<Longrightarrow> cg_id x = g"
  shows "row_find (\<lambda>x. K x \<and> cg_status x = Cg_ACTIVE) (db_groups d') = None"
proof -
  have "\<not> (K y \<and> cg_status y = Cg_ACTIVE)" if "y \<in> set (db_groups d')" for y
  proof -
    from that assms(1) obtain x where x: "x \<in> set (db_groups d)" "y = (if cg_id x = g then patch_group dto x else x)"
      by auto
    show ?thesis
    proof (cases "cg_id x = g")
      case True
      with x have "cg_status y = Cg_DISABLED" using assms(2) by (simp add: patch_group_def set_or_def)
      then show ?thesis by simp
    next
      case False
      with x assms(4) show ?thesis by auto
    qed
  qed
  then show ?thesis by (simp add: row_find_None_iff)
qed

lemma evicted:
  assumes "redis_ok R view" and "invalidate R grp r = (Inr u, r')"
    and "k \<in> {CACHE_PREFIX @ cc_slug grp, CACHE_ID_PREFIX @ cc_id grp}"
  shows "readCache R k now r' = None"
proof -
  have "view r' k = None"
    using redis_okD(5) [OF assms(1) assms(2) [unfolded invalidate_def]] assms(3) by auto
  then have "rp_get R k now r' = Inr x \<Longrightarrow> x = None" for x
    using redis_okD(1) [OF assms(1), of k now r' x] by (simp add: live_value_def)
  then show ?thesis
    by (cases "rp_get R k now r'") (auto simp: readCache_def)
qed

lemma disabled_unresolved:
  assumes "redis_ok R view" and "patchTenant R g dto u s r = (Inr v, s', r')"
    and "pt_status dto = Some Cg_DISABLED" and "distinct (map cg_slug (db_groups (w_db s)))"
  shows "resolveActiveById R g (w_db s') now r' = (None, r')"
    and "resolveActiveBySlug R (tv_slug v) (w_db s') now r' = (None, r')"
    and "getWalletConfig decrypt g (w_db s') = Inr None"
proof -
  obtain before where b: "find_group g (w_db s) = Some before"
    and rows: "db_groups (w_db s') = map (\<lambda>x. if cg_id x = g then patch_group dto x else x) (db_groups (w_db s))"
    and ev: "invalidate R (group_ctx (patch_group dto before)) r = (Inr (), r')"
    and v: "v = tenant_view_of (patch_group dto before)"
    by (rule disabled_rows [OF assms(2,3)])
  from b have before: "before \<in> set (db_groups (w_db s))" "cg_id before = g"
    unfolding find_group_def get_by_def by (auto dest: row_find_SomeD)
  have same: "cg_id x = g" if "x \<in> set (db_groups (w_db s))" "cg_slug x = cg_slug before" for x
    using that before assms(4) by (auto simp: distinct_map dest: inj_onD)
  have ctx: "cc_id (group_ctx (patch_group dto before)) = g"
      "cc_slug (group_ctx (patch_group dto before)) = cg_slug before" "tv_slug v = cg_slug before"
    using before(2) v by (simp_all add: group_ctx_def patch_group_def tenant_view_of_def)
  have i: "row_find (\<lambda>x. cg_id x = g \<and> cg_status x = Cg_ACTIVE) (db_groups (w_db s')) = None"
    by (rule disabled_key [OF rows assms(3)]) (simp_all add: patch_group_def)
  have sl: "row_find (\<lambda>x. cg_slug x = cg_slug before \<and> cg_status x = Cg_ACTIVE) (db_groups (w_db s')) = None"
    by (rule disabled_key [OF rows assms(3)]) (simp_all add: patch_group_def same)
  note ev' = evicted [OF assms(1) ev]
  show "resolveActiveById R g (w_db s') now r' = (None, r')"
    using i ev' [of "CACHE_ID_PREFIX @ g" now] ctx by (simp add: resolveActiveById_def resolve_active_def)
  show "resolveActiveBySlug R (tv_slug v) (w_db s') now r' = (None, r')"
    using sl ev' [of "CACHE_PREFIX @ cg_slug before" now] ctx
    by (simp add: resolveActiveBySlug_def resolve_active_def)
  show "getWalletConfig decrypt g (w_db s') = Inr None"
    using i by (simp add: getWalletConfig_def)
qed


definition ex_disable :: patch_tenant where
  "ex_disable = \<lparr>pt_name = None, pt_defaultCurrency = None, pt_timezone = None, pt_status = Some Cg_DISABLED,
     pt_walletApiUrl = None\<rparr>"

text \<open>A cache that still holds the tenant.\<close>

definition ex_cache :: redis_view where
  "ex_cache = [''casino-group:slug:casino'' \<mapsto> (GroupJson (group_ctx ex_group), 60000)]"


end
