(* ===== verification/Catalog.thy ===== *)
theory Catalog
  imports Trading Ingestion
begin

text \<open>
  The catalogue a player reads: \<open>shared/dto/pagination.ts\<close>, \<open>modules/fixtures\<close>, \<open>modules/events\<close>,
  \<open>modules/markets\<close>, \<open>modules/leagues\<close> and \<open>modules/sports\<close>. Every read is restricted to the leagues the
  tenant has enabled (\<open>league_offered\<close>, \<open>event_offered\<close>). The collation of texts is a parameter
  (\<open>rank\<close>); rows that tie come in table order.
\<close>

subsection \<open>Pages\<close>

definition DEFAULT_PAGE_SIZE :: nat where
  "DEFAULT_PAGE_SIZE = 50"

definition MAX_PAGE_SIZE :: nat where
  "MAX_PAGE_SIZE = 100"

record page_query =
  pq_page :: nat
  pq_pageSize :: nat

definition default_page :: page_query where
  "default_page = \<lparr>pq_page = 1, pq_pageSize = DEFAULT_PAGE_SIZE\<rparr>"

definition page_query_ok :: "page_query \<Rightarrow> bool" where
  "page_query_ok q \<longleftrightarrow> 1 \<le> pq_page q \<and> 1 \<le> pq_pageSize q \<and> pq_pageSize q \<le> MAX_PAGE_SIZE"

definition page_skip :: "page_query \<Rightarrow> nat" where
  "page_skip q = (pq_page q - 1) * pq_pageSize q"

record 'a paginated =
  pg_data :: "'a list"
  pg_total :: nat
  pg_page :: nat
  pg_pageSize :: nat

definition paginate :: "'a list \<Rightarrow> nat \<Rightarrow> page_query \<Rightarrow> 'a paginated" where
  "paginate rows count q =
     \<lparr>pg_data = rows, pg_total = count, pg_page = pq_page q, pg_pageSize = pq_pageSize q\<rparr>"

text \<open>\<open>skip\<close> and \<open>take\<close> of a query.\<close>

definition page_of :: "page_query \<Rightarrow> 'a list \<Rightarrow> 'a list" where
  "page_of q rows = take (pq_pageSize q) (drop (page_skip q) rows)"

text \<open>The first \<open>n\<close> pages in a row are a prefix of the list.\<close>

lemma pages_prefix:
  "concat (map (\<lambda>i. page_of \<lparr>pq_page = i + 1, pq_pageSize = k\<rparr> rows) [0..<n]) = take (n * k) rows"
proof (induction n)
  case (Suc n)
  then show ?case by (simp add: page_of_def page_skip_def take_add [symmetric] add.commute)
qed simp

lemma pages_all:
  "length rows \<le> n * k \<Longrightarrow>
   concat (map (\<lambda>i. page_of \<lparr>pq_page = i + 1, pq_pageSize = k\<rparr> rows) [0..<n]) = rows"
  unfolding pages_prefix by simp

subsection \<open>Fixtures\<close>

record team_dto =
  td_id :: string
  td_name :: string
  td_shortName :: "string option"

definition team_dto_of :: "team_row \<Rightarrow> team_dto" where
  "team_dto_of t = \<lparr>td_id = tm_id t, td_name = tm_name t, td_shortName = tm_shortName t\<rparr>"

record fixture_dto =
  fd_id :: string
  fd_leagueId :: string
  fd_startsAt :: iso_date
  fd_status :: fixture_status
  fd_homeTeam :: team_dto
  fd_awayTeam :: team_dto

definition fixture_dto_of :: "db \<Rightarrow> fixture_row \<Rightarrow> fixture_dto option" where
  "fixture_dto_of d f =
     Option.bind (find_team (fx_homeTeamId f) d) (\<lambda>h.
     map_option (\<lambda>a. \<lparr>fd_id = fx_id f, fd_leagueId = fx_leagueId f, fd_startsAt = ISO (fx_startsAt f),
        fd_status = fx_status f, fd_homeTeam = team_dto_of h, fd_awayTeam = team_dto_of a\<rparr>)
       (find_team (fx_awayTeamId f) d))"

record fixtures_query =
  fq_page :: page_query
  fq_from :: "iso_date option"
  fq_to :: "iso_date option"
  fq_leagueId :: "string option"
  fq_status :: "fixture_status option"

definition in_date_range :: "iso_date option \<Rightarrow> iso_date option \<Rightarrow> int \<Rightarrow> bool" where
  "in_date_range lo hi t \<longleftrightarrow>
     (case lo of None \<Rightarrow> True | Some (ISO a) \<Rightarrow> a \<le> t) \<and> (case hi of None \<Rightarrow> True | Some (ISO b) \<Rightarrow> t \<le> b)"

definition league_visible :: "db \<Rightarrow> string \<Rightarrow> string \<Rightarrow> bool" where
  "league_visible d casinoGroupId leagueId \<longleftrightarrow>
     (case find_league leagueId d of None \<Rightarrow> False | Some l \<Rightarrow> lg_active l) \<and>
     league_offered d casinoGroupId leagueId"

definition fixture_where :: "db \<Rightarrow> string \<Rightarrow> fixtures_query \<Rightarrow> fixture_row \<Rightarrow> bool" where
  "fixture_where d casinoGroupId q f \<longleftrightarrow>
     league_visible d casinoGroupId (fx_leagueId f) \<and>
     (truthy (fq_leagueId q) \<longrightarrow> fq_leagueId q = Some (fx_leagueId f)) \<and>
     (case fq_status q of None \<Rightarrow> True | Some st \<Rightarrow> fx_status f = st) \<and>
     in_date_range (fq_from q) (fq_to q) (fx_startsAt f)"

definition matching_fixtures :: "string \<Rightarrow> fixtures_query \<Rightarrow> db \<Rightarrow> fixture_row list" where
  "matching_fixtures casinoGroupId q d =
     order_asc fx_startsAt (row_filter (fixture_where d casinoGroupId q) (db_fixtures d))"

definition listFixtures :: "string \<Rightarrow> fixtures_query \<Rightarrow> db \<Rightarrow> fixture_dto paginated" where
  "listFixtures casinoGroupId q d =
     (let rows = page_of (fq_page q) (matching_fixtures casinoGroupId q d);
          count = length (row_filter (fixture_where d casinoGroupId q) (db_fixtures d))
      in paginate (List.map_filter (fixture_dto_of d) rows) count (fq_page q))"

subsection \<open>Events\<close>

record event_dto =
  ed_id :: string
  ed_fixtureId :: string
  ed_leagueId :: string
  ed_status :: event_status
  ed_startsAt :: iso_date
  ed_homeScore :: "int option"
  ed_awayScore :: "int option"
  ed_period :: "string option"
  ed_clock :: "string option"
  ed_homeTeam :: team_dto
  ed_awayTeam :: team_dto

definition toEventDto :: "db \<Rightarrow> event_row \<Rightarrow> event_dto option" where
  "toEventDto d e =
     Option.bind (find_fixture (ev_fixtureId e) d) (\<lambda>f.
     Option.bind (find_team (fx_homeTeamId f) d) (\<lambda>h.
     map_option (\<lambda>a. \<lparr>ed_id = ev_id e, ed_fixtureId = ev_fixtureId e, ed_leagueId = fx_leagueId f,
        ed_status = ev_status e, ed_startsAt = ISO (fx_startsAt f), ed_homeScore = ev_homeScore e,
        ed_awayScore = ev_awayScore e, ed_period = ev_period e, ed_clock = ev_clock e,
        ed_homeTeam = team_dto_of h, ed_awayTeam = team_dto_of a\<rparr>)
       (find_team (fx_awayTeamId f) d)))"

definition kickoff :: "db \<Rightarrow> event_row \<Rightarrow> int" where
  "kickoff d e = (case find_fixture (ev_fixtureId e) d of None \<Rightarrow> 0 | Some f \<Rightarrow> fx_startsAt f)"

definition listLive :: "string \<Rightarrow> db \<Rightarrow> event_dto list" where
  "listLive casinoGroupId d =
     List.map_filter (toEventDto d) (order_asc (kickoff d)
       (row_filter (\<lambda>e. ev_status e = Ev_LIVE \<and> event_offered d casinoGroupId e) (db_events d)))"

definition visible_event :: "string \<Rightarrow> string \<Rightarrow> db \<Rightarrow> event_row option" where
  "visible_event casinoGroupId eventId d =
     row_find (\<lambda>e. ev_id e = eventId \<and> event_offered d casinoGroupId e) (db_events d)"

definition events_getById :: "string \<Rightarrow> string \<Rightarrow> db \<Rightarrow> event_dto option result" where
  "events_getById casinoGroupId eventId d =
     (case visible_event casinoGroupId eventId d of
        None \<Rightarrow> Inl (NotFound ''Event not found'')
      | Some e \<Rightarrow> Inr (toEventDto d e))"

subsection \<open>Markets\<close>

record selection_dto =
  sld_id :: string
  sld_name :: string
  sld_status :: selection_status
  sld_price :: string

record market_dto =
  mkd_id :: string
  mkd_eventId :: string
  mkd_type :: market_type
  mkd_status :: market_status
  mkd_line :: "string option"
  mkd_selections :: "selection_dto list"

definition toMarketDto :: "dec_lib \<Rightarrow> (string \<Rightarrow> int) \<Rightarrow> db \<Rightarrow> market_row \<Rightarrow> market_dto" where
  "toMarketDto L rank d m =
     \<lparr>mkd_id = mk_id m, mkd_eventId = mk_eventId m, mkd_type = mk_type m, mkd_status = mk_status m,
      mkd_line = nullableDecimalToString L (mk_line m),
      mkd_selections = map (\<lambda>x. \<lparr>sld_id = sl_id x, sld_name = sl_name x, sld_status = sl_status x,
           sld_price = decimalToString L (sl_price x)\<rparr>)
        (order_asc (\<lambda>x. rank (sl_providerRef x))
          (row_filter (\<lambda>x. sl_marketId x = mk_id m) (db_selections d)))\<rparr>"

text \<open>An enum column sorts in the order of its declaration.\<close>

fun market_type_order :: "market_type \<Rightarrow> int" where
  "market_type_order MATCH_RESULT = 0"
| "market_type_order HANDICAP = 1"
| "market_type_order TOTAL = 2"
| "market_type_order DOUBLE_CHANCE = 3"
| "market_type_order BOTH_TEAMS_SCORE = 4"

definition listForEvent ::
  "dec_lib \<Rightarrow> (string \<Rightarrow> int) \<Rightarrow> string \<Rightarrow> string \<Rightarrow> db \<Rightarrow> market_dto list result" where
  "listForEvent L rank casinoGroupId eventId d =
     (case visible_event casinoGroupId eventId d of
        None \<Rightarrow> Inl (NotFound ''Event not found'')
      | Some _ \<Rightarrow> Inr (map (toMarketDto L rank d)
          (order_asc (\<lambda>m. market_type_order (mk_type m))
            (row_filter (\<lambda>m. mk_eventId m = eventId) (db_markets d)))))"

definition market_visible :: "db \<Rightarrow> string \<Rightarrow> market_row \<Rightarrow> bool" where
  "market_visible d casinoGroupId m \<longleftrightarrow>
     (case find_event (mk_eventId m) d of None \<Rightarrow> False | Some e \<Rightarrow> event_offered d casinoGroupId e)"

definition markets_getById ::
  "dec_lib \<Rightarrow> (string \<Rightarrow> int) \<Rightarrow> string \<Rightarrow> string \<Rightarrow> db \<Rightarrow> market_dto result" where
  "markets_getById L rank casinoGroupId marketId d =
     (case row_find (\<lambda>m. mk_id m = marketId \<and> market_visible d casinoGroupId m) (db_markets d) of
        None \<Rightarrow> Inl (NotFound ''Market not found'')
      | Some m \<Rightarrow> Inr (toMarketDto L rank d m))"

subsection \<open>Leagues and sports\<close>

record league_dto =
  lgd_id :: string
  lgd_key :: string
  lgd_name :: string
  lgd_region :: "string option"
  lgd_sportId :: string

definition league_dto_of :: "league_row \<Rightarrow> league_dto" where
  "league_dto_of l = \<lparr>lgd_id = lg_id l, lgd_key = lg_key l, lgd_name = lg_name l, lgd_region = lg_region l,
     lgd_sportId = lg_sportId l\<rparr>"

record sport_dto =
  spd_id :: string
  spd_key :: string
  spd_name :: string
  spd_slug :: string

definition sport_dto_of :: "sport_row \<Rightarrow> sport_dto" where
  "sport_dto_of sp = \<lparr>spd_id = sp_id sp, spd_key = sp_key sp, spd_name = sp_name sp, spd_slug = sp_slug sp\<rparr>"

definition listLeaguesForGroup :: "(string \<Rightarrow> int) \<Rightarrow> string \<Rightarrow> string option \<Rightarrow> db \<Rightarrow> league_dto list" where
  "listLeaguesForGroup rank casinoGroupId sportId d =
     map league_dto_of (order_asc (\<lambda>l. rank (lg_name l))
       (row_filter (\<lambda>l. lg_active l \<and> league_offered d casinoGroupId (lg_id l) \<and>
          (truthy sportId \<longrightarrow> sportId = Some (lg_sportId l))) (db_leagues d)))"

definition listSportsForGroup :: "(string \<Rightarrow> int) \<Rightarrow> string \<Rightarrow> db \<Rightarrow> sport_dto list" where
  "listSportsForGroup rank casinoGroupId d =
     map sport_dto_of (order_asc (\<lambda>sp. rank (sp_name sp))
       (row_filter (\<lambda>sp. sp_active sp \<and>
          row_find (\<lambda>l. lg_sportId l = sp_id sp \<and> lg_active l \<and> league_offered d casinoGroupId (lg_id l))
            (db_leagues d) \<noteq> None) (db_sports d)))"

end
