(* ===== verification/Realtime.thy ===== *)
theory Realtime
  imports PlayerAuth Catalog
begin

text \<open>
  \<open>modules/realtime\<close>: the websocket gateway. The rate limiter (\<open>group-rate-limiter.ts\<close>), the rooms
  (\<open>realtime-rooms.ts\<close>), what a tenant may see (\<open>realtime-access.service.ts\<close>), the handlers of a
  socket (\<open>realtime.gateway.ts\<close>) and the fan-out of updates (\<open>realtime-pubsub.service.ts\<close>). The
  Redis channel between instances delivers each message to the gateway; connection metrics are
  left out.
\<close>

subsection \<open>The rate limiter\<close>

type_synonym buckets = "string \<Rightarrow> (nat \<times> int) option"   \<comment> \<open>count and reset time of a key\<close>

definition current_bucket :: "int \<Rightarrow> int \<Rightarrow> (nat \<times> int) option \<Rightarrow> nat \<times> int" where
  "current_bucket windowMs now b =
     (case b of
        None \<Rightarrow> (0, now + windowMs)
      | Some (count, resetAt) \<Rightarrow> if resetAt \<le> now then (0, now + windowMs) else (count, resetAt))"

definition tryConsume :: "nat \<Rightarrow> int \<Rightarrow> string \<Rightarrow> int \<Rightarrow> buckets \<Rightarrow> bool \<times> buckets" where
  "tryConsume maxPerWindow windowMs key now bs =
     (let (count, resetAt) = current_bucket windowMs now (bs key) in
      if maxPerWindow \<le> count then (False, bs(key \<mapsto> (count, resetAt)))
      else (True, bs(key \<mapsto> (count + 1, resetAt))))"

text \<open>The answers to a run of requests, each with its key and time.\<close>

fun consume_all :: "nat \<Rightarrow> int \<Rightarrow> (string \<times> int) list \<Rightarrow> buckets \<Rightarrow> bool list" where
  "consume_all m w [] bs = []"
| "consume_all m w ((k, t) # calls) bs =
     (let (ok, bs') = tryConsume m w k t bs in ok # consume_all m w calls bs')"

text \<open>How many requests of a key were let through.\<close>

definition accepted :: "string \<Rightarrow> (string \<times> int) list \<Rightarrow> bool list \<Rightarrow> nat" where
  "accepted k calls answers = length (filter (\<lambda>((k', t), ok). k' = k \<and> ok) (zip calls answers))"

lemma accepted_simps [simp]:
  "accepted k [] answers = 0"
  "accepted k ((k', t) # calls) (ok # answers) = (if k' = k \<and> ok then 1 else 0) + accepted k calls answers"
  by (simp_all add: accepted_def)

text \<open>While the bucket of the key does not expire, at most what is left in it gets through.\<close>

lemma accepted_in_window:
  assumes "bs k = Some (c, e)" and "\<forall>t. (k, t) \<in> set calls \<longrightarrow> t < e"
  shows "accepted k calls (consume_all m w calls bs) \<le> m - c"
  using assms
proof (induction calls arbitrary: bs c)
  case (Cons call calls)
  obtain k' t where call: "call = (k', t)" by fastforce
  obtain ok bs' where tc: "tryConsume m w k' t bs = (ok, bs')" by fastforce
  show ?case
  proof (cases "k' = k")
    case False
    with tc Cons.prems(1) have "bs' k = Some (c, e)"
      by (auto simp: tryConsume_def case_prod_beta Let_def split: if_splits)
    with Cons False call tc show ?thesis by simp
  next
    case True
    with Cons.prems(2) call have "t < e" by simp
    with Cons.prems(1) have "current_bucket w t (bs k) = (c, e)" by (simp add: current_bucket_def)
    with True tc have step: "ok = (c < m) \<and> bs' k = Some (if c < m then c + 1 else c, e)"
      by (auto simp: tryConsume_def)
    have "accepted k calls (consume_all m w calls bs') \<le> m - (if c < m then c + 1 else c)"
      by (rule Cons.IH) (use step Cons.prems(2) in auto)
    with step True call tc show ?thesis by (auto split: if_splits)
  qed
qed simp

lemma accepted_in_span:
  assumes "\<forall>t. (k, t) \<in> set calls \<longrightarrow> t0 \<le> t \<and> t < t0 + w"
  shows "accepted k calls (consume_all m w calls bs) \<le> m + (case bs k of None \<Rightarrow> 0 | Some (c, e) \<Rightarrow> m - c)"
  using assms
proof (induction calls arbitrary: bs)
  case (Cons call calls)
  obtain k' t where call: "call = (k', t)" by fastforce
  obtain ok bs' where tc: "tryConsume m w k' t bs = (ok, bs')" by fastforce
  have IH: "accepted k calls (consume_all m w calls bs') \<le> m + (case bs' k of None \<Rightarrow> 0 | Some (c, e) \<Rightarrow> m - c)"
    using Cons by simp
  show ?case
  proof (cases "k' = k")
    case False
    with tc have "bs' k = bs k"
      by (auto simp: tryConsume_def case_prod_beta Let_def split: if_splits)
    with IH False call tc show ?thesis by simp
  next
    case True
    obtain c e where cur: "current_bucket w t (bs k) = (c, e)" by fastforce
    with True tc have step: "ok = (c < m) \<and> bs' k = Some (if c < m then c + 1 else c, e)"
      by (auto simp: tryConsume_def)
    show ?thesis
    proof (cases "bs k = Some (c, e)")
      case same: True
      with IH step True call tc show ?thesis by (auto split: if_splits)
    next
      case fresh: False
      with cur have new: "c = 0" "e = t + w"
        by (auto simp: current_bucket_def split: option.splits if_splits)
      have "accepted k calls (consume_all m w calls bs') \<le> m - (if c < m then c + 1 else c)"
      proof (rule accepted_in_window)
        from Cons.prems call True have "t0 \<le> t" and "\<forall>u. (k, u) \<in> set calls \<longrightarrow> u < t0 + w" by auto
        then show "\<forall>u. (k, u) \<in> set calls \<longrightarrow> u < e" using new(2) by fastforce
      qed (use step in simp)
      with step new True call tc show ?thesis by (auto split: if_splits)
    qed
  qed
qed simp

subsection \<open>Rooms and what a tenant may see\<close>

definition eventRoom :: "string \<Rightarrow> string \<Rightarrow> string" where
  "eventRoom casinoGroupId eventId = ''group:'' @ casinoGroupId @ '':event:'' @ eventId"

definition marketRoom :: "string \<Rightarrow> string \<Rightarrow> string" where
  "marketRoom casinoGroupId marketId = ''group:'' @ casinoGroupId @ '':market:'' @ marketId"

definition filterVisibleEventIds :: "string \<Rightarrow> string list \<Rightarrow> db \<Rightarrow> string list" where
  "filterVisibleEventIds casinoGroupId eventIds d =
     (if eventIds = [] then []
      else map ev_id (row_filter (\<lambda>e. ev_id e \<in> set eventIds \<and> event_offered d casinoGroupId e) (db_events d)))"

definition filterVisibleMarketIds :: "string \<Rightarrow> string list \<Rightarrow> db \<Rightarrow> string list" where
  "filterVisibleMarketIds casinoGroupId marketIds d =
     (if marketIds = [] then []
      else map mk_id (row_filter (\<lambda>m. mk_id m \<in> set marketIds \<and> market_visible d casinoGroupId m) (db_markets d)))"

definition event_league :: "db \<Rightarrow> string \<Rightarrow> string option" where
  "event_league d eventId =
     Option.bind (find_event eventId d) (\<lambda>e. map_option fx_leagueId (find_fixture (ev_fixtureId e) d))"

definition groups_offering :: "db \<Rightarrow> string option \<Rightarrow> string list" where
  "groups_offering d leagueId =
     remdups (map gl_casinoGroupId
       (row_filter (\<lambda>g. gl_enabled g \<and> Some (gl_leagueId g) = leagueId) (db_groupLeagues d)))"

definition groupIdsForEvent :: "string \<Rightarrow> db \<Rightarrow> string list" where
  "groupIdsForEvent eventId d = groups_offering d (event_league d eventId)"

definition groupIdsForMarket :: "string \<Rightarrow> db \<Rightarrow> string list" where
  "groupIdsForMarket marketId d =
     (case find_market marketId d of
        None \<Rightarrow> []
      | Some m \<Rightarrow> groups_offering d (event_league d (mk_eventId m)))"

subsection \<open>Sockets\<close>

text \<open>What the server sends to a socket.\<close>

record event_update =
  eu_eventId :: string
  eu_status :: event_status
  eu_homeScore :: "int option"
  eu_awayScore :: "int option"
  eu_period :: "string option"
  eu_clock :: "string option"

record odds_update =
  ou_marketId :: string
  ou_selectionId :: string
  ou_price :: string
  ou_status :: selection_status

datatype ws_message =
    Ws_error string
  | Ws_connected string string              \<comment> \<open>tenant and player\<close>
  | Ws_subscribed "string list" "string list"
  | Ws_event_update event_update
  | Ws_selection_odds odds_update

record socket =
  so_user :: "user_context option"
  so_rooms :: "string list"
  so_sent :: "ws_message list"
  so_open :: bool

definition new_socket :: socket where
  "new_socket = \<lparr>so_user = None, so_rooms = [], so_sent = [], so_open = True\<rparr>"

definition emit :: "ws_message \<Rightarrow> socket \<Rightarrow> socket" where
  "emit msg c = c\<lparr>so_sent := so_sent c @ [msg]\<rparr>"

definition reject :: "string \<Rightarrow> socket \<Rightarrow> socket" where
  "reject message c = (emit (Ws_error message) c)\<lparr>so_open := False, so_rooms := []\<rparr>"

definition join_room :: "string \<Rightarrow> socket \<Rightarrow> socket" where
  "join_room room c = c\<lparr>so_rooms := set_add room (so_rooms c)\<rparr>"

definition leave_room :: "string \<Rightarrow> socket \<Rightarrow> socket" where
  "leave_room room c = c\<lparr>so_rooms := filter (\<lambda>r. r \<noteq> room) (so_rooms c)\<rparr>"

definition extractToken :: "string option \<Rightarrow> string option \<Rightarrow> string option" where
  "extractToken authToken queryToken =
     (if truthy authToken then authToken else if truthy queryToken then queryToken else None)"

definition handleConnection ::
  "jwt_lib \<Rightarrow> auth_config \<Rightarrow> 'r redis_port \<Rightarrow> string option \<Rightarrow> string option \<Rightarrow> db \<Rightarrow> int \<Rightarrow> 'r \<Rightarrow>
   socket \<Rightarrow> socket \<times> 'r" where
  "handleConnection J C R authToken queryToken d now r c =
     (case extractToken authToken queryToken of
        None \<Rightarrow> (reject ''Authentication required'' c, r)
      | Some token \<Rightarrow>
          (case session_verify J C token now of
             Inl e \<Rightarrow> (reject ''Invalid or expired session'' c, r)
           | Inr user \<Rightarrow>
               (case resolveActiveById R (uc_casinoGroupId user) d now r of
                  (None, r') \<Rightarrow> (reject ''Unknown or inactive casino group'' c, r')
                | (Some grp, r') \<Rightarrow>
                    (emit (Ws_connected (uc_casinoGroupId user) (uc_userId user)) (c\<lparr>so_user := Some user\<rparr>), r'))))"

record subscribe_dto =
  sub_eventIds :: "string list"
  sub_marketIds :: "string list option"

definition market_ids :: "subscribe_dto \<Rightarrow> string list" where
  "market_ids body = (case sub_marketIds body of None \<Rightarrow> [] | Some ms \<Rightarrow> ms)"

definition handleSubscribe :: "nat \<Rightarrow> subscribe_dto \<Rightarrow> db \<Rightarrow> int \<Rightarrow> buckets \<Rightarrow> socket \<Rightarrow> socket \<times> buckets" where
  "handleSubscribe subscribeMax body d now bs c =
     (case so_user c of
        None \<Rightarrow> (emit (Ws_error ''Not authenticated'') c, bs)
      | Some user \<Rightarrow>
      let g = uc_casinoGroupId user; (ok, bs') = tryConsume subscribeMax 60000 g now bs in
      if \<not> ok then (emit (Ws_error ''Subscribe rate limit exceeded for this casino group'') c, bs')
      else
      let eventIds = filterVisibleEventIds g (sub_eventIds body) d;
          marketIds = filterVisibleMarketIds g (market_ids body) d in
      if length eventIds \<noteq> length (sub_eventIds body) \<or> length (market_ids body) \<noteq> length marketIds then
        (emit (Ws_error ''One or more event/market ids are not available for this group'') c, bs')
      else
        (emit (Ws_subscribed eventIds marketIds)
          (foldl (\<lambda>c m. join_room (marketRoom g m) c)
            (foldl (\<lambda>c e. join_room (eventRoom g e) c) c eventIds) marketIds), bs'))"

definition handleUnsubscribe :: "subscribe_dto \<Rightarrow> socket \<Rightarrow> socket" where
  "handleUnsubscribe body c =
     (case so_user c of
        None \<Rightarrow> c
      | Some user \<Rightarrow>
          foldl (\<lambda>c m. leave_room (marketRoom (uc_casinoGroupId user) m) c)
            (foldl (\<lambda>c e. leave_room (eventRoom (uc_casinoGroupId user) e) c) c (sub_eventIds body))
            (market_ids body))"

subsection \<open>Fan-out\<close>

definition emitToRoom :: "string \<Rightarrow> ws_message \<Rightarrow> socket list \<Rightarrow> socket list" where
  "emitToRoom room msg sockets =
     map (\<lambda>c. if so_open c \<and> room \<in> set (so_rooms c) then emit msg c else c) sockets"

definition event_broadcasts :: "event_update \<Rightarrow> db \<Rightarrow> (string \<times> ws_message) list" where
  "event_broadcasts payload d =
     map (\<lambda>g. (eventRoom g (eu_eventId payload), Ws_event_update payload))
       (groupIdsForEvent (eu_eventId payload) d)"

definition odds_broadcasts :: "dec_lib \<Rightarrow> string \<Rightarrow> string \<Rightarrow> rat \<Rightarrow> selection_status \<Rightarrow> db \<Rightarrow> (string \<times> ws_message) list" where
  "odds_broadcasts L marketId selectionId price status d =
     map (\<lambda>g. (marketRoom g marketId, Ws_selection_odds \<lparr>ou_marketId = marketId,
          ou_selectionId = selectionId, ou_price = decimalToString L price, ou_status = status\<rparr>))
       (groupIdsForMarket marketId d)"

definition deliver :: "(string \<times> ws_message) list \<Rightarrow> socket list \<Rightarrow> socket list" where
  "deliver msgs sockets = foldl (\<lambda>cs (room, msg). emitToRoom room msg cs) sockets msgs"

definition publishEventUpdate :: "event_update \<Rightarrow> db \<Rightarrow> socket list \<Rightarrow> socket list" where
  "publishEventUpdate payload d sockets = deliver (event_broadcasts payload d) sockets"

definition publishSelectionOdds ::
  "dec_lib \<Rightarrow> string \<Rightarrow> string \<Rightarrow> rat \<Rightarrow> selection_status \<Rightarrow> db \<Rightarrow> socket list \<Rightarrow> socket list" where
  "publishSelectionOdds L marketId selectionId price status d sockets =
     deliver (odds_broadcasts L marketId selectionId price status d) sockets"

end
