(* ===== verification/PortalProperties.thy ===== *)
theory PortalProperties
  imports Reports Catalog Realtime Example
begin

text \<open>
  Properties of what the service hands out: the export of the audit log reads back, the pages of
  the fixtures make up the list, and the websocket limiter bounds what one tenant may ask for.
\<close>

subsection \<open>The export of the audit log\<close>

text \<open>C38: A CSV reader gets back from an export of the audit log the header and, for every row and
  column, exactly the text that was exported, quotes, commas and line breaks included.\<close>

theorem csv_export_reads_back:
  "parse_csv (auditRowsToCsv rows) = csv_header # map csv_cells rows"
proof -
  have "auditRowsToCsv rows = join_with [CHR 0x0A]
      (map (\<lambda>cells. join_with '','' (map escapeCsv cells)) (csv_header # map csv_cells rows))"
    by (simp add: auditRowsToCsv_def escape_header comp_def)
  moreover have "\<forall>cells \<in> set (csv_header # map csv_cells rows). cells \<noteq> []"
    by (auto simp: csv_header_def csv_cells_def)
  ultimately show ?thesis using read_lines by (simp add: parse_csv_def del: list.map)
qed

subsection \<open>The pages of the fixtures\<close>

lemma matching_fixtures_page [simp]:
  "matching_fixtures g (q\<lparr>fq_page := p\<rparr>) d = matching_fixtures g q d"
  by (simp add: matching_fixtures_def fixture_where_def [abs_def])

lemma listFixtures_page:
  "pg_data (listFixtures g (q\<lparr>fq_page := p\<rparr>) d) = List.map_filter (fixture_dto_of d) (page_of p (matching_fixtures g q d))"
  "pg_total (listFixtures g (q\<lparr>fq_page := p\<rparr>) d) = length (matching_fixtures g q d)"
proof -
  have "length (row_filter (fixture_where d g (q\<lparr>fq_page := p\<rparr>)) (db_fixtures d)) = length (matching_fixtures g q d)"
    by (simp add: matching_fixtures_def fixture_where_def [abs_def])
  then show "pg_data (listFixtures g (q\<lparr>fq_page := p\<rparr>) d) =
      List.map_filter (fixture_dto_of d) (page_of p (matching_fixtures g q d))"
    and "pg_total (listFixtures g (q\<lparr>fq_page := p\<rparr>) d) = length (matching_fixtures g q d)"
    by (simp_all add: listFixtures_def paginate_def)
qed

lemma map_filter_concat: "concat (map (\<lambda>x. List.map_filter f (g x)) xs) = List.map_filter f (concat (map g xs))"
  by (induction xs) (simp_all add: List.map_filter_def)

text \<open>Whatever page size a player asks for, the first pages, as many as the reported total needs,
  put one after the other are the whole list: every fixture of the tenant's leagues that meets the
  filter, once, by kick-off. (Fixtures that start together come in table order on every page.)\<close>

theorem fixture_pages_cover_list:
  assumes "pg_total (listFixtures g q d) \<le> n * k"
  shows "concat (map (\<lambda>i. pg_data (listFixtures g (q\<lparr>fq_page := \<lparr>pq_page = i + 1, pq_pageSize = k\<rparr>\<rparr>) d)) [0..<n]) =
    List.map_filter (fixture_dto_of d)
      (sort_key fx_startsAt (filter (fixture_where d g q) (db_fixtures d)))"
proof -
  have "length (matching_fixtures g q d) \<le> n * k"
    using assms listFixtures_page(2) [of g "fq_page q" q d] by simp
  then have "concat (map (\<lambda>i. page_of \<lparr>pq_page = i + 1, pq_pageSize = k\<rparr> (matching_fixtures g q d)) [0..<n]) =
      matching_fixtures g q d"
    by (rule pages_all)
  then show ?thesis
    by (simp add: listFixtures_page(1) map_filter_concat matching_fixtures_def order_asc_def row_filter_def)
qed

definition ex_fixture :: "string \<Rightarrow> int \<Rightarrow> fixture_row" where
  "ex_fixture i t = \<lparr> fx_id = i, fx_leagueId = ''l1'', fx_homeTeamId = ''t1'', fx_awayTeamId = ''t2'',
     fx_startsAt = t, fx_status = Fx_SCHEDULED, fx_providerRef = ''p'' @ i \<rparr>"

definition ex_fixtures :: db where
  "ex_fixtures = (w_db ex_world)\<lparr>db_fixtures := [ex_fixture ''f1'' 30, ex_fixture ''f2'' 10, ex_fixture ''f3'' 20]\<rparr>"

definition ex_query :: fixtures_query where
  "ex_query = \<lparr>fq_page = default_page, fq_from = None, fq_to = None, fq_leagueId = None, fq_status = None\<rparr>"

theorem fixture_pages_cover_list_witness:
  "map fd_id (concat (map (\<lambda>i. pg_data (listFixtures ''g1''
      (ex_query\<lparr>fq_page := \<lparr>pq_page = i + 1, pq_pageSize = 2\<rparr>\<rparr>) ex_fixtures)) [0..<2])) = [''f2'', ''f3'', ''f1'']"
proof -
  have "pg_total (listFixtures ''g1'' ex_query ex_fixtures) \<le> 2 * 2" by code_simp
  note fixture_pages_cover_list [OF this]
  moreover have "map fd_id (List.map_filter (fixture_dto_of ex_fixtures)
      (sort_key fx_startsAt (filter (fixture_where ex_fixtures ''g1'' ex_query) (db_fixtures ex_fixtures)))) =
      [''f2'', ''f3'', ''f1'']" by code_simp
  ultimately show ?thesis by simp
qed

subsection \<open>The limiter of the websocket\<close>

abbreviation calls_of :: "string \<Rightarrow> (string \<times> int) list \<Rightarrow> (string \<times> int) list" where
  "calls_of k \<equiv> filter (\<lambda>call. fst call = k)"

text \<open>A bucket is touched by its own key only.\<close>

lemma accepted_own:
  assumes "bs k = bs' k"
  shows "accepted k calls (consume_all m w calls bs) =
    accepted k (calls_of k calls) (consume_all m w (calls_of k calls) bs')"
  using assms
proof (induction calls arbitrary: bs bs')
  case (Cons call calls)
  obtain k' t where call: "call = (k', t)" by fastforce
  obtain ok bs1 where tc: "tryConsume m w k' t bs = (ok, bs1)" by fastforce
  show ?case
  proof (cases "k' = k")
    case True
    obtain ok' bs2 where tc': "tryConsume m w k t bs' = (ok', bs2)" by fastforce
    with tc True Cons.prems have "ok' = ok \<and> bs1 k = bs2 k"
      by (auto simp: tryConsume_def case_prod_beta Let_def split: if_splits)
    with Cons.IH [of bs1 bs2] call tc tc' True show ?thesis by simp
  next
    case False
    with tc have "bs1 k = bs k"
      by (auto simp: tryConsume_def case_prod_beta Let_def split: if_splits)
    with Cons.IH [of bs1 bs'] Cons.prems call tc False show ?thesis by simp
  qed
qed simp

text \<open>C40: In any span of one window's length the limiter lets at most twice the limit of a tenant's
  requests through, at most the limit when the tenant starts with no bucket, and what other tenants
  send meanwhile makes no difference.\<close>

theorem subscribe_rate_bounded:
  assumes "\<forall>t. (k, t) \<in> set calls \<longrightarrow> t0 \<le> t \<and> t < t0 + w"
  shows "accepted k calls (consume_all m w calls bs) \<le> 2 * m \<and>
    (bs k = None \<longrightarrow> accepted k calls (consume_all m w calls bs) \<le> m) \<and>
    accepted k calls (consume_all m w calls bs) =
      accepted k (calls_of k calls) (consume_all m w (calls_of k calls) bs)"
proof -
  have "m + (case bs k of None \<Rightarrow> 0 | Some (c, e) \<Rightarrow> m - c) \<le> 2 * m"
    by (simp split: option.split prod.split)
  with accepted_in_span [OF assms, of m bs] accepted_own [where bs = bs and bs' = bs and k = k and calls = calls and m = m and w = w] show ?thesis
    by (auto simp: le_diff_conv split: option.splits)
qed

definition ex_calls :: "(string \<times> int) list" where
  "ex_calls = [(''g1'', 0), (''g1'', 3), (''g2'', 4), (''g1'', 7)]"

theorem subscribe_rate_bounded_witness:
  "accepted ''g1'' ex_calls (consume_all 1 10 ex_calls (\<lambda>_. None)) \<le> 1 \<and>
   accepted ''g1'' ex_calls (consume_all 1 10 ex_calls (\<lambda>_. None)) \<noteq> 0"
proof -
  have "\<forall>t. (''g1'', t) \<in> set ex_calls \<longrightarrow> (0 :: int) \<le> t \<and> t < 0 + 10" by (simp add: ex_calls_def)
  from subscribe_rate_bounded [OF this, of 1 "\<lambda>_. None"]
  have "accepted ''g1'' ex_calls (consume_all 1 10 ex_calls (\<lambda>_. None)) \<le> 1" by simp
  moreover have "accepted ''g1'' ex_calls (consume_all 1 10 ex_calls (\<lambda>_. None)) \<noteq> 0"
    by (simp add: ex_calls_def tryConsume_def current_bucket_def Let_def)
  ultimately show ?thesis by blast
qed

end
