(* ===== verification/PlayerRoutes.thy ===== *)
theory PlayerRoutes
  imports Config PlayerAuth Catalog WalletHttp
begin

text \<open>
  The routes of a player: \<open>modules/bets/bets.controller.ts\<close>, \<open>modules/wallet/wallet.controller.ts\<close> and
  the controllers of fixtures, events, markets, leagues and sports, each behind the guard of
  \<open>modules/auth/player-auth.decorator.ts\<close>; and how an error becomes an answer
  (\<open>shared/filters/all-exceptions.filter.ts\<close>).
\<close>

record ('w, 'r) portal =
  po_env :: env
  po_jwt :: jwt_lib
  po_auth :: auth_config
  po_redis :: "'r redis_port"
  po_wallet :: "'w wallet_port"
  po_rank :: "string \<Rightarrow> int"

text \<open>What a request carries for the guard: the authorization header and the tenant headers.\<close>

record player_headers =
  ph_authorization :: "string option"
  ph_casinoGroup :: "string list"

definition player_auth ::
  "('w, 'r) portal \<Rightarrow> player_headers \<Rightarrow> 'w world \<Rightarrow> 'r \<Rightarrow>
   (user_context option \<times> casino_group_ctx \<Rightarrow> 'a result \<times> 'w world) \<Rightarrow> 'a result \<times> 'w world \<times> 'r" where
  "player_auth A h s r act =
     (case PlayerAuthGuard (po_jwt A) (po_auth A) (po_redis A) (ph_authorization h) (ph_casinoGroup h)
             (w_db s) (w_now s) r of
        (Inl e, r') \<Rightarrow> (Inl e, s, r')
      | (Inr request, r') \<Rightarrow> (case act request of (x, s') \<Rightarrow> (x, s', r')))"

text \<open>A handler that reads for the tenant, and one that acts for the player.\<close>

definition for_group :: "'w world \<Rightarrow> (string \<Rightarrow> db \<Rightarrow> 'a result) \<Rightarrow>
    user_context option \<times> casino_group_ctx \<Rightarrow> 'a result \<times> 'w world" where
  "for_group s read request = (read (cc_id (snd request)) (w_db s), s)"

definition for_player :: "'w world \<Rightarrow> (user_context \<Rightarrow> 'a result \<times> 'w world) \<Rightarrow>
    user_context option \<times> casino_group_ctx \<Rightarrow> 'a result \<times> 'w world" where
  "for_player s act request =
     (case CurrentUser (fst request) of Inl e \<Rightarrow> (Inl e, s) | Inr user \<Rightarrow> act user)"

subsection \<open>Bets and balance\<close>

definition post_bet where
  "post_bet A h idempotencyKey selectionIds stake s r =
     player_auth A h s r (for_player s (\<lambda>user.
       BetsController_placeBet (po_env A) (po_wallet A) user idempotencyKey selectionIds stake s))"

definition parse_limit :: "string option \<Rightarrow> int" where
  "parse_limit limit =
     (if \<not> truthy limit then 50 else case js_parse_int (the limit) of None \<Rightarrow> 50 | Some n \<Rightarrow> n)"

definition get_bets where
  "get_bets A h limit s r =
     player_auth A h s r (for_player s (\<lambda>user.
       (Inr (listForUser (po_env A) (uc_casinoGroupId user) (uc_userId user) (parse_limit limit) (w_db s)), s)))"

definition get_bet where
  "get_bet A h betId s r =
     player_auth A h s r (for_player s (\<lambda>user.
       (getForUser (po_env A) (uc_casinoGroupId user) (uc_userId user) betId (w_db s), s)))"

definition get_balance where
  "get_balance A h s r =
     player_auth A h s r (for_player s (\<lambda>user.
       case WalletService_getBalance (po_wallet A) (uc_username user) (uc_casinoGroupId user) (w_wallet s) of
         (x, w) \<Rightarrow> (x, s\<lparr>w_wallet := w\<rparr>)))"

subsection \<open>The catalogue\<close>

definition get_fixtures where
  "get_fixtures A h query s r = player_auth A h s r (for_group s (\<lambda>g d. Inr (listFixtures g query d)))"

definition get_live_events where
  "get_live_events A h s r = player_auth A h s r (for_group s (\<lambda>g d. Inr (listLive g d)))"

definition get_event where
  "get_event A h eventId s r = player_auth A h s r (for_group s (\<lambda>g d. events_getById g eventId d))"

definition get_event_markets where
  "get_event_markets A h eventId s r =
     player_auth A h s r (for_group s (\<lambda>g d. listForEvent (env_dec (po_env A)) (po_rank A) g eventId d))"

definition get_market where
  "get_market A h marketId s r =
     player_auth A h s r (for_group s (\<lambda>g d. markets_getById (env_dec (po_env A)) (po_rank A) g marketId d))"

definition get_leagues where
  "get_leagues A h sportId s r =
     player_auth A h s r (for_group s (\<lambda>g d. Inr (listLeaguesForGroup (po_rank A) g sportId d)))"

definition get_sports where
  "get_sports A h s r = player_auth A h s r (for_group s (\<lambda>g d. Inr (listSportsForGroup (po_rank A) g d)))"

subsection \<open>A player's requests need a session\<close>

lemma guard_user:
  assumes "PlayerAuthGuard J C R authorization hs d now r = (Inr (Some user, grp), r')"
  shows "\<exists>token. bearerToken authorization = Some token \<and> session_verify J C token now = Inr user"
  using assms by (auto simp: PlayerAuthGuard_def split: option.splits sum.splits prod.splits if_splits)

lemma for_player_session:
  assumes "player_auth A h s r (for_player s act) = (Inr x, s', r')"
  shows "\<exists>token user. bearerToken (ph_authorization h) = Some token \<and>
    session_verify (po_jwt A) (po_auth A) token (w_now s) = Inr user \<and> act user = (Inr x, s')"
proof -
  obtain q r1 where g: "PlayerAuthGuard (po_jwt A) (po_auth A) (po_redis A) (ph_authorization h) (ph_casinoGroup h)
      (w_db s) (w_now s) r = (q, r1)" by fastforce
  with assms obtain request where q: "q = Inr request" and a: "for_player s act request = (Inr x, s')"
    by (auto simp: player_auth_def split: sum.splits prod.splits)
  then obtain user grp where u: "request = (Some user, grp)" "act user = (Inr x, s')"
    by (cases request) (auto simp: for_player_def CurrentUser_def split: option.splits)
  from guard_user [OF g [unfolded q u(1)]] u(2) show ?thesis by blast
qed

text \<open>
  The tenant header of development opens the catalogue only: bets are placed and read, and balances
  shown, for the player of a verified session token, who is shown only bets of his own.
\<close>

lemma bet_needs_session:
  assumes "post_bet A h k ids stake s r = (Inr dto, s', r')"
  shows "\<exists>token user. bearerToken (ph_authorization h) = Some token \<and>
    session_verify (po_jwt A) (po_auth A) token (w_now s) = Inr user \<and>
    BetsController_placeBet (po_env A) (po_wallet A) user k ids stake s = (Inr dto, s')"
  using for_player_session [OF assms [unfolded post_bet_def]] .

lemma anonymous_refused:
  assumes "bearerToken (ph_authorization h) = None"
  shows "\<exists>e. fst (post_bet A h k ids stake s r) = Inl e" and "\<exists>e. fst (get_bets A h limit s r) = Inl e"
    and "\<exists>e. fst (get_bet A h i s r) = Inl e" and "\<exists>e. fst (get_balance A h s r) = Inl e"
proof -
  have "\<exists>e. fst (player_auth A h s r (for_player s act)) = Inl e" for act :: "user_context \<Rightarrow> 'c result \<times> 'a world"
  proof (cases "fst (player_auth A h s r (for_player s act))")
    case (Inr x)
    then obtain s' r' where "player_auth A h s r (for_player s act) = (Inr x, s', r')" by (metis prod.collapse)
    from for_player_session [OF this] assms show ?thesis by simp
  qed blast
  note no = this
  show "\<exists>e. fst (post_bet A h k ids stake s r) = Inl e" unfolding post_bet_def by (rule no)
  show "\<exists>e. fst (get_bets A h limit s r) = Inl e" unfolding get_bets_def by (rule no)
  show "\<exists>e. fst (get_bet A h i s r) = Inl e" unfolding get_bet_def by (rule no)
  show "\<exists>e. fst (get_balance A h s r) = Inl e" unfolding get_balance_def by (rule no)
qed

subsection \<open>The answer to an error\<close>

text \<open>The status of an exception; whatever is no HTTP exception is an internal server error.\<close>

fun http_status :: "api_error \<Rightarrow> nat" where
  "http_status (BadRequest m) = 400"
| "http_status (Unauthorized m) = 401"
| "http_status (Forbidden m) = 403"
| "http_status (NotFound m) = 404"
| "http_status (Conflict m) = 409"
| "http_status (ServiceUnavailable m) = 503"
| "http_status (WalletReserveError m c) = 500"
| "http_status (PlainError m) = 500"

fun is_http_exception :: "api_error \<Rightarrow> bool" where
  "is_http_exception (WalletReserveError m c) = False"
| "is_http_exception (PlainError m) = False"
| "is_http_exception _ = True"

record error_answer =
  ea_statusCode :: nat
  ea_timestamp :: int
  ea_path :: string
  ea_message :: string
  ea_logged :: bool

definition all_exceptions :: "api_error \<Rightarrow> string \<Rightarrow> int \<Rightarrow> error_answer" where
  "all_exceptions exception url now =
     (let status = http_status exception in
      \<lparr>ea_statusCode = status, ea_timestamp = now, ea_path = url,
       ea_message = (if is_http_exception exception then error_message exception else ''Internal server error''),
       ea_logged = (500 \<le> status)\<rparr>)"

text \<open>The wording of an error that was not meant for the client does not reach him.\<close>

lemma internal_error_hidden:
  "\<not> is_http_exception e \<Longrightarrow> all_exceptions e url now =
     \<lparr>ea_statusCode = 500, ea_timestamp = now, ea_path = url, ea_message = ''Internal server error'', ea_logged = True\<rparr>"
  by (cases e) (simp_all add: all_exceptions_def)

end
