(* ===== verification/RealtimeScope.thy ===== *)
theory RealtimeScope
  imports Realtime
begin

text \<open>
  Who receives what over the websocket (\<open>modules/realtime\<close>): a socket is only ever in rooms of its own
  player's tenant, for events and markets the tenant offered when it subscribed, and an update goes
  to the sockets of the tenants that offer its league.
\<close>

subsection \<open>Rooms belong to tenants\<close>

lemma split_at_char:
  assumes "c \<notin> set xs" and "c \<notin> set ys" and "xs @ c # us = ys @ c # vs"
  shows "xs = ys \<and> us = vs"
proof -
  have "takeWhile (\<lambda>x. x \<noteq> c) (zs @ c # ws) = zs" if "c \<notin> set zs" for zs ws
    using that by (induction zs) auto
  with assms have "xs = ys" by metis
  with assms(3) show ?thesis by simp
qed

text \<open>Ids of tenants carry no colon; then the name of a room tells its tenant.\<close>

lemma room_tenant:
  assumes "CHR '':'' \<notin> set g" and "CHR '':'' \<notin> set h"
  shows "eventRoom g i = eventRoom h j \<Longrightarrow> g = h \<and> i = j"
    and "marketRoom g i = marketRoom h j \<Longrightarrow> g = h \<and> i = j"
    and "eventRoom g i \<noteq> marketRoom h j"
proof -
  have parts: "g = h \<and> t = u" if "''group:'' @ g @ CHR '':'' # t = ''group:'' @ h @ CHR '':'' # u" for t u
    using split_at_char [OF assms, of t u] that by simp
  show "eventRoom g i = eventRoom h j \<Longrightarrow> g = h \<and> i = j"
    using parts [of "''event:'' @ i" "''event:'' @ j"] by (simp add: eventRoom_def)
  show "marketRoom g i = marketRoom h j \<Longrightarrow> g = h \<and> i = j"
    using parts [of "''market:'' @ i" "''market:'' @ j"] by (simp add: marketRoom_def)
  show "eventRoom g i \<noteq> marketRoom h j"
    using parts [of "''event:'' @ i" "''market:'' @ j"] by (auto simp: eventRoom_def marketRoom_def)
qed

subsection \<open>A socket stays in its tenant's rooms\<close>

definition room_of :: "string \<Rightarrow> string \<Rightarrow> bool" where
  "room_of g r \<longleftrightarrow> (\<exists>i. r = eventRoom g i \<or> r = marketRoom g i)"

definition own_rooms :: "socket \<Rightarrow> bool" where
  "own_rooms c \<longleftrightarrow>
     (case so_user c of
        None \<Rightarrow> so_rooms c = []
      | Some user \<Rightarrow> \<forall>r \<in> set (so_rooms c). room_of (uc_casinoGroupId user) r)"

lemma emit_fields [simp]:
  "so_user (emit m c) = so_user c" "so_rooms (emit m c) = so_rooms c" "so_open (emit m c) = so_open c"
  "so_sent (emit m c) = so_sent c @ [m]"
  by (simp_all add: emit_def)

lemma own_rooms_emit [simp]: "own_rooms (emit m c) = own_rooms c"
  by (simp add: own_rooms_def split: option.split)

lemma own_rooms_new: "own_rooms new_socket"
  by (simp add: own_rooms_def new_socket_def)

lemma own_rooms_connect:
  assumes "own_rooms c" and "so_rooms c = []"
  shows "own_rooms (fst (handleConnection J C R a q d now r c))"
  using assms
  by (auto simp: handleConnection_def reject_def own_rooms_def split: option.split sum.split prod.split)

lemma join_fields:
  "so_user (foldl (\<lambda>c i. join_room (room i) c) c is) = so_user c"
  "set (so_rooms (foldl (\<lambda>c i. join_room (room i) c) c is)) = set (so_rooms c) \<union> room ` set is"
  by (induction "is" arbitrary: c) (auto simp: join_room_def set_add_def)

lemma leave_fields:
  "so_user (foldl (\<lambda>c i. leave_room (room i) c) c is) = so_user c"
  "set (so_rooms (foldl (\<lambda>c i. leave_room (room i) c) c is)) = set (so_rooms c) - room ` set is"
  by (induction "is" arbitrary: c) (auto simp: leave_room_def)

text \<open>After a subscription the new rooms are of events and markets the tenant offers.\<close>

lemma subscribe_rooms:
  assumes "so_user c = Some user" and "r \<in> set (so_rooms (fst (handleSubscribe k body d now bs c)))"
    and "r \<notin> set (so_rooms c)"
  defines "g \<equiv> uc_casinoGroupId user"
  shows "(\<exists>e \<in> set (db_events d). r = eventRoom g (ev_id e) \<and> event_offered d g e) \<or>
    (\<exists>m \<in> set (db_markets d). r = marketRoom g (mk_id m) \<and> market_visible d g m)"
  using assms
  by (auto simp: handleSubscribe_def Let_def join_fields filterVisibleEventIds_def filterVisibleMarketIds_def
      case_prod_beta split: if_splits)

lemma own_rooms_subscribe:
  assumes "own_rooms c"
  shows "own_rooms (fst (handleSubscribe k body d now bs c))"
proof (cases "so_user c")
  case None
  with assms show ?thesis by (simp add: handleSubscribe_def)
next
  case (Some user)
  have "so_user (fst (handleSubscribe k body d now bs c)) = Some user"
    using Some by (simp add: handleSubscribe_def Let_def join_fields case_prod_beta)
  with Some assms subscribe_rooms [OF Some] show ?thesis
    unfolding own_rooms_def room_of_def by fastforce
qed

lemma own_rooms_unsubscribe: "own_rooms c \<Longrightarrow> own_rooms (handleUnsubscribe body c)"
  by (cases "so_user c") (auto simp: handleUnsubscribe_def own_rooms_def leave_fields)

subsection \<open>Who an update reaches\<close>

text \<open>What one socket gets out of a run of messages.\<close>

definition receive :: "string \<times> ws_message \<Rightarrow> socket \<Rightarrow> socket" where
  "receive msg c = (if so_open c \<and> fst msg \<in> set (so_rooms c) then emit (snd msg) c else c)"

lemma receive_fields [simp]:
  "so_user (receive msg c) = so_user c" "so_rooms (receive msg c) = so_rooms c"
  "so_open (receive msg c) = so_open c"
  by (simp_all add: receive_def)

lemma deliver_map: "deliver msgs sockets = map (\<lambda>c. foldl (\<lambda>c msg. receive msg c) c msgs) sockets"
proof (induction msgs arbitrary: sockets)
  case (Cons msg msgs)
  have "emitToRoom (fst msg) (snd msg) sockets = map (receive msg) sockets"
    by (simp add: emitToRoom_def receive_def [abs_def])
  then have "deliver (msg # msgs) sockets = deliver msgs (map (receive msg) sockets)"
    by (simp add: deliver_def case_prod_beta)
  with Cons show ?case by simp
qed (simp add: deliver_def)

lemma receive_all_fields:
  "so_user (foldl (\<lambda>c msg. receive msg c) c msgs) = so_user c"
  "so_rooms (foldl (\<lambda>c msg. receive msg c) c msgs) = so_rooms c"
  "so_open (foldl (\<lambda>c msg. receive msg c) c msgs) = so_open c"
  by (induction msgs arbitrary: c) simp_all

lemma receive_none:
  "(\<And>msg. msg \<in> set msgs \<Longrightarrow> fst msg \<notin> set (so_rooms c)) \<Longrightarrow> foldl (\<lambda>c msg. receive msg c) c msgs = c"
  by (induction msgs) (simp_all add: receive_def)

lemma own_rooms_deliver: "\<forall>c \<in> set sockets. own_rooms c \<Longrightarrow> \<forall>c \<in> set (deliver msgs sockets). own_rooms c"
  by (simp add: deliver_map own_rooms_def receive_all_fields cong: option.case_cong)

text \<open>A socket that receives an update of an event plays for a tenant that offers the event's league.\<close>

lemma update_stays_in_tenant:
  assumes "i < length sockets" and "own_rooms (sockets ! i)" and "so_user (sockets ! i) = Some user"
    and "so_sent (publishEventUpdate payload d sockets ! i) \<noteq> so_sent (sockets ! i)"
    and "\<And>g. g = uc_casinoGroupId user \<or> g \<in> set (groupIdsForEvent (eu_eventId payload) d) \<Longrightarrow> CHR '':'' \<notin> set g"
  shows "uc_casinoGroupId user \<in> set (groupIdsForEvent (eu_eventId payload) d)"
proof -
  let ?c = "sockets ! i" and ?msgs = "event_broadcasts payload d"
  from assms(1) have "publishEventUpdate payload d sockets ! i = foldl (\<lambda>c msg. receive msg c) ?c ?msgs"
    by (simp add: publishEventUpdate_def deliver_map)
  with assms(4) have "foldl (\<lambda>c msg. receive msg c) ?c ?msgs \<noteq> ?c" by auto
  with receive_none [of ?msgs ?c] obtain msg where "msg \<in> set ?msgs" "fst msg \<in> set (so_rooms ?c)"
    by blast
  then obtain g where g: "g \<in> set (groupIdsForEvent (eu_eventId payload) d)"
      and room: "eventRoom g (eu_eventId payload) \<in> set (so_rooms ?c)"
    by (auto simp: event_broadcasts_def)
  from room assms(2,3) have "room_of (uc_casinoGroupId user) (eventRoom g (eu_eventId payload))"
    by (simp add: own_rooms_def)
  then obtain j where "eventRoom g (eu_eventId payload) = eventRoom (uc_casinoGroupId user) j \<or>
      eventRoom g (eu_eventId payload) = marketRoom (uc_casinoGroupId user) j"
    unfolding room_of_def by blast
  with room_tenant [of g "uc_casinoGroupId user"] assms(5) g have "g = uc_casinoGroupId user" by metis
  with g show ?thesis by simp
qed

end
