(* ===== verification/Observability.thy ===== *)
theory Observability
  imports Config Realtime
begin

text \<open>
  \<open>shared/metrics\<close>, \<open>modules/health\<close> and \<open>modules/root\<close>: the counters of the service with the
  interceptor that feeds them, the gauge of the websocket gateway, the probes and the version.
  A counter of \<open>prom-client\<close> is a number per label, a histogram the list of what it observed;
  \<open>collectDefaultMetrics\<close> and the text format are the library's.
\<close>

subsection \<open>Metrics\<close>

record metrics =
  mt_httpRequests :: "string \<times> string \<times> string \<Rightarrow> nat"   \<comment> \<open>method, route, status\<close>
  mt_httpDuration :: "string \<times> string \<Rightarrow> rat list"
  mt_betsPlaced :: "string \<Rightarrow> nat"
  mt_betsSettled :: "string \<Rightarrow> nat"
  mt_ingestionRuns :: "string \<times> string \<Rightarrow> nat"
  mt_ingestionDuration :: "string \<Rightarrow> rat list"
  mt_wsConnections :: int

definition new_metrics :: metrics where
  "new_metrics = \<lparr>mt_httpRequests = (\<lambda>_. 0), mt_httpDuration = (\<lambda>_. []), mt_betsPlaced = (\<lambda>_. 0),
     mt_betsSettled = (\<lambda>_. 0), mt_ingestionRuns = (\<lambda>_. 0), mt_ingestionDuration = (\<lambda>_. []),
     mt_wsConnections = 0\<rparr>"

definition inc :: "'k \<Rightarrow> ('k \<Rightarrow> nat) \<Rightarrow> 'k \<Rightarrow> nat" where
  "inc labels counter = counter(labels := counter labels + 1)"

definition observe :: "'k \<Rightarrow> rat \<Rightarrow> ('k \<Rightarrow> rat list) \<Rightarrow> 'k \<Rightarrow> rat list" where
  "observe labels v histogram = histogram(labels := histogram labels @ [v])"

definition metrics_isEnabled :: "env_config \<Rightarrow> bool" where
  "metrics_isEnabled env = ec_METRICS_ENABLED env"

definition observeHttpRequest ::
  "env_config \<Rightarrow> string \<Rightarrow> string \<Rightarrow> nat \<Rightarrow> rat \<Rightarrow> metrics \<Rightarrow> metrics" where
  "observeHttpRequest env method route status durationSeconds m =
     (if \<not> metrics_isEnabled env then m
      else m\<lparr>mt_httpRequests := inc (method, route, show_nat status) (mt_httpRequests m),
             mt_httpDuration := observe (method, route) durationSeconds (mt_httpDuration m)\<rparr>)"

definition recordBetPlaced :: "env_config \<Rightarrow> string \<Rightarrow> metrics \<Rightarrow> metrics" where
  "recordBetPlaced env status m =
     (if \<not> metrics_isEnabled env then m else m\<lparr>mt_betsPlaced := inc status (mt_betsPlaced m)\<rparr>)"

definition recordBetSettled :: "env_config \<Rightarrow> string \<Rightarrow> metrics \<Rightarrow> metrics" where
  "recordBetSettled env result m =
     (if \<not> metrics_isEnabled env then m else m\<lparr>mt_betsSettled := inc result (mt_betsSettled m)\<rparr>)"

definition recordIngestion :: "env_config \<Rightarrow> string \<Rightarrow> string \<Rightarrow> rat \<Rightarrow> metrics \<Rightarrow> metrics" where
  "recordIngestion env kind outcome durationSeconds m =
     (if \<not> metrics_isEnabled env then m
      else m\<lparr>mt_ingestionRuns := inc (kind, outcome) (mt_ingestionRuns m),
             mt_ingestionDuration := observe kind durationSeconds (mt_ingestionDuration m)\<rparr>)"

definition wsConnected :: "env_config \<Rightarrow> metrics \<Rightarrow> metrics" where
  "wsConnected env m =
     (if \<not> metrics_isEnabled env then m else m\<lparr>mt_wsConnections := mt_wsConnections m + 1\<rparr>)"

definition wsDisconnected :: "env_config \<Rightarrow> metrics \<Rightarrow> metrics" where
  "wsDisconnected env m =
     (if \<not> metrics_isEnabled env then m else m\<lparr>mt_wsConnections := mt_wsConnections m - 1\<rparr>)"

lemmas metric_defs = observeHttpRequest_def recordBetPlaced_def recordBetSettled_def
  recordIngestion_def wsConnected_def wsDisconnected_def metrics_isEnabled_def inc_def observe_def

subsection \<open>The interceptor\<close>

text \<open>A request: the pattern of the route that matched, the path and the URL.\<close>

record http_request =
  rq_method :: string
  rq_routePath :: "string option"
  rq_path :: "string option"
  rq_url :: string

definition normalizeRoute :: "http_request \<Rightarrow> string" where
  "normalizeRoute request =
     (let path = (case rq_routePath request of Some p \<Rightarrow> p
            | None \<Rightarrow> (case rq_path request of Some p \<Rightarrow> p | None \<Rightarrow> hd (split_on (CHR ''?'') (rq_url request)))) in
      if path = [] then ''unknown'' else path)"

definition record_request ::
  "env_config \<Rightarrow> http_request \<Rightarrow> nat \<Rightarrow> string \<Rightarrow> int \<Rightarrow> int \<Rightarrow> metrics \<Rightarrow> metrics" where
  "record_request env request statusCode route started now m =
     (let status = (if statusCode = 0 then 500 else statusCode) in
      observeHttpRequest env (rq_method request) route status (of_int (now - started) / 1000000000) m)"

text \<open>
  The handler runs with the status of a success already set on the response (\<open>success\<close>), the
  exceptions filter after the interceptor: what is recorded is the status before the filter.
\<close>

definition intercept ::
  "env_config \<Rightarrow> http_request \<Rightarrow> nat \<Rightarrow> int \<Rightarrow> ('s \<Rightarrow> 'a result \<times> int \<times> 's) \<Rightarrow> metrics \<Rightarrow> 's \<Rightarrow>
   'a result \<times> metrics \<times> 's" where
  "intercept env request success started handle m s =
     (case handle s of (answer, now, s') \<Rightarrow>
        if \<not> metrics_isEnabled env then (answer, m, s')
        else (answer, record_request env request success (normalizeRoute request) started now m, s'))"

text \<open>The metrics are beside the service: they change no answer and no state, and count each request once.\<close>

lemma intercept_transparent:
  "case intercept env q ok t h m s of (answer, m', s') \<Rightarrow>
     answer = fst (h s) \<and> s' = snd (snd (h s)) \<and>
     (metrics_isEnabled env \<and> 0 < ok \<longrightarrow>
        mt_httpRequests m' = inc (rq_method q, normalizeRoute q, show_nat ok) (mt_httpRequests m)) \<and>
     (\<not> metrics_isEnabled env \<longrightarrow> m' = m)"
  by (cases "h s") (auto simp: intercept_def record_request_def metric_defs Let_def)

text \<open>The label of a route without a pattern does not carry the query.\<close>

lemma split_on_hd: "c \<notin> set (hd (split_on c t))"
  by (induction t) (auto simp: Let_def split: list.split)

lemma normalizeRoute_nonempty: "normalizeRoute q \<noteq> []"
  by (simp add: normalizeRoute_def Let_def)

subsection \<open>Timed ingestion runs\<close>

text \<open>\<open>runIngestion\<close> of \<open>ingestion.service.ts\<close>: the run, counted by its outcome; its error is thrown on.\<close>

definition runIngestion ::
  "env_config \<Rightarrow> string \<Rightarrow> rat \<Rightarrow> ('s \<Rightarrow> 'a result \<times> 's) \<Rightarrow> metrics \<Rightarrow> 's \<Rightarrow> 'a result \<times> metrics \<times> 's" where
  "runIngestion env kind elapsedSeconds fn m s =
     (case fn s of
        (Inr result, s') \<Rightarrow> (Inr result, recordIngestion env kind ''success'' elapsedSeconds m, s')
      | (Inl e, s') \<Rightarrow> (Inl e, recordIngestion env kind ''error'' elapsedSeconds m, s'))"

lemma runIngestion_transparent:
  "case runIngestion env kind t fn m s of (answer, m', s') \<Rightarrow> answer = fst (fn s) \<and> s' = snd (fn s) \<and>
     (metrics_isEnabled env \<longrightarrow>
        mt_ingestionRuns m' = inc (kind, if isl answer then ''error'' else ''success'') (mt_ingestionRuns m))"
  by (cases "fn s") (auto simp: runIngestion_def metric_defs split: sum.split)

subsection \<open>The route of the metrics\<close>

definition get_metrics :: "env_config \<Rightarrow> (metrics \<Rightarrow> string) \<Rightarrow> metrics \<Rightarrow> string result" where
  "get_metrics env metricsText m =
     (if \<not> metrics_isEnabled env then Inl (NotFound ''Not Found'') else Inr (metricsText m))"

subsection \<open>The gauge of open sockets\<close>

text \<open>
  What happens to the sockets of the gateway, in order: the lookup of the tenant of a verified
  session ends (\<open>handleConnection\<close> resumes after its \<open>await\<close>; \<open>found\<close> when the tenant is active) and
  the socket closes (\<open>handleDisconnect\<close>). Either may come first.
\<close>

datatype ws_event = Ws_resolved string bool | Ws_closed string

record ws_state =
  wst_users :: "string list"     \<comment> \<open>sockets whose data hold a user\<close>
  wst_closed :: "string list"
  wst_metrics :: metrics

definition handleDisconnect :: "env_config \<Rightarrow> string \<Rightarrow> ws_state \<Rightarrow> ws_state" where
  "handleDisconnect env c st =
     (let st1 = st\<lparr>wst_closed := wst_closed st @ [c]\<rparr> in
      if c \<in> set (wst_users st) then st1\<lparr>wst_metrics := wsDisconnected env (wst_metrics st)\<rparr> else st1)"

fun ws_step :: "env_config \<Rightarrow> ws_event \<Rightarrow> ws_state \<Rightarrow> ws_state" where
  "ws_step env (Ws_resolved c found) st =
     (if found then st\<lparr>wst_users := wst_users st @ [c], wst_metrics := wsConnected env (wst_metrics st)\<rparr>
      else if c \<in> set (wst_closed st) then st
      else handleDisconnect env c st)"
| "ws_step env (Ws_closed c) st = handleDisconnect env c st"

definition ws_run :: "env_config \<Rightarrow> ws_event list \<Rightarrow> ws_state \<Rightarrow> ws_state" where
  "ws_run env events st = foldl (\<lambda>st e. ws_step env e st) st events"

text \<open>How many sockets got their user after they had closed.\<close>

fun ws_leaks :: "ws_event list \<Rightarrow> string set \<Rightarrow> nat" where
  "ws_leaks [] shut = 0"
| "ws_leaks (Ws_resolved c found # es) shut =
     (if found \<and> c \<in> shut then 1 else 0) + ws_leaks es (if found then shut else insert c shut)"
| "ws_leaks (Ws_closed c # es) shut = ws_leaks es (insert c shut)"

text \<open>A socket is resolved once and closed once; a refusal closes it unless it is closed.\<close>

fun ws_trace :: "ws_event list \<Rightarrow> string set \<Rightarrow> string set \<Rightarrow> bool" where
  "ws_trace [] resolved shut \<longleftrightarrow> True"
| "ws_trace (Ws_resolved c found # es) resolved shut \<longleftrightarrow>
     c \<notin> resolved \<and> ws_trace es (insert c resolved) (if found then shut else insert c shut)"
| "ws_trace (Ws_closed c # es) resolved shut \<longleftrightarrow> c \<notin> shut \<and> ws_trace es resolved (insert c shut)"

definition ws_open :: "ws_state \<Rightarrow> string set" where
  "ws_open st = set (wst_users st) - set (wst_closed st)"

definition gauge_surplus :: "ws_state \<Rightarrow> int" where
  "gauge_surplus st = mt_wsConnections (wst_metrics st) - int (card (ws_open st))"

lemma handleDisconnect_fields [simp]:
  "wst_users (handleDisconnect env c st) = wst_users st"
  "wst_closed (handleDisconnect env c st) = wst_closed st @ [c]"
  "wst_metrics (handleDisconnect env c st) =
     (if c \<in> set (wst_users st) then wsDisconnected env (wst_metrics st) else wst_metrics st)"
  by (simp_all add: handleDisconnect_def Let_def)

lemma surplus_disconnect:
  assumes "metrics_isEnabled env" and "c \<notin> set (wst_closed st)"
  shows "gauge_surplus (handleDisconnect env c st) = gauge_surplus st"
proof -
  have rest: "ws_open (handleDisconnect env c st) = ws_open st - {c}"
    by (auto simp: ws_open_def)
  have fin: "finite (ws_open st)" by (simp add: ws_open_def)
  show ?thesis
  proof (cases "c \<in> set (wst_users st)")
    case True
    with assms(2) have "c \<in> ws_open st" by (simp add: ws_open_def)
    with fin have "Suc (card (ws_open st - {c})) = card (ws_open st)" by (rule card_Suc_Diff1)
    then have "int (card (ws_open st - {c})) = int (card (ws_open st)) - 1" by linarith
    with True assms(1) rest show ?thesis
      by (simp add: gauge_surplus_def wsDisconnected_def)
  next
    case False
    then have "ws_open st - {c} = ws_open st" by (auto simp: ws_open_def)
    with False rest show ?thesis by (simp add: gauge_surplus_def)
  qed
qed

lemma surplus_connect:
  assumes "metrics_isEnabled env" and "c \<notin> set (wst_users st)"
  shows "gauge_surplus (ws_step env (Ws_resolved c True) st) =
    gauge_surplus st + (if c \<in> set (wst_closed st) then 1 else 0)"
proof -
  have "ws_open (ws_step env (Ws_resolved c True) st) =
      (if c \<in> set (wst_closed st) then ws_open st else insert c (ws_open st))"
    by (auto simp: ws_open_def)
  moreover have "c \<notin> ws_open st" and "finite (ws_open st)" using assms(2) by (simp_all add: ws_open_def)
  ultimately show ?thesis using assms(1) by (simp add: gauge_surplus_def wsConnected_def)
qed

text \<open>The gauge is the number of open sockets with a user, and one more for each that got its user too late.\<close>

lemma gauge_counts:
  assumes "metrics_isEnabled env" and "ws_trace es resolved (set (wst_closed st))"
    and "set (wst_users st) \<subseteq> resolved"
  shows "gauge_surplus (ws_run env es st) = gauge_surplus st + int (ws_leaks es (set (wst_closed st)))"
  using assms(2,3)
proof (induction es arbitrary: st resolved)
  case (Cons e es)
  have run: "ws_run env (e # es) st = ws_run env es (ws_step env e st)" by (simp add: ws_run_def)
  show ?case
  proof (cases e)
    case (Ws_closed c)
    with Cons.prems have "gauge_surplus (ws_run env es (handleDisconnect env c st)) =
        gauge_surplus (handleDisconnect env c st) + int (ws_leaks es (insert c (set (wst_closed st))))"
      using Cons.IH [of resolved "handleDisconnect env c st"] by simp
    with Ws_closed Cons.prems run surplus_disconnect [OF assms(1)] show ?thesis by simp
  next
    case (Ws_resolved c found)
    with Cons.prems have new: "c \<notin> set (wst_users st)" and sub: "set (wst_users st) \<subseteq> insert c resolved"
      by auto
    show ?thesis
    proof (cases found)
      case True
      with Ws_resolved Cons.prems have "gauge_surplus (ws_run env es (ws_step env e st)) =
          gauge_surplus (ws_step env e st) + int (ws_leaks es (set (wst_closed st)))"
        using Cons.IH [of "insert c resolved" "ws_step env e st"] by auto
      with Ws_resolved True run surplus_connect [OF assms(1) new] show ?thesis by simp
    next
      case False
      have same: "gauge_surplus (ws_step env e st) = gauge_surplus st"
        using Ws_resolved False surplus_disconnect [OF assms(1)] by simp
      have "gauge_surplus (ws_run env es (ws_step env e st)) =
          gauge_surplus (ws_step env e st) + int (ws_leaks es (insert c (set (wst_closed st))))"
        using Cons.IH [of "insert c resolved" "ws_step env e st"] Cons.prems(1) Ws_resolved False sub
        by (cases "c \<in> set (wst_closed st)") (simp_all add: insert_absorb)
      with Ws_resolved False run same show ?thesis by simp
    qed
  qed
qed (simp add: ws_run_def)

text \<open>A socket that closes during the lookup stays counted.\<close>

definition ws_start :: ws_state where
  "ws_start = \<lparr>wst_users = [], wst_closed = [], wst_metrics = new_metrics\<rparr>"

lemma gauge_leak:
  assumes "metrics_isEnabled env"
  shows "ws_open (ws_run env [Ws_closed c, Ws_resolved c True] ws_start) = {}"
    and "mt_wsConnections (wst_metrics (ws_run env [Ws_closed c, Ws_resolved c True] ws_start)) = 1"
  using assms by (simp_all add: ws_run_def ws_start_def handleDisconnect_def ws_open_def new_metrics_def metric_defs)

subsection \<open>Probes and version\<close>

datatype indicator = Up | Down string

text \<open>What a call to the database or to Redis gives: an answer, or the message of its error.\<close>

definition prisma_isHealthy :: "string + unit \<Rightarrow> indicator" where
  "prisma_isHealthy query = (case query of Inl message \<Rightarrow> Down message | Inr _ \<Rightarrow> Up)"

definition redis_isHealthy :: "string + string \<Rightarrow> indicator" where
  "redis_isHealthy ping =
     (case ping of
        Inl message \<Rightarrow> Down message
      | Inr pong \<Rightarrow> if pong \<noteq> ''PONG'' then Down (''Unexpected Redis ping response: '' @ pong) else Up)"

text \<open>\<open>HealthCheckService.check\<close> of the library answers 200 when every indicator is up, 503 otherwise.\<close>

definition health_check :: "(string \<times> indicator) list \<Rightarrow> nat \<times> (string \<times> indicator) list" where
  "health_check indicators = (if \<forall>(k, i) \<in> set indicators. i = Up then 200 else 503, indicators)"

definition liveness :: "nat \<times> (string \<times> indicator) list" where
  "liveness = health_check []"

definition readiness :: "string + unit \<Rightarrow> string + string \<Rightarrow> nat \<times> (string \<times> indicator) list" where
  "readiness query ping =
     health_check [(''database'', prisma_isHealthy query), (''redis'', redis_isHealthy ping)]"

lemma ready_iff: "fst (readiness query ping) = 200 \<longleftrightarrow> query = Inr () \<and> ping = Inr ''PONG''"
  by (auto simp: readiness_def health_check_def prisma_isHealthy_def redis_isHealthy_def split: sum.split)

lemma live_always: "fst liveness = 200"
  by (simp add: liveness_def health_check_def)

record version_info =
  vi_name :: string
  vi_version :: string
  vi_environment :: string

definition getVersion :: "env_config \<Rightarrow> version_info" where
  "getVersion env = \<lparr>vi_name = ''sports-betting-service'', vi_version = ''0.0.1'', vi_environment = ec_NODE_ENV env\<rparr>"

end
