(* ===== verification/Workers.thy ===== *)
theory Workers
  imports Config Operations PlayerAuth
begin

text \<open>
  What starts the service's background work: the workers of \<open>modules/bets/bets-outbox.worker.ts\<close>,
  \<open>modules/settlement/settlement.worker.ts\<close> and \<open>modules/ingestion/results-settlement.worker.ts\<close>, the
  schedules of \<open>modules/ingestion/ingestion-scheduler.service.ts\<close>, and the commands of
  \<open>modules/ingestion\<close> and \<open>modules/auth/dev-token.command.ts\<close>. A timer is its name with its period in milliseconds; a poll that throws is logged and the next one runs.
\<close>

subsection \<open>Timers\<close>

type_synonym timer = "string \<times> int"

definition outbox_worker :: "env_config \<Rightarrow> timer option" where
  "outbox_worker env =
     (if ec_NODE_ENV env = ''test'' then None
      else Some (''wallet-outbox-poll'', ec_WALLET_OUTBOX_POLL_SECONDS env * 1000))"

definition settlement_worker :: "env_config \<Rightarrow> timer option" where
  "settlement_worker env =
     (if ec_NODE_ENV env = ''test'' then None
      else if \<not> ec_SETTLEMENT_ENABLED env then None
      else if ec_RESULTS_INGEST_ENABLED env then None
      else Some (''settlement-poll'', ec_SETTLEMENT_POLL_SECONDS env * 1000))"

definition results_worker :: "env_config \<Rightarrow> timer option" where
  "results_worker env =
     (if ec_NODE_ENV env = ''test'' then None
      else if \<not> ec_RESULTS_INGEST_ENABLED env then None
      else Some (''results-settlement-poll'', ec_RESULTS_INGEST_POLL_SECONDS env * 1000))"

definition registerLiveScheduler :: "env_config \<Rightarrow> timer option" where
  "registerLiveScheduler env =
     (if \<not> ec_INGEST_LIVE_ENABLED env then None
      else Some (''ingest-live-watch'', ec_INGEST_LIVE_WATCH_INTERVAL_SECONDS env * 1000))"

text \<open>The poll of live games, started and stopped by the watch.\<close>

definition startLivePoll :: "env_config \<Rightarrow> bool \<Rightarrow> timer option \<Rightarrow> bool \<times> timer option" where
  "startLivePoll env livePollActive timer =
     (if livePollActive then (livePollActive, timer)
      else (True, Some (''ingest-live-poll'', ec_INGEST_LIVE_INTERVAL_SECONDS env * 1000)))"

definition stopLivePoll :: "bool \<Rightarrow> timer option \<Rightarrow> bool \<times> timer option" where
  "stopLivePoll livePollActive timer =
     (if \<not> livePollActive then (livePollActive, timer) else (False, None))"

definition registerCatalogScheduler :: "env_config \<Rightarrow> (string \<times> string) option" where
  "registerCatalogScheduler env =
     (if \<not> ec_INGEST_CATALOG_ENABLED env then None
      else Some (''ingest-catalog'', ec_INGEST_CATALOG_CRON env))"

text \<open>The flag says whether the poll's timer runs, whatever sequence of starts and stops went before.\<close>

lemma live_poll_flag:
  "livePollActive \<longleftrightarrow> timer \<noteq> None \<Longrightarrow> fst (startLivePoll env livePollActive timer) \<and>
     snd (startLivePoll env livePollActive timer) \<noteq> None"
  "livePollActive \<longleftrightarrow> timer \<noteq> None \<Longrightarrow> \<not> fst (stopLivePoll livePollActive timer) \<and>
     snd (stopLivePoll livePollActive timer) = None"
  by (auto simp: startLivePoll_def stopLivePoll_def)

text \<open>One process settles in one worker at most, and settles nothing in tests.\<close>

lemma one_settlement_timer:
  "settlement_worker env = None \<or> results_worker env = None"
  "ec_NODE_ENV env = ''test'' \<Longrightarrow> outbox_worker env = None \<and> settlement_worker env = None \<and> results_worker env = None"
  by (simp_all add: settlement_worker_def results_worker_def outbox_worker_def)

lemma validated_timer:
  assumes "validateEnv num is_url raw = Inr env" and "outbox_worker env = Some (n, ms)"
  shows "5000 \<le> ms"
  using validated_bounds(6) [OF assms(1)] assms(2) by (auto simp: outbox_worker_def split: if_splits)

subsection \<open>Polls\<close>

definition outbox_poll :: "env \<Rightarrow> 'w wallet_port \<Rightarrow> 'w world \<Rightarrow> 'w world" where
  "outbox_poll E P s = snd (processPending E P s)"

definition settlement_poll :: "env \<Rightarrow> 'w wallet_port \<Rightarrow> 'w world \<Rightarrow> 'w world" where
  "settlement_poll E P s = snd (settleBatch E P s)"

lemma polls_run: "runs E P s (outbox_poll E P s)" "runs E P s (settlement_poll E P s)"
proof -
  obtain n s1 where "processPending E P s = (n, s1)" by fastforce
  then show "runs E P s (outbox_poll E P s)"
    by (simp add: outbox_poll_def step_runs [OF step.outbox_worker])
  obtain x s2 where "settleBatch E P s = (x, s2)" by fastforce
  then show "runs E P s (settlement_poll E P s)"
    by (simp add: settlement_poll_def step_runs [OF step.settlement_worker])
qed

subsection \<open>Manual result\<close>

text \<open>
  The arguments: \<open>num\<close> is \<open>Number\<close> with \<open>None\<close> for a value that is not finite; a missing value is
  \<open>Number(undefined)\<close>, which is not. The last value of a flag counts.
\<close>

record result_args =
  ra_eventRef :: string
  ra_home :: "rat option"
  ra_away :: "rat option"

definition next_arg :: "string list \<Rightarrow> string option" where
  "next_arg rest = (case rest of [] \<Rightarrow> None | v # _ \<Rightarrow> Some v)"

function parse_result_args :: "(string \<Rightarrow> rat option) \<Rightarrow> string list \<Rightarrow> result_args \<Rightarrow> result_args" where
  "parse_result_args num [] a = a"
| "parse_result_args num (arg # rest) a =
     (if arg = ''--event'' \<or> arg = ''-e'' then
        parse_result_args num (tl rest)
          (a\<lparr>ra_eventRef := (case next_arg rest of None \<Rightarrow> [] | Some v \<Rightarrow> v)\<rparr>)
      else if arg = ''--home'' \<or> arg = ''-h'' then
        parse_result_args num (tl rest) (a\<lparr>ra_home := Option.bind (next_arg rest) num\<rparr>)
      else if arg = ''--away'' \<or> arg = ''-a'' then
        parse_result_args num (tl rest) (a\<lparr>ra_away := Option.bind (next_arg rest) num\<rparr>)
      else parse_result_args num rest a)"
  by pat_completeness auto

termination
  by (relation "measure (\<lambda>(num, argv, a). length argv)") simp_all

definition parseArgs :: "(string \<Rightarrow> rat option) \<Rightarrow> string list \<Rightarrow> (string \<times> rat \<times> rat) option" where
  "parseArgs num argv =
     (let a = parse_result_args num argv \<lparr>ra_eventRef = [], ra_home = None, ra_away = None\<rparr> in
      case (ra_home a, ra_away a) of
        (Some h, Some w) \<Rightarrow> if ra_eventRef a = [] then None else Some (ra_eventRef a, h, w)
      | _ \<Rightarrow> None)"

text \<open>
  The exit code and the world after. The score columns are integers: the database refuses a
  fraction, which ends the command like any other error.
\<close>

definition manual_result ::
  "(string \<Rightarrow> rat option) \<Rightarrow> env \<Rightarrow> 'w wallet_port \<Rightarrow> string list \<Rightarrow> 'w world \<Rightarrow> nat \<times> 'w world" where
  "manual_result num E P argv s =
     (case parseArgs num argv of
        None \<Rightarrow> (1, s)
      | Some (eventRef, home, away) \<Rightarrow>
      if of_int \<lfloor>home\<rfloor> \<noteq> home \<or> of_int \<lfloor>away\<rfloor> \<noteq> away then (1, s)
      else (case finalizeEventResult eventRef \<lfloor>home\<rfloor> \<lfloor>away\<rfloor> s of
        (None, s1) \<Rightarrow> (1, s1)
      | (Some eventId, s1) \<Rightarrow>
          (case settleBatch E P s1 of
             (Inl e, s2) \<Rightarrow> (1, s2)
           | (Inr settled, s2) \<Rightarrow> (0, s2))))"

lemma manual_result_runs: "runs E P s (snd (manual_result num E P argv s))"
proof (cases "parseArgs num argv")
  case None
  then show ?thesis by (simp add: manual_result_def reach.start)
next
  case (Some p)
  obtain ref h w where p: "p = (ref, h, w)" by (cases p)
  obtain x s1 where f: "finalizeEventResult ref \<lfloor>h\<rfloor> \<lfloor>w\<rfloor> s = (x, s1)" by fastforce
  have q: "runs E P s s1" using quiet_runs finalizeEventResult_quiet f by (metis snd_conv)
  obtain y s2 where b: "settleBatch E P s1 = (y, s2)" by fastforce
  have "runs E P s s2" by (rule reach.more [OF q step.settlement_worker [OF b]])
  with q Some p f b show ?thesis
    by (auto simp: manual_result_def reach.start split: option.split sum.split)
qed

subsection \<open>Commands of the feed\<close>

text \<open>
  \<open>ingest.command.ts\<close>, \<open>ingest-live.command.ts\<close>, \<open>ingest-results.command.ts\<close> and
  \<open>purge-mock.command.ts\<close>: an error is logged and sets the exit code.
\<close>

definition exit_code :: "'a result \<times> 's \<Rightarrow> nat \<times> 's" where
  "exit_code r = (case r of (Inl e, s) \<Rightarrow> (1, s) | (Inr x, s) \<Rightarrow> (0, s))"

definition ingest_command :: "env \<Rightarrow> provider_snapshot result \<Rightarrow> 'w world \<Rightarrow> nat \<times> 'w world" where
  "ingest_command E fetched s = exit_code (ingestFixtures E fetched s)"

definition ingest_live_command ::
  "env \<Rightarrow> (string list \<Rightarrow> provider_snapshot result) option \<Rightarrow> 'w world \<Rightarrow> nat \<times> 'w world" where
  "ingest_live_command E fetch s = exit_code (ingestLiveTick E fetch s)"

definition ingest_results_command ::
  "env \<Rightarrow> 'w wallet_port \<Rightarrow> odds_config \<Rightarrow> 'h feed_http \<Rightarrow> 'r redis_port \<Rightarrow> ('h \<times> 'r) \<times> 'w world \<Rightarrow>
   nat \<times> ('h \<times> 'r) \<times> 'w world" where
  "ingest_results_command E P C H R fs = exit_code (runResultsAndSettlement E P C H R fs)"

definition purge_mock_command :: "'w world \<Rightarrow> nat \<times> 'w world" where
  "purge_mock_command s = (case purgeMockCatalog s of (summary, s1) \<Rightarrow> (0, s1))"

lemma exit_code_state: "snd (exit_code r) = snd r"
  by (cases r) (simp add: exit_code_def split: sum.split)

lemma feed_commands_run:
  "env_FIXTURE_PROVIDER E = ''odds-api'' \<Longrightarrow> runs E P s (snd (ingest_command E fetched s))"
  "runs E P s (snd (ingest_live_command E fetch s))"
  by (simp_all add: ingest_command_def ingest_live_command_def exit_code_state quiet_runs
      ingestFixtures_quiet ingestLiveTick_quiet)

lemma results_command_runs: "runs E P (snd fs) (snd (snd (ingest_results_command E P C H R fs)))"
  by (simp add: ingest_results_command_def exit_code_state runResultsAndSettlement_runs)

subsection \<open>A launch token for development\<close>

fun parse_flags :: "string list \<Rightarrow> (string \<times> string) list" where
  "parse_flags [] = []"
| "parse_flags [token] = (if starts_with token ''--'' then [(drop 2 token, ''true'')] else [])"
| "parse_flags (token # v # rest) =
     (if starts_with token ''--'' then
        (if v \<noteq> [] \<and> \<not> starts_with v ''--'' then (drop 2 token, v) # parse_flags rest
         else (drop 2 token, ''true'') # parse_flags (v # rest))
      else parse_flags (v # rest))"

text \<open>The last value of a flag counts.\<close>

definition flag_or :: "(string \<times> string) list \<Rightarrow> string \<Rightarrow> string \<Rightarrow> string" where
  "flag_or args key d = (case map_of (rev args) key of None \<Rightarrow> d | Some v \<Rightarrow> v)"

definition dev_token ::
  "jwt_lib \<Rightarrow> (string \<Rightarrow> string result) \<Rightarrow> string list \<Rightarrow> db \<Rightarrow> int \<Rightarrow> string option" where
  "dev_token J decrypt argv d now =
     (let args = parse_flags argv;
          merchantId = flag_or args ''merchant'' ''acme-merchant'';
          userId = flag_or args ''user'' ''dev-user-1'';
          username = flag_or args ''username'' ''dev-player'' in
      case getMerchantCredentials decrypt merchantId d of
        Inl e \<Rightarrow> None
      | Inr None \<Rightarrow> None
      | Inr (Some (grp, sportsSecret)) \<Rightarrow>
          Some (jwt_sign J [(''userId'', JStr userId), (''username'', JStr username), (''merchantId'', JStr merchantId)]
            sportsSecret ''12h'' now))"

text \<open>The token the command prints launches the player it names.\<close>

lemma dev_token_launches:
  assumes "jwt_ok J life" and "dev_token J decrypt argv d t0 = Some token" and "token \<noteq> []"
    and "flag_or (parse_flags argv) ''merchant'' ''acme-merchant'' \<noteq> []"
    and "t div 1000 < t0 div 1000 + life ''12h'' + cf_OPERATOR_JWT_CLOCK_SKEW C"
  shows "\<exists>a. launch J C decrypt (Some token) d t = Inr a \<and>
    uc_userId (la_user a) = flag_or (parse_flags argv) ''user'' ''dev-user-1''"
proof -
  let ?m = "flag_or (parse_flags argv) ''merchant'' ''acme-merchant''"
  let ?u = "flag_or (parse_flags argv) ''user'' ''dev-user-1''"
  let ?c = "[(''userId'', JStr ?u), (''username'', JStr (flag_or (parse_flags argv) ''username'' ''dev-player'')),
    (''merchantId'', JStr ?m)]"
  from assms(2) obtain grp secret where cred: "getMerchantCredentials decrypt ?m d = Inr (Some (grp, secret))"
    and tok: "token = jwt_sign J ?c secret ''12h'' t0"
    by (auto simp: dev_token_def Let_def split: option.splits sum.splits)
  have "jwt_decode J token = Some ?c"
      and "jwt_verify J token secret (cf_OPERATOR_JWT_CLOCK_SKEW C) t = Some ?c"
    using jwt_okD(1,2) [OF assms(1)] assms(5) by (simp_all add: tok)
  with cred assms(3,4) show ?thesis
    by (simp add: launch_def verify_launch_def text_claim_def truthy_def case_prod_beta Let_def)
qed

end
