(* ===== verification/Seed.thy ===== *)
theory Seed
  imports TenantAdmin Workers
begin

text \<open>
  \<open>prisma/seed.ts\<close>: the demo data of a development database. Every write is an upsert, outside a
  transaction: what went before a failure stays. The values an upsert is given for its two branches
  are computed both, so one call seals the secret twice.
\<close>

subsection \<open>Tenants\<close>

definition DEMO_ACME :: "string \<times> string" where
  "DEMO_ACME = (''acme-merchant'', ''acme-dev-secret-please-change'')"

definition DEMO_BETZONE :: "string \<times> string" where
  "DEMO_BETZONE = (''betzone-merchant'', ''betzone-dev-secret-please-change'')"

text \<open>The sports of the feed, when the environment names none.\<close>

definition seed_env :: "raw_env \<Rightarrow> raw_env" where
  "seed_env raw =
     (if raw ''FIXTURE_PROVIDER'' = Some ''odds-api'' \<and> \<not> truthy (raw ''ODDS_API_SPORT_KEYS'')
      then raw(''ODDS_API_SPORT_KEYS'' \<mapsto> NBA_LEAGUE_KEY) else raw)"

definition merchant_taken :: "string \<Rightarrow> string \<Rightarrow> db \<Rightarrow> bool" where
  "merchant_taken merchantId slug d \<longleftrightarrow>
     row_find (\<lambda>g. cg_merchantId g = Some merchantId \<and> cg_slug g \<noteq> slug) (db_groups d) \<noteq> None"

definition upsert_group ::
  "env \<Rightarrow> crypto_lib \<Rightarrow> string \<Rightarrow> string \<Rightarrow> string \<Rightarrow> string \<times> string \<Rightarrow> 'w world \<Rightarrow> group_row result \<times> 'w world" where
  "upsert_group E Y slug name currency demo s =
     (let n = w_seq s; d = w_db s; s1 = s\<lparr>w_seq := n + 3\<rparr>; (merchantId, secret) = demo in
      if merchant_taken merchantId slug d then (Inl (PlainError ''Unique constraint failed''), s1)
      else case get_by cg_slug slug (db_groups d) of
        None \<Rightarrow>
          let grp = \<lparr>cg_id = env_gen E (n + 2), cg_slug = slug, cg_name = name,
            cg_defaultCurrency = currency, cg_timezone = ''UTC'', cg_status = Cg_ACTIVE,
            cg_merchantId = Some merchantId, cg_sportsSecret = Some (secret_encrypt Y secret n),
            cg_walletApiUrl = None\<rparr> in
          (Inr grp, s1\<lparr>w_db := d\<lparr>db_groups := row_insert grp (db_groups d)\<rparr>\<rparr>)
      | Some row \<Rightarrow>
          let change = (\<lambda>g. g\<lparr>cg_name := name, cg_merchantId := Some merchantId,
            cg_sportsSecret := Some (secret_encrypt Y secret (n + 1))\<rparr>) in
          (Inr (change row), s1\<lparr>w_db := d\<lparr>db_groups := upd_by cg_slug slug change (db_groups d)\<rparr>\<rparr>))"

definition seed_league :: "string \<Rightarrow> string \<Rightarrow> db \<Rightarrow> league_row \<Rightarrow> db" where
  "seed_league acme betzone d league =
     set_group_league betzone (lg_id league) (isLeagueOffered (lg_key league) BETZONE_LEAGUE_PREFIXES)
       (set_group_league acme (lg_id league) (isLeagueOffered (lg_key league) ACME_LEAGUE_PREFIXES) d)"

definition seed_offering :: "string \<Rightarrow> string \<Rightarrow> db \<Rightarrow> db" where
  "seed_offering acme betzone d = foldl (seed_league acme betzone) d (db_leagues d)"

subsection \<open>Staff\<close>

text \<open>\<open>staffUser.upsert\<close> by e-mail: an account that exists keeps its status.\<close>

definition upsert_staff ::
  "env \<Rightarrow> auth_lib \<Rightarrow> string \<Rightarrow> string \<Rightarrow> staff_role list \<Rightarrow> string option \<Rightarrow> 'w world \<Rightarrow> 'w world" where
  "upsert_staff E A email password roles grp s =
     (let hash = al_argon2_hash A password (w_seq s); d = w_db s in
      s\<lparr>w_seq := w_seq s + 2, w_db := d\<lparr>db_staff :=
        (case find_staff_email email d of
           None \<Rightarrow> row_insert \<lparr>su_id = env_gen E (w_seq s + 1), su_email = email, su_passwordHash = hash,
             su_casinoGroupId = grp, su_roles = roles, su_status = St_ACTIVE\<rparr> (db_staff d)
         | Some _ \<Rightarrow> upd_by su_email email
             (\<lambda>u. u\<lparr>su_passwordHash := hash, su_roles := roles, su_casinoGroupId := grp\<rparr>) (db_staff d))\<rparr>\<rparr>)"

definition seed_grant :: "string \<Rightarrow> 'w world \<Rightarrow> 'w world" where
  "seed_grant acme s =
     (case find_staff_email ''platform@example.com'' (w_db s) of
        None \<Rightarrow> s
      | Some platformUser \<Rightarrow> s\<lparr>w_db := set_grants (su_id platformUser) [acme] (w_db s)\<rparr>)"

definition seed_staff :: "env \<Rightarrow> auth_lib \<Rightarrow> string \<Rightarrow> 'w world \<Rightarrow> 'w world" where
  "seed_staff E A acme s =
     (let s1 = upsert_staff E A ''super@example.com'' ''Super123!'' [SUPER_ADMIN] None s;
          s2 = upsert_staff E A ''platform@example.com'' ''Platform123!'' [PLATFORM_ADMIN] None s1;
          s3 = seed_grant acme s2 in
      upsert_staff E A ''admin@acme.example.com'' ''Acme123!'' [OPERATOR_ADMIN] (Some acme) s3)"

text \<open>The exit code and the world after, given the provider's answer.\<close>

definition seed :: "env \<Rightarrow> auth_lib \<Rightarrow> crypto_lib \<Rightarrow> provider_snapshot result \<Rightarrow> 'w world \<Rightarrow> nat \<times> 'w world" where
  "seed E A Y fetched s =
     (case ingestFixtures E fetched s of
        (Inl e, s1) \<Rightarrow> (1, s1)
      | (Inr summary, s1) \<Rightarrow>
     (case upsert_group E Y ''acme'' ''Acme Casino'' ''USD'' DEMO_ACME s1 of
        (Inl e, s2) \<Rightarrow> (1, s2)
      | (Inr acme, s2) \<Rightarrow>
     (case upsert_group E Y ''betzone'' ''BetZone'' ''EUR'' DEMO_BETZONE s2 of
        (Inl e, s3) \<Rightarrow> (1, s3)
      | (Inr betzone, s3) \<Rightarrow>
          (0, seed_staff E A (cg_id acme) (s3\<lparr>w_db := seed_offering (cg_id acme) (cg_id betzone) (w_db s3)\<rparr>)))))"

subsection \<open>What a seeded database holds\<close>

interpretation tenants: keyed_rows cg_slug "get_by cg_slug" "upd_by cg_slug" row_insert
  by (rule keyed_rows_by)

lemma upsert_staff_frame [simp, frame]:
  "db_groups (w_db (upsert_staff E A e p r g s)) = db_groups (w_db s)"
  "db_groupLeagues (w_db (upsert_staff E A e p r g s)) = db_groupLeagues (w_db s)"
  "db_leagues (w_db (upsert_staff E A e p r g s)) = db_leagues (w_db s)"
  "db_staffAccess (w_db (upsert_staff E A e p r g s)) = db_staffAccess (w_db s)"
  by (simp_all add: upsert_staff_def Let_def)

lemma seed_grant_frame [simp, frame]:
  "db_groups (w_db (seed_grant g s)) = db_groups (w_db s)"
  "db_groupLeagues (w_db (seed_grant g s)) = db_groupLeagues (w_db s)"
  "db_leagues (w_db (seed_grant g s)) = db_leagues (w_db s)"
  "db_staff (w_db (seed_grant g s)) = db_staff (w_db s)"
  by (simp_all add: seed_grant_def set_grants_def split: option.split)

lemma seed_staff_frame [simp, frame]:
  "db_groups (w_db (seed_staff E A g s)) = db_groups (w_db s)"
  "db_groupLeagues (w_db (seed_staff E A g s)) = db_groupLeagues (w_db s)"
  "db_leagues (w_db (seed_staff E A g s)) = db_leagues (w_db s)"
  by (simp_all add: seed_staff_def Let_def)

lemma seed_league_frame [simp, frame]:
  "db_leagues (seed_league a b d l) = db_leagues d" "db_groups (seed_league a b d l) = db_groups d"
  "db_staff (seed_league a b d l) = db_staff d"
  by (simp_all add: seed_league_def)

lemma seed_offering_frame [simp, frame]:
  "db_leagues (seed_offering a b d) = db_leagues d" "db_groups (seed_offering a b d) = db_groups d"
proof -
  have "db_leagues (foldl (seed_league a b) d ls) = db_leagues d \<and>
      db_groups (foldl (seed_league a b) d ls) = db_groups d" for ls
    by (induction ls arbitrary: d) simp_all
  then show "db_leagues (seed_offering a b d) = db_leagues d" "db_groups (seed_offering a b d) = db_groups d"
    by (simp_all add: seed_offering_def)
qed

text \<open>Both tenants are offered the NBA and nothing else.\<close>

lemma seed_league_get:
  assumes "g = a \<or> g = b"
  shows "\<exists>r. find_group_league g (lg_id l) (seed_league a b d l) = Some r \<and> gl_enabled r = (lg_key l = NBA_LEAGUE_KEY)"
    and "i \<noteq> lg_id l \<Longrightarrow> find_group_league g i (seed_league a b d l) = find_group_league g i d"
  using assms
  by (auto simp: seed_league_def set_group_league_get isLeagueOffered_def ACME_LEAGUE_PREFIXES_def
      BETZONE_LEAGUE_PREFIXES_def split: option.split)

lemma seed_offering_get:
  assumes "distinct (map lg_id (db_leagues d))" and "l \<in> set (db_leagues d)" and "g = a \<or> g = b"
  shows "\<exists>r. find_group_league g (lg_id l) (seed_offering a b d) = Some r \<and> gl_enabled r = (lg_key l = NBA_LEAGUE_KEY)"
proof -
  have other: "find_group_league g i (foldl (seed_league a b) d ls) = find_group_league g i d"
    if "i \<notin> lg_id ` set ls" for i ls d
    using that by (induction ls arbitrary: d) (simp_all add: seed_league_get(2) [OF assms(3)])
  have "\<exists>r. find_group_league g (lg_id l) (foldl (seed_league a b) d ls) = Some r \<and>
      gl_enabled r = (lg_key l = NBA_LEAGUE_KEY)" if "distinct (map lg_id ls)" "l \<in> set ls" for ls d
    using that by (induction ls arbitrary: d) (auto simp: other seed_league_get(1) [OF assms(3)])
  with assms(1,2) show ?thesis by (simp add: seed_offering_def)
qed

lemma upsert_staff_get:
  "\<exists>u. find_staff_email email (w_db (upsert_staff E A email p roles grp s)) = Some u \<and>
     su_passwordHash u = al_argon2_hash A p (w_seq s) \<and> su_roles u = roles \<and> su_casinoGroupId u = grp \<and>
     (\<forall>v. find_staff_email email (w_db s) = Some v \<longrightarrow> su_status u = su_status v) \<and>
     (find_staff_email email (w_db s) = None \<longrightarrow> su_status u = St_ACTIVE)"
  "email' \<noteq> email \<Longrightarrow> find_staff_email email' (w_db (upsert_staff E A email p roles grp s)) =
     find_staff_email email' (w_db s)"
  by (auto simp: upsert_staff_def find_staff_email_def Let_def staff_email.get_upd_law staff_email.get_ins_law
      split: option.split)

text \<open>The accounts: their role, tenant and password; an account that is new is active.\<close>

definition seeded_account :: "auth_lib \<Rightarrow> string \<Rightarrow> string \<Rightarrow> staff_role \<Rightarrow> string option \<Rightarrow> db \<Rightarrow> bool" where
  "seeded_account A email password role grp d \<longleftrightarrow>
     (\<exists>u n. find_staff_email email d = Some u \<and> su_passwordHash u = al_argon2_hash A password n \<and>
        su_roles u = [role] \<and> su_casinoGroupId u = grp)"

lemma seeded_account_new:
  "seeded_account A email p role grp (w_db (upsert_staff E A email p [role] grp s))"
  using upsert_staff_get(1) [of email E A p "[role]" grp s] unfolding seeded_account_def by blast

lemma seeded_account_other:
  "email' \<noteq> email \<Longrightarrow> seeded_account A email' p' role' grp' (w_db (upsert_staff E A email p roles grp s)) =
     seeded_account A email' p' role' grp' (w_db s)"
  by (simp add: seeded_account_def upsert_staff_get(2))

lemma seeded_account_grant [simp]:
  "seeded_account A email p role grp (w_db (seed_grant g s)) = seeded_account A email p role grp (w_db s)"
  by (simp add: seeded_account_def find_staff_email_def)

lemma seed_accounts:
  "seeded_account A ''super@example.com'' ''Super123!'' SUPER_ADMIN None (w_db (seed_staff E A acme s))"
  "seeded_account A ''platform@example.com'' ''Platform123!'' PLATFORM_ADMIN None (w_db (seed_staff E A acme s))"
  "seeded_account A ''admin@acme.example.com'' ''Acme123!'' OPERATOR_ADMIN (Some acme) (w_db (seed_staff E A acme s))"
  by (simp_all add: seed_staff_def Let_def seeded_account_new seeded_account_other)

text \<open>The platform administrator may reach the tenant acme and no other.\<close>

lemma seed_grants:
  assumes "find_staff_email ''platform@example.com'' (w_db (seed_staff E A acme s)) = Some u"
  shows "find_grant (su_id u) g (w_db (seed_staff E A acme s)) \<noteq> None \<longleftrightarrow> g = acme"
proof -
  define s2 where "s2 = upsert_staff E A ''platform@example.com'' ''Platform123!'' [PLATFORM_ADMIN] None
    (upsert_staff E A ''super@example.com'' ''Super123!'' [SUPER_ADMIN] None s)"
  have "find_staff_email e (w_db (seed_grant acme s2)) = find_staff_email e (w_db s2)" for e
    by (simp add: find_staff_email_def)
  with assms have "find_staff_email ''platform@example.com'' (w_db s2) = Some u"
    by (simp add: seed_staff_def Let_def s2_def upsert_staff_get(2))
  then have "seed_grant acme s2 = s2\<lparr>w_db := set_grants (su_id u) [acme] (w_db s2)\<rparr>"
    by (simp add: seed_grant_def)
  then have "db_staffAccess (w_db (seed_staff E A acme s)) = db_staffAccess (set_grants (su_id u) [acme] (w_db s2))"
    by (simp add: seed_staff_def Let_def s2_def)
  then have "find_grant (su_id u) g (w_db (seed_staff E A acme s)) = find_grant (su_id u) g (set_grants (su_id u) [acme] (w_db s2))"
    by (simp add: find_grant_def)
  then show ?thesis by (simp only: grants_of_set_grants) simp
qed

lemma upsert_group_get:
  assumes "upsert_group E Y slug name currency (m, secret) s = (Inr g, s')" and "crypto_ok Y"
  shows "get_by cg_slug slug (db_groups (w_db s')) = Some g" and "cg_merchantId g = Some m"
    and "\<exists>t. cg_sportsSecret g = Some t \<and> t \<noteq> [] \<and> secret_decrypt Y t = Inr secret"
    and "slug' \<noteq> slug \<Longrightarrow> get_by cg_slug slug' (db_groups (w_db s')) = get_by cg_slug slug' (db_groups (w_db s))"
    and "db_leagues (w_db s') = db_leagues (w_db s)"
proof -
  have sealed: "secret_encrypt Y secret n \<noteq> []" for n
    by (simp add: secret_encrypt_def Let_def ENC_PREFIX_def case_prod_beta)
  note facts = assms(1) sealed secret_round_trip(1) [OF assms(2)]
  show "get_by cg_slug slug (db_groups (w_db s')) = Some g" and "cg_merchantId g = Some m"
    and "\<exists>t. cg_sportsSecret g = Some t \<and> t \<noteq> [] \<and> secret_decrypt Y t = Inr secret"
    and "slug' \<noteq> slug \<Longrightarrow> get_by cg_slug slug' (db_groups (w_db s')) = get_by cg_slug slug' (db_groups (w_db s))"
    and "db_leagues (w_db s') = db_leagues (w_db s)"
    using facts
    by (auto simp: upsert_group_def Let_def tenants.get_upd_law tenants.get_ins_law
        option.map_ident split: if_splits option.splits)
qed

text \<open>
  A seed that ends with exit code 0 leaves both tenants with their credentials, their offering and
  the three accounts, whatever the database held before.
\<close>

definition seeded_tenant :: "crypto_lib \<Rightarrow> string \<Rightarrow> string \<times> string \<Rightarrow> db \<Rightarrow> group_row \<Rightarrow> bool" where
  "seeded_tenant Y slug demo d g \<longleftrightarrow>
     get_by cg_slug slug (db_groups d) = Some g \<and> cg_merchantId g = Some (fst demo) \<and>
     (\<exists>t. cg_sportsSecret g = Some t \<and> t \<noteq> [] \<and> secret_decrypt Y t = Inr (snd demo))"

lemma upsert_group_tenant:
  assumes "upsert_group E Y slug name currency demo s = (Inr g, s')" and "crypto_ok Y"
  shows "seeded_tenant Y slug demo (w_db s') g"
    and "slug' \<noteq> slug \<Longrightarrow> seeded_tenant Y slug' demo' (w_db s) h \<Longrightarrow> seeded_tenant Y slug' demo' (w_db s') h"
  using upsert_group_get [of E Y slug name currency "fst demo" "snd demo" s g s'] assms
  by (simp_all add: seeded_tenant_def)

lemma seed_done:
  assumes "seed E A Y fetched s = (0, s')" and "crypto_ok Y"
  shows "\<exists>acme betzone. seeded_tenant Y ''acme'' DEMO_ACME (w_db s') acme \<and>
    seeded_tenant Y ''betzone'' DEMO_BETZONE (w_db s') betzone \<and>
    (distinct (map lg_id (db_leagues (w_db s'))) \<longrightarrow>
      (\<forall>l \<in> set (db_leagues (w_db s')). \<forall>g \<in> {cg_id acme, cg_id betzone}.
        \<exists>r. find_group_league g (lg_id l) (w_db s') = Some r \<and> gl_enabled r = (lg_key l = NBA_LEAGUE_KEY))) \<and>
    seeded_account A ''admin@acme.example.com'' ''Acme123!'' OPERATOR_ADMIN (Some (cg_id acme)) (w_db s')"
proof -
  from assms(1) obtain acme betzone s1 s2 s3 where a: "upsert_group E Y ''acme'' ''Acme Casino'' ''USD'' DEMO_ACME s1 = (Inr acme, s2)"
    and b: "upsert_group E Y ''betzone'' ''BetZone'' ''EUR'' DEMO_BETZONE s2 = (Inr betzone, s3)"
    and s': "s' = seed_staff E A (cg_id acme) (s3\<lparr>w_db := seed_offering (cg_id acme) (cg_id betzone) (w_db s3)\<rparr>)"
    by (auto simp: seed_def split: prod.splits sum.splits)
  have same: "seeded_tenant Y slug demo (w_db s') g = seeded_tenant Y slug demo (w_db s3) g" for slug demo g
    by (simp add: s' seeded_tenant_def)
  have "seeded_tenant Y ''acme'' DEMO_ACME (w_db s') acme"
    using upsert_group_tenant(1) [OF a assms(2)] upsert_group_tenant(2) [OF b assms(2)] by (simp add: same)
  moreover have "seeded_tenant Y ''betzone'' DEMO_BETZONE (w_db s') betzone"
    using upsert_group_tenant(1) [OF b assms(2)] by (simp add: same)
  moreover have "find_group_league g l (w_db s') =
      find_group_league g l (seed_offering (cg_id acme) (cg_id betzone) (w_db s3))" for g l
    by (simp add: s' find_group_league_def)
  moreover have "db_leagues (w_db s') = db_leagues (w_db s3)" by (simp add: s')
  moreover have "seeded_account A ''admin@acme.example.com'' ''Acme123!'' OPERATOR_ADMIN (Some (cg_id acme)) (w_db s')"
    unfolding s' by (rule seed_accounts(3))
  ultimately show ?thesis
    using seed_offering_get [of "w_db s3" _ _ "cg_id acme" "cg_id betzone"]
    by (intro exI [of _ acme] exI [of _ betzone]) simp
qed

text \<open>The launch-token command then finds the credentials of acme, its default merchant.\<close>

lemma seed_dev_token:
  assumes "seed E A Y fetched s = (0, s')" and "crypto_ok Y"
    and "\<forall>g \<in> set (db_groups (w_db s')). \<forall>h \<in> set (db_groups (w_db s')).
      cg_merchantId g \<noteq> None \<and> cg_merchantId g = cg_merchantId h \<longrightarrow> g = h"
    and "\<forall>g \<in> set (db_groups (w_db s')). cg_slug g = ''acme'' \<longrightarrow> cg_status g = Cg_ACTIVE"
  shows "\<exists>grp. getMerchantCredentials (secret_decrypt Y) (fst DEMO_ACME) (w_db s') = Inr (Some (grp, snd DEMO_ACME))"
proof -
  from seed_done [OF assms(1,2)] obtain g where g: "seeded_tenant Y ''acme'' DEMO_ACME (w_db s') g" by blast
  then have row: "g \<in> set (db_groups (w_db s'))" "cg_slug g = ''acme''" "cg_merchantId g = Some (fst DEMO_ACME)"
    unfolding seeded_tenant_def by (auto dest: tenants.get_key)
  let ?P = "\<lambda>g. cg_merchantId g = Some (fst DEMO_ACME) \<and> cg_status g = Cg_ACTIVE"
  have "?P g" using row assms(4) by blast
  from row_find_ex [of g _ ?P, OF row(1) this] obtain h where h: "row_find ?P (db_groups (w_db s')) = Some h" ..
  then have "h \<in> set (db_groups (w_db s'))" "cg_merchantId h = Some (fst DEMO_ACME)" by (auto dest: row_find_SomeD)
  with bspec [OF bspec [OF assms(3), of h], of g] row have "h = g" by simp
  with h g show ?thesis by (auto simp: getMerchantCredentials_def seeded_tenant_def)
qed

end
