(* ===== verification/MockFeed.thy ===== *)
theory MockFeed
  imports MapperProperties
begin

text \<open>
  \<open>modules/providers/mock/mock-data.ts\<close> and \<open>mock-fixture.provider.ts\<close>: the built-in provider of local
  development, a fixed catalogue whose kick-off times count from the moment the module is loaded
  (\<open>now\<close>), with the live part of it for the leagues asked for. Both are well-formed snapshots.
\<close>

definition HOUR :: int where
  "HOUR = 60 * 60 * 1000"

definition DAY :: int where
  "DAY = 24 * 60 * 60 * 1000"

definition isoFromNow :: "int \<Rightarrow> int \<Rightarrow> iso_date" where
  "isoFromNow now offsetMs = ISO (now + offsetMs)"

subsection \<open>The catalogue\<close>

definition mock_sports :: "n_sport list" where
  "mock_sports = [
     \<lparr>ns_key = ''soccer'', ns_name = ''Soccer'', ns_slug = ''soccer''\<rparr>,
     \<lparr>ns_key = ''basketball'', ns_name = ''Basketball'', ns_slug = ''basketball''\<rparr>]"

definition mock_leagues :: "n_league list" where
  "mock_leagues = [
     \<lparr>nl_key = ''soccer_epl'', nl_sportKey = ''soccer'', nl_name = ''Premier League'', nl_region = Some ''England''\<rparr>,
     \<lparr>nl_key = ''soccer_laliga'', nl_sportKey = ''soccer'', nl_name = ''La Liga'', nl_region = Some ''Spain''\<rparr>,
     \<lparr>nl_key = ''basketball_nba'', nl_sportKey = ''basketball'', nl_name = ''NBA'', nl_region = Some ''USA''\<rparr>]"

definition team :: "string \<Rightarrow> string \<Rightarrow> string \<Rightarrow> string \<Rightarrow> n_team" where
  "team key sportKey name shortName =
     \<lparr>nt_key = key, nt_sportKey = sportKey, nt_name = name, nt_shortName = Some shortName\<rparr>"

definition mock_teams :: "n_team list" where
  "mock_teams = [
     team ''epl_ars'' ''soccer'' ''Arsenal'' ''ARS'',
     team ''epl_che'' ''soccer'' ''Chelsea'' ''CHE'',
     team ''epl_liv'' ''soccer'' ''Liverpool'' ''LIV'',
     team ''epl_mci'' ''soccer'' ''Manchester City'' ''MCI'',
     team ''laliga_rma'' ''soccer'' ''Real Madrid'' ''RMA'',
     team ''laliga_fcb'' ''soccer'' ''Barcelona'' ''FCB'',
     team ''nba_lal'' ''basketball'' ''Los Angeles Lakers'' ''LAL'',
     team ''nba_bos'' ''basketball'' ''Boston Celtics'' ''BOS'',
     team ''nba_gsw'' ''basketball'' ''Golden State Warriors'' ''GSW'',
     team ''nba_mia'' ''basketball'' ''Miami Heat'' ''MIA'']"

record fixture_spec =
  fs_fixture :: n_fixture
  fs_sportKey :: string

definition spec ::
  "int \<Rightarrow> string \<Rightarrow> string \<Rightarrow> string \<Rightarrow> string \<Rightarrow> string \<Rightarrow> int \<Rightarrow> fixture_status \<Rightarrow> fixture_spec" where
  "spec now providerRef sportKey leagueKey homeTeamKey awayTeamKey offsetMs status =
     \<lparr>fs_fixture = \<lparr>nf_providerRef = providerRef, nf_leagueKey = leagueKey, nf_homeTeamKey = homeTeamKey,
        nf_awayTeamKey = awayTeamKey, nf_startsAt = isoFromNow now offsetMs, nf_status = status\<rparr>,
      fs_sportKey = sportKey\<rparr>"

definition fixtureSpecs :: "int \<Rightarrow> fixture_spec list" where
  "fixtureSpecs now = [
     spec now ''mock_epl_1'' ''soccer'' ''soccer_epl'' ''epl_ars'' ''epl_che'' (1 * DAY) Fx_SCHEDULED,
     spec now ''mock_epl_2'' ''soccer'' ''soccer_epl'' ''epl_liv'' ''epl_mci'' (2 * DAY) Fx_SCHEDULED,
     spec now ''mock_epl_3'' ''soccer'' ''soccer_epl'' ''epl_che'' ''epl_liv'' (- 1 * HOUR) Fx_LIVE,
     spec now ''mock_laliga_1'' ''soccer'' ''soccer_laliga'' ''laliga_rma'' ''laliga_fcb'' (1 * DAY + HOUR) Fx_SCHEDULED,
     spec now ''mock_laliga_2'' ''soccer'' ''soccer_laliga'' ''laliga_fcb'' ''laliga_rma'' (4 * DAY) Fx_SCHEDULED,
     spec now ''mock_nba_1'' ''basketball'' ''basketball_nba'' ''nba_lal'' ''nba_bos'' (12 * HOUR) Fx_SCHEDULED,
     spec now ''mock_nba_2'' ''basketball'' ''basketball_nba'' ''nba_gsw'' ''nba_mia'' (1 * DAY + 2 * HOUR) Fx_SCHEDULED,
     spec now ''mock_nba_3'' ''basketball'' ''basketball_nba'' ''nba_bos'' ''nba_gsw'' (2 * DAY + 2 * HOUR) Fx_SCHEDULED,
     spec now ''mock_nba_4'' ''basketball'' ''basketball_nba'' ''nba_mia'' ''nba_lal'' (- 2 * HOUR) Fx_LIVE,
     spec now ''mock_nba_5'' ''basketball'' ''basketball_nba'' ''nba_lal'' ''nba_gsw'' (- 2 * DAY) Fx_ENDED]"

definition teamName :: "string \<Rightarrow> string" where
  "teamName key = (case row_find (\<lambda>t. nt_key t = key) mock_teams of None \<Rightarrow> key | Some t \<Rightarrow> nt_name t)"

subsection \<open>Events, markets and selections\<close>

definition mock_event :: "fixture_spec \<Rightarrow> n_event" where
  "mock_event fx =
     (let isEnded = (nf_status (fs_fixture fx) = Fx_ENDED); isLive = (nf_status (fs_fixture fx) = Fx_LIVE) in
      \<lparr>ne_providerRef = ''evt_'' @ nf_providerRef (fs_fixture fx),
       ne_fixtureProviderRef = nf_providerRef (fs_fixture fx),
       ne_status = (if isEnded then Ev_ENDED else if isLive then Ev_LIVE else Ev_SCHEDULED),
       ne_homeScore = (if isLive then Some 1 else if isEnded then Some 2 else None),
       ne_awayScore = (if isLive then Some 0 else if isEnded then Some 3 else None),
       ne_period = (if isLive then Some (if fs_sportKey fx = ''soccer'' then ''1H'' else ''Q2'') else None),
       ne_clock = (if isLive then Some [CHR ''2'', CHR ''4'', CHR 0x27] else None)\<rparr>)"

text \<open>One market with its outcomes, numbered from 0.\<close>

definition pushMarket ::
  "fixture_spec \<Rightarrow> string \<Rightarrow> market_type \<Rightarrow> string option \<Rightarrow> (string \<times> string) list \<Rightarrow>
   n_market \<times> n_selection list" where
  "pushMarket fx typeKey type line outcomes =
     (let ref = nf_providerRef (fs_fixture fx);
          isEnded = (nf_status (fs_fixture fx) = Fx_ENDED);
          marketRef = ''mkt_'' @ ref @ ''_'' @ typeKey in
      (\<lparr>nm_providerRef = marketRef, nm_eventProviderRef = ''evt_'' @ ref, nm_type = type,
        nm_status = (if isEnded then Mk_SETTLED else Mk_OPEN), nm_line = line\<rparr>,
       map (\<lambda>(idx, name, price).
         \<lparr>nx_providerRef = ''sel_'' @ ref @ ''_'' @ typeKey @ ''_'' @ show_nat idx, nx_marketProviderRef = marketRef,
          nx_name = name, nx_status = (if isEnded then Sl_SETTLED else Sl_OPEN), nx_price = price\<rparr>)
         (zip [0..<length outcomes] outcomes)))"

definition mock_markets :: "fixture_spec \<Rightarrow> (n_market \<times> n_selection list) list" where
  "mock_markets fx =
     (let home = teamName (nf_homeTeamKey (fs_fixture fx)); away = teamName (nf_awayTeamKey (fs_fixture fx)) in
      if fs_sportKey fx = ''soccer'' then
        [pushMarket fx ''1x2'' MATCH_RESULT None [(home, ''2.10''), (''Draw'', ''3.30''), (away, ''3.50'')],
         pushMarket fx ''total25'' TOTAL (Some ''2.50'') [(''Over'', ''1.90''), (''Under'', ''1.90'')],
         pushMarket fx ''btts'' BOTH_TEAMS_SCORE None [(''Yes'', ''1.72''), (''No'', ''2.05'')]]
      else
        [pushMarket fx ''ml'' MATCH_RESULT None [(home, ''1.55''), (away, ''2.45'')],
         pushMarket fx ''hcap'' HANDICAP (Some ''-4.50'') [(home @ '' -4.5'', ''1.90''), (away @ '' +4.5'', ''1.90'')],
         pushMarket fx ''total'' TOTAL (Some ''218.50'') [(''Over'', ''1.87''), (''Under'', ''1.93'')]])"

definition mockSnapshot :: "int \<Rightarrow> provider_snapshot" where
  "mockSnapshot now =
     (let specs = fixtureSpecs now; menu = concat (map mock_markets specs) in
      \<lparr>ps_sports = mock_sports, ps_leagues = mock_leagues, ps_teams = mock_teams,
       ps_fixtures = map fs_fixture specs, ps_events = map mock_event specs,
       ps_markets = map fst menu, ps_selections = concat (map snd menu)\<rparr>)"

subsection \<open>The live part\<close>

definition live_part :: "string list \<Rightarrow> provider_snapshot \<Rightarrow> provider_snapshot" where
  "live_part allowedLeagues p =
     (let fixtures = filter (\<lambda>f. nf_status f = Fx_LIVE \<and> nf_leagueKey f \<in> set allowedLeagues) (ps_fixtures p);
          events = filter (\<lambda>e. ne_fixtureProviderRef e \<in> nf_providerRef ` set fixtures) (ps_events p);
          markets = filter (\<lambda>m. nm_eventProviderRef m \<in> ne_providerRef ` set events) (ps_markets p);
          selections = filter (\<lambda>x. nx_marketProviderRef x \<in> nm_providerRef ` set markets) (ps_selections p);
          leagues = filter (\<lambda>l. nl_key l \<in> nf_leagueKey ` set fixtures) (ps_leagues p);
          teams = filter (\<lambda>t. nt_key t \<in> nf_homeTeamKey ` set fixtures \<or> nt_key t \<in> nf_awayTeamKey ` set fixtures)
            (ps_teams p);
          sports = filter (\<lambda>sp. ns_key sp \<in> nl_sportKey ` set leagues) (ps_sports p) in
      \<lparr>ps_sports = sports, ps_leagues = leagues, ps_teams = teams, ps_fixtures = fixtures,
       ps_events = events, ps_markets = markets, ps_selections = selections\<rparr>)"

definition buildMockLiveSnapshot :: "int \<Rightarrow> string list \<Rightarrow> provider_snapshot" where
  "buildMockLiveSnapshot now sportKeys = live_part sportKeys (mockSnapshot now)"

definition mock_fetchLiveSnapshot :: "int \<Rightarrow> string list \<Rightarrow> provider_snapshot" where
  "mock_fetchLiveSnapshot now sportKeys =
     (if sportKeys = [] then EMPTY_PROVIDER_SNAPSHOT else buildMockLiveSnapshot now sportKeys)"

subsection \<open>Both are well formed\<close>

text \<open>The teams of a fixture play the sport of its league.\<close>

definition same_sport :: "provider_snapshot \<Rightarrow> bool" where
  "same_sport p \<longleftrightarrow>
     (\<forall>f \<in> set (ps_fixtures p). \<forall>l \<in> set (ps_leagues p). \<forall>t \<in> set (ps_teams p).
        nl_key l = nf_leagueKey f \<longrightarrow> nt_key t = nf_homeTeamKey f \<or> nt_key t = nf_awayTeamKey f \<longrightarrow>
        nt_sportKey t = nl_sportKey l)"

lemma refs_filter:
  assumes "g ` set xs \<subseteq> k ` set ys" and "\<forall>x \<in> set xs. P x \<longrightarrow> R (g x)" and "(\<lambda>y. R (k y)) = Q"
  shows "g ` set (filter P xs) \<subseteq> k ` set (filter Q ys)"
  using assms by (auto simp: image_subset_iff image_iff) metis

lemma live_part_ok:
  assumes "snapshot_ok p" and "same_sport p"
  shows "snapshot_ok (live_part ks p)"
proof -
  define q where "q = live_part ks p"
  have refs: "nl_sportKey ` set (ps_leagues q) \<subseteq> ns_key ` set (ps_sports q)"
      "nf_leagueKey ` set (ps_fixtures q) \<subseteq> nl_key ` set (ps_leagues q)"
      "nf_homeTeamKey ` set (ps_fixtures q) \<subseteq> nt_key ` set (ps_teams q)"
      "nf_awayTeamKey ` set (ps_fixtures q) \<subseteq> nt_key ` set (ps_teams q)"
      "ne_fixtureProviderRef ` set (ps_events q) \<subseteq> nf_providerRef ` set (ps_fixtures q)"
      "nm_eventProviderRef ` set (ps_markets q) \<subseteq> ne_providerRef ` set (ps_events q)"
      "nx_marketProviderRef ` set (ps_selections q) \<subseteq> nm_providerRef ` set (ps_markets q)"
  proof -
    note sub = assms(1) [unfolded snapshot_ok_def]
    show "nl_sportKey ` set (ps_leagues q) \<subseteq> ns_key ` set (ps_sports q)"
      unfolding q_def live_part_def Let_def provider_snapshot.simps
      by (rule refs_filter [OF _ _ refl]) (use sub in simp_all)
    show "nf_leagueKey ` set (ps_fixtures q) \<subseteq> nl_key ` set (ps_leagues q)"
      unfolding q_def live_part_def Let_def provider_snapshot.simps
      by (rule refs_filter [OF _ _ refl]) (use sub in simp_all)
    show "nf_homeTeamKey ` set (ps_fixtures q) \<subseteq> nt_key ` set (ps_teams q)"
      unfolding q_def live_part_def Let_def provider_snapshot.simps
      by (rule refs_filter [OF _ _ refl]) (use sub in simp_all)
    show "nf_awayTeamKey ` set (ps_fixtures q) \<subseteq> nt_key ` set (ps_teams q)"
      unfolding q_def live_part_def Let_def provider_snapshot.simps
      by (rule refs_filter [OF _ _ refl]) (use sub in simp_all)
  qed (auto simp: q_def live_part_def Let_def)
  have "nt_sportKey t \<in> ns_key ` set (ps_sports q)" if t: "t \<in> set (ps_teams q)" for t
  proof -
    from t obtain f where f: "f \<in> set (ps_fixtures q)" "nt_key t = nf_homeTeamKey f \<or> nt_key t = nf_awayTeamKey f"
      by (auto simp: q_def live_part_def Let_def)
    with refs(2) obtain l where l: "l \<in> set (ps_leagues q)" "nl_key l = nf_leagueKey f"
      by (auto simp: image_subset_iff image_iff)
    from t f(1) l(1) have "t \<in> set (ps_teams p)" "f \<in> set (ps_fixtures p)" "l \<in> set (ps_leagues p)"
      by (auto simp: q_def live_part_def Let_def)
    with assms(2) f(2) l(2) have "nt_sportKey t = nl_sportKey l" by (auto simp: same_sport_def)
    with refs(1) l(1) show ?thesis by auto
  qed
  moreover have "distinct (map ns_key (ps_sports q)) \<and> distinct (map nl_key (ps_leagues q)) \<and>
     distinct (map nt_key (ps_teams q)) \<and> distinct (map nf_providerRef (ps_fixtures q)) \<and>
     distinct (map ne_providerRef (ps_events q)) \<and> distinct (map nm_providerRef (ps_markets q)) \<and>
     distinct (map nx_providerRef (ps_selections q))"
    using assms(1) by (simp add: q_def live_part_def Let_def snapshot_ok_def distinct_map_filter)
  ultimately have "snapshot_ok q" using refs by (auto simp: snapshot_ok_def)
  then show ?thesis by (simp add: q_def)
qed

lemma mockSnapshot_ok: "snapshot_ok (mockSnapshot now)"
  by code_simp

lemma mockSnapshot_same_sport: "same_sport (mockSnapshot now)"
  by code_simp

lemma mock_feed_wellformed:
  "snapshot_ok (mockSnapshot now)" "snapshot_ok (mock_fetchLiveSnapshot now sportKeys)"
  using mockSnapshot_ok live_part_ok [OF mockSnapshot_ok mockSnapshot_same_sport]
  by (simp_all add: mock_fetchLiveSnapshot_def buildMockLiveSnapshot_def EMPTY_PROVIDER_SNAPSHOT_def snapshot_ok_def)

end
