(* ===== verification/Spec2Isabelle.thy ===== *)
theory Spec2Isabelle
  imports Operations ExampleRuns RaceProperties BettingProperties SettlementProperties WalletProperties FeedProperties MapperProperties StaffProperties TenantProperties PortalProperties PlayerRoutes RealtimeScope Observability Seed MockFeed
begin

text \<open>
  A verification development for the sports betting service: a NestJS server that quotes and takes
  bets from the players of several casinos (the tenants, \<open>casino groups\<close> in the code), charges and
  pays each casino's own wallet server, follows fixtures, odds and results from an odds feed,
  settles bets, and gives the tenants' staff a back office. File names below are relative to
  \<open>src/src\<close> of the repository; \<open>prisma/schema.prisma\<close> is its database.

  \<^bold>\<open>How the program is modelled.\<close> A state is a \<open>world\<close> (\<open>Schema\<close>): the database, one list of records
  per table, with the wallet server, the clock and a counter that numbers generated ids and random
  draws. A service method is a function from its arguments and the world to a value of
  \<open>api_error + 'a\<close> (\<open>Inl\<close> is the exception thrown) and the new world; a method that only reads
  takes the database. A database transaction is all or nothing. Libraries and servers outside
  the repository are arguments with a contract: \<open>dec_lib_ok\<close> for decimal.js, \<open>wallet_ledger\<close> for the
  wallet behind \<open>WalletPort\<close>, \<open>merchant_ok\<close> for the merchant's HTTP server, \<open>redis_ok\<close> for Redis,
  \<open>jwt_ok\<close> for the token library, \<open>crypto_ok\<close> for the cipher, \<open>draws_differ\<close> for the random source;
  \<open>Example\<close>, \<open>ExampleRuns\<close> and \<open>ExampleAuth\<close> hold computable instances, on which every witness is
  evaluated.

  \<^bold>\<open>The parts, and the theories that model them.\<close>
  \<^item> \<open>Prelude\<close>, \<open>Text\<close>: rows of tables (the locale \<open>keyed_rows\<close>, interpreted for every keyed table),
    results, JavaScript texts and numbers. \<open>Schema\<close>: the data model. \<open>Decimals\<close>,
    \<open>ExactDecimals\<close>: money (\<open>shared/decimal\<close>).
  \<^item> Taking bets: \<open>BetValidation\<close>, \<open>LegSnapshot\<close>, \<open>Bets\<close> (\<open>modules/bets\<close>).
  \<^item> The wallet: \<open>WalletCode\<close>, \<open>WalletTx\<close>, \<open>WalletOutbox\<close> (the outbox that is delivered by workers),
    \<open>WalletPort\<close> (the contract and the in-memory wallet), \<open>CircuitBreaker\<close> and \<open>WalletHttp\<close> (the HTTP
    client), \<open>CasinoGroups\<close> (the tenant of a request and its wallet settings).
  \<^item> Settlement: \<open>LegOutcome\<close>, \<open>Settlement\<close> (\<open>modules/settlement\<close>).
  \<^item> The feed: \<open>OddsMap\<close>, \<open>OddsFeed\<close> (\<open>modules/providers/odds-api\<close>), \<open>MockFeed\<close>
    (\<open>modules/providers/mock\<close>), \<open>Ingestion\<close>, \<open>IngestGuard\<close>, \<open>ResultsIngest\<close> (\<open>modules/ingestion\<close>),
    over \<open>Redis\<close>.
  \<^item> The back office (\<open>modules/backoffice\<close>): \<open>StaffAccess\<close> (roles, scope, access tokens),
    \<open>StaffAuth\<close> (sessions), \<open>StaffAdmin\<close>, \<open>Product\<close> (league offering), \<open>TenantAdmin\<close> (settings,
    onboarding), \<open>StaffBets\<close>, \<open>StaffSettlement\<close>, \<open>Trading\<close>, \<open>Reports\<close> (analytics, audit export),
    \<open>Backoffice\<close> (the routes), over \<open>AuditLog\<close>.
  \<^item> The players' side: \<open>PlayerAuth\<close> (\<open>modules/auth\<close>), \<open>Catalog\<close> (\<open>modules/fixtures\<close>, \<open>events\<close>,
    \<open>markets\<close>, \<open>leagues\<close>, \<open>sports\<close>), \<open>PlayerRoutes\<close> (the players' routes behind their guards, and the
    error answers), \<open>Realtime\<close>, \<open>RealtimeScope\<close> (\<open>modules/realtime\<close>).
  \<^item> Around them: \<open>Config\<close> (the environment and CORS), \<open>Workers\<close> (when each timer runs what, and the
    commands), \<open>Crypto\<close> (secrets at rest), \<open>Observability\<close> (metrics and health), \<open>Seed\<close>
    (\<open>prisma/seed.ts\<close>).
  \<^item> Overlap: \<open>Interleaving\<close> cuts every operation on bets where the code waits for the wallet or opens
    a transaction, and runs the pieces of any number of requests and workers in any order (\<open>istep\<close>,
    \<open>ireach\<close>); a waiting piece is a \<open>job\<close> holding what its operation has read.

  \<^bold>\<open>What is proved.\<close>
  \<^item> \<open>Integrity\<close> states how a bet, its outbox rows and the wallet belong together; \<open>OutboxIntegrity\<close>
    and \<open>BetIntegrity\<close> show that every operation keeps it, \<open>Evolution\<close> how records and wallet may
    move. \<open>System\<close> puts all operations on bets into one step relation (\<open>step\<close>, \<open>reach\<close>); \<open>Operations\<close>
    shows the back office, the results worker and the ingestion to be runs of it. C1 to C6 and C21
    say what this means for a player's money, as long as the operations on one bet do not overlap.
  \<^item> \<open>Interleaving\<close> shows the runs of \<open>System\<close> to be runs of pieces (C28); \<open>InterleavedLedger\<close> and
    \<open>RaceProperties\<close> show what no overlap breaks (C12: the ledger equation, every applied code
    counted once) and what overlaps do break (C39: a void and a settlement of one bet, both paid;
    two answers to one debit, the later one winning).
  \<^item> \<open>BettingProperties\<close> (C7 to C10, C29, C31): when a bet is quoted and taken, on what terms, that a
    repeated request is harmless, and who may read a bet.
  \<^item> \<open>SettlementProperties\<close> (C11, C13, C14, C30): grading, settlement runs, the staff void.
  \<^item> \<open>WalletProperties\<close> (C15 to C20): the HTTP client refines the wallet contract, the breaker,
    retries, progress and termination of the workers.
  \<^item> \<open>FeedProperties\<close>, \<open>MapperProperties\<close> (C21 to C27): results, refresh requests, the ingestion lock,
    the quota, stopped markets, the shape of a mapped snapshot, and the exposure of the desk.
  \<^item> \<open>OfficeScope\<close>, \<open>StaffProperties\<close> (C32 to C34): dead sessions stay dead, requests stay in the
    scope of their staff member, tokens admit what the roles allow.
  \<^item> \<open>TenantProperties\<close> (C35 to C37): launch, platform lock, disabled tenants. \<open>PortalProperties\<close> (C38,
    C40): the audit export, the websocket limiter, and paging.

  \<^bold>\<open>Bounds and fuel.\<close> The staff flush repeats at most 100 times in the code, and that bound is the fuel
  of \<open>flush_loop\<close>; C20 shows when it empties the queue. The other loops run over lists that the
  code fetched: 50 bets a settlement run, 20 debits and voids a worker run, 20 event ids a
  feed request, each the code's own constant.

  \<^bold>\<open>What is not modelled.\<close>
  \<^item> Overlap finer than the pieces: the reads before a call of the wallet are one piece (a batch is
    chosen and marked in one), and a write is atomic, as its transaction is. The operations of the
    back office on other data, of ingestion and of sessions do not overlap, but for the refresh of
    a staff session, whose two halves are separate steps.
  \<^item> The purge of mock fixtures is modelled (\<open>purgeMockCatalog\<close>) but is no \<open>step\<close>: it deletes bets,
    settled ones with payments outstanding included.
  \<^item> Columns no modelled code reads (creation and update times), rounding by column types, the details
    of an HTTP error beyond status and message, validation pipes (their rules are modelled as
    \<open>..._ok\<close> predicates, their run before the handler is not), collation (a rank of texts).
  \<^item> The modules and their wiring, \<open>main.ts\<close>, the clients of PostgreSQL and Redis, the adapter of the
    websocket server, the load-test script: they configure libraries and hold no logic of the service.
\<close>

section \<open>The book and the wallet\<close>

text \<open>
  The states of this section are reached by whole operations, one after the other (\<open>reach\<close>);
  \<open>RaceProperties\<close> says what remains, and what does not, when the pieces of operations overlap.
\<close>

text \<open>C1: In every state the service reaches from an empty book, whatever the wallet answers, the
  bets, the outbox and the wallet agree: rows are unique, a pending bet has a pending debit row, an
  accepted or settled bet's debit has been applied, a rejected bet's has not and never will be, and
  a settled bet has exactly one credit row, carrying its payout.\<close>

theorem book_and_wallet_agree:
  assumes "wallet_ledger P view credit" and "ids_ok E"
    and "empty_book s0" and "reach E P s0 s"
  shows "integrity E (snd (view (w_wallet s))) (w_db s)"
  by (rule reachable_integrity [OF assms])

lemma ex_run:
  "map bet_status (db_bets (w_db ex_placed)) = [Bet_ACCEPTED]"
  by code_simp

theorem book_and_wallet_agree_witness:
  "integrity ex_env (snd (stub_view ex_env (w_wallet ex_settled))) (w_db ex_settled)"
  by (rule book_and_wallet_agree [OF stub.wallet_ledger_axioms ex_ids ex_start ex_reach(3)])

text \<open>C2: The ledger equation. From an empty book and a wallet that has applied no code yet, the
  balance of every user is the initial balance, minus the stake of each of the user's bets whose
  debit has been applied, plus the payout of each whose credit has been applied: no amount is
  taken, paid or lost twice, whatever calls failed, were retried or timed out.\<close>

theorem wallet_balance_explained:
  assumes "wallet_ledger P view credit" and "ids_ok E" and "dec_lib_ok (env_dec E)"
    and "credit_adds E credit" and "empty_book s0" and "snd (view (w_wallet s0)) = {}"
    and "reach E P s0 s" and "amounts_exact (w_db s)"
  shows "fst (view (w_wallet s)) u = fst (view (w_wallet s0)) u +
    (\<Sum>r\<leftarrow>filter (\<lambda>r. ob_transactionCode r \<in> snd (view (w_wallet s)) \<and> row_owner (w_db s) r = u)
        (db_outbox (w_db s)). row_value (w_db s) r)"
  by (rule wallet_ledger.ledger_equation [OF assms(1,7,2,3,5,6,4,8)])

theorem wallet_balance_explained_witness:
  "fst (stub_view ex_env (w_wallet ex_placed)) ''ann'' = fst (stub_view ex_env empty_stub) ''ann'' +
    (\<Sum>r\<leftarrow>filter (\<lambda>r. ob_transactionCode r \<in> snd (stub_view ex_env (w_wallet ex_placed)) \<and>
          row_owner (w_db ex_placed) r = ''ann'') (db_outbox (w_db ex_placed)). row_value (w_db ex_placed) r)"
proof -
  have "dec_lib_ok (env_dec ex_env)" "snd (stub_view ex_env (w_wallet ex_world)) = {}"
    by (simp_all add: ex_env_def stub_view_def ex_world_def empty_stub_def)
  from wallet_balance_explained [OF stub.wallet_ledger_axioms ex_ids this(1) ex_credit ex_start this(2)
      ex_reach(1) ex_amounts, of "''ann''"]
  show ?thesis by (simp add: ex_world_def)
qed

text \<open>C3: A bet the service rejected is never charged: in every state reached by whole
  operations its debit row is marked failed, the wallet has not applied its code, and there is no credit row for it.\<close>

theorem rejected_bet_not_charged:
  assumes "wallet_ledger P view credit" and "ids_ok E"
    and "empty_book s0" and "reach E P s0 s"
    and "find_bet i (w_db s) = Some b" and "bet_status b = Bet_REJECTED"
    and "r \<in> set (db_outbox (w_db s))" and "ob_betId r = i"
  shows "ob_type r = WALLET_OUTBOX_DEBIT \<and> ob_status r = Ob_FAILED \<and>
    ob_transactionCode r \<notin> snd (view (w_wallet s))"
proof -
  note I = reachable_integrity [OF assms(1-4)]
  from integrityD(3) [OF I assms(7)] assms(5,6,8) show ?thesis
    by (auto simp: row_agrees_def debit_agrees_def credit_agrees_def is_settled_def split: if_splits)
qed

text \<open>A wallet that reports more than it holds: the placement passes the balance check and the
  debit is refused.\<close>

definition ex_optimist :: "stub wallet_port" where
  "ex_optimist = (stub_port ex_env)\<lparr>wp_getBalance := \<lambda>u g w. (Inr (''900.00'', ''USD''), w)\<rparr>"

definition ex_refused :: "stub world" where
  "ex_refused = snd (BetsController_placeBet ex_env ex_optimist ex_user (Some ''k1'') [''x1''] ''500'' ex_world)"

lemma ex_optimist_ledger: "wallet_ledger ex_optimist (stub_view ex_env) (stub_credit ex_env)"
  unfolding ex_optimist_def by (rule wallet_ledger_balance [OF stub.wallet_ledger_axioms]) simp

lemma ex_refused_reach: "reach ex_env ex_optimist ex_world ex_refused"
  unfolding ex_refused_def
  by (rule reach.more [OF reach.start step.place]) (rule prod.collapse [symmetric])

lemma ex_refused_rows:
  "map_option bet_status (find_bet ''id1'' (w_db ex_refused)) = Some Bet_REJECTED \<and>
   map ob_betId (db_outbox (w_db ex_refused)) = [''id1'']"
  by code_simp

theorem rejected_bet_not_charged_witness:
  "\<exists>b r. find_bet ''id1'' (w_db ex_refused) = Some b \<and> bet_status b = Bet_REJECTED \<and>
     db_outbox (w_db ex_refused) = [r] \<and> ob_status r = Ob_FAILED \<and>
     ob_transactionCode r \<notin> sb_postedCodes (w_wallet ex_refused)"
proof -
  obtain b r where b: "find_bet ''id1'' (w_db ex_refused) = Some b" "bet_status b = Bet_REJECTED"
    and r: "db_outbox (w_db ex_refused) = [r]" "ob_betId r = ''id1''"
    using ex_refused_rows by auto
  from rejected_bet_not_charged [OF ex_optimist_ledger ex_ids ex_start ex_refused_reach b _ r(2)] r b
  show ?thesis by (auto simp: stub_view_def)
qed

text \<open>C4: A bet that was accepted (and possibly settled since) has been charged: it has exactly one
  debit row, the row is completed and the wallet has applied its code.\<close>

theorem accepted_bet_charged_once:
  assumes "wallet_ledger P view credit" and "ids_ok E"
    and "empty_book s0" and "reach E P s0 s"
    and "find_bet i (w_db s) = Some b" and "bet_status b \<noteq> Bet_PENDING" and "bet_status b \<noteq> Bet_REJECTED"
  shows "\<exists>r \<in> set (db_outbox (w_db s)). ob_betId r = i \<and> ob_type r = WALLET_OUTBOX_DEBIT \<and>
    ob_status r = Ob_COMPLETED \<and> ob_transactionCode r \<in> snd (view (w_wallet s)) \<and>
    (\<forall>r' \<in> set (db_outbox (w_db s)).
       ob_betId r' = i \<and> ob_type r' = WALLET_OUTBOX_DEBIT \<longrightarrow> r' = r)"
proof -
  note I = reachable_integrity [OF assms(1-4)]
  from find_bet_id [OF assms(5)] integrityD(4) [OF I] obtain r where
    r: "r \<in> set (db_outbox (w_db s))" "ob_betId r = i" "ob_type r = WALLET_OUTBOX_DEBIT"
    by (auto simp: bet_covered_def)
  from integrityD(3) [OF I r(1)] r assms(5-7)
  have "ob_status r = Ob_COMPLETED" "ob_transactionCode r \<in> snd (view (w_wallet s))"
    by (auto simp: row_agrees_def debit_agrees_def)
  moreover have "r' = r" if "r' \<in> set (db_outbox (w_db s))" "ob_betId r' = i"
    "ob_type r' = WALLET_OUTBOX_DEBIT" for r'
    by (rule unique_rowsD(2) [OF integrityD(1) [OF I] that(1) r(1)]) (use that r in simp_all)
  ultimately show ?thesis using r by blast
qed

lemma ex_placed_bet: "map_option bet_status (find_bet ''id1'' (w_db ex_placed)) = Some Bet_ACCEPTED"
  by code_simp

theorem accepted_bet_charged_once_witness:
  "\<exists>r \<in> set (db_outbox (w_db ex_placed)). ob_betId r = ''id1'' \<and> ob_type r = WALLET_OUTBOX_DEBIT \<and>
     ob_status r = Ob_COMPLETED \<and> ob_transactionCode r \<in> sb_postedCodes (w_wallet ex_placed)"
proof -
  obtain b where "find_bet ''id1'' (w_db ex_placed) = Some b" "bet_status b = Bet_ACCEPTED"
    using ex_placed_bet by auto
  with accepted_bet_charged_once [OF stub.wallet_ledger_axioms ex_ids ex_start ex_reach(1) this(1)]
  show ?thesis by (auto simp: stub_view_def)
qed

text \<open>C5: A bet is paid at most once and exactly when it is settled, in every state reached by
  whole operations (C39 shows the overlap that breaks it): a settled bet has exactly one credit row
  (a settlement or a staff void, never both), whose transaction carries the payout of its result; a bet that is not settled has none.\<close>

theorem settled_bet_credited_once:
  assumes "wallet_ledger P view credit" and "ids_ok E"
    and "empty_book s0" and "reach E P s0 s" and "find_bet i (w_db s) = Some b"
  shows "if is_settled (bet_status b)
    then \<exists>r \<in> set (db_outbox (w_db s)). ob_betId r = i \<and>
      ob_type r \<in> {WALLET_OUTBOX_SETTLE, WALLET_OUTBOX_STAFF_VOID} \<and>
      tx_userCode (payload_tx r) = bet_username b \<and>
      tx_transactionCode (payload_tx r) = ob_transactionCode r \<and>
      tx_amount (payload_tx r) = (if bet_status b = Bet_LOST then ''0'' else dl_show (env_dec E)
        (payoutForResult (bet_stake b) (bet_potentialPayout b) (bet_status b))) \<and>
      (\<forall>r' \<in> set (db_outbox (w_db s)).
         ob_betId r' = i \<and> ob_type r' \<noteq> WALLET_OUTBOX_DEBIT \<longrightarrow> r' = r)
    else \<forall>r \<in> set (db_outbox (w_db s)). ob_betId r = i \<longrightarrow> ob_type r = WALLET_OUTBOX_DEBIT"
proof -
  note I = reachable_integrity [OF assms(1-4)]
  have id: "bet_id b = i" "b \<in> set (db_bets (w_db s))" using find_bet_id [OF assms(5)] by simp_all
  show ?thesis
  proof (cases "is_settled (bet_status b)")
    case False
    have "ob_type r = WALLET_OUTBOX_DEBIT" if "r \<in> set (db_outbox (w_db s))" "ob_betId r = i" for r
      using integrityD(3) [OF I that(1)] that(2) assms(5) False
      by (auto simp: row_agrees_def credit_agrees_def split: if_splits)
    with False show ?thesis by simp
  next
    case True
    with integrityD(4) [OF I id(2)] id(1) obtain r where
      r: "r \<in> set (db_outbox (w_db s))" "ob_betId r = i" "ob_type r \<noteq> WALLET_OUTBOX_DEBIT"
      by (auto simp: bet_covered_def)
    from integrityD(3) [OF I r(1)] r(2,3) assms(5)
    have a: "ob_type r = WALLET_OUTBOX_SETTLE \<or> ob_type r = WALLET_OUTBOX_STAFF_VOID"
      and c: "credit_agrees E b r (ob_transactionCode r \<in> snd (view (w_wallet s)))"
      by (auto simp: row_agrees_def)
    from integrityD(2) [OF I] r have u: "\<forall>r' \<in> set (db_outbox (w_db s)).
         ob_betId r' = i \<and> ob_type r' \<noteq> WALLET_OUTBOX_DEBIT \<longrightarrow> r' = r"
      unfolding one_credit_def by metis
    from c obtain p where "ob_payload r = Some p" "st_transactionCode p = ob_transactionCode r"
      "st_userCode p = bet_username b"
      "st_amount p = (if bet_status b = Bet_LOST then ''0'' else dl_show (env_dec E)
        (payoutForResult (bet_stake b) (bet_potentialPayout b) (bet_status b)))"
      unfolding credit_agrees_def by blast
    then have "tx_userCode (payload_tx r) = bet_username b"
      "tx_transactionCode (payload_tx r) = ob_transactionCode r"
      "tx_amount (payload_tx r) = (if bet_status b = Bet_LOST then ''0'' else dl_show (env_dec E)
        (payoutForResult (bet_stake b) (bet_potentialPayout b) (bet_status b)))"
      by (simp_all add: payload_tx_def deserializeWalletTransaction_def)
    with r(1,2) a u have "\<exists>r \<in> set (db_outbox (w_db s)). ob_betId r = i \<and>
      ob_type r \<in> {WALLET_OUTBOX_SETTLE, WALLET_OUTBOX_STAFF_VOID} \<and>
      tx_userCode (payload_tx r) = bet_username b \<and>
      tx_transactionCode (payload_tx r) = ob_transactionCode r \<and>
      tx_amount (payload_tx r) = (if bet_status b = Bet_LOST then ''0'' else dl_show (env_dec E)
        (payoutForResult (bet_stake b) (bet_potentialPayout b) (bet_status b))) \<and>
      (\<forall>r' \<in> set (db_outbox (w_db s)).
         ob_betId r' = i \<and> ob_type r' \<noteq> WALLET_OUTBOX_DEBIT \<longrightarrow> r' = r)"
      by blast
    with True show ?thesis by (simp only: if_True)
  qed
qed

lemma ex_settled_bet:
  "map_option (\<lambda>b. (bet_status b, bet_username b)) (find_bet ''id1'' (w_db ex_settled)) = Some (Bet_WON, ''ann'')"
  by code_simp

theorem settled_bet_credited_once_witness:
  "\<exists>r \<in> set (db_outbox (w_db ex_settled)). ob_betId r = ''id1'' \<and>
     tx_userCode (payload_tx r) = ''ann'' \<and> tx_transactionCode (payload_tx r) = ob_transactionCode r"
proof -
  obtain b where b: "find_bet ''id1'' (w_db ex_settled) = Some b" "bet_status b = Bet_WON"
    "bet_username b = ''ann''"
    using ex_settled_bet by auto
  from settled_bet_credited_once [OF stub.wallet_ledger_axioms ex_ids ex_start ex_reach(3) b(1)] b(2,3)
  show ?thesis by (auto simp: is_settled_def)
qed



end
